(* ===== verification/Pyrsia_Prelude.thy ===== *)
theory Pyrsia_Prelude
  imports Main "HOL-Library.Word"
begin

text \<open>
  Shared vocabulary of the development: machine integers at their width, the outcome of a
  Rust function (a value, an error value or a panic), sequencing of fallible and of stateful
  steps, decimal printing as \<^verbatim>\<open>format!\<close> does it, and the generic lemmas the component
  theories rely on.
\<close>

section \<open>Types\<close>

type_synonym u8 = "8 word"
type_synonym u32 = "32 word"
type_synonym u64 = "64 word"
type_synonym u128 = "128 word"
type_synonym bytes = "u8 list"
type_synonym path = "string list"

text \<open>
  What a call can end with. \<open>Ok\<close> and \<open>Err\<close> are the two variants of Rust's \<^verbatim>\<open>Result\<close>;
  \<open>Panic\<close> is an unwinding (\<^verbatim>\<open>unwrap\<close> on the wrong variant, a slice index out of range,
  \<^verbatim>\<open>todo!()\<close>), with the place that raised it.
\<close>

datatype ('a, 'e) outcome = Ok 'a | Err 'e | Panic string

text \<open>Error kinds of \<^verbatim>\<open>std::io::Error\<close> that the sources construct or meet.\<close>

datatype io_error = NotFound | AlreadyExists | PermissionDenied | UnexpectedEof | InvalidData
  | OtherIo string

section \<open>Sequencing\<close>

text \<open>\<open>rbind m f\<close> is Rust's \<^verbatim>\<open>let x = m?; f(x)\<close>; \<open>sbind\<close> is the same with a state threaded.\<close>

fun rbind :: "('a, 'e) outcome \<Rightarrow> ('a \<Rightarrow> ('b, 'e) outcome) \<Rightarrow> ('b, 'e) outcome" where
  "rbind (Ok x) f = f x"
| "rbind (Err e) f = Err e"
| "rbind (Panic s) f = Panic s"

fun sbind :: "('a, 'e) outcome \<times> 's \<Rightarrow> ('a \<Rightarrow> 's \<Rightarrow> ('b, 'e) outcome \<times> 's)
    \<Rightarrow> ('b, 'e) outcome \<times> 's" where
  "sbind (Ok x, s) f = f x s"
| "sbind (Err e, s) f = (Err e, s)"
| "sbind (Panic m, s) f = (Panic m, s)"

text \<open>\<^verbatim>\<open>Result::map_err\<close> and the implicit \<^verbatim>\<open>From\<close> conversion of the question mark operator.\<close>

fun map_err :: "('e \<Rightarrow> 'f) \<Rightarrow> ('a, 'e) outcome \<Rightarrow> ('a, 'f) outcome" where
  "map_err f (Ok x) = Ok x"
| "map_err f (Err e) = Err (f e)"
| "map_err f (Panic s) = Panic s"

fun map_ok :: "('a \<Rightarrow> 'b) \<Rightarrow> ('a, 'e) outcome \<Rightarrow> ('b, 'e) outcome" where
  "map_ok f (Ok x) = Ok (f x)"
| "map_ok f (Err e) = Err e"
| "map_ok f (Panic s) = Panic s"

text \<open>\<^verbatim>\<open>Option::unwrap\<close> (and \<^verbatim>\<open>expect\<close>) and \<^verbatim>\<open>Option::ok_or\<close>.\<close>

definition unwrap :: "string \<Rightarrow> 'a option \<Rightarrow> ('a, 'e) outcome" where
  "unwrap where_at v = (case v of Some x \<Rightarrow> Ok x | None \<Rightarrow> Panic where_at)"

definition ok_or :: "'e \<Rightarrow> 'a option \<Rightarrow> ('a, 'e) outcome" where
  "ok_or e v = (case v of Some x \<Rightarrow> Ok x | None \<Rightarrow> Err e)"

text \<open>
  What a task sees of a call that another task handles: when that task panics, the sender of the answer is
  dropped and the receiver fails with an error.
\<close>

fun awaited :: "'e \<Rightarrow> ('a, 'e) outcome \<Rightarrow> ('a, 'e) outcome" where
  "awaited closed (Ok x) = Ok x"
| "awaited closed (Err e) = Err e"
| "awaited closed (Panic s) = Err closed"

text \<open>\<^verbatim>\<open>Result::unwrap\<close>: an error value becomes a panic.\<close>

fun unwrap_res :: "string \<Rightarrow> ('a, 'f) outcome \<Rightarrow> ('a, 'e) outcome" where
  "unwrap_res where_at (Ok x) = Ok x"
| "unwrap_res where_at (Err e) = Panic where_at"
| "unwrap_res where_at (Panic m) = Panic m"

fun is_Ok :: "('a, 'e) outcome \<Rightarrow> bool" where
  "is_Ok (Ok x) = True"
| "is_Ok (Err e) = False"
| "is_Ok (Panic s) = False"

fun is_panic :: "('a, 'e) outcome \<Rightarrow> bool" where
  "is_panic (Panic s) = True"
| "is_panic (Ok x) = False"
| "is_panic (Err e) = False"

section \<open>Decimal text\<close>

definition digit_char :: "nat \<Rightarrow> char" where
  "digit_char d = char_of (48 + d)"

definition digit_val :: "char \<Rightarrow> nat" where
  "digit_val c = of_char c - 48"

definition is_digit :: "char \<Rightarrow> bool" where
  "is_digit c \<longleftrightarrow> 48 \<le> (of_char c :: nat) \<and> (of_char c :: nat) \<le> 57"

fun show_nat :: "nat \<Rightarrow> string" where
  "show_nat n = (if n < 10 then [digit_char n] else show_nat (n div 10) @ [digit_char (n mod 10)])"

declare show_nat.simps [simp del]

definition read_digits :: "string \<Rightarrow> nat" where
  "read_digits s = foldl (\<lambda>acc c. 10 * acc + digit_val c) 0 s"

text \<open>\<^verbatim>\<open>str::as_bytes\<close>: a \<open>char\<close> of the model is one UTF-8 byte.\<close>

definition as_bytes :: "string \<Rightarrow> bytes" where
  "as_bytes s = map (\<lambda>c. of_nat (of_char c)) s"

section \<open>Lemmas\<close>

named_theorems outcome_simps \<open>how outcomes are taken apart\<close>

lemma rbind_Ok_iff [outcome_simps]: "rbind m f = Ok y \<longleftrightarrow> (\<exists>x. m = Ok x \<and> f x = Ok y)"
  by (cases m) auto

lemma rbind_Err_iff [outcome_simps]:
  "rbind m f = Err e \<longleftrightarrow> m = Err e \<or> (\<exists>x. m = Ok x \<and> f x = Err e)"
  by (cases m) auto

lemma rbind_Panic_iff [outcome_simps]:
  "rbind m f = Panic p \<longleftrightarrow> m = Panic p \<or> (\<exists>x. m = Ok x \<and> f x = Panic p)"
  by (cases m) auto

lemma rbind_assoc: "rbind (rbind m f) g = rbind m (\<lambda>x. rbind (f x) g)"
  by (cases m) auto

lemma sbind_Ok_iff [outcome_simps]:
  "sbind m f = (Ok y, s) \<longleftrightarrow> (\<exists>x s'. m = (Ok x, s') \<and> f x s' = (Ok y, s))"
  by (cases m; cases "fst m") auto

text \<open>All the ways a sequence of two stateful steps can end.\<close>

lemma sbind_iff: "sbind m f = (r, t) \<longleftrightarrow>
    (\<exists>x s. m = (Ok x, s) \<and> f x s = (r, t)) \<or> (\<exists>e. m = (Err e, t) \<and> r = Err e) \<or>
    (\<exists>p. m = (Panic p, t) \<and> r = Panic p)"
  by (cases m; cases "fst m") auto

lemma map_ok_Ok_iff: "map_ok f m = Ok y \<longleftrightarrow> (\<exists>x. m = Ok x \<and> y = f x)"
  by (cases m) auto

lemma map_err_Ok_iff [outcome_simps]: "map_err f m = Ok x \<longleftrightarrow> m = Ok x"
  by (cases m) auto

lemma map_err_Err_iff [outcome_simps]: "map_err f m = Err e \<longleftrightarrow> (\<exists>d. m = Err d \<and> e = f d)"
  by (cases m) auto

lemma map_err_Panic_iff [outcome_simps]: "map_err f m = Panic p \<longleftrightarrow> m = Panic p"
  by (cases m) auto

lemma unwrap_Ok_iff [outcome_simps]: "unwrap w v = Ok x \<longleftrightarrow> v = Some x"
  by (cases v) (auto simp: unwrap_def)

lemma unwrap_simps [simp]: "unwrap w (Some x) = Ok x" "unwrap w None = Panic w"
  by (auto simp: unwrap_def)

lemma ok_or_simps [simp]: "ok_or e (Some x) = Ok x" "ok_or e None = Err e"
  by (auto simp: ok_or_def)

lemma ok_or_Ok_iff [outcome_simps]: "ok_or e v = Ok x \<longleftrightarrow> v = Some x"
  by (cases v) auto

lemma unwrap_res_Ok_iff [outcome_simps]: "unwrap_res w m = Ok x \<longleftrightarrow> m = Ok x"
  by (cases m) auto

lemma is_Ok_iff: "is_Ok m \<longleftrightarrow> (\<exists>x. m = Ok x)"
  by (cases m) auto

lemma is_panic_iff: "is_panic m \<longleftrightarrow> (\<exists>p. m = Panic p)"
  by (cases m) auto

lemma is_panic_rbind: "is_panic (rbind m f) \<longleftrightarrow> is_panic m \<or> (\<exists>x. m = Ok x \<and> is_panic (f x))"
  by (cases m) auto

lemma is_panic_awaited [simp]: "\<not> is_panic (awaited c m)"
  by (cases m) auto

lemma awaited_Ok_iff [simp]: "awaited c m = Ok x \<longleftrightarrow> m = Ok x"
  by (cases m) auto

lemma is_panic_map_err [simp]: "is_panic (map_err f m) = is_panic m"
  by (cases m) auto

lemma is_panic_map_ok [simp]: "is_panic (map_ok f m) = is_panic m"
  by (cases m) auto

lemma digit_val_char [simp]: "d < 10 \<Longrightarrow> digit_val (digit_char d) = d"
  by (simp add: digit_val_def digit_char_def)

lemma is_digit_char [simp]: "d < 10 \<Longrightarrow> is_digit (digit_char d)"
  by (simp add: is_digit_def digit_char_def)

lemma read_digits_snoc: "read_digits (s @ [c]) = 10 * read_digits s + digit_val c"
  by (simp add: read_digits_def)

lemma read_show_nat [simp]: "read_digits (show_nat n) = n"
proof (induction n rule: show_nat.induct)
  case (1 n)
  show ?case
  proof (cases "n < 10")
    case True
    then show ?thesis by (subst show_nat.simps) (simp add: read_digits_def)
  next
    case False
    with 1 have "read_digits (show_nat (n div 10)) = n div 10" by simp
    with False show ?thesis by (subst show_nat.simps) (simp add: read_digits_snoc)
  qed
qed

lemma show_nat_inj: "show_nat m = show_nat n \<longleftrightarrow> m = n"
  by (metis read_show_nat)

lemma show_nat_digits: "c \<in> set (show_nat n) \<Longrightarrow> is_digit c"
proof (induction n rule: show_nat.induct)
  case (1 n)
  then show ?case by (subst (asm) show_nat.simps) (auto split: if_splits)
qed

lemma show_nat_nonempty [simp]: "show_nat n \<noteq> []"
  by (subst show_nat.simps) simp

end
