(* ===== verification/Blockchain_Structures.thy ===== *)
theory Blockchain_Structures
  imports Pyrsia_Prelude
begin

text \<open>
  The data of the blockchain crate: hash digests, signatures, addresses, headers, transactions
  and blocks (\<^verbatim>\<open>src/src/blockchain/src\<close>: \<^verbatim>\<open>crypto/hash_algorithm.rs\<close>, \<^verbatim>\<open>signature.rs\<close>,
  \<^verbatim>\<open>structures/header.rs\<close>, \<^verbatim>\<open>structures/transaction.rs\<close>, \<^verbatim>\<open>structures/block.rs\<close>).
  The packages these files call (multihash, ed25519, libp2p's peer identities and bincode) are
  the two records of functions \<open>crypto\<close> and \<open>bincode\<close>, which every definition that needs them
  takes as an argument; the clock and the random generator are the arguments of \<open>entropy\<close>.
\<close>

section \<open>Third-party packages as parameters\<close>

text \<open>Keys are carried in their encoded form (64 bytes for a key pair, 32 for a public key).\<close>

record crypto =
  keccak256_digest :: "bytes \<Rightarrow> bytes"
  ed25519_sign :: "bytes \<Rightarrow> bytes \<Rightarrow> bytes"
  ed25519_signature_ok :: "bytes \<Rightarrow> bool"
  ed25519_public :: "bytes \<Rightarrow> bytes"
  ed25519_decode_ok :: "bytes \<Rightarrow> bool"
  ed25519_verify :: "bytes \<Rightarrow> bytes \<Rightarrow> bytes \<Rightarrow> bool"
  peer_id_of_public :: "bytes \<Rightarrow> bytes"

record entropy =
  tx_time :: u64
  tx_nonce :: u128
  hd_time :: u64
  hd_rand :: u128

section \<open>Digests, signatures, addresses\<close>

record HashDigest =
  multihash :: bytes

definition HashDigest_new :: "crypto \<Rightarrow> bytes \<Rightarrow> HashDigest" where
  "HashDigest_new c msg = \<lparr>multihash = keccak256_digest c msg\<rparr>"

definition HashDigest_to_slice :: "HashDigest \<Rightarrow> (bytes, unit) outcome" where
  "HashDigest_to_slice h =
     (if length (multihash h) = 32 then Ok (multihash h)
      else Panic ''a valid Keccak256 to be 32 bytes'')"

record Signature =
  signature_bytes :: bytes

definition Signature_from_bytes :: "crypto \<Rightarrow> bytes \<Rightarrow> (Signature, unit) outcome" where
  "Signature_from_bytes c msg =
     (if ed25519_signature_ok c msg then Ok \<lparr>signature_bytes = msg\<rparr> else Err ())"

definition Signature_to_bytes :: "Signature \<Rightarrow> bytes" where
  "Signature_to_bytes s = signature_bytes s"

definition Signature_new :: "crypto \<Rightarrow> bytes \<Rightarrow> bytes \<Rightarrow> (Signature, 'e) outcome" where
  "Signature_new c msg keypair =
     unwrap_res ''signed data should always be valid''
       (Signature_from_bytes c (ed25519_sign c keypair msg))"

record Address =
  addr_peer_id :: bytes

definition Address_from_public :: "crypto \<Rightarrow> bytes \<Rightarrow> Address" where
  "Address_from_public c key = \<lparr>addr_peer_id = peer_id_of_public c key\<rparr>"

definition Address_from_peer_id :: "bytes \<Rightarrow> Address" where
  "Address_from_peer_id peer_id = \<lparr>addr_peer_id = peer_id\<rparr>"

type_synonym Ordinal = u128

section \<open>Headers, transactions, blocks\<close>

record PartialHeader =
  ph_parent_hash :: HashDigest
  ph_transactions_hash :: HashDigest
  ph_committer :: Address
  ph_timestamp :: u64
  ph_ordinal :: Ordinal
  ph_nonce :: u128

record Header =
  parent_hash :: HashDigest
  transactions_hash :: HashDigest
  committer :: Address
  hd_timestamp :: u64
  ordinal :: Ordinal
  hd_nonce :: u128
  hd_hash :: HashDigest

datatype TransactionType = Create

record PartialTransaction =
  pt_type_id :: TransactionType
  pt_submitter :: Address
  pt_timestamp :: u64
  pt_payload :: bytes
  pt_nonce :: u128

record Transaction =
  tx_type_id :: TransactionType
  tx_submitter :: Address
  tx_timestamp :: u64
  tx_payload :: bytes
  tx_salt :: u128
  tx_hash :: HashDigest
  tx_signature :: Signature

record BlockSignature =
  bs_signature :: Signature
  bs_public_key :: bytes

record Block =
  header :: Header
  transactions :: "Transaction list"
  block_signature :: BlockSignature

text \<open>
  \<^verbatim>\<open>bincode::serialize\<close> and \<^verbatim>\<open>bincode::deserialize\<close> at the types the crate uses them with;
  \<open>None\<close> is the error result.
\<close>

record bincode =
  ser_partial_header :: "PartialHeader \<Rightarrow> bytes option"
  ser_partial_transaction :: "PartialTransaction \<Rightarrow> bytes option"
  ser_transactions :: "Transaction list \<Rightarrow> bytes option"
  ser_hash :: "HashDigest \<Rightarrow> bytes option"
  ser_block :: "Block \<Rightarrow> bytes option"
  de_block :: "bytes \<Rightarrow> Block option"
  ser_blocks :: "Block list \<Rightarrow> bytes option"
  de_blocks :: "bytes \<Rightarrow> Block list option"
  ser_ordinal :: "Ordinal \<Rightarrow> bytes option"
  de_ordinal :: "bytes \<Rightarrow> Ordinal option"

definition PartialHeader_from :: "Header \<Rightarrow> PartialHeader" where
  "PartialHeader_from h =
     \<lparr>ph_parent_hash = parent_hash h, ph_transactions_hash = transactions_hash h,
      ph_committer = committer h, ph_timestamp = hd_timestamp h, ph_ordinal = ordinal h,
      ph_nonce = hd_nonce h\<rparr>"

definition header_calculate_hash ::
    "crypto \<Rightarrow> bincode \<Rightarrow> PartialHeader \<Rightarrow> (HashDigest, unit) outcome" where
  "header_calculate_hash c bin ph =
     rbind (ok_or () (ser_partial_header bin ph)) (\<lambda>bs. Ok (HashDigest_new c bs))"

definition Header_new ::
    "crypto \<Rightarrow> bincode \<Rightarrow> entropy \<Rightarrow> HashDigest \<Rightarrow> HashDigest \<Rightarrow> Address \<Rightarrow> Ordinal
      \<Rightarrow> (Header, 'e) outcome" where
  "Header_new c bin r parent tx_root commit ord =
     (let partial = \<lparr>ph_parent_hash = parent, ph_transactions_hash = tx_root,
                     ph_committer = commit, ph_timestamp = hd_time r, ph_ordinal = ord,
                     ph_nonce = hd_rand r\<rparr>
      in rbind (unwrap_res ''calculate_hash'' (header_calculate_hash c bin partial))
           (\<lambda>h. Ok \<lparr>parent_hash = ph_parent_hash partial,
                    transactions_hash = ph_transactions_hash partial,
                    committer = ph_committer partial, hd_timestamp = ph_timestamp partial,
                    ordinal = ph_ordinal partial, hd_nonce = ph_nonce partial, hd_hash = h\<rparr>))"

definition PartialTransaction_from :: "Transaction \<Rightarrow> PartialTransaction" where
  "PartialTransaction_from t =
     \<lparr>pt_type_id = tx_type_id t, pt_submitter = tx_submitter t, pt_timestamp = tx_timestamp t,
      pt_payload = tx_payload t, pt_nonce = tx_salt t\<rparr>"

definition transaction_calculate_hash ::
    "crypto \<Rightarrow> bincode \<Rightarrow> PartialTransaction \<Rightarrow> (HashDigest, unit) outcome" where
  "transaction_calculate_hash c bin pt =
     rbind (ok_or () (ser_partial_transaction bin pt)) (\<lambda>bs. Ok (HashDigest_new c bs))"

definition convert_to_transaction ::
    "crypto \<Rightarrow> bincode \<Rightarrow> PartialTransaction \<Rightarrow> bytes \<Rightarrow> (Transaction, unit) outcome" where
  "convert_to_transaction c bin pt keypair =
     rbind (transaction_calculate_hash c bin pt) (\<lambda>h.
     rbind (ok_or () (ser_hash bin h)) (\<lambda>msg.
     rbind (Signature_new c msg keypair) (\<lambda>sig.
       Ok \<lparr>tx_type_id = pt_type_id pt, tx_submitter = pt_submitter pt,
           tx_timestamp = pt_timestamp pt, tx_payload = pt_payload pt, tx_salt = pt_nonce pt,
           tx_hash = h, tx_signature = sig\<rparr>)))"

definition Transaction_new ::
    "crypto \<Rightarrow> bincode \<Rightarrow> entropy \<Rightarrow> TransactionType \<Rightarrow> Address \<Rightarrow> bytes \<Rightarrow> bytes
      \<Rightarrow> (Transaction, 'e) outcome" where
  "Transaction_new c bin r type_id submitter payload keypair =
     unwrap_res ''convert_to_transaction''
       (convert_to_transaction c bin
          \<lparr>pt_type_id = type_id, pt_submitter = submitter, pt_timestamp = tx_time r,
           pt_payload = payload, pt_nonce = tx_nonce r\<rparr> keypair)"

definition Block_new ::
    "crypto \<Rightarrow> bincode \<Rightarrow> entropy \<Rightarrow> HashDigest \<Rightarrow> Ordinal \<Rightarrow> Transaction list \<Rightarrow> bytes
      \<Rightarrow> (Block, 'e) outcome" where
  "Block_new c bin r parent ord txs signing_key =
     rbind (unwrap ''serialize transactions'' (ser_transactions bin txs)) (\<lambda>root.
     rbind (Header_new c bin r parent (HashDigest_new c root)
              (Address_from_public c (ed25519_public c signing_key)) ord) (\<lambda>hd.
     rbind (unwrap ''serialize header hash'' (ser_hash bin (hd_hash hd))) (\<lambda>msg.
     rbind (Signature_new c msg signing_key) (\<lambda>sig.
       Ok \<lparr>header = hd, transactions = txs,
           block_signature = \<lparr>bs_signature = sig,
                              bs_public_key = ed25519_public c signing_key\<rparr>\<rparr>))))"

definition Block_signature :: "Block \<Rightarrow> BlockSignature" where
  "Block_signature b = block_signature b"

definition Block_verify :: "crypto \<Rightarrow> bincode \<Rightarrow> Block \<Rightarrow> (bool, 'e) outcome" where
  "Block_verify c bin b =
     (let public_key = bs_public_key (Block_signature b) in
      if ed25519_decode_ok c public_key
      then rbind (unwrap ''serialize header hash'' (ser_hash bin (hd_hash (header b)))) (\<lambda>msg.
             Ok (ed25519_verify c public_key msg
                   (Signature_to_bytes (bs_signature (Block_signature b)))))
      else Ok False)"

definition fetch_payload :: "Block \<Rightarrow> bytes list" where
  "fetch_payload b = map tx_payload (transactions b)"

text \<open>\<^verbatim>\<open>impl PartialOrd for Block\<close>: blocks compare by the ordinal of their header.\<close>

definition Block_partial_cmp_less :: "Block \<Rightarrow> Block \<Rightarrow> bool" where
  "Block_partial_cmp_less a b \<longleftrightarrow> ordinal (header a) < ordinal (header b)"

section \<open>What the packages promise\<close>

text \<open>
  \<open>ed25519_laws c k\<close>: a signature made with the key pair \<open>k\<close> is well formed, the encoded public
  half of \<open>k\<close> decodes, and the signature verifies under it. \<open>bincode_total\<close> says of one block's
  ingredients that serialisation succeeds.
\<close>

definition ed25519_laws :: "crypto \<Rightarrow> bytes \<Rightarrow> bool" where
  "ed25519_laws c k \<longleftrightarrow>
     ed25519_decode_ok c (ed25519_public c k) \<and>
     (\<forall>msg. ed25519_signature_ok c (ed25519_sign c k msg) \<and>
            ed25519_verify c (ed25519_public c k) msg (ed25519_sign c k msg))"

definition bincode_total :: "bincode \<Rightarrow> bool" where
  "bincode_total bin \<longleftrightarrow>
     (\<forall>h. ser_partial_header bin h \<noteq> None) \<and> (\<forall>t. ser_partial_transaction bin t \<noteq> None) \<and>
     (\<forall>ts. ser_transactions bin ts \<noteq> None) \<and> (\<forall>h. ser_hash bin h \<noteq> None)"

text \<open>A block's stored hashes are the hashes of its contents.\<close>

definition block_hashes_ok :: "crypto \<Rightarrow> bincode \<Rightarrow> Block \<Rightarrow> bool" where
  "block_hashes_ok c bin b \<longleftrightarrow>
     header_calculate_hash c bin (PartialHeader_from (header b)) = Ok (hd_hash (header b)) \<and>
     map_option (HashDigest_new c) (ser_transactions bin (transactions b))
       = Some (transactions_hash (header b))"

section \<open>Lemmas\<close>

lemmas structure_defs = Header_new_def Transaction_new_def Block_new_def header_calculate_hash_def
  transaction_calculate_hash_def convert_to_transaction_def Signature_new_def
  Signature_from_bytes_def

lemma bincode_total_Some:
  assumes "bincode_total bin"
  shows "\<exists>x. ser_partial_header bin h = Some x" "\<exists>x. ser_partial_transaction bin t = Some x"
    "\<exists>x. ser_transactions bin ts = Some x" "\<exists>x. ser_hash bin d = Some x"
  using assms by (auto simp: bincode_total_def)

lemma Signature_new_total:
  assumes "ed25519_laws c k"
  shows "Signature_new c msg k = Ok \<lparr>signature_bytes = ed25519_sign c k msg\<rparr>"
  using assms by (simp add: ed25519_laws_def Signature_new_def Signature_from_bytes_def)

lemma Transaction_new_payload:
  "Transaction_new c bin r ty sub payload k = Ok t \<Longrightarrow> tx_payload t = payload"
  by (auto simp: structure_defs outcome_simps)

lemma Transaction_new_total:
  assumes "ed25519_laws c k" and "bincode_total bin"
  shows "\<exists>t. Transaction_new c bin r ty sub payload k = Ok t"
proof -
  obtain x where "ser_partial_transaction bin \<lparr>pt_type_id = ty, pt_submitter = sub,
      pt_timestamp = tx_time r, pt_payload = payload, pt_nonce = tx_nonce r\<rparr> = Some x"
    using bincode_total_Some(2)[OF assms(2)] by blast
  moreover obtain y where "ser_hash bin (HashDigest_new c x) = Some y"
    using bincode_total_Some(4)[OF assms(2)] by blast
  ultimately show ?thesis
    by (simp add: Transaction_new_def convert_to_transaction_def transaction_calculate_hash_def
        Signature_new_total[OF assms(1)])
qed

lemma Block_new_fields:
  assumes "Block_new c bin r parent ord txs k = Ok b"
  shows "parent_hash (header b) = parent" "ordinal (header b) = ord" "transactions b = txs"
    "bs_public_key (block_signature b) = ed25519_public c k"
    "committer (header b) = Address_from_public c (ed25519_public c k)"
  using assms by (auto simp: structure_defs Let_def outcome_simps)

lemma Block_new_total:
  assumes "ed25519_laws c k" and "bincode_total bin"
  shows "\<exists>b. Block_new c bin r parent ord txs k = Ok b"
proof -
  obtain x where x: "ser_transactions bin txs = Some x"
    using bincode_total_Some(3)[OF assms(2)] by blast
  let ?ph = "\<lparr>ph_parent_hash = parent, ph_transactions_hash = HashDigest_new c x,
      ph_committer = Address_from_public c (ed25519_public c k), ph_timestamp = hd_time r,
      ph_ordinal = ord, ph_nonce = hd_rand r\<rparr>"
  obtain y where y: "ser_partial_header bin ?ph = Some y"
    using bincode_total_Some(1)[OF assms(2)] by blast
  obtain z where z: "ser_hash bin (HashDigest_new c y) = Some z"
    using bincode_total_Some(4)[OF assms(2)] by blast
  show ?thesis
    by (simp add: Block_new_def Header_new_def Let_def header_calculate_hash_def x y z
        Signature_new_total[OF assms(1)])
qed

lemma Block_new_hashes:
  "Block_new c bin r parent ord txs k = Ok b \<Longrightarrow> block_hashes_ok c bin b"
  by (auto simp: structure_defs Let_def outcome_simps block_hashes_ok_def PartialHeader_from_def)

lemma Block_new_verifies:
  assumes "ed25519_laws c k" and "Block_new c bin r parent ord txs k = Ok b"
  shows "Block_verify c bin b = Ok True"
  using assms
  by (auto simp: structure_defs Let_def outcome_simps Block_verify_def Block_signature_def
      Signature_to_bytes_def ed25519_laws_def split: if_splits)

end
