(* ===== verification/Blockchain_Chain.thy ===== *)
theory Blockchain_Chain
  imports Blockchain_Structures "HOL-Library.AList"
begin

text \<open>
  The chain of blocks and its file-backed owner (\<^verbatim>\<open>structures/chain.rs\<close>, \<^verbatim>\<open>blockchain.rs\<close>,
  \<^verbatim>\<open>error.rs\<close>). The directory of block files is an association list from paths to contents;
  what the operating system refuses is an argument (\<open>io_env\<close>), so that every error return of
  the code is a branch of the model. The interface \<open>block_log\<close> is what the owner relies on from
  the chain; it is interpreted on the chain's own operations below.
\<close>

section \<open>Errors and the file system\<close>

datatype BlockchainError =
    AnyhowError string
  | ChannelClosed
  | SerializationError
  | IOError io_error
  | EmptyBlockchain
  | InvalidBlockchainArgument
  | InvalidBlockchainCmd
  | InvalidBlockchainLength nat
  | InvalidBlockchainPosition nat nat
  | InvalidBlockchainOrdinal Ordinal
  | InvalidKey string
  | LaggingBlockchainData
  | InvalidStoragePath path
  | InvalidTopic

datatype write_fault = OpenFault io_error | WriteFault nat io_error | SyncFault io_error

record io_env =
  write_fault_at :: "path \<Rightarrow> write_fault option"
  read_fault_at :: "path \<Rightarrow> io_error option"
  stat_fault_at :: "path \<Rightarrow> bool"

type_synonym disk = "(path \<times> bytes) list"

definition no_faults :: io_env where
  "no_faults = \<lparr>write_fault_at = (\<lambda>_. None), read_fault_at = (\<lambda>_. None),
                stat_fault_at = (\<lambda>_. False)\<rparr>"

text \<open>
  \<^verbatim>\<open>OpenOptions::new().create(true).write(true).append(false)\<close>: the file is made when it is
  missing, its old content is kept (there is no \<^verbatim>\<open>truncate\<close>) and writing starts at offset 0.
\<close>

definition open_create :: "path \<Rightarrow> disk \<Rightarrow> disk" where
  "open_create p d = (case map_of d p of None \<Rightarrow> AList.update p [] d | Some _ \<Rightarrow> d)"

definition write_at_start :: "path \<Rightarrow> bytes \<Rightarrow> disk \<Rightarrow> disk" where
  "write_at_start p new d =
     (let old = (case map_of d p of None \<Rightarrow> [] | Some c \<Rightarrow> c)
      in AList.update p (new @ drop (length new) old) d)"

section \<open>Chain\<close>

record Chain =
  chain_blocks :: "Block list"

definition Chain_default :: Chain where
  "Chain_default = \<lparr>chain_blocks = []\<rparr>"

definition Chain_len :: "Chain \<Rightarrow> nat" where
  "Chain_len ch = length (chain_blocks ch)"

definition Chain_is_empty :: "Chain \<Rightarrow> bool" where
  "Chain_is_empty ch \<longleftrightarrow> chain_blocks ch = []"

definition Chain_add_block :: "Chain \<Rightarrow> Block \<Rightarrow> Chain" where
  "Chain_add_block ch b = ch\<lparr>chain_blocks := chain_blocks ch @ [b]\<rparr>"

definition Chain_last_block :: "Chain \<Rightarrow> Block option" where
  "Chain_last_block ch = (if chain_blocks ch = [] then None else Some (last (chain_blocks ch)))"

text \<open>
  The first test returns for the empty chain too, so \<^verbatim>\<open>last_block().unwrap()\<close> is reached on a
  non-empty chain only, and the index is in range.
\<close>

definition Chain_get_block_position :: "Chain \<Rightarrow> Ordinal \<Rightarrow> nat option" where
  "Chain_get_block_position ch n =
     (if unat n \<ge> Chain_len ch then None
      else if n > ordinal (header (last (chain_blocks ch))) then None
      else if ordinal (header (chain_blocks ch ! unat n)) \<noteq> n then None
      else Some (unat n))"

definition Chain_retrieve_blocks :: "Chain \<Rightarrow> Ordinal \<Rightarrow> Ordinal \<Rightarrow> Block list" where
  "Chain_retrieve_blocks ch start stop =
     (case (Chain_get_block_position ch start, Chain_get_block_position ch stop) of
        (Some start_pos, Some end_pos) \<Rightarrow>
          if start_pos \<le> end_pos
          then take (Suc end_pos - start_pos) (drop start_pos (chain_blocks ch))
          else []
      | _ \<Rightarrow> [])"

definition Chain_save_block ::
    "bincode \<Rightarrow> io_env \<Rightarrow> Chain \<Rightarrow> Ordinal \<Rightarrow> path \<Rightarrow> disk
      \<Rightarrow> (unit, BlockchainError) outcome \<times> disk" where
  "Chain_save_block bin io ch n file_path d =
     (case Chain_get_block_position ch n of
        None \<Rightarrow> (Err (InvalidBlockchainLength (Chain_len ch)), d)
      | Some block_position \<Rightarrow>
        (case write_fault_at io file_path of
           Some (OpenFault e) \<Rightarrow> (Err (IOError e), d)
         | fault \<Rightarrow>
           (let d1 = open_create file_path d in
            case ser_block bin (chain_blocks ch ! block_position) of
              None \<Rightarrow> (Err SerializationError, d1)
            | Some bs \<Rightarrow>
              (case fault of
                 Some (WriteFault k e) \<Rightarrow> (Err (IOError e), write_at_start file_path (take k bs) d1)
               | Some (SyncFault e) \<Rightarrow> (Err (IOError e), write_at_start file_path bs d1)
               | _ \<Rightarrow> (Ok (), write_at_start file_path bs d1)))))"

definition block_file :: "path \<Rightarrow> nat \<Rightarrow> path" where
  "block_file dir n = dir @ [show_nat n @ ''.ser'']"

lemma block_file_inj: "block_file dir m = block_file dir n \<longleftrightarrow> m = n"
  by (simp add: block_file_def show_nat_inj)

lemma finite_block_files: "finite {k. map_of d (block_file dir k) \<noteq> None}"
proof -
  have "inj (block_file dir)"
    by (rule injI) (simp add: block_file_inj)
  moreover have "block_file dir ` {k. map_of d (block_file dir k) \<noteq> None} \<subseteq> dom (map_of d)"
    by (auto simp: dom_def)
  ultimately show ?thesis
    by (meson finite_dom_map_of finite_imageD finite_subset inj_on_subset subset_UNIV)
qed

lemma block_files_left_less:
  assumes "map_of d (block_file dir n) = Some bs"
  shows "card {k. Suc n \<le> k \<and> map_of d (block_file dir k) \<noteq> None}
    < card {k. n \<le> k \<and> map_of d (block_file dir k) \<noteq> None}"
proof (rule psubset_card_mono)
  show "finite {k. n \<le> k \<and> map_of d (block_file dir k) \<noteq> None}"
    by (rule finite_subset[OF _ finite_block_files[of d dir]]) auto
  show "{k. Suc n \<le> k \<and> map_of d (block_file dir k) \<noteq> None}
      \<subset> {k. n \<le> k \<and> map_of d (block_file dir k) \<noteq> None}"
    using assms by (auto intro!: psubsetI dest: set_eq_iff[THEN iffD1, THEN spec[where x = n]])
qed

text \<open>
  The loop of \<^verbatim>\<open>load_blocks\<close>: it reads \<^verbatim>\<open>0.ser\<close>, \<^verbatim>\<open>1.ser\<close>, \dots until a file is missing. It
  ends because a directory holds finitely many files and every round reads another one.
\<close>

function Chain_load_from ::
    "bincode \<Rightarrow> io_env \<Rightarrow> path \<Rightarrow> disk \<Rightarrow> nat \<Rightarrow> Chain
      \<Rightarrow> (unit, BlockchainError) outcome \<times> Chain" where
  "Chain_load_from bin io dir d n ch =
     (if stat_fault_at io (block_file dir n) then (Ok (), ch)
      else (case map_of d (block_file dir n) of
        None \<Rightarrow> (Ok (), ch)
      | Some bs \<Rightarrow>
        (case read_fault_at io (block_file dir n) of
           Some e \<Rightarrow> (Err (IOError e), ch)
         | None \<Rightarrow>
           (case de_block bin bs of
              None \<Rightarrow> (Err SerializationError, ch)
            | Some b \<Rightarrow> Chain_load_from bin io dir d (Suc n) (Chain_add_block ch b)))))"
  by pat_completeness auto
termination
  by (relation "measure (\<lambda>(bin, io, dir, d, n, ch).
        card {k. n \<le> k \<and> map_of d (block_file dir k) \<noteq> None})")
     (auto intro: block_files_left_less[simplified])

declare Chain_load_from.simps [simp del]

definition Chain_load_blocks ::
    "bincode \<Rightarrow> io_env \<Rightarrow> path \<Rightarrow> disk \<Rightarrow> Chain \<Rightarrow> (unit, BlockchainError) outcome \<times> Chain" where
  "Chain_load_blocks bin io dir d ch = Chain_load_from bin io dir d 0 ch"

section \<open>Blockchain\<close>

record Blockchain =
  bc_chain :: Chain
  blockchain_path :: path

definition Blockchain_empty_new :: "path \<Rightarrow> Blockchain" where
  "Blockchain_empty_new p = \<lparr>bc_chain = Chain_default, blockchain_path = p\<rparr>"

definition Blockchain_last_block :: "Blockchain \<Rightarrow> Block option" where
  "Blockchain_last_block bc = Chain_last_block (bc_chain bc)"

definition Blockchain_pull_blocks ::
    "Blockchain \<Rightarrow> Ordinal \<Rightarrow> Ordinal \<Rightarrow> (Block list, BlockchainError) outcome" where
  "Blockchain_pull_blocks bc start stop = Ok (Chain_retrieve_blocks (bc_chain bc) start stop)"

text \<open>The block joins the chain in memory first and is written to its file afterwards.\<close>

definition Blockchain_save_block ::
    "bincode \<Rightarrow> io_env \<Rightarrow> Chain \<Rightarrow> Block \<Rightarrow> path \<Rightarrow> disk
      \<Rightarrow> (unit, BlockchainError) outcome \<times> Chain \<times> disk" where
  "Blockchain_save_block bin io ch b p d =
     (let block_ordinal = ordinal (header b); ch1 = Chain_add_block ch b;
          (r, d1) = Chain_save_block bin io ch1 block_ordinal (block_file p (unat block_ordinal)) d
      in (r, ch1, d1))"

definition Blockchain_commit_block ::
    "bincode \<Rightarrow> io_env \<Rightarrow> Blockchain \<Rightarrow> Block \<Rightarrow> disk
      \<Rightarrow> (unit, BlockchainError) outcome \<times> Blockchain \<times> disk" where
  "Blockchain_commit_block bin io bc b d =
     (let (r, ch1, d1) = Blockchain_save_block bin io (bc_chain bc) b (blockchain_path bc) d
      in (r, bc\<lparr>bc_chain := ch1\<rparr>, d1))"

definition Blockchain_update_block_from_peers ::
    "bincode \<Rightarrow> io_env \<Rightarrow> Blockchain \<Rightarrow> Block \<Rightarrow> disk
      \<Rightarrow> (unit, BlockchainError) outcome \<times> Blockchain \<times> disk" where
  "Blockchain_update_block_from_peers bin io bc b d = Blockchain_commit_block bin io bc b d"

definition Blockchain_add_block ::
    "crypto \<Rightarrow> bincode \<Rightarrow> io_env \<Rightarrow> entropy \<Rightarrow> Blockchain \<Rightarrow> bytes \<Rightarrow> bytes \<Rightarrow> disk
      \<Rightarrow> (unit, BlockchainError) outcome \<times> Blockchain \<times> disk" where
  "Blockchain_add_block c bin io r bc payload local_key d =
     (case Transaction_new c bin r Create
             (Address_from_public c (ed25519_public c local_key)) payload local_key of
        Err e \<Rightarrow> (Err e, bc, d)
      | Panic m \<Rightarrow> (Panic m, bc, d)
      | Ok t \<Rightarrow>
        (case Blockchain_last_block bc of
           None \<Rightarrow> (Err EmptyBlockchain, bc, d)
         | Some last_block \<Rightarrow>
           (case Block_new c bin r (hd_hash (header last_block))
                   (ordinal (header last_block) + 1) [t] local_key of
              Err e \<Rightarrow> (Err e, bc, d)
            | Panic m \<Rightarrow> (Panic m, bc, d)
            | Ok b \<Rightarrow> Blockchain_commit_block bin io bc b d)))"

definition genesis_payload :: bytes where
  "genesis_payload = as_bytes ''this is the first reserved transaction''"

definition Blockchain_new ::
    "crypto \<Rightarrow> bincode \<Rightarrow> io_env \<Rightarrow> entropy \<Rightarrow> bytes \<Rightarrow> path \<Rightarrow> disk
      \<Rightarrow> (Blockchain, BlockchainError) outcome \<times> disk" where
  "Blockchain_new c bin io r keypair p d =
     (case Chain_load_blocks bin io p d Chain_default of
        (Err e, ch) \<Rightarrow> (Err e, d)
      | (Panic m, ch) \<Rightarrow> (Panic m, d)
      | (Ok _, ch) \<Rightarrow>
        if Chain_is_empty ch then
          (case rbind (Transaction_new c bin r Create
                         (Address_from_public c (ed25519_public c keypair)) genesis_payload keypair)
                  (\<lambda>t. Block_new c bin r (HashDigest_new c []) 0 [t] keypair) of
             Err e \<Rightarrow> (Err e, d)
           | Panic m \<Rightarrow> (Panic m, d)
           | Ok b \<Rightarrow>
             (let (res, ch1, d1) = Blockchain_save_block bin io ch b p d
              in (map_ok (\<lambda>_. \<lparr>bc_chain = ch1, blockchain_path = p\<rparr>) res, d1)))
        else (Ok \<lparr>bc_chain = ch, blockchain_path = p\<rparr>, d))"

section \<open>Specification\<close>

text \<open>The block at index \<open>i\<close> carries ordinal \<open>i\<close>.\<close>

definition chain_wf :: "Chain \<Rightarrow> bool" where
  "chain_wf ch \<longleftrightarrow> (\<forall>i < Chain_len ch. unat (ordinal (header (chain_blocks ch ! i))) = i)"

text \<open>
  The directory holds the chain: file \<open>i\<close> reads back as block \<open>i\<close>, and there are no files past
  the end.
\<close>

definition persisted :: "bincode \<Rightarrow> path \<Rightarrow> Chain \<Rightarrow> disk \<Rightarrow> bool" where
  "persisted bin dir ch d \<longleftrightarrow>
     (\<forall>i < Chain_len ch. \<exists>bs. map_of d (block_file dir i) = Some bs \<and>
                              de_block bin bs = Some (chain_blocks ch ! i)) \<and>
     (\<forall>i \<ge> Chain_len ch. map_of d (block_file dir i) = None)"

text \<open>
  What bincode documents of \<^verbatim>\<open>serialize\<close> and \<^verbatim>\<open>deserialize\<close> for one block: the bytes written
  read back as the block, and trailing bytes are ignored.
\<close>

definition block_codec_ok :: "bincode \<Rightarrow> Block \<Rightarrow> bool" where
  "block_codec_ok bin b \<longleftrightarrow>
     (\<exists>bs. ser_block bin b = Some bs \<and> (\<forall>rest. de_block bin (bs @ rest) = Some b))"

text \<open>A node adds a sequence of payloads, stopping at the first failure.\<close>

fun add_payloads ::
    "crypto \<Rightarrow> bincode \<Rightarrow> io_env \<Rightarrow> bytes \<Rightarrow> (entropy \<times> bytes) list \<Rightarrow> Blockchain \<Rightarrow> disk
      \<Rightarrow> (unit, BlockchainError) outcome \<times> Blockchain \<times> disk" where
  "add_payloads c bin io k [] bc d = (Ok (), bc, d)"
| "add_payloads c bin io k ((r, p) # ps) bc d =
     (case Blockchain_add_block c bin io r bc p k d of
        (Ok _, bc1, d1) \<Rightarrow> add_payloads c bin io k ps bc1 d1
      | failed \<Rightarrow> failed)"

section \<open>The interface of an ordinal-indexed log\<close>

locale block_log =
  fixes entries :: "'c \<Rightarrow> 'b list"
    and push :: "'c \<Rightarrow> 'b \<Rightarrow> 'c"
    and position :: "'c \<Rightarrow> u128 \<Rightarrow> nat option"
    and ordinal_of :: "'b \<Rightarrow> u128"
    and wf :: "'c \<Rightarrow> bool"
  assumes entries_push: "entries (push c b) = entries c @ [b]"
    and wf_ordinal: "wf c \<Longrightarrow> i < length (entries c) \<Longrightarrow> unat (ordinal_of (entries c ! i)) = i"
    and wf_push_iff: "wf (push c b) \<longleftrightarrow> wf c \<and> unat (ordinal_of b) = length (entries c)"
    and position_wf: "wf c \<Longrightarrow>
          position c n = (if unat n < length (entries c) then Some (unat n) else None)"
begin

lemma position_pushed:
  assumes "wf c" and "unat (ordinal_of b) = length (entries c)"
  shows "position (push c b) (ordinal_of b) = Some (length (entries c))"
  using assms position_wf[of "push c b" "ordinal_of b"] by (simp add: wf_push_iff entries_push)

lemma position_stable:
  assumes "wf c" and "unat (ordinal_of b) = length (entries c)" and "position c n = Some i"
  shows "position (push c b) n = Some i \<and> entries (push c b) ! i = entries c ! i"
  using assms position_wf[of c n] position_wf[of "push c b" n]
  by (auto simp: wf_push_iff entries_push nth_append split: if_splits)

lemma last_ordinal:
  assumes "wf c" and "entries c \<noteq> []"
  shows "unat (ordinal_of (last (entries c))) = length (entries c) - 1"
  using assms wf_ordinal[of c "length (entries c) - 1"] by (simp add: last_conv_nth)

end

lemma chain_wf_push_iff:
  "chain_wf (Chain_add_block ch b) \<longleftrightarrow> chain_wf ch \<and> unat (ordinal (header b)) = Chain_len ch"
proof -
  have "(\<forall>i < Suc n. P i) \<longleftrightarrow> (\<forall>i < n. P i) \<and> P n" for n :: nat and P
    using less_Suc_eq by auto
  then show ?thesis
    by (auto simp: chain_wf_def Chain_add_block_def Chain_len_def nth_append)
qed

lemma position_of_wf:
  assumes "chain_wf ch"
  shows "Chain_get_block_position ch n = (if unat n < Chain_len ch then Some (unat n) else None)"
proof (cases "unat n < Chain_len ch")
  case True
  then have ne: "chain_blocks ch \<noteq> []" by (auto simp: Chain_len_def)
  have "unat (ordinal (header (last (chain_blocks ch)))) = Chain_len ch - 1"
    using assms ne by (simp add: chain_wf_def Chain_len_def last_conv_nth)
  with True have "\<not> n > ordinal (header (last (chain_blocks ch)))"
    by (simp add: word_less_nat_alt)
  moreover have "ordinal (header (chain_blocks ch ! unat n)) = n"
    using assms True by (simp add: chain_wf_def word_unat_eq_iff)
  ultimately show ?thesis using True by (simp add: Chain_get_block_position_def)
next
  case False
  then show ?thesis by (simp add: Chain_get_block_position_def)
qed

interpretation chain_log: block_log chain_blocks Chain_add_block Chain_get_block_position
  "\<lambda>b. ordinal (header b)" chain_wf
proof unfold_locales
  show "chain_blocks (Chain_add_block c b) = chain_blocks c @ [b]" for c b
    by (simp add: Chain_add_block_def)
  show "chain_wf c \<Longrightarrow> i < length (chain_blocks c) \<Longrightarrow>
      unat (ordinal (header (chain_blocks c ! i))) = i" for c i
    by (simp add: chain_wf_def Chain_len_def)
  show "chain_wf (Chain_add_block c b) \<longleftrightarrow>
      chain_wf c \<and> unat (ordinal (header b)) = length (chain_blocks c)" for c b
    by (simp add: chain_wf_push_iff Chain_len_def)
  show "chain_wf c \<Longrightarrow> Chain_get_block_position c n =
      (if unat n < length (chain_blocks c) then Some (unat n) else None)" for c n
    by (simp add: position_of_wf Chain_len_def)
qed

lemmas chain_simps [simp] = chain_log.entries_push chain_log.wf_push_iff

lemma Chain_len_push [simp]: "Chain_len (Chain_add_block ch b) = Suc (Chain_len ch)"
  by (simp add: Chain_len_def)

section \<open>Files\<close>

lemma map_of_write: "map_of (write_at_start p new d) q =
    (if q = p then Some (new @ drop (length new) (case map_of d p of None \<Rightarrow> [] | Some c \<Rightarrow> c))
     else map_of d q)"
  by (simp add: write_at_start_def Let_def update_conv')

lemma map_of_open_create: "map_of (open_create p d) q =
    (if q = p \<and> map_of d p = None then Some [] else map_of d q)"
  by (auto simp: open_create_def update_conv' split: option.splits)

lemma save_block_ok:
  assumes "chain_wf (Chain_add_block ch b)" and "ser_block bin b = Some bs"
    and "write_fault_at io p = None"
  shows "Chain_save_block bin io (Chain_add_block ch b) (ordinal (header b)) p d
    = (Ok (), write_at_start p bs (open_create p d))"
proof -
  have "Chain_get_block_position (Chain_add_block ch b) (ordinal (header b)) = Some (Chain_len ch)"
    using assms(1) by (simp add: chain_log.position_pushed Chain_len_def)
  with assms(2,3) show ?thesis
    by (simp add: Chain_save_block_def Let_def Chain_len_def nth_append)
qed

lemma commit_persists:
  assumes wf: "chain_wf (bc_chain bc)" and nxt: "unat (ordinal (header b)) = Chain_len (bc_chain bc)"
    and pers: "persisted bin (blockchain_path bc) (bc_chain bc) d"
    and codec: "block_codec_ok bin b"
    and nf: "\<And>p. write_fault_at io p = None"
  obtains d1 where
    "Blockchain_commit_block bin io bc b d
       = (Ok (), bc\<lparr>bc_chain := Chain_add_block (bc_chain bc) b\<rparr>, d1)"
    "persisted bin (blockchain_path bc) (Chain_add_block (bc_chain bc) b) d1"
proof -
  obtain bs where bs: "ser_block bin b = Some bs" "\<And>rest. de_block bin (bs @ rest) = Some b"
    using codec by (auto simp: block_codec_ok_def)
  let ?p = "block_file (blockchain_path bc) (Chain_len (bc_chain bc))"
  let ?d1 = "write_at_start ?p bs (open_create ?p d)"
  have "Blockchain_commit_block bin io bc b d
       = (Ok (), bc\<lparr>bc_chain := Chain_add_block (bc_chain bc) b\<rparr>, ?d1)"
    using wf nxt save_block_ok[OF _ bs(1) nf]
    by (simp add: Blockchain_commit_block_def Blockchain_save_block_def Let_def Chain_len_def)
  moreover have "persisted bin (blockchain_path bc) (Chain_add_block (bc_chain bc) b) ?d1"
    using pers bs(2) bs(2)[of "[]"]
    by (auto simp: persisted_def map_of_write map_of_open_create block_file_inj less_Suc_eq
        nth_append Chain_len_def)
  ultimately show thesis by (rule that)
qed

lemma load_from_persisted:
  assumes "persisted bin dir ch d" and "n \<le> Chain_len ch"
  shows "Chain_load_from bin no_faults dir d n \<lparr>chain_blocks = take n (chain_blocks ch)\<rparr>
    = (Ok (), \<lparr>chain_blocks = chain_blocks ch\<rparr>)"
  using assms(2)
proof (induction "Chain_len ch - n" arbitrary: n)
  case 0
  then have "n = Chain_len ch" by simp
  then show ?case
    using assms(1)
    by (subst Chain_load_from.simps) (simp add: no_faults_def persisted_def Chain_len_def)
next
  case (Suc m)
  then have lt: "n < Chain_len ch" by simp
  then obtain bs where bs: "map_of d (block_file dir n) = Some bs"
      "de_block bin bs = Some (chain_blocks ch ! n)"
    using assms(1) by (auto simp: persisted_def)
  have "Chain_add_block \<lparr>chain_blocks = take n (chain_blocks ch)\<rparr> (chain_blocks ch ! n)
      = \<lparr>chain_blocks = take (Suc n) (chain_blocks ch)\<rparr>"
    using lt by (simp add: Chain_add_block_def Chain_len_def take_Suc_conv_app_nth)
  moreover have "Chain_load_from bin no_faults dir d (Suc n)
      \<lparr>chain_blocks = take (Suc n) (chain_blocks ch)\<rparr> = (Ok (), \<lparr>chain_blocks = chain_blocks ch\<rparr>)"
    using Suc lt by (intro Suc.hyps(1)) auto
  ultimately show ?case
    by (subst Chain_load_from.simps) (simp add: bs no_faults_def)
qed

lemma load_persisted:
  assumes "persisted bin dir ch d"
  shows "Chain_load_blocks bin no_faults dir d Chain_default = (Ok (), ch)"
  using load_from_persisted[OF assms, of 0] by (simp add: Chain_load_blocks_def Chain_default_def)

section \<open>Adding blocks\<close>

lemma commit_chain:
  "Blockchain_commit_block bin io bc b d = (res, bc1, d1)
    \<Longrightarrow> bc_chain bc1 = Chain_add_block (bc_chain bc) b \<and> blockchain_path bc1 = blockchain_path bc"
  by (auto simp: Blockchain_commit_block_def Blockchain_save_block_def Let_def split: prod.splits)

lemma next_ordinal:
  assumes "chain_wf ch" and "chain_blocks ch \<noteq> []" and "Chain_len ch < 2 ^ 128"
  shows "unat (ordinal (header (last (chain_blocks ch))) + 1) = Chain_len ch"
proof -
  have "unat (ordinal (header (last (chain_blocks ch)))) = Chain_len ch - 1"
    using chain_log.last_ordinal[OF assms(1,2)] by (simp add: Chain_len_def)
  moreover have "Chain_len ch > 0" using assms(2) by (simp add: Chain_len_def)
  ultimately show ?thesis using assms(3) by (simp add: unat_word_ariths)
qed

lemma add_block_cases:
  assumes "ed25519_laws c k" and "bincode_total bin" and "chain_blocks (bc_chain bc) \<noteq> []"
  obtains t b where
    "Transaction_new c bin r Create (Address_from_public c (ed25519_public c k)) payload k
       = (Ok t :: (Transaction, BlockchainError) outcome)"
    "Block_new c bin r (hd_hash (header (last (chain_blocks (bc_chain bc)))))
       (ordinal (header (last (chain_blocks (bc_chain bc)))) + 1) [t] k
       = (Ok b :: (Block, BlockchainError) outcome)"
    "Blockchain_add_block c bin io r bc payload k d = Blockchain_commit_block bin io bc b d"
proof -
  obtain t where t: "Transaction_new c bin r Create (Address_from_public c (ed25519_public c k))
      payload k = (Ok t :: (Transaction, BlockchainError) outcome)"
    using Transaction_new_total[OF assms(1,2)] by blast
  obtain b where b: "Block_new c bin r (hd_hash (header (last (chain_blocks (bc_chain bc)))))
       (ordinal (header (last (chain_blocks (bc_chain bc)))) + 1) [t] k
       = (Ok b :: (Block, BlockchainError) outcome)"
    using Block_new_total[OF assms(1,2)] by blast
  show thesis
    by (rule that[OF t b])
       (simp add: Blockchain_add_block_def t b Blockchain_last_block_def Chain_last_block_def assms(3))
qed

end
