(* ===== verification/Blockchain_Properties.thy ===== *)
theory Blockchain_Properties
  imports Blockchain_Chain
begin

text \<open>
  The properties of the chain and of its file-backed owner, with a small concrete instance of the
  third-party packages at which the hypotheses hold together.
\<close>

section \<open>A concrete instance\<close>

definition demo_crypto :: crypto where
  "demo_crypto = \<lparr>keccak256_digest = (\<lambda>m. m), ed25519_sign = (\<lambda>k m. m),
     ed25519_signature_ok = (\<lambda>s. True), ed25519_public = (\<lambda>k. k), ed25519_decode_ok = (\<lambda>k. True),
     ed25519_verify = (\<lambda>k m s. s = m), peer_id_of_public = (\<lambda>k. k)\<rparr>"

definition demo_entropy :: entropy where
  "demo_entropy = \<lparr>tx_time = 5, tx_nonce = 11, hd_time = 6, hd_rand = 12\<rparr>"

definition demo_tx :: "bytes \<Rightarrow> Transaction" where
  "demo_tx p = \<lparr>tx_type_id = Create, tx_submitter = \<lparr>addr_peer_id = [9]\<rparr>, tx_timestamp = 5,
     tx_payload = p, tx_salt = 11, tx_hash = \<lparr>multihash = p\<rparr>, tx_signature = \<lparr>signature_bytes = p\<rparr>\<rparr>"

definition demo_block :: "bytes \<Rightarrow> Ordinal \<Rightarrow> bytes \<Rightarrow> Block" where
  "demo_block parent n p =
     \<lparr>header = \<lparr>parent_hash = \<lparr>multihash = parent\<rparr>, transactions_hash = \<lparr>multihash = p\<rparr>,
                committer = \<lparr>addr_peer_id = [9]\<rparr>, hd_timestamp = 6, ordinal = n, hd_nonce = 12,
                hd_hash = \<lparr>multihash = [ucast n]\<rparr>\<rparr>,
      transactions = [demo_tx p],
      block_signature = \<lparr>bs_signature = \<lparr>signature_bytes = [ucast n]\<rparr>, bs_public_key = [9]\<rparr>\<rparr>"

definition demo_genesis :: Block where
  "demo_genesis = demo_block [] 0 genesis_payload"

definition demo_bincode :: bincode where
  "demo_bincode =
     \<lparr>ser_partial_header = (\<lambda>h. Some [ucast (ph_ordinal h)]),
      ser_partial_transaction = (\<lambda>t. Some (pt_payload t)),
      ser_transactions = (\<lambda>ts. Some (concat (map tx_payload ts))),
      ser_hash = (\<lambda>h. Some (multihash h)),
      ser_block = (\<lambda>b. Some [ucast (ordinal (header b))]),
      de_block = (\<lambda>bs. case bs of [] \<Rightarrow> None
                        | x # _ \<Rightarrow> if x = 0 then Some demo_genesis
                                  else if x = 1 then Some (demo_block [0] 1 [7]) else None),
      ser_blocks = (\<lambda>bs. Some (map (\<lambda>b. ucast (ordinal (header b))) bs)),
      de_blocks = (\<lambda>bs. Some (map (\<lambda>x. if x = 0 then demo_genesis else demo_block [0] 1 [7]) bs)),
      ser_ordinal = (\<lambda>n. Some (ucast n # replicate 15 0)),
      de_ordinal = (\<lambda>bs. case bs of [] \<Rightarrow> None | x # _ \<Rightarrow> Some (ucast x))\<rparr>"

definition demo_chain :: Chain where
  "demo_chain = \<lparr>chain_blocks = [demo_genesis]\<rparr>"

definition demo_blockchain :: Blockchain where
  "demo_blockchain = \<lparr>bc_chain = demo_chain, blockchain_path = [''bc'']\<rparr>"

definition demo_disk :: disk where
  "demo_disk = [([''bc'', ''0.ser''], [0])]"

lemmas demo_defs = demo_crypto_def demo_entropy_def demo_tx_def demo_block_def demo_genesis_def
  demo_bincode_def demo_chain_def demo_blockchain_def demo_disk_def

lemma demo_laws [simp]: "ed25519_laws demo_crypto k" "bincode_total demo_bincode"
  by (simp_all add: ed25519_laws_def bincode_total_def demo_crypto_def demo_bincode_def)

lemma show_nat_0_1: "show_nat 0 = ''0''" "show_nat (Suc 0) = ''1''"
  by code_simp+

lemma demo_wf [simp]: "chain_wf demo_chain"
  by (simp add: chain_wf_def Chain_len_def demo_defs)

lemma demo_persisted [simp]: "persisted demo_bincode [''bc''] demo_chain demo_disk"
proof -
  have "show_nat i \<noteq> ''0''" if "Suc 0 \<le> i" for i
    using that show_nat_inj[of i 0] by (simp add: show_nat_0_1)
  then show ?thesis
    by (auto simp: persisted_def Chain_len_def block_file_def demo_disk_def demo_chain_def
        demo_bincode_def show_nat_0_1)
qed

lemma demo_add:
  "Blockchain_add_block demo_crypto demo_bincode io demo_entropy demo_blockchain [7] [9] d
    = Blockchain_commit_block demo_bincode io demo_blockchain (demo_block [0] 1 [7]) d"
  by (simp add: Blockchain_add_block_def Blockchain_last_block_def Chain_last_block_def
      structure_defs Let_def HashDigest_new_def Address_from_public_def demo_defs)

section \<open>Properties of the chain\<close>

lemma retrieve_blocks_wf:
  assumes "chain_wf ch"
  shows "Chain_retrieve_blocks ch start stop =
    (if start \<le> stop \<and> unat stop < Chain_len ch
     then map (\<lambda>i. chain_blocks ch ! i) [unat start ..< Suc (unat stop)] else [])"
proof -
  have "take (Suc n - m) (drop m xs) = map (\<lambda>i. xs ! i) [m ..< Suc n]"
    if "n < length xs" for m n and xs :: "Block list"
    using that by (intro nth_equalityI) (auto simp del: upt_Suc)
  then show ?thesis
    by (auto simp: Chain_retrieve_blocks_def position_of_wf[OF assms] word_le_nat_alt Chain_len_def)
qed

text \<open>
  On a chain whose blocks carry their index as ordinal, \<^verbatim>\<open>retrieve_blocks\<close> returns exactly the
  blocks with ordinals \<open>start\<close> to \<open>stop\<close> inclusive, in order, and nothing when the range is
  reversed or reaches past the end.
\<close>

theorem chain_retrieve_blocks_spec:
  assumes "chain_wf ch"
  shows "Chain_retrieve_blocks ch start stop =
    (if start \<le> stop \<and> unat stop < Chain_len ch
     then map (\<lambda>i. chain_blocks ch ! i) [unat start ..< Suc (unat stop)] else [])"
  by (rule retrieve_blocks_wf[OF assms])

theorem chain_retrieve_blocks_spec_witness:
  "chain_wf demo_chain \<and> Chain_retrieve_blocks demo_chain 0 0 = [demo_genesis]"
  using chain_retrieve_blocks_spec[OF demo_wf, of 0 0] demo_wf
  by (simp add: Chain_len_def demo_chain_def)

text \<open>
  C2: adding a payload to a well-formed, non-empty blockchain appends one block that is linked to the
  old last block by its hash, carries the next ordinal and exactly the payload, has correct stored
  hashes, verifies under the signer's key, and keeps the chain well formed; the path is unchanged.
\<close>

theorem blockchain_add_block_links:
  assumes "ed25519_laws c k" and "bincode_total bin" and "chain_wf (bc_chain bc)"
    and "Blockchain_last_block bc = Some prev" and "Chain_len (bc_chain bc) < 2 ^ 128"
  shows "\<exists>res b d1. Blockchain_add_block c bin io r bc payload k d
      = (res, bc\<lparr>bc_chain := Chain_add_block (bc_chain bc) b\<rparr>, d1) \<and>
    parent_hash (header b) = hd_hash (header prev) \<and>
    unat (ordinal (header b)) = Chain_len (bc_chain bc) \<and>
    fetch_payload b = [payload] \<and> block_hashes_ok c bin b \<and>
    Block_verify c bin b = (Ok True :: (bool, BlockchainError) outcome) \<and>
    chain_wf (Chain_add_block (bc_chain bc) b)"
proof -
  have ne: "chain_blocks (bc_chain bc) \<noteq> []" and prev: "prev = last (chain_blocks (bc_chain bc))"
    using assms(4) by (auto simp: Blockchain_last_block_def Chain_last_block_def split: if_splits)
  obtain t b where t: "Transaction_new c bin r Create (Address_from_public c (ed25519_public c k))
        payload k = (Ok t :: (Transaction, BlockchainError) outcome)"
    and b: "Block_new c bin r (hd_hash (header (last (chain_blocks (bc_chain bc)))))
       (ordinal (header (last (chain_blocks (bc_chain bc)))) + 1) [t] k
       = (Ok b :: (Block, BlockchainError) outcome)"
    and eq: "Blockchain_add_block c bin io r bc payload k d = Blockchain_commit_block bin io bc b d"
    by (rule add_block_cases[OF assms(1,2) ne])
  obtain res bc1 d1 where com: "Blockchain_commit_block bin io bc b d = (res, bc1, d1)"
    by (cases "Blockchain_commit_block bin io bc b d") auto
  then have "bc1 = bc\<lparr>bc_chain := Chain_add_block (bc_chain bc) b\<rparr>"
    by (auto simp: Blockchain_commit_block_def Blockchain_save_block_def Let_def split: prod.splits)
  moreover have ord: "unat (ordinal (header b)) = Chain_len (bc_chain bc)"
    using next_ordinal[OF assms(3) ne assms(5)] by (simp add: Block_new_fields(2)[OF b])
  moreover have "fetch_payload b = [payload]"
    by (simp add: fetch_payload_def Block_new_fields(3)[OF b] Transaction_new_payload[OF t])
  moreover have "chain_wf (Chain_add_block (bc_chain bc) b)"
    using assms(3) ord by (simp add: Chain_len_def)
  ultimately show ?thesis
    using com eq Block_new_fields(1)[OF b] Block_new_hashes[OF b] Block_new_verifies[OF assms(1) b]
    by (auto simp: prev)
qed

theorem blockchain_add_block_links_witness:
  "\<exists>res b d1. Blockchain_add_block demo_crypto demo_bincode no_faults demo_entropy demo_blockchain
      [7] [9] demo_disk
      = (res, demo_blockchain\<lparr>bc_chain := Chain_add_block demo_chain b\<rparr>, d1) \<and>
    fetch_payload b = [[7]] \<and> chain_wf (Chain_add_block demo_chain b)"
proof -
  have "Blockchain_last_block demo_blockchain = Some demo_genesis"
    and "Chain_len (bc_chain demo_blockchain) < 2 ^ 128"
    and "chain_wf (bc_chain demo_blockchain)"
    by (simp_all add: Blockchain_last_block_def Chain_last_block_def demo_blockchain_def
        Chain_len_def demo_chain_def demo_wf[unfolded demo_chain_def])
  from blockchain_add_block_links[OF demo_laws(1,2) this(3,1,2), where k = "[9]" and payload = "[7]"
      and io = no_faults and r = demo_entropy and d = demo_disk]
  show ?thesis by (simp add: demo_blockchain_def) blast
qed

section \<open>Persistence\<close>

lemma add_payloads_grows:
  assumes "add_payloads c bin io k ps bc d = (res, bc1, d1)"
  shows "set (chain_blocks (bc_chain bc)) \<subseteq> set (chain_blocks (bc_chain bc1))"
  using assms
proof (induction ps arbitrary: bc d)
  case (Cons q qs)
  then show ?case
    by (cases q) (force simp: Blockchain_add_block_def dest: commit_chain
        split: prod.splits outcome.splits option.splits)
qed simp

lemma add_payloads_persisted:
  assumes "ed25519_laws c k" and "bincode_total bin" and "chain_wf (bc_chain bc)"
    and "chain_blocks (bc_chain bc) \<noteq> []" and "Chain_len (bc_chain bc) + length ps < 2 ^ 128"
    and "persisted bin (blockchain_path bc) (bc_chain bc) d"
    and "add_payloads c bin no_faults k ps bc d = (res, bc1, d1)"
    and "\<forall>b \<in> set (chain_blocks (bc_chain bc1)). block_codec_ok bin b"
  shows "res = Ok () \<and> chain_wf (bc_chain bc1) \<and> blockchain_path bc1 = blockchain_path bc
    \<and> chain_blocks (bc_chain bc1) \<noteq> []
    \<and> persisted bin (blockchain_path bc1) (bc_chain bc1) d1"
  using assms(3-8)
proof (induction ps arbitrary: bc d)
  case Nil
  then show ?case by simp
next
  case (Cons rp ps)
  obtain r p where rp: "rp = (r, p)" by force
  obtain t b where b: "Block_new c bin r (hd_hash (header (last (chain_blocks (bc_chain bc)))))
       (ordinal (header (last (chain_blocks (bc_chain bc)))) + 1) [t] k
       = (Ok b :: (Block, BlockchainError) outcome)"
    and eq: "Blockchain_add_block c bin no_faults r bc p k d
       = Blockchain_commit_block bin no_faults bc b d"
    by (rule add_block_cases[OF assms(1,2) Cons.prems(2)])
  have ord: "unat (ordinal (header b)) = Chain_len (bc_chain bc)"
    using next_ordinal[OF Cons.prems(1,2)] Cons.prems(3) by (simp add: Block_new_fields(2)[OF b])
  obtain res2 bc2 d2 where com: "Blockchain_commit_block bin no_faults bc b d = (res2, bc2, d2)"
    by (cases "Blockchain_commit_block bin no_faults bc b d") auto
  then have mem: "b \<in> set (chain_blocks (bc_chain bc2))" by (auto dest: commit_chain)
  have "b \<in> set (chain_blocks (bc_chain bc1))"
    using Cons.prems(5) mem by (auto simp: rp eq com split: outcome.splits dest: add_payloads_grows)
  then have codec: "block_codec_ok bin b" using Cons.prems(6) by simp
  obtain d3 where d3: "Blockchain_commit_block bin no_faults bc b d
       = (Ok (), bc\<lparr>bc_chain := Chain_add_block (bc_chain bc) b\<rparr>, d3)"
      "persisted bin (blockchain_path bc) (Chain_add_block (bc_chain bc) b) d3"
    by (rule commit_persists[OF Cons.prems(1) ord Cons.prems(4) codec, of no_faults])
       (simp add: no_faults_def)
  show ?case
    using Cons.IH[of "bc\<lparr>bc_chain := Chain_add_block (bc_chain bc) b\<rparr>" d3] Cons.prems d3 ord
    by (auto simp: rp eq Chain_len_def)
qed

text \<open>
  C3: persistence. A node that runs without I/O faults on a directory that holds its chain, and adds
  any sequence of payloads, succeeds, and a restart (\<^verbatim>\<open>Blockchain::new\<close> on the resulting
  directory) restores exactly the chain in memory. bincode is asked to read back the blocks of that
  chain only.
\<close>

theorem restart_restores_chain:
  assumes "ed25519_laws c k" and "bincode_total bin" and "chain_wf (bc_chain bc)"
    and "chain_blocks (bc_chain bc) \<noteq> []" and "Chain_len (bc_chain bc) + length ps < 2 ^ 128"
    and "persisted bin (blockchain_path bc) (bc_chain bc) d"
    and "add_payloads c bin no_faults k ps bc d = (res, bc1, d1)"
    and "\<forall>b \<in> set (chain_blocks (bc_chain bc1)). block_codec_ok bin b"
  shows "res = Ok () \<and>
    Blockchain_new c bin no_faults r k0 (blockchain_path bc) d1 = (Ok bc1, d1)"
proof -
  note p = add_payloads_persisted[OF assms]
  then have "Chain_load_blocks bin no_faults (blockchain_path bc) d1 Chain_default
      = (Ok (), bc_chain bc1)"
    by (metis load_persisted)
  with p show ?thesis
    by (auto simp: Blockchain_new_def Chain_is_empty_def)
qed

theorem restart_restores_chain_witness:
  "Blockchain_new demo_crypto demo_bincode no_faults demo_entropy [9] [''bc'']
      (snd (snd (add_payloads demo_crypto demo_bincode no_faults [9] [(demo_entropy, [7])]
         demo_blockchain demo_disk)))
    = (Ok \<lparr>bc_chain = \<lparr>chain_blocks = [demo_genesis, demo_block [0] 1 [7]]\<rparr>,
           blockchain_path = [''bc'']\<rparr>,
       snd (snd (add_payloads demo_crypto demo_bincode no_faults [9] [(demo_entropy, [7])]
         demo_blockchain demo_disk)))"
proof -
  obtain res bc1 d1 where run: "add_payloads demo_crypto demo_bincode no_faults [9]
      [(demo_entropy, [7])] demo_blockchain demo_disk = (res, bc1, d1)"
    using prod_cases3 by blast
  obtain res2 bc2 d2 where com: "Blockchain_commit_block demo_bincode no_faults demo_blockchain
      (demo_block [0] 1 [7]) demo_disk = (res2, bc2, d2)"
    using prod_cases3 by blast
  have bc1: "bc1 = \<lparr>bc_chain = \<lparr>chain_blocks = [demo_genesis, demo_block [0] 1 [7]]\<rparr>,
      blockchain_path = [''bc'']\<rparr>"
  proof -
    have "bc1 = bc2" using run com by (auto simp: demo_add split: outcome.splits)
    with commit_chain[OF com] show ?thesis
      by (cases bc2) (simp add: demo_blockchain_def demo_chain_def Chain_add_block_def)
  qed
  have codec: "\<forall>b \<in> set (chain_blocks (bc_chain bc1)). block_codec_ok demo_bincode b"
    by (simp add: bc1 block_codec_ok_def) (simp add: demo_defs)
  have "chain_wf (bc_chain demo_blockchain)" "chain_blocks (bc_chain demo_blockchain) \<noteq> []"
    "Chain_len (bc_chain demo_blockchain) + length [(demo_entropy, [7 :: u8])] < 2 ^ 128"
    "persisted demo_bincode (blockchain_path demo_blockchain) (bc_chain demo_blockchain) demo_disk"
    using demo_wf demo_persisted by (simp_all add: demo_blockchain_def demo_chain_def Chain_len_def)
  from restart_restores_chain[OF demo_laws(1,2) this run codec, of demo_entropy "[9]"]
  have "Blockchain_new demo_crypto demo_bincode no_faults demo_entropy [9] [''bc''] d1 = (Ok bc1, d1)"
    by (simp add: demo_blockchain_def)
  then show ?thesis by (simp only: run bc1 snd_conv)
qed

end
