(* ===== verification/Identities.thy ===== *)
theory Identities
  imports Blockchain_Structures "HOL-Library.AList"
begin

text \<open>
  The identities used for Byzantine agreement (\<^verbatim>\<open>src/src/blockchain/src/identities\<close>): the pen that
  signs, the verifier that knows the authorities and counts multisignatures, the key box that
  joins the two, and the wire form of a verification key. aleph-bft's signature set is a list of
  pairs of node index and signature, in the order its iterator yields them; its two constructors
  are parameters of \<open>KeyBox_from_signature\<close>.
\<close>

type_synonym NodeIndex = nat
type_synonym MultiSignature = "(NodeIndex \<times> Signature) list"

record AuthorityPen =
  pen_index :: NodeIndex
  pen_keypair :: bytes

definition AuthorityPen_new :: "NodeIndex \<Rightarrow> bytes \<Rightarrow> AuthorityPen" where
  "AuthorityPen_new i k = \<lparr>pen_index = i, pen_keypair = k\<rparr>"

definition AuthorityPen_public :: "crypto \<Rightarrow> AuthorityPen \<Rightarrow> bytes" where
  "AuthorityPen_public c pen = ed25519_public c (pen_keypair pen)"

definition AuthorityPen_sign :: "crypto \<Rightarrow> AuthorityPen \<Rightarrow> bytes \<Rightarrow> (Signature, 'e) outcome" where
  "AuthorityPen_sign c pen msg = Signature_new c msg (pen_keypair pen)"

record AuthorityVerifier =
  authorities :: "(NodeIndex \<times> bytes) list"

definition AuthorityVerifier_new :: AuthorityVerifier where
  "AuthorityVerifier_new = \<lparr>authorities = []\<rparr>"

definition AuthorityVerifier_save ::
    "AuthorityVerifier \<Rightarrow> NodeIndex \<Rightarrow> bytes \<Rightarrow> AuthorityVerifier" where
  "AuthorityVerifier_save v i key = v\<lparr>authorities := AList.update i key (authorities v)\<rparr>"

definition AuthorityVerifier_verify ::
    "crypto \<Rightarrow> AuthorityVerifier \<Rightarrow> bytes \<Rightarrow> Signature \<Rightarrow> NodeIndex \<Rightarrow> bool" where
  "AuthorityVerifier_verify c v msg sg i =
     (case map_of (authorities v) i of
        Some public_key \<Rightarrow> ed25519_verify c public_key msg (Signature_to_bytes sg)
      | None \<Rightarrow> False)"

definition AuthorityVerifier_node_count :: "AuthorityVerifier \<Rightarrow> nat" where
  "AuthorityVerifier_node_count v = length (authorities v)"

definition AuthorityVerifier_threshold :: "AuthorityVerifier \<Rightarrow> nat" where
  "AuthorityVerifier_threshold v = 2 * AuthorityVerifier_node_count v div 3 + 1"

definition AuthorityVerifier_is_complete ::
    "crypto \<Rightarrow> AuthorityVerifier \<Rightarrow> bytes \<Rightarrow> MultiSignature \<Rightarrow> bool" where
  "AuthorityVerifier_is_complete c v msg part =
     (if length part < AuthorityVerifier_threshold v then False
      else list_all (\<lambda>(i, sg). AuthorityVerifier_verify c v msg sg i) part)"

record KeyBox =
  authority_pen :: AuthorityPen
  authority_verifier :: AuthorityVerifier

definition KeyBox_record_authority :: "KeyBox \<Rightarrow> NodeIndex \<Rightarrow> bytes \<Rightarrow> KeyBox" where
  "KeyBox_record_authority kb i key =
     kb\<lparr>authority_verifier := AuthorityVerifier_save (authority_verifier kb) i key\<rparr>"

definition KeyBox_new :: "crypto \<Rightarrow> AuthorityPen \<Rightarrow> AuthorityVerifier \<Rightarrow> KeyBox" where
  "KeyBox_new c pen v =
     (let kb = \<lparr>authority_pen = pen, authority_verifier = v\<rparr>
      in KeyBox_record_authority kb (pen_index (authority_pen kb))
           (AuthorityPen_public c (authority_pen kb)))"

definition KeyBox_node_count :: "KeyBox \<Rightarrow> nat" where
  "KeyBox_node_count kb = AuthorityVerifier_node_count (authority_verifier kb)"

definition KeyBox_sign :: "crypto \<Rightarrow> KeyBox \<Rightarrow> bytes \<Rightarrow> (Signature, 'e) outcome" where
  "KeyBox_sign c kb msg = AuthorityPen_sign c (authority_pen kb) msg"

definition KeyBox_verify :: "crypto \<Rightarrow> KeyBox \<Rightarrow> bytes \<Rightarrow> Signature \<Rightarrow> NodeIndex \<Rightarrow> bool" where
  "KeyBox_verify c kb msg sg i = AuthorityVerifier_verify c (authority_verifier kb) msg sg i"

definition KeyBox_from_signature ::
    "(nat \<Rightarrow> 'm) \<Rightarrow> ('m \<Rightarrow> Signature \<Rightarrow> NodeIndex \<Rightarrow> 'm) \<Rightarrow> KeyBox \<Rightarrow> Signature \<Rightarrow> NodeIndex \<Rightarrow> 'm" where
  "KeyBox_from_signature with_size add_signature kb sg i =
     add_signature (with_size (AuthorityVerifier_node_count (authority_verifier kb))) sg i"

definition KeyBox_is_complete :: "crypto \<Rightarrow> KeyBox \<Rightarrow> bytes \<Rightarrow> MultiSignature \<Rightarrow> bool" where
  "KeyBox_is_complete c kb msg part =
     AuthorityVerifier_is_complete c (authority_verifier kb) msg part"

definition KeyBox_index :: "KeyBox \<Rightarrow> NodeIndex" where
  "KeyBox_index kb = pen_index (authority_pen kb)"

text \<open>The SCALE wire form of a key: its 32 bytes, read from the front of the input.\<close>

record VerifyKey =
  vk_public :: bytes

definition VerifyKey_encode :: "VerifyKey \<Rightarrow> bytes" where
  "VerifyKey_encode k = vk_public k"

definition VerifyKey_decode :: "crypto \<Rightarrow> bytes \<Rightarrow> (VerifyKey \<times> bytes, string) outcome" where
  "VerifyKey_decode c input =
     (if length input < 32 then Err ''Not enough data to fill buffer''
      else let buf = take 32 input in
           if ed25519_decode_ok c buf then Ok (\<lparr>vk_public = buf\<rparr>, drop 32 input)
           else Err ''public key decoded from_bytes'')"

section \<open>Lemmas\<close>

text \<open>The verifier's table never holds an index twice: it stands for a \<^verbatim>\<open>HashMap\<close>.\<close>

definition verifier_wf :: "AuthorityVerifier \<Rightarrow> bool" where
  "verifier_wf v \<longleftrightarrow> distinct (map fst (authorities v))"

lemma verifier_wf_new [simp]: "verifier_wf AuthorityVerifier_new"
  by (simp add: verifier_wf_def AuthorityVerifier_new_def)

lemma verifier_wf_save [simp]: "verifier_wf v \<Longrightarrow> verifier_wf (AuthorityVerifier_save v i key)"
  by (simp add: verifier_wf_def AuthorityVerifier_save_def distinct_update)

lemma node_count_card:
  "verifier_wf v \<Longrightarrow> AuthorityVerifier_node_count v = card (fst ` set (authorities v))"
  by (metis AuthorityVerifier_node_count_def distinct_card length_map list.set_map verifier_wf_def)

lemma complete_signers:
  assumes "AuthorityVerifier_is_complete c v msg part" and "distinct (map fst part)"
  shows "fst ` set part \<subseteq> fst ` set (authorities v)"
    and "2 * AuthorityVerifier_node_count v div 3 + 1 \<le> card (fst ` set part)"
proof -
  have "\<exists>key. map_of (authorities v) i = Some key" if "(i, sg) \<in> set part" for i sg
    using assms(1) that
    by (force simp: AuthorityVerifier_is_complete_def AuthorityVerifier_verify_def list_all_iff
        split: if_splits option.splits)
  then show "fst ` set part \<subseteq> fst ` set (authorities v)"
    by (force dest: map_of_SomeD)
  have "card (fst ` set part) = length part"
    using assms(2) by (metis distinct_card length_map list.set_map)
  with assms(1) show "2 * AuthorityVerifier_node_count v div 3 + 1 \<le> card (fst ` set part)"
    by (auto simp: AuthorityVerifier_is_complete_def AuthorityVerifier_threshold_def split: if_splits)
qed

section \<open>Properties\<close>

text \<open>
  C4: quorum intersection. Two multisignatures that \<^verbatim>\<open>is_complete\<close> accepts, whatever messages they
  are for, have more than a third of the registered authorities in common (three times the number
  of common signers is at least the node count plus two), and all of these are registered.
\<close>

theorem complete_multisignatures_intersect:
  assumes "verifier_wf v"
    and "AuthorityVerifier_is_complete c v m1 p1" and "distinct (map fst p1)"
    and "AuthorityVerifier_is_complete c v m2 p2" and "distinct (map fst p2)"
  shows "AuthorityVerifier_node_count v + 2 \<le> 3 * card (fst ` set p1 \<inter> fst ` set p2)
    \<and> fst ` set p1 \<inter> fst ` set p2 \<subseteq> fst ` set (authorities v)"
proof -
  let ?n = "AuthorityVerifier_node_count v" and ?A = "fst ` set p1" and ?B = "fst ` set p2"
  note s1 = complete_signers[OF assms(2,3)] and s2 = complete_signers[OF assms(4,5)]
  have "card (?A \<union> ?B) \<le> card (fst ` set (authorities v))"
    using s1(1) s2(1) by (intro card_mono) auto
  then have "card (?A \<union> ?B) \<le> ?n" by (simp add: node_count_card[OF assms(1)])
  moreover have "card ?A + card ?B = card (?A \<union> ?B) + card (?A \<inter> ?B)"
    by (rule card_Un_Int) simp_all
  ultimately have "?n + 2 \<le> 3 * card (?A \<inter> ?B)"
    using s1(2) s2(2) by linarith
  with s1(1) show ?thesis by blast
qed

definition demo_verifier :: AuthorityVerifier where
  "demo_verifier = \<lparr>authorities = [(0, [1]), (1, [2]), (2, [3]), (3, [4])]\<rparr>"

definition demo_verify_crypto :: crypto where
  "demo_verify_crypto = \<lparr>keccak256_digest = (\<lambda>m. m), ed25519_sign = (\<lambda>k m. k @ m),
     ed25519_signature_ok = (\<lambda>s. True), ed25519_public = (\<lambda>k. k), ed25519_decode_ok = (\<lambda>k. True),
     ed25519_verify = (\<lambda>k m s. s = k @ m), peer_id_of_public = (\<lambda>k. k)\<rparr>"

theorem complete_multisignatures_intersect_witness:
  "AuthorityVerifier_node_count demo_verifier + 2 \<le> 3 * card ({0, 1, 2} \<inter> {1, 2, 3 :: nat})"
proof -
  let ?p1 = "[(0 :: nat, \<lparr>signature_bytes = [1, 8]\<rparr>), (1, \<lparr>signature_bytes = [2, 8]\<rparr>),
      (2, \<lparr>signature_bytes = [3, 8]\<rparr>)]"
  let ?p2 = "[(1 :: nat, \<lparr>signature_bytes = [2, 9]\<rparr>), (2, \<lparr>signature_bytes = [3, 9]\<rparr>),
      (3, \<lparr>signature_bytes = [4, 9]\<rparr>)]"
  have "verifier_wf demo_verifier"
    "AuthorityVerifier_is_complete demo_verify_crypto demo_verifier [8] ?p1" "distinct (map fst ?p1)"
    "AuthorityVerifier_is_complete demo_verify_crypto demo_verifier [9] ?p2" "distinct (map fst ?p2)"
    by (simp_all add: verifier_wf_def demo_verifier_def demo_verify_crypto_def
        AuthorityVerifier_is_complete_def AuthorityVerifier_threshold_def
        AuthorityVerifier_node_count_def AuthorityVerifier_verify_def Signature_to_bytes_def)
  from complete_multisignatures_intersect[OF this] show ?thesis by simp
qed

text \<open>
  A key box always trusts itself: whatever verifier it was built from, a signature it makes is one
  it accepts under its own index, and its authority table stays free of duplicates.
\<close>

theorem key_box_trusts_itself:
  assumes "ed25519_laws c (pen_keypair pen)" and "verifier_wf v"
  shows "\<exists>sg. KeyBox_sign c (KeyBox_new c pen v) msg = (Ok sg :: (Signature, unit) outcome)
    \<and> KeyBox_verify c (KeyBox_new c pen v) msg sg (KeyBox_index (KeyBox_new c pen v))
    \<and> verifier_wf (authority_verifier (KeyBox_new c pen v))"
  using assms
  by (simp add: KeyBox_sign_def KeyBox_new_def KeyBox_record_authority_def AuthorityPen_sign_def
      Signature_new_total KeyBox_verify_def KeyBox_index_def AuthorityVerifier_verify_def
      AuthorityVerifier_save_def update_conv' AuthorityPen_public_def Signature_to_bytes_def
      ed25519_laws_def verifier_wf_def distinct_update Let_def)

theorem key_box_trusts_itself_witness:
  "\<exists>sg. KeyBox_sign demo_verify_crypto (KeyBox_new demo_verify_crypto
        \<lparr>pen_index = 7, pen_keypair = [5]\<rparr> demo_verifier) [8] = (Ok sg :: (Signature, unit) outcome)
    \<and> KeyBox_verify demo_verify_crypto (KeyBox_new demo_verify_crypto
        \<lparr>pen_index = 7, pen_keypair = [5]\<rparr> demo_verifier) [8] sg 7"
proof -
  have "ed25519_laws demo_verify_crypto (pen_keypair \<lparr>pen_index = 7, pen_keypair = [5]\<rparr>)"
    "verifier_wf demo_verifier"
    by (simp_all add: ed25519_laws_def demo_verify_crypto_def verifier_wf_def demo_verifier_def)
  from key_box_trusts_itself[OF this, of "[8]"] show ?thesis
    by (auto simp: KeyBox_index_def KeyBox_new_def KeyBox_record_authority_def Let_def)
qed

end
