(* ===== verification/Blockchain_Service.thy ===== *)
theory Blockchain_Service
  imports Blockchain_Chain
begin

text \<open>
  The blockchain service (\<^verbatim>\<open>src/src/blockchain_service/service.rs\<close>): it adds payloads of its own
  node and broadcasts them, adds blocks received from peers, and synchronises with a peer. The
  service calls its p2p client; what the network answers to \<^verbatim>\<open>broadcast_block\<close> and
  \<^verbatim>\<open>request_blockchain\<close> is the argument \<open>p2p\<close>, and the messages handed to gossip are recorded in
  the state. \<open>chain_node\<close> is the interface the synchronisation loop needs from the service.
\<close>

type_synonym PeerId = bytes

section \<open>Commands\<close>

definition BLOCKCHAIN_COMMAND_LENGTH :: nat where "BLOCKCHAIN_COMMAND_LENGTH = 1"
definition BLOCKCHAIN_ORDINAL_LENGTH :: nat where "BLOCKCHAIN_ORDINAL_LENGTH = 16"
definition BLOCKCHAIN_MAX_SIZE_PER_MESSAGE :: nat where
  "BLOCKCHAIN_MAX_SIZE_PER_MESSAGE = 10 * 1024 * 1024"

datatype BlockchainCommand = Broadcast | PushToPeer | PullFromPeer | QueryHighestBlockOrdinal

fun BlockchainCommand_as_u8 :: "BlockchainCommand \<Rightarrow> u8" where
  "BlockchainCommand_as_u8 Broadcast = 1"
| "BlockchainCommand_as_u8 PushToPeer = 2"
| "BlockchainCommand_as_u8 PullFromPeer = 3"
| "BlockchainCommand_as_u8 QueryHighestBlockOrdinal = 4"

definition BlockchainCommand_try_from :: "u8 \<Rightarrow> (BlockchainCommand, BlockchainError) outcome" where
  "BlockchainCommand_try_from v =
     (if v = 1 then Ok Broadcast
      else if v = 2 then Ok PushToPeer
      else if v = 3 then Ok PullFromPeer
      else if v = 4 then Ok QueryHighestBlockOrdinal
      else Err InvalidBlockchainCmd)"

section \<open>The service\<close>

record p2p =
  net_broadcast_block :: "bytes \<Rightarrow> (unit, string) outcome"
  net_request_blockchain :: "PeerId \<Rightarrow> bytes \<Rightarrow> (bytes, string) outcome"

record BlockchainService =
  blockchain :: Blockchain
  keypair :: bytes

text \<open>What the service acts on: its own state, the disk, and the messages it has gossiped.\<close>

record chain_state =
  service :: BlockchainService
  cs_disk :: disk
  gossiped :: "bytes list"

text \<open>
  The packages and the machine a node runs on. \<open>mkdir_fault\<close> is what
  \<^verbatim>\<open>std::fs::create_dir_all\<close> answers.
\<close>

record chain_env =
  env_crypto :: crypto
  env_bincode :: bincode
  env_io :: io_env
  mkdir_fault :: "path \<Rightarrow> io_error option"

definition init_first_blockchain_node ::
    "chain_env \<Rightarrow> entropy \<Rightarrow> bytes \<Rightarrow> bytes \<Rightarrow> path \<Rightarrow> disk
      \<Rightarrow> (BlockchainService, BlockchainError) outcome \<times> disk" where
  "init_first_blockchain_node env r local_keypair blockchain_keypair p d =
     (case mkdir_fault env p of
        Some e \<Rightarrow> (Err (IOError e), d)
      | None \<Rightarrow>
        (let (res, d1) = Blockchain_new (env_crypto env) (env_bincode env) (env_io env) r
                           blockchain_keypair p d
         in (map_ok (\<lambda>bc. \<lparr>blockchain = bc, keypair = local_keypair\<rparr>) res, d1)))"

definition init_other_blockchain_node ::
    "chain_env \<Rightarrow> bytes \<Rightarrow> path \<Rightarrow> (BlockchainService, BlockchainError) outcome" where
  "init_other_blockchain_node env local_keypair p =
     (case mkdir_fault env p of
        Some e \<Rightarrow> Err (IOError e)
      | None \<Rightarrow> Ok \<lparr>blockchain = Blockchain_empty_new p, keypair = local_keypair\<rparr>)"

definition broadcast_message :: "bincode \<Rightarrow> Block \<Rightarrow> (bytes, BlockchainError) outcome" where
  "broadcast_message bin b =
     rbind (unwrap ''serialize ordinal'' (ser_ordinal bin (ordinal (header b)))) (\<lambda>o_bytes.
     rbind (unwrap ''serialize block'' (ser_block bin b)) (\<lambda>b_bytes.
       Ok ([BlockchainCommand_as_u8 Broadcast] @ o_bytes @ b_bytes)))"

definition broadcast_blockchain ::
    "chain_env \<Rightarrow> p2p \<Rightarrow> Block \<Rightarrow> chain_state \<Rightarrow> (unit, BlockchainError) outcome \<times> chain_state" where
  "broadcast_blockchain env net b s =
     (case broadcast_message (env_bincode env) b of
        Err e \<Rightarrow> (Err e, s)
      | Panic m \<Rightarrow> (Panic m, s)
      | Ok buf \<Rightarrow>
        (map_err (\<lambda>e. AnyhowError (''Failed to broadcast block. Error = '' @ e))
           (net_broadcast_block net buf),
         s\<lparr>gossiped := gossiped s @ [buf]\<rparr>))"

definition add_payload ::
    "chain_env \<Rightarrow> p2p \<Rightarrow> entropy \<Rightarrow> bytes \<Rightarrow> chain_state
      \<Rightarrow> (unit, BlockchainError) outcome \<times> chain_state" where
  "add_payload env net r payload s =
     (let (res, bc1, d1) = Blockchain_add_block (env_crypto env) (env_bincode env) (env_io env) r
                             (blockchain (service s)) payload (keypair (service s)) (cs_disk s);
          s1 = s\<lparr>service := (service s)\<lparr>blockchain := bc1\<rparr>, cs_disk := d1\<rparr>
      in sbind (res, s1) (\<lambda>_ s2.
           case Blockchain_last_block (blockchain (service s2)) of
             None \<Rightarrow> (Panic ''last_block'', s2)
           | Some b \<Rightarrow> broadcast_blockchain env net b s2))"

definition query_blockchain_ordinal ::
    "chain_env \<Rightarrow> p2p \<Rightarrow> PeerId \<Rightarrow> (Ordinal, BlockchainError) outcome" where
  "query_blockchain_ordinal env net peer =
     rbind (map_err AnyhowError
              (net_request_blockchain net peer [BlockchainCommand_as_u8 QueryHighestBlockOrdinal]))
       (\<lambda>answer. unwrap ''deserialize ordinal'' (de_ordinal (env_bincode env) answer))"

definition pull_message :: "bincode \<Rightarrow> Ordinal \<Rightarrow> Ordinal \<Rightarrow> (bytes, BlockchainError) outcome" where
  "pull_message bin start stop =
     rbind (unwrap ''serialize start'' (ser_ordinal bin start)) (\<lambda>s_bytes.
     rbind (unwrap ''serialize end'' (ser_ordinal bin stop)) (\<lambda>e_bytes.
       Ok ([BlockchainCommand_as_u8 PullFromPeer] @ s_bytes @ e_bytes)))"

definition pull_block_from_other_nodes ::
    "chain_env \<Rightarrow> p2p \<Rightarrow> PeerId \<Rightarrow> Ordinal \<Rightarrow> Ordinal \<Rightarrow> (Block list, BlockchainError) outcome" where
  "pull_block_from_other_nodes env net peer start stop =
     rbind (pull_message (env_bincode env) start stop) (\<lambda>buf.
     rbind (map_err AnyhowError (net_request_blockchain net peer buf)) (\<lambda>answer.
       unwrap ''deserialize blocks'' (de_blocks (env_bincode env) answer)))"

definition update_from_peers ::
    "chain_env \<Rightarrow> Block \<Rightarrow> chain_state \<Rightarrow> (unit, BlockchainError) outcome \<times> chain_state" where
  "update_from_peers env b s =
     (let (res, bc1, d1) = Blockchain_update_block_from_peers (env_bincode env) (env_io env)
                             (blockchain (service s)) b (cs_disk s)
      in (res, s\<lparr>service := (service s)\<lparr>blockchain := bc1\<rparr>, cs_disk := d1\<rparr>))"

text \<open>
  The ordinal is the one the message names; it is not compared with the block's own header. The sum
  \<open>last + 1\<close> wraps around, as it does in a release build.
\<close>

definition BlockchainService_add_block ::
    "chain_env \<Rightarrow> Ordinal \<Rightarrow> Block \<Rightarrow> chain_state
      \<Rightarrow> (unit, BlockchainError) outcome \<times> chain_state" where
  "BlockchainService_add_block env n b s =
     (case Blockchain_last_block (blockchain (service s)) of
        None \<Rightarrow> if n = 0 then update_from_peers env b s else (Ok (), s)
      | Some last_block \<Rightarrow>
        (let expected = ordinal (header last_block) + 1 in
         if n > expected then (Err LaggingBlockchainData, s)
         else if n < expected then (Ok (), s)
         else update_from_peers env b s))"

definition BlockchainService_pull_blocks ::
    "Ordinal \<Rightarrow> Ordinal \<Rightarrow> chain_state \<Rightarrow> (Block list, BlockchainError) outcome" where
  "BlockchainService_pull_blocks start stop s =
     Blockchain_pull_blocks (blockchain (service s)) start stop"

definition query_last_block :: "chain_state \<Rightarrow> Block option" where
  "query_last_block s = Blockchain_last_block (blockchain (service s))"

fun add_blocks :: "chain_env \<Rightarrow> Block list \<Rightarrow> chain_state
      \<Rightarrow> (unit, BlockchainError) outcome \<times> chain_state" where
  "add_blocks env [] s = (Ok (), s)"
| "add_blocks env (b # bs) s =
     sbind (BlockchainService_add_block env (ordinal (header b)) b s) (\<lambda>_ s1. add_blocks env bs s1)"

definition init_pull_from_others ::
    "chain_env \<Rightarrow> p2p \<Rightarrow> PeerId \<Rightarrow> chain_state
      \<Rightarrow> (Ordinal, BlockchainError) outcome \<times> chain_state" where
  "init_pull_from_others env net peer s =
     sbind (query_blockchain_ordinal env net peer, s) (\<lambda>n s1.
     sbind (pull_block_from_other_nodes env net peer 0 n, s1) (\<lambda>bs s2.
     sbind (add_blocks env bs s2) (\<lambda>_ s3. (Ok n, s3))))"

section \<open>Invariant\<close>

abbreviation chain_of :: "chain_state \<Rightarrow> Chain" where
  "chain_of s \<equiv> bc_chain (blockchain (service s))"

definition service_wf :: "chain_env \<Rightarrow> chain_state \<Rightarrow> bool" where
  "service_wf env s \<longleftrightarrow> chain_wf (chain_of s) \<and>
     persisted (env_bincode env) (blockchain_path (blockchain (service s))) (chain_of s) (cs_disk s)"

definition env_reliable :: "chain_env \<Rightarrow> bool" where
  "env_reliable env \<longleftrightarrow> (\<forall>p. write_fault_at (env_io env) p = None)"

section \<open>The interface of a synchronising node\<close>

text \<open>
  \<open>accept s b\<close> is what the node does with a block under the block's own ordinal. The two laws are
  what the synchronisation loop needs: the next block is appended, and an old one changes nothing.
\<close>

locale chain_node =
  fixes accept :: "'s \<Rightarrow> 'b \<Rightarrow> ('u, 'e) outcome \<times> 's"
    and held :: "'s \<Rightarrow> 'b list"
    and ord_of :: "'b \<Rightarrow> nat"
    and good :: "'b \<Rightarrow> bool"
    and inv :: "'s \<Rightarrow> bool"
    and done_val :: 'u
  assumes accept_next: "inv s \<Longrightarrow> good b \<Longrightarrow> ord_of b = length (held s) \<Longrightarrow>
        \<exists>s1. accept s b = (Ok done_val, s1) \<and> held s1 = held s @ [b] \<and> inv s1"
    and accept_old: "inv s \<Longrightarrow> good b \<Longrightarrow> ord_of b < length (held s) \<Longrightarrow> accept s b = (Ok done_val, s)"
begin

fun accept_all :: "'b list \<Rightarrow> 's \<Rightarrow> ('u, 'e) outcome \<times> 's" where
  "accept_all [] s = (Ok done_val, s)"
| "accept_all (b # bs) s = sbind (accept s b) (\<lambda>_ s1. accept_all bs s1)"

lemma accept_all_new:
  assumes "inv s" and "\<forall>i < length bs. good (bs ! i) \<and> ord_of (bs ! i) = length (held s) + i"
  shows "\<exists>s1. accept_all bs s = (Ok done_val, s1) \<and> held s1 = held s @ bs \<and> inv s1"
  using assms
proof (induction bs arbitrary: s)
  case Nil
  then show ?case by simp
next
  case (Cons b bs)
  have "good b" "ord_of b = length (held s)"
    using Cons.prems(2)[rule_format, of 0] by auto
  then obtain s1 where s1: "accept s b = (Ok done_val, s1)" "held s1 = held s @ [b]" "inv s1"
    using accept_next Cons.prems(1) by blast
  have "\<forall>i < length bs. good (bs ! i) \<and> ord_of (bs ! i) = length (held s1) + i"
    using Cons.prems(2)[rule_format, of "Suc _"] s1(2) by auto
  then obtain s2 where "accept_all bs s1 = (Ok done_val, s2)" "held s2 = held s1 @ bs" "inv s2"
    using Cons.IH s1(3) by blast
  with s1 show ?case by simp
qed

lemma accept_all_old:
  assumes "inv s" and "\<forall>b \<in> set bs. good b \<and> ord_of b < length (held s)"
  shows "accept_all bs s = (Ok done_val, s)"
  using assms by (induction bs) (auto simp: accept_old)

lemma accept_all_append:
  "accept_all (xs @ ys) s = sbind (accept_all xs s) (\<lambda>_ s1. accept_all ys s1)"
proof (induction xs arbitrary: s)
  case Nil
  then show ?case by simp
next
  case (Cons x xs)
  obtain m t where "accept s x = (m, t)" by force
  with Cons show ?case by (cases m) simp_all
qed

text \<open>
  Synchronisation: a node that holds a prefix of a peer's sequence, sent that sequence from its
  start, ends up with all of it.
\<close>

lemma accept_all_catches_up:
  assumes "inv s" and "held s = take k bs" and "k \<le> length bs"
    and "\<forall>i < length bs. good (bs ! i) \<and> ord_of (bs ! i) = i"
  shows "\<exists>s1. accept_all bs s = (Ok done_val, s1) \<and> held s1 = bs \<and> inv s1"
proof -
  have len: "length (held s) = k" using assms(2,3) by simp
  have "accept_all (take k bs) s = (Ok done_val, s)"
    using assms(3,4) len by (intro accept_all_old[OF assms(1)]) (auto simp: in_set_conv_nth)
  moreover have "\<exists>s1. accept_all (drop k bs) s = (Ok done_val, s1) \<and> held s1 = held s @ drop k bs \<and> inv s1"
    using assms(3,4) len by (intro accept_all_new[OF assms(1)]) auto
  ultimately show ?thesis
    using accept_all_append[of "take k bs" "drop k bs" s] assms(2) by auto
qed

end

section \<open>The service keeps the interface\<close>

lemma update_from_peers_chain:
  "update_from_peers env b s = (res, s1) \<Longrightarrow> chain_of s1 = Chain_add_block (chain_of s) b
    \<and> blockchain_path (blockchain (service s1)) = blockchain_path (blockchain (service s))
    \<and> gossiped s1 = gossiped s"
  by (auto simp: update_from_peers_def Blockchain_update_block_from_peers_def Let_def
      dest: commit_chain split: prod.splits)

lemma update_from_peers_next:
  assumes "service_wf env s" and "env_reliable env"
    and "unat (ordinal (header b)) = Chain_len (chain_of s)" and "block_codec_ok (env_bincode env) b"
  obtains s1 where "update_from_peers env b s = (Ok (), s1)" "service_wf env s1"
proof -
  obtain d1 where d1: "Blockchain_commit_block (env_bincode env) (env_io env) (blockchain (service s)) b
         (cs_disk s)
       = (Ok (), (blockchain (service s))\<lparr>bc_chain := Chain_add_block (chain_of s) b\<rparr>, d1)"
      "persisted (env_bincode env) (blockchain_path (blockchain (service s)))
         (Chain_add_block (chain_of s) b) d1"
    using assms by (auto simp: service_wf_def env_reliable_def elim: commit_persists)
  show thesis
    by (rule that[of "s\<lparr>service := (service s)\<lparr>blockchain := (blockchain (service s))
          \<lparr>bc_chain := Chain_add_block (chain_of s) b\<rparr>\<rparr>, cs_disk := d1\<rparr>"])
       (use assms(1,3) d1 in \<open>simp_all add: update_from_peers_def Let_def service_wf_def
          Blockchain_update_block_from_peers_def Chain_len_def\<close>)
qed

lemma add_block_next:
  assumes "service_wf env s" and "unat n = Chain_len (chain_of s)"
  shows "BlockchainService_add_block env n b s = update_from_peers env b s"
proof (cases "chain_blocks (chain_of s) = []")
  case True
  then show ?thesis using assms(2)
    by (simp add: BlockchainService_add_block_def Blockchain_last_block_def Chain_last_block_def
        Chain_len_def unat_eq_0)
next
  case False
  have "Chain_len (chain_of s) < 2 ^ 128"
    using assms(2) unsigned_less[of n, where 'a=nat] by simp
  then have "unat (ordinal (header (last (chain_blocks (chain_of s)))) + 1) = unat n"
    using next_ordinal False assms by (simp add: service_wf_def)
  then have "ordinal (header (last (chain_blocks (chain_of s)))) + 1 = n"
    by (simp add: word_unat_eq_iff)
  then show ?thesis using False
    by (simp add: BlockchainService_add_block_def Blockchain_last_block_def Chain_last_block_def
        Let_def)
qed

lemma add_block_old:
  assumes "service_wf env s" and "unat n < Chain_len (chain_of s)" and "Chain_len (chain_of s) < 2 ^ 128"
  shows "BlockchainService_add_block env n b s = (Ok (), s)"
proof -
  have ne: "chain_blocks (chain_of s) \<noteq> []" using assms(2) by (auto simp: Chain_len_def)
  have "n < ordinal (header (last (chain_blocks (chain_of s)))) + 1"
    using next_ordinal[OF _ ne assms(3)] assms by (simp add: service_wf_def word_less_nat_alt)
  with ne show ?thesis
    by (auto simp: BlockchainService_add_block_def Blockchain_last_block_def Chain_last_block_def
        Let_def dest: less_not_sym)
qed

abbreviation own_accept :: "chain_env \<Rightarrow> chain_state \<Rightarrow> Block
      \<Rightarrow> (unit, BlockchainError) outcome \<times> chain_state" where
  "own_accept env s b \<equiv> BlockchainService_add_block env (ordinal (header b)) b s"

text \<open>
  Blocks that bincode reads back and whose ordinal leaves room for a successor, on a machine whose
  disk takes writes. Where the environment is not reliable no block is promised anything.
\<close>

definition sync_good :: "chain_env \<Rightarrow> Block \<Rightarrow> bool" where
  "sync_good env b \<longleftrightarrow> env_reliable env \<and> block_codec_ok (env_bincode env) b \<and>
     unat (ordinal (header b)) < 2 ^ 128 - 1"

definition sync_inv :: "chain_env \<Rightarrow> chain_state \<Rightarrow> bool" where
  "sync_inv env s \<longleftrightarrow> service_wf env s \<and> Chain_len (chain_of s) < 2 ^ 128"

interpretation sync: chain_node "own_accept env" "\<lambda>s. chain_blocks (chain_of s)"
    "\<lambda>b. unat (ordinal (header b))" "sync_good env" "sync_inv env" "()"
  for env
proof unfold_locales
  fix s b
  assume inv: "sync_inv env s" and good: "sync_good env b"
    and ord: "unat (ordinal (header b)) = length (chain_blocks (chain_of s))"
  have wf: "service_wf env s" and len: "unat (ordinal (header b)) = Chain_len (chain_of s)"
    using inv ord by (simp_all add: sync_inv_def Chain_len_def)
  obtain s1 where s1: "update_from_peers env b s = (Ok (), s1)" "service_wf env s1"
    using update_from_peers_next[OF wf _ len] good by (auto simp: sync_good_def)
  moreover have "chain_of s1 = Chain_add_block (chain_of s) b"
    using update_from_peers_chain s1(1) by blast
  ultimately show "\<exists>s1. own_accept env s b = (Ok (), s1) \<and>
      chain_blocks (chain_of s1) = chain_blocks (chain_of s) @ [b] \<and> sync_inv env s1"
    using add_block_next[OF wf len] good len by (simp add: sync_inv_def sync_good_def Chain_len_def)
next
  fix s :: chain_state and b :: Block
  assume "sync_inv env s" and "unat (ordinal (header b)) < length (chain_blocks (chain_of s))"
  then show "own_accept env s b = (Ok (), s)"
    by (intro add_block_old) (auto simp: sync_inv_def Chain_len_def)
qed

lemma add_blocks_accept_all: "add_blocks env bs = sync.accept_all env bs"
proof (induction bs)
  case Nil
  show ?case by (rule ext) simp
next
  case (Cons b bs)
  show ?case by (rule ext) (simp add: Cons.IH)
qed

end
