(* ===== verification/Transparency_Log.thy ===== *)
theory Transparency_Log
  imports Blockchain_Service "HOL-Library.Multiset"
begin

text \<open>
  The transparency log service (\<^verbatim>\<open>src/src/transparency_log/log.rs\<close>, \<^verbatim>\<open>artifact_service/model.rs\<close>).
  The table is a list of rows of SQLite values; the database engine, \<^verbatim>\<open>serde_json\<close> and the text form
  of peer ids are arguments, with their documented behaviour as the predicates \<open>sqlite_laws\<close>,
  \<open>json_laws\<close> and \<open>peer_text_laws\<close>. The rows are written and read column by column as the code does,
  and the queries are the texts that the code puts together.
\<close>

section \<open>Package types and operations\<close>

datatype PackageType = Docker | Maven2

fun PackageType_to_string :: "PackageType \<Rightarrow> string" where
  "PackageType_to_string Docker = ''Docker''"
| "PackageType_to_string Maven2 = ''Maven2''"

definition PackageType_from_str :: "string \<Rightarrow> PackageType option" where
  "PackageType_from_str s =
     (if s = ''Docker'' then Some Docker else if s = ''Maven2'' then Some Maven2 else None)"

datatype Operation = AddArtifact | RemoveArtifact | AddNode | RemoveNode

fun Operation_to_string :: "Operation \<Rightarrow> string" where
  "Operation_to_string AddArtifact = ''AddArtifact''"
| "Operation_to_string RemoveArtifact = ''RemoveArtifact''"
| "Operation_to_string AddNode = ''AddNode''"
| "Operation_to_string RemoveNode = ''RemoveNode''"

definition Operation_from_str :: "string \<Rightarrow> Operation option" where
  "Operation_from_str s =
     (if s = ''AddArtifact'' then Some AddArtifact
      else if s = ''RemoveArtifact'' then Some RemoveArtifact
      else if s = ''AddNode'' then Some AddNode
      else if s = ''RemoveNode'' then Some RemoveNode else None)"

section \<open>Records and errors\<close>

record TransparencyLog =
  log_id :: string
  package_type :: "PackageType option"
  package_specific_id :: string
  num_artifacts :: u32
  package_specific_artifact_id :: string
  artifact_hash :: string
  source_hash :: string
  artifact_id :: string
  source_id :: string
  timestamp :: u64
  operation :: Operation
  node_id :: string
  node_public_key :: string

record AddArtifactRequest =
  req_package_type :: PackageType
  req_package_specific_id :: string
  req_num_artifacts :: u32
  req_package_specific_artifact_id :: string
  req_artifact_hash :: string

datatype TransparencyLogError =
    LogNotFound string
  | ArtifactNotFound PackageType string
  | LogArtifactAlreadyExists PackageType string
  | ArtifactLogIsNotConsistentState PackageType string u32 u32
  | NodeAlreadyExists string
  | NodeDoesNotExistOrRemoved string
  | InvalidHash string string string
  | InvalidNodePeerIDFormat
  | InvalidOperation string Operation
  | DatabaseFailure string
  | StorageFailure io_error
  | BlockchainFailure BlockchainError
  | SerdeJsonFailure

text \<open>The values \<^verbatim>\<open>Uuid::new_v4\<close> and the clock give to one call.\<close>

record fresh =
  uuid_id :: string
  uuid_artifact :: string
  uuid_source :: string
  uuid_node :: string
  uuid_key :: string
  now_secs :: u64

section \<open>The database\<close>

datatype sql_value = SqlNull | SqlInteger int | SqlReal | SqlText string | SqlBlob bytes

type_synonym row = "sql_value list"
type_synonym table = "row list"

datatype column = Col_id | Col_package_type | Col_package_specific_id | Col_num_artifacts
  | Col_package_specific_artifact_id | Col_artifact_hash | Col_source_hash | Col_artifact_id
  | Col_source_id | Col_timestamp | Col_operation | Col_node_id | Col_node_public_key

fun column_index :: "column \<Rightarrow> nat" where
  "column_index Col_id = 0"
| "column_index Col_package_type = 1"
| "column_index Col_package_specific_id = 2"
| "column_index Col_num_artifacts = 3"
| "column_index Col_package_specific_artifact_id = 4"
| "column_index Col_artifact_hash = 5"
| "column_index Col_source_hash = 6"
| "column_index Col_artifact_id = 7"
| "column_index Col_source_id = 8"
| "column_index Col_timestamp = 9"
| "column_index Col_operation = 10"
| "column_index Col_node_id = 11"
| "column_index Col_node_public_key = 12"

record sqlite =
  sql_open :: "table \<Rightarrow> (unit, string) outcome"
  sql_insert :: "table \<Rightarrow> row \<Rightarrow> (table, string) outcome"
  sql_query :: "table \<Rightarrow> string \<Rightarrow> (row list, string) outcome"

record json =
  json_to_string :: "TransparencyLog \<Rightarrow> string option"
  json_from_slice :: "bytes \<Rightarrow> TransparencyLog option"

record peer_text =
  peer_to_string :: "PeerId \<Rightarrow> string"
  peer_from_str :: "string \<Rightarrow> PeerId option"

section \<open>Rows\<close>

definition u64_to_sql :: "u64 \<Rightarrow> sql_value option" where
  "u64_to_sql n = (if uint n < 2 ^ 63 then Some (SqlInteger (uint n)) else None)"

definition log_to_row :: "TransparencyLog \<Rightarrow> row option" where
  "log_to_row l = map_option (\<lambda>ts.
     [SqlText (log_id l),
      (case package_type l of Some pt \<Rightarrow> SqlText (PackageType_to_string pt) | None \<Rightarrow> SqlNull),
      SqlText (package_specific_id l),
      SqlInteger (uint (num_artifacts l)),
      SqlText (package_specific_artifact_id l),
      SqlText (artifact_hash l),
      SqlText (source_hash l),
      SqlText (artifact_id l),
      SqlText (source_id l),
      ts,
      SqlText (Operation_to_string (operation l)),
      SqlText (node_id l),
      SqlText (node_public_key l)]) (u64_to_sql (timestamp l))"

definition get_value :: "nat \<Rightarrow> row \<Rightarrow> (sql_value, TransparencyLogError) outcome" where
  "get_value i r = (if i < length r then Ok (r ! i) else Err (DatabaseFailure ''InvalidColumnIndex''))"

fun value_text :: "sql_value \<Rightarrow> (string, TransparencyLogError) outcome" where
  "value_text (SqlText s) = Ok s"
| "value_text _ = Err (DatabaseFailure ''InvalidColumnType'')"

fun value_unsigned :: "nat \<Rightarrow> sql_value \<Rightarrow> (nat, TransparencyLogError) outcome" where
  "value_unsigned w (SqlInteger i) =
     (if 0 \<le> i \<and> i < 2 ^ w then Ok (nat i) else Err (DatabaseFailure ''IntegralValueOutOfRange''))"
| "value_unsigned w _ = Err (DatabaseFailure ''InvalidColumnType'')"

fun value_package_type :: "sql_value \<Rightarrow> (PackageType option, TransparencyLogError) outcome" where
  "value_package_type (SqlText s) = map_ok Some (unwrap ''PackageType::from_str'' (PackageType_from_str s))"
| "value_package_type SqlNull = Ok None"
| "value_package_type _ = Err (DatabaseFailure ''InvalidColumnType'')"

definition row_to_log :: "row \<Rightarrow> (TransparencyLog, TransparencyLogError) outcome" where
  "row_to_log r =
     rbind (rbind (get_value 0 r) value_text) (\<lambda>c0.
     rbind (rbind (get_value 1 r) value_package_type) (\<lambda>c1.
     rbind (rbind (get_value 2 r) value_text) (\<lambda>c2.
     rbind (rbind (get_value 3 r) (value_unsigned 32)) (\<lambda>c3.
     rbind (rbind (get_value 4 r) value_text) (\<lambda>c4.
     rbind (rbind (get_value 5 r) value_text) (\<lambda>c5.
     rbind (rbind (get_value 6 r) value_text) (\<lambda>c6.
     rbind (rbind (get_value 7 r) value_text) (\<lambda>c7.
     rbind (rbind (get_value 8 r) value_text) (\<lambda>c8.
     rbind (rbind (get_value 9 r) (value_unsigned 63)) (\<lambda>c9.
     rbind (rbind (rbind (get_value 10 r) value_text)
              (\<lambda>s. unwrap ''Operation::from_str'' (Operation_from_str s))) (\<lambda>c10.
     rbind (rbind (get_value 11 r) value_text) (\<lambda>c11.
     rbind (rbind (get_value 12 r) value_text) (\<lambda>c12.
       Ok \<lparr>log_id = c0, package_type = c1, package_specific_id = c2, num_artifacts = of_nat c3,
           package_specific_artifact_id = c4, artifact_hash = c5, source_hash = c6,
           artifact_id = c7, source_id = c8, timestamp = of_nat c9, operation = c10,
           node_id = c11, node_public_key = c12\<rparr>)))))))))))))"

fun collect_rows :: "row list \<Rightarrow> (TransparencyLog list, TransparencyLogError) outcome" where
  "collect_rows [] = Ok []"
| "collect_rows (r # rs) = rbind (row_to_log r) (\<lambda>l. rbind (collect_rows rs) (\<lambda>ls. Ok (l # ls)))"

section \<open>The text of the queries\<close>

text \<open>A value goes into the text between quotes and as it is; \<open>newline n\<close> starts a line that is indented by \<open>n\<close>.\<close>

definition quoted :: "string \<Rightarrow> string" where
  "quoted s = CHR 0x27 # s @ [CHR 0x27]"

definition newline :: "nat \<Rightarrow> string" where
  "newline n = CHR 0x0A # replicate n (CHR 0x20)"

definition find_log_text :: "string \<Rightarrow> string" where
  "find_log_text i = ''SELECT * FROM TRANSPARENCYLOG WHERE id = '' @ quoted i @ '';''"

definition artifact_text :: "PackageType \<Rightarrow> string \<Rightarrow> string" where
  "artifact_text pt art =
     ''SELECT * FROM TRANSPARENCYLOG WHERE package_type = '' @ quoted (PackageType_to_string pt) @
     '' AND package_specific_artifact_id = '' @ quoted art @ '';''"

definition last_record_text :: "PackageType \<Rightarrow> string \<Rightarrow> string" where
  "last_record_text pt psid =
     ''SELECT * FROM TRANSPARENCYLOG'' @ newline 12 @
     ''WHERE operation in ('' @ quoted (Operation_to_string AddArtifact) @ '', '' @
     quoted (Operation_to_string RemoveArtifact) @ '') and package_type = '' @ quoted (PackageType_to_string pt) @
     '' and package_specific_id = '' @ quoted psid @ newline 12 @ ''ORDER BY timestamp DESC LIMIT 1''"

definition other_records_text :: "PackageType \<Rightarrow> string \<Rightarrow> string \<Rightarrow> nat \<Rightarrow> string" where
  "other_records_text pt psid i n =
     ''SELECT * FROM TRANSPARENCYLOG'' @ newline 20 @
     ''WHERE operation = '' @ quoted (Operation_to_string AddArtifact) @ '' and package_type = '' @
     quoted (PackageType_to_string pt) @ '' and'' @ newline 20 @
     ''package_specific_id = '' @ quoted psid @ '' and id != '' @ quoted i @ newline 20 @
     ''ORDER BY timestamp DESC LIMIT '' @ show_nat n"

definition all_records_text :: "PackageType \<Rightarrow> string \<Rightarrow> string" where
  "all_records_text pt psid =
     ''SELECT *'' @ newline 12 @ ''FROM TRANSPARENCYLOG'' @ newline 12 @
     ''WHERE operation in ('' @ quoted (Operation_to_string AddArtifact) @ '', '' @
     quoted (Operation_to_string RemoveArtifact) @ '') and package_type = '' @ quoted (PackageType_to_string pt) @
     '' and package_specific_id = '' @ quoted psid @ newline 12 @ ''ORDER BY timestamp ASC''"

definition added_nodes_text :: string where
  "added_nodes_text =
     ''SELECT * FROM ('' @ newline 14 @ ''SELECT'' @ newline 15 @ ''id, package_type, package_specific_id,'' @ newline 15 @
     ''num_artifacts, package_specific_artifact_id, artifact_hash, source_hash, artifact_id,'' @ newline 15 @
     ''source_id, max(timestamp), operation, node_id, node_public_key'' @ newline 14 @
     ''FROM TRANSPARENCYLOG'' @ newline 14 @
     ''WHERE operation = '' @ quoted (Operation_to_string AddNode) @ '' or operation = '' @
     quoted (Operation_to_string RemoveNode) @ newline 14 @ ''GROUP BY node_id'' @ newline 12 @
     '') WHERE operation = '' @ quoted (Operation_to_string AddNode)"

definition node_operation_text :: "string \<Rightarrow> string" where
  "node_operation_text peer =
     ''SELECT'' @ newline 14 @ ''operation'' @ newline 12 @ ''FROM TRANSPARENCYLOG'' @ newline 12 @
     ''WHERE (operation = '' @ quoted (Operation_to_string AddNode) @ '' or operation = '' @
     quoted (Operation_to_string RemoveNode) @ '') and node_id = '' @ quoted peer @ newline 12 @
     ''ORDER BY timestamp DESC limit 1''"

section \<open>The service\<close>

text \<open>
  What a node with a transparency log runs on, and its state. \<open>env_rng n\<close> is what the clock and the
  random generator give while block \<open>n\<close> is made; \<open>env_loop_alive\<close> says whether the blockchain event
  loop still receives, and \<open>env_log_dir\<close> what \<^verbatim>\<open>create_dir_all\<close> answers for the log directory.
\<close>

record log_env =
  le_chain :: chain_env
  le_net :: p2p
  le_sql :: sqlite
  le_json :: json
  le_peer :: peer_text
  env_rng :: "nat \<Rightarrow> entropy"
  env_loop_alive :: bool
  env_log_dir :: "io_error option"

record log_state =
  ls_chain :: chain_state
  ls_table :: table

text \<open>\<^verbatim>\<open>BlockchainEventClient::add_block\<close>: the event loop runs \<^verbatim>\<open>add_payload\<close> and answers.\<close>

definition BlockchainEventClient_add_block ::
    "log_env \<Rightarrow> bytes \<Rightarrow> log_state \<Rightarrow> (unit, BlockchainError) outcome \<times> log_state" where
  "BlockchainEventClient_add_block e payload s =
     (if env_loop_alive e then
        (let (res, c1) = add_payload (le_chain e) (le_net e)
               (env_rng e (Chain_len (chain_of (ls_chain s)))) payload (ls_chain s)
         in (awaited ChannelClosed res, s\<lparr>ls_chain := c1\<rparr>))
      else (Err ChannelClosed, s))"

definition TransparencyLog_from :: "fresh \<Rightarrow> AddArtifactRequest \<Rightarrow> TransparencyLog" where
  "TransparencyLog_from f q =
     \<lparr>log_id = uuid_id f, package_type = Some (req_package_type q),
      package_specific_id = req_package_specific_id q, num_artifacts = req_num_artifacts q,
      package_specific_artifact_id = req_package_specific_artifact_id q,
      artifact_hash = req_artifact_hash q, source_hash = [], artifact_id = uuid_artifact f,
      source_id = uuid_source f, timestamp = now_secs f, operation = AddArtifact,
      node_id = uuid_node f, node_public_key = uuid_key f\<rparr>"

definition open_db :: "log_env \<Rightarrow> log_state \<Rightarrow> (unit, TransparencyLogError) outcome" where
  "open_db e s =
     (case env_log_dir e of
        Some err \<Rightarrow> Err (StorageFailure err)
      | None \<Rightarrow> map_err DatabaseFailure (sql_open (le_sql e) (ls_table s)))"

definition process_query ::
    "log_env \<Rightarrow> string \<Rightarrow> log_state \<Rightarrow> (TransparencyLog list, TransparencyLogError) outcome" where
  "process_query e q s =
     rbind (open_db e s) (\<lambda>_.
     rbind (map_err DatabaseFailure (sql_query (le_sql e) (ls_table s) q)) collect_rows)"

definition find_transparency_log ::
    "log_env \<Rightarrow> string \<Rightarrow> log_state \<Rightarrow> (TransparencyLog, TransparencyLogError) outcome" where
  "find_transparency_log e i s =
     rbind (process_query e (find_log_text i) s) (\<lambda>results.
       case results of [l] \<Rightarrow> Ok l | _ \<Rightarrow> Err (LogNotFound i))"

definition write_transparency_log ::
    "log_env \<Rightarrow> TransparencyLog \<Rightarrow> log_state
      \<Rightarrow> (unit, TransparencyLogError) outcome \<times> log_state" where
  "write_transparency_log e l s =
     sbind (open_db e s, s) (\<lambda>_ s.
       case log_to_row l of
         None \<Rightarrow> (Err (DatabaseFailure ''ToSqlConversionFailure''), s)
       | Some r \<Rightarrow>
         (case sql_insert (le_sql e) (ls_table s) r of
            Ok t1 \<Rightarrow> (Ok (), s\<lparr>ls_table := t1\<rparr>)
          | Err m \<Rightarrow> (Err (DatabaseFailure m), s)
          | Panic m \<Rightarrow> (Panic m, s)))"

definition read_transparency_log ::
    "log_env \<Rightarrow> PackageType \<Rightarrow> string \<Rightarrow> log_state
      \<Rightarrow> (TransparencyLog, TransparencyLogError) outcome" where
  "read_transparency_log e pt art s =
     rbind (process_query e (artifact_text pt art) s)
       (\<lambda>results.
         let vector = sort_key timestamp
               (filter (\<lambda>l. operation l = AddArtifact \<or> operation l = RemoveArtifact) results)
         in case vector of
              [] \<Rightarrow> Err (ArtifactNotFound pt art)
            | latest_record # _ \<Rightarrow>
              if operation latest_record = RemoveArtifact
              then Err (InvalidOperation (log_id latest_record) (operation latest_record))
              else Ok latest_record)"

text \<open>The loop that appends the records of the second query, all of which must be \<^verbatim>\<open>AddArtifact\<close>.\<close>

definition len_u32 :: "'a list \<Rightarrow> (u32, TransparencyLogError) outcome" where
  "len_u32 xs = (if length xs < 2 ^ 32 then Ok (of_nat (length xs)) else Panic ''to_u32'')"

fun append_added ::
    "PackageType \<Rightarrow> string \<Rightarrow> u32 \<Rightarrow> TransparencyLog list \<Rightarrow> TransparencyLog list
      \<Rightarrow> (TransparencyLog list, TransparencyLogError) outcome" where
  "append_added pt psid n res [] = Ok res"
| "append_added pt psid n res (l # ls) =
     (if operation l \<noteq> AddArtifact
      then rbind (len_u32 res) (\<lambda>a. Err (ArtifactLogIsNotConsistentState pt psid n a))
      else append_added pt psid n (res @ [l]) ls)"

definition read_last_transparency_log ::
    "log_env \<Rightarrow> PackageType \<Rightarrow> string \<Rightarrow> log_state
      \<Rightarrow> (TransparencyLog list, TransparencyLogError) outcome" where
  "read_last_transparency_log e pt psid s =
     rbind (process_query e (last_record_text pt psid) s)
       (\<lambda>res. case res of
          [] \<Rightarrow> Ok res
        | log # _ \<Rightarrow>
          (let n = num_artifacts log in
           if operation log = AddArtifact \<and> n > 1 then
             rbind (process_query e (other_records_text pt psid (log_id log) (unat (n - 1))) s)
               (\<lambda>second_res.
             rbind (append_added pt psid n res second_res) (\<lambda>res.
             rbind (len_u32 res) (\<lambda>actual.
               if actual \<noteq> n then Err (ArtifactLogIsNotConsistentState pt psid n actual)
               else Ok res)))
           else Ok res))"

definition read_transparency_logs ::
    "log_env \<Rightarrow> PackageType \<Rightarrow> string \<Rightarrow> log_state
      \<Rightarrow> (TransparencyLog list, TransparencyLogError) outcome" where
  "read_transparency_logs e pt psid s =
     process_query e (all_records_text pt psid) s"

definition find_added_nodes ::
    "log_env \<Rightarrow> log_state \<Rightarrow> (TransparencyLog list, TransparencyLogError) outcome" where
  "find_added_nodes e s =
     process_query e added_nodes_text s"

definition get_authorized_nodes ::
    "log_env \<Rightarrow> log_state \<Rightarrow> (PeerId list, TransparencyLogError) outcome" where
  "get_authorized_nodes e s =
     map_ok (List.map_filter (\<lambda>l. peer_from_str (le_peer e) (node_id l))) (find_added_nodes e s)"

text \<open>
  \<^verbatim>\<open>query_row\<close> takes the first row; no row, a failing query or a column of another type are all
  \<^verbatim>\<open>Err\<close>, which the code reads as absence.
\<close>

definition verify_node_does_not_exist ::
    "log_env \<Rightarrow> string \<Rightarrow> log_state \<Rightarrow> (unit, TransparencyLogError) outcome" where
  "verify_node_does_not_exist e peer s =
     rbind (open_db e s) (\<lambda>_.
       case sql_query (le_sql e) (ls_table s) (node_operation_text peer) of
         Ok ((SqlText val # _) # _) \<Rightarrow>
           if val = ''AddNode'' then Err (NodeAlreadyExists peer) else Ok ()
       | Panic m \<Rightarrow> Panic m
       | _ \<Rightarrow> Ok ())"

definition node_log :: "fresh \<Rightarrow> string \<Rightarrow> TransparencyLog" where
  "node_log f peer =
     \<lparr>log_id = uuid_id f, package_type = None, package_specific_id = [], num_artifacts = 0,
      package_specific_artifact_id = [], artifact_hash = [], source_hash = [], artifact_id = [],
      source_id = [], timestamp = now_secs f, operation = AddNode, node_id = peer,
      node_public_key = uuid_key f\<rparr>"

definition add_authorized_node ::
    "log_env \<Rightarrow> fresh \<Rightarrow> PeerId \<Rightarrow> log_state
      \<Rightarrow> (unit, TransparencyLogError) outcome \<times> log_state" where
  "add_authorized_node e f peer s =
     sbind (verify_node_does_not_exist e (peer_to_string (le_peer e) peer) s, s) (\<lambda>_ s.
       let l = node_log f (peer_to_string (le_peer e) peer) in
       case json_to_string (le_json e) l of
         None \<Rightarrow> (Err SerdeJsonFailure, s)
       | Some payload \<Rightarrow>
         (let (res, s1) = BlockchainEventClient_add_block e (as_bytes payload) s
          in sbind (map_err BlockchainFailure res, s1) (\<lambda>_ s2. write_transparency_log e l s2)))"

text \<open>What \<^verbatim>\<open>remove_authorized_node\<close> should do is not written yet: it only answers, and the state stays as it is.\<close>

definition remove_authorized_node ::
    "log_env \<Rightarrow> PeerId \<Rightarrow> log_state \<Rightarrow> (unit, TransparencyLogError) outcome \<times> log_state" where
  "remove_authorized_node e peer s =
     (case verify_node_does_not_exist e (peer_to_string (le_peer e) peer) s of
        Ok _ \<Rightarrow> Err (NodeDoesNotExistOrRemoved (peer_to_string (le_peer e) peer))
      | Err _ \<Rightarrow> Ok ()
      | Panic m \<Rightarrow> Panic m, s)"

definition log_add_artifact ::
    "log_env \<Rightarrow> fresh \<Rightarrow> AddArtifactRequest \<Rightarrow> log_state
      \<Rightarrow> (TransparencyLog \<times> string, TransparencyLogError) outcome \<times> log_state" where
  "log_add_artifact e f q s =
     (let l = TransparencyLog_from f q in
      case json_to_string (le_json e) l of
        None \<Rightarrow> (Err SerdeJsonFailure, s)
      | Some payload \<Rightarrow> sbind (write_transparency_log e l s) (\<lambda>_ s1. (Ok (l, payload), s1)))"

fun broadcast_artifacts ::
    "log_env \<Rightarrow> string list \<Rightarrow> log_state \<Rightarrow> (unit, TransparencyLogError) outcome \<times> log_state" where
  "broadcast_artifacts e [] s = (Ok (), s)"
| "broadcast_artifacts e (p # ps) s =
     (let (res, s1) = BlockchainEventClient_add_block e (as_bytes p) s
      in sbind (map_err BlockchainFailure res, s1) (\<lambda>_ s2. broadcast_artifacts e ps s2))"

definition write_if_not_exists ::
    "log_env \<Rightarrow> TransparencyLog \<Rightarrow> log_state
      \<Rightarrow> (unit, TransparencyLogError) outcome \<times> log_state" where
  "write_if_not_exists e l s =
     (case find_transparency_log e (log_id l) s of
        Err (LogNotFound _) \<Rightarrow> write_transparency_log e l s
      | Panic m \<Rightarrow> (Panic m, s)
      | _ \<Rightarrow> (Ok (), s))"

definition remove_artifact :: "PackageType \<Rightarrow> string \<Rightarrow> (unit, TransparencyLogError) outcome" where
  "remove_artifact pt psid = Ok ()"

definition log_get_artifact ::
    "log_env \<Rightarrow> PackageType \<Rightarrow> string \<Rightarrow> log_state
      \<Rightarrow> (TransparencyLog, TransparencyLogError) outcome" where
  "log_get_artifact e pt art s = read_transparency_log e pt art s"

definition search_transparency_logs ::
    "log_env \<Rightarrow> PackageType \<Rightarrow> string \<Rightarrow> bool \<Rightarrow> log_state
      \<Rightarrow> (TransparencyLog list, TransparencyLogError) outcome" where
  "search_transparency_logs e pt psid latest s =
     (if latest then read_last_transparency_log e pt psid s else read_transparency_logs e pt psid s)"

definition verify_package_can_be_added_to_transparency_logs ::
    "log_env \<Rightarrow> PackageType \<Rightarrow> string \<Rightarrow> log_state \<Rightarrow> (unit, TransparencyLogError) outcome" where
  "verify_package_can_be_added_to_transparency_logs e pt psid s =
     rbind (read_last_transparency_log e pt psid s) (\<lambda>res.
       case res of
         [] \<Rightarrow> Ok ()
       | log # _ \<Rightarrow> if operation log = AddArtifact then Err (LogArtifactAlreadyExists pt psid) else Ok ())"

end
