(* ===== verification/Sql_Text.thy ===== *)
theory Sql_Text
  imports Transparency_Log
begin

text \<open>
  How the texts of the queries in \<^verbatim>\<open>src/src/transparency_log/log.rs\<close> read as SQL: \<open>sql_tokens\<close> splits a text
  into words, string literals and signs, and \<open>sql_parse\<close> reads the part of the language that the code
  uses. The code puts ids into the text between quotes and does not escape them: an id without a quote
  gives the query that the code means (the lemmas \<open>parse_\<dots>_text\<close>), and an id with quotes can give another
  one (\<open>parse_artifact_text_injected\<close>). Of a text that \<open>sql_parse\<close> does not read nothing is assumed.
\<close>

section \<open>Queries\<close>

datatype cond =
    Eq column string
  | Ne column string
  | In column "string list"
  | LitEq string string
  | And cond cond
  | Or cond cond

datatype order = ByTimestampAsc | ByTimestampDesc

text \<open>
  \<open>Select cols c ord lim\<close> is the plain form; \<open>None\<close> as columns is \<^verbatim>\<open>*\<close>. \<open>SelectLatestPerNode inner outer\<close> is the
  nested query of \<^verbatim>\<open>find_added_nodes\<close>, with its \<^verbatim>\<open>max(timestamp)\<close> and \<^verbatim>\<open>GROUP BY node_id\<close>.
\<close>

datatype query =
    Select "column list option" cond "order option" "nat option"
  | SelectLatestPerNode cond cond

section \<open>Tokens\<close>

datatype token = Word string | Lit string | NotEqual | Sign char

definition sql_space :: "char \<Rightarrow> bool" where
  "sql_space c \<longleftrightarrow> c = CHR 0x20 \<or> c = CHR 0x09 \<or> c = CHR 0x0A \<or> c = CHR 0x0D"

definition sql_word :: "char \<Rightarrow> bool" where
  "sql_word c \<longleftrightarrow> is_digit c \<or> 65 \<le> (of_char c :: nat) \<and> (of_char c :: nat) \<le> 90 \<or>
     97 \<le> (of_char c :: nat) \<and> (of_char c :: nat) \<le> 122 \<or> c = CHR ''_''"

text \<open>Words do not depend on case.\<close>

definition upper_char :: "char \<Rightarrow> char" where
  "upper_char c = (let n = of_char c :: nat in if 97 \<le> n \<and> n \<le> 122 then char_of (n - 32) else c)"

text \<open>The state of the scanner: what the last characters began, and whether the text is broken by a \<^verbatim>\<open>NUL\<close>.\<close>

datatype scan = Blank | InWord string | InLit string | AfterLit string | AfterBang | Broken

definition scan_start :: "char \<Rightarrow> token list \<Rightarrow> scan \<times> token list" where
  "scan_start c ts =
     (if c = CHR 0x00 then (Broken, ts)
      else if sql_space c then (Blank, ts)
      else if c = CHR 0x27 then (InLit [], ts)
      else if sql_word c then (InWord [upper_char c], ts)
      else if c = CHR ''!'' then (AfterBang, ts)
      else (Blank, ts @ [Sign c]))"

text \<open>Two quotes in a literal stand for one.\<close>

fun scan_step :: "char \<Rightarrow> scan \<times> token list \<Rightarrow> scan \<times> token list" where
  "scan_step c (Blank, ts) = scan_start c ts"
| "scan_step c (InWord w, ts) =
     (if sql_word c then (InWord (w @ [upper_char c]), ts) else scan_start c (ts @ [Word w]))"
| "scan_step c (InLit l, ts) =
     (if c = CHR 0x00 then (Broken, ts)
      else if c = CHR 0x27 then (AfterLit l, ts)
      else (InLit (l @ [c]), ts))"
| "scan_step c (AfterLit l, ts) =
     (if c = CHR 0x27 then (InLit (l @ [c]), ts) else scan_start c (ts @ [Lit l]))"
| "scan_step c (AfterBang, ts) =
     (if c = CHR ''='' then (Blank, ts @ [NotEqual]) else scan_start c (ts @ [Sign (CHR ''!'')]))"
| "scan_step c (Broken, ts) = (Broken, ts)"

fun scan_end :: "scan \<times> token list \<Rightarrow> token list option" where
  "scan_end (Blank, ts) = Some ts"
| "scan_end (InWord w, ts) = Some (ts @ [Word w])"
| "scan_end (InLit l, ts) = None"
| "scan_end (AfterLit l, ts) = Some (ts @ [Lit l])"
| "scan_end (AfterBang, ts) = Some (ts @ [Sign (CHR ''!'')])"
| "scan_end (Broken, ts) = None"

definition scan_from :: "scan \<times> token list \<Rightarrow> string \<Rightarrow> scan \<times> token list" where
  "scan_from st s = fold scan_step s st"

definition sql_tokens :: "string \<Rightarrow> token list option" where
  "sql_tokens s = scan_end (scan_from (Blank, []) s)"

section \<open>Reading the tokens\<close>

fun column_name :: "column \<Rightarrow> string" where
  "column_name Col_id = ''ID''"
| "column_name Col_package_type = ''PACKAGE_TYPE''"
| "column_name Col_package_specific_id = ''PACKAGE_SPECIFIC_ID''"
| "column_name Col_num_artifacts = ''NUM_ARTIFACTS''"
| "column_name Col_package_specific_artifact_id = ''PACKAGE_SPECIFIC_ARTIFACT_ID''"
| "column_name Col_artifact_hash = ''ARTIFACT_HASH''"
| "column_name Col_source_hash = ''SOURCE_HASH''"
| "column_name Col_artifact_id = ''ARTIFACT_ID''"
| "column_name Col_source_id = ''SOURCE_ID''"
| "column_name Col_timestamp = ''TIMESTAMP''"
| "column_name Col_operation = ''OPERATION''"
| "column_name Col_node_id = ''NODE_ID''"
| "column_name Col_node_public_key = ''NODE_PUBLIC_KEY''"

text \<open>
  The columns with text, which is all that conditions of the code compare with literals: SQLite converts
  a literal that is compared with a column of integers.
\<close>

definition text_columns :: "column list" where
  "text_columns = [Col_id, Col_package_type, Col_package_specific_id, Col_package_specific_artifact_id,
     Col_artifact_hash, Col_source_hash, Col_artifact_id, Col_source_id, Col_operation, Col_node_id,
     Col_node_public_key]"

definition text_column :: "string \<Rightarrow> column option" where
  "text_column w = List.find (\<lambda>c. column_name c = w) text_columns"

fun parse_literals :: "token list \<Rightarrow> (string list \<times> token list) option" where
  "parse_literals (Lit s # Sign d # ts) =
     (if d = CHR '','' then map_option (\<lambda>(ss, r). (s # ss, r)) (parse_literals ts)
      else if d = CHR '')'' then Some ([s], ts) else None)"
| "parse_literals _ = None"

fun parse_comparison :: "token list \<Rightarrow> (cond \<times> token list) option" where
  "parse_comparison (Word w # Sign d # Lit s # ts) =
     (if d = CHR ''='' then map_option (\<lambda>c. (Eq c s, ts)) (text_column w) else None)"
| "parse_comparison (Word w # NotEqual # Lit s # ts) = map_option (\<lambda>c. (Ne c s, ts)) (text_column w)"
| "parse_comparison (Word w # Word v # Sign d # ts) =
     (if v = ''IN'' \<and> d = CHR ''('' then
        (case text_column w of
           Some c \<Rightarrow> map_option (\<lambda>(ss, r). (In c ss, r)) (parse_literals ts)
         | None \<Rightarrow> None)
      else None)"
| "parse_comparison (Lit a # Sign d # Lit b # ts) = (if d = CHR ''='' then Some (LitEq a b, ts) else None)"
| "parse_comparison _ = None"

text \<open>
  \<^verbatim>\<open>AND\<close> binds closer than \<^verbatim>\<open>OR\<close>; both are read to the right. The first argument bounds the depth, and
  \<open>parse_cond\<close> takes enough (\<open>parse_cond_enough\<close>).
\<close>

fun parse_atom :: "nat \<Rightarrow> token list \<Rightarrow> (cond \<times> token list) option"
  and parse_and :: "nat \<Rightarrow> token list \<Rightarrow> (cond \<times> token list) option"
  and parse_or :: "nat \<Rightarrow> token list \<Rightarrow> (cond \<times> token list) option" where
  "parse_atom 0 ts = None"
| "parse_atom (Suc n) ts =
     (case ts of
        Sign d # r \<Rightarrow>
          if d = CHR ''('' then
            (case parse_or n r of
               Some (c, Sign d' # r') \<Rightarrow> if d' = CHR '')'' then Some (c, r') else None
             | _ \<Rightarrow> None)
          else None
      | _ \<Rightarrow> parse_comparison ts)"
| "parse_and 0 ts = None"
| "parse_and (Suc n) ts =
     (case parse_atom n ts of
        Some (c, Word w # r) \<Rightarrow>
          if w = ''AND'' then map_option (\<lambda>(c', r'). (And c c', r')) (parse_and n r) else Some (c, Word w # r)
      | x \<Rightarrow> x)"
| "parse_or 0 ts = None"
| "parse_or (Suc n) ts =
     (case parse_and n ts of
        Some (c, Word w # r) \<Rightarrow>
          if w = ''OR'' then map_option (\<lambda>(c', r'). (Or c c', r')) (parse_or n r) else Some (c, Word w # r)
      | x \<Rightarrow> x)"

definition parse_cond :: "token list \<Rightarrow> (cond \<times> token list) option" where
  "parse_cond ts = parse_or (3 * length ts + 3) ts"

text \<open>A text may end in a semicolon; a limit has to fit SQLite's integers.\<close>

definition at_end :: "token list \<Rightarrow> bool" where
  "at_end ts \<longleftrightarrow> ts = [] \<or> ts = [Sign (CHR '';'')]"

definition limit_bound :: nat where
  "limit_bound = 2 ^ 63"

fun parse_limit :: "token list \<Rightarrow> nat option option" where
  "parse_limit (Word a # Word n # ts) =
     (if a = ''LIMIT'' \<and> list_all is_digit n \<and> read_digits n < limit_bound \<and> at_end ts then Some (Some (read_digits n)) else None)"
| "parse_limit ts = (if at_end ts then Some None else None)"

fun parse_order :: "token list \<Rightarrow> (order option \<times> nat option) option" where
  "parse_order (Word a # Word b # Word c # Word d # ts) =
     (if [a, b, c] = [''ORDER'', ''BY'', ''TIMESTAMP''] \<and> d \<in> {''ASC'', ''DESC''} then
        map_option (Pair (Some (if d = ''ASC'' then ByTimestampAsc else ByTimestampDesc))) (parse_limit ts)
      else None)"
| "parse_order ts = map_option (Pair None) (parse_limit ts)"

definition parse_where :: "column list option \<Rightarrow> token list \<Rightarrow> query option" where
  "parse_where cols ts =
     (case parse_cond ts of
        Some (c, r) \<Rightarrow> map_option (\<lambda>(ord, lim). Select cols c ord lim) (parse_order r)
      | None \<Rightarrow> None)"

definition from_log :: "token list" where
  "from_log = [Word ''FROM'', Word ''TRANSPARENCYLOG'', Word ''WHERE'']"

text \<open>The columns of the nested query, and what stands between its two conditions.\<close>

definition latest_head :: "token list" where
  "latest_head = Word ''SELECT'' # concat (map (\<lambda>c. [Word (column_name c), Sign (CHR '','')])
       [Col_id, Col_package_type, Col_package_specific_id, Col_num_artifacts, Col_package_specific_artifact_id,
        Col_artifact_hash, Col_source_hash, Col_artifact_id, Col_source_id]) @
     [Word ''MAX'', Sign (CHR ''(''), Word (column_name Col_timestamp), Sign (CHR '')''), Sign (CHR '','')] @
     [Word (column_name Col_operation), Sign (CHR '',''), Word (column_name Col_node_id), Sign (CHR '',''),
      Word (column_name Col_node_public_key)] @ from_log"

definition latest_middle :: "token list" where
  "latest_middle = [Word ''GROUP'', Word ''BY'', Word (column_name Col_node_id), Sign (CHR '')''), Word ''WHERE'']"

definition strip :: "token list \<Rightarrow> token list \<Rightarrow> token list option" where
  "strip ps ts = (if take (length ps) ts = ps then Some (drop (length ps) ts) else None)"

definition parse_latest :: "token list \<Rightarrow> query option" where
  "parse_latest ts =
     (case parse_cond ts of
        Some (a, r) \<Rightarrow>
          (case strip latest_middle r of
             Some r' \<Rightarrow>
               (case parse_cond r' of
                  Some (b, r'') \<Rightarrow> if at_end r'' then Some (SelectLatestPerNode a b) else None
                | None \<Rightarrow> None)
           | None \<Rightarrow> None)
      | None \<Rightarrow> None)"

text \<open>All columns, one column of text, or the nested query.\<close>

definition parse_query :: "token list \<Rightarrow> query option" where
  "parse_query ts =
     (case strip (Word ''SELECT'' # Sign (CHR ''*'') # from_log) ts of
        Some r \<Rightarrow> parse_where None r
      | None \<Rightarrow>
        (case strip ([Word ''SELECT'', Sign (CHR ''*''), Word ''FROM'', Sign (CHR ''('')] @ latest_head) ts of
           Some r \<Rightarrow> parse_latest r
         | None \<Rightarrow>
           (case ts of
              Word s # Word w # r \<Rightarrow>
                (case (text_column w, strip from_log r) of
                   (Some c, Some r') \<Rightarrow> if s = ''SELECT'' then parse_where (Some [c]) r' else None
                 | _ \<Rightarrow> None)
            | _ \<Rightarrow> None)))"

definition sql_parse :: "string \<Rightarrow> query option" where
  "sql_parse s = Option.bind (sql_tokens s) parse_query"

section \<open>Enough fuel\<close>

lemma parse_literals_shorter: "parse_literals ts = Some (ss, r) \<Longrightarrow> length r < length ts"
  by (induction ts arbitrary: ss r rule: parse_literals.induct) (fastforce split: if_splits)+

lemma parse_comparison_shorter: "parse_comparison ts = Some (c, r) \<Longrightarrow> length r < length ts"
  by (cases ts rule: parse_comparison.cases)
     (auto dest: parse_literals_shorter split: if_splits option.splits)

lemma parse_shorter:
  "parse_atom n ts = Some (c, r) \<Longrightarrow> length r < length ts"
  "parse_and n ts = Some (c, r) \<Longrightarrow> length r < length ts"
  "parse_or n ts = Some (c, r) \<Longrightarrow> length r < length ts"
proof (induction n ts and n ts and n ts arbitrary: c r and c r and c r rule: parse_atom_parse_and_parse_or.induct)
  case (2 n ts)
  then show ?case
    by (fastforce dest: parse_comparison_shorter split: list.splits token.splits if_splits option.splits)
next
  case (4 n ts)
  then show ?case by (fastforce split: list.splits token.splits if_splits option.splits)
next
  case (6 n ts)
  then show ?case by (fastforce split: list.splits token.splits if_splits option.splits)
qed simp_all

text \<open>Each level needs one step, and a level below a parenthesis works on a shorter list.\<close>

lemma parse_stable:
  "(3 * length ts + 1 \<le> n \<longrightarrow> 3 * length ts + 1 \<le> m \<longrightarrow> parse_atom n ts = parse_atom m ts) \<and>
   (3 * length ts + 2 \<le> n \<longrightarrow> 3 * length ts + 2 \<le> m \<longrightarrow> parse_and n ts = parse_and m ts) \<and>
   (3 * length ts + 3 \<le> n \<longrightarrow> 3 * length ts + 3 \<le> m \<longrightarrow> parse_or n ts = parse_or m ts)"
proof (induction "length ts" arbitrary: ts n m rule: less_induct)
  case less
  have atom: "parse_atom n ts = parse_atom m ts" if enough: "3 * length ts + 1 \<le> n" "3 * length ts + 1 \<le> m" for n m
  proof -
    obtain n' m' where nm: "n = Suc n'" "m = Suc m'" using enough by (cases n; cases m) auto
    have "parse_or n' r = parse_or m' r" if "ts = d # r" for d r
      using less[of r n' m'] that enough nm by simp
    then show ?thesis by (auto simp: nm split: list.split token.split)
  qed
  have conj: "parse_and n ts = parse_and m ts" if enough: "3 * length ts + 2 \<le> n" "3 * length ts + 2 \<le> m" for n m
  proof -
    obtain n' m' where nm: "n = Suc n'" "m = Suc m'" using enough by (cases n; cases m) auto
    have "parse_atom n' ts = parse_atom m' ts" by (rule atom) (use enough nm in simp_all)
    moreover have "parse_and n' r = parse_and m' r" if "parse_atom m' ts = Some (c, w # r)" for c w r
      using less[of r n' m'] parse_shorter(1)[OF that] enough nm by simp
    ultimately show ?thesis by (simp add: nm split: option.split list.split token.split)
  qed
  have "parse_or n ts = parse_or m ts" if enough: "3 * length ts + 3 \<le> n" "3 * length ts + 3 \<le> m" for n m
  proof -
    obtain n' m' where nm: "n = Suc n'" "m = Suc m'" using enough by (cases n; cases m) auto
    have "parse_and n' ts = parse_and m' ts" by (rule conj) (use enough nm in simp_all)
    moreover have "parse_or n' r = parse_or m' r" if "parse_and m' ts = Some (c, w # r)" for c w r
      using less[of r n' m'] parse_shorter(2)[OF that] enough nm by simp
    ultimately show ?thesis by (simp add: nm split: option.split list.split token.split)
  qed
  then show ?case using atom conj by blast
qed

lemma parse_cond_enough: "3 * length ts + 3 \<le> n \<Longrightarrow> parse_or n ts = parse_cond ts"
  using parse_stable[of ts n "3 * length ts + 3"] by (simp add: parse_cond_def)

section \<open>Scanning in pieces\<close>

text \<open>What may stand between quotes as it is.\<close>

definition lit_safe :: "string \<Rightarrow> bool" where
  "lit_safe s \<longleftrightarrow> CHR 0x27 \<notin> set s \<and> CHR 0x00 \<notin> set s"

lemma lit_safe_names [simp]:
  "lit_safe (PackageType_to_string pt)" "lit_safe (Operation_to_string op)"
  by (cases pt; simp add: lit_safe_def) (cases op; simp add: lit_safe_def)

text \<open>\<open>s\<close> gives the tokens \<open>ts\<close> and ends between two tokens.\<close>

definition scans_to :: "string \<Rightarrow> token list \<Rightarrow> bool" where
  "scans_to s ts \<longleftrightarrow> scan_from (Blank, []) s = (Blank, ts)"

lemma scan_from_append: "scan_from st (a @ b) = scan_from (scan_from st a) b"
  by (simp add: scan_from_def)

lemma scan_start_tokens: "scan_start c (us @ ts) = apsnd (append us) (scan_start c ts)"
  by (simp add: scan_start_def)

lemma scan_step_tokens: "scan_step c (m, us @ ts) = apsnd (append us) (scan_step c (m, ts))"
  by (cases m) (simp_all add: scan_start_tokens)

lemma scan_from_tokens: "scan_from (m, us @ ts) s = apsnd (append us) (scan_from (m, ts) s)"
proof (induction s arbitrary: m ts)
  case Nil
  then show ?case by (simp add: scan_from_def)
next
  case (Cons c s)
  obtain m' ts' where "scan_step c (m, ts) = (m', ts')" by fastforce
  then show ?case using Cons[of m' ts'] by (simp add: scan_from_def scan_step_tokens)
qed

lemma scans_to_append: "scans_to a ts \<Longrightarrow> scans_to b us \<Longrightarrow> scans_to (a @ b) (ts @ us)"
  using scan_from_tokens[of Blank ts "[]" b] by (simp add: scans_to_def scan_from_append)

lemma scan_literal:
  "lit_safe s \<Longrightarrow> scan_from (InLit l, ts) (s @ [CHR 0x27]) = (AfterLit (l @ s), ts)"
proof (induction s arbitrary: l)
  case (Cons c s)
  then have "scan_from (InLit (l @ [c]), ts) (s @ [CHR 0x27]) = (AfterLit (l @ [c] @ s), ts)"
    by (simp add: lit_safe_def)
  then show ?case using Cons.prems by (auto simp: scan_from_def lit_safe_def)
qed (simp add: scan_from_def)

text \<open>A literal ends where the next character is not a quote.\<close>

lemma scans_to_quoted:
  assumes "lit_safe s" and "scans_to (c # r) ts" and "c \<noteq> CHR 0x27"
  shows "scans_to (quoted s @ c # r) (Lit s # ts)"
proof -
  have "scan_from (Blank, []) (quoted s) = (AfterLit s, [])"
    using scan_literal[OF assms(1), of "[]" "[]"]
    by (simp add: quoted_def scan_from_def scan_start_def sql_space_def)
  moreover have "scan_from (AfterLit s, []) (c # r) = scan_from (Blank, [Lit s]) (c # r)"
    using assms(3) by (simp add: scan_from_def)
  ultimately show ?thesis
    using assms(2) scan_from_tokens[of Blank "[Lit s]" "[]" "c # r"] by (simp add: scans_to_def scan_from_append)
qed

text \<open>A blank at the end changes nothing.\<close>

lemma sql_tokens_scans: "scans_to (s @ '' '') ts \<Longrightarrow> sql_tokens s = Some ts"
  unfolding scans_to_def scan_from_append sql_tokens_def
  by (cases "scan_from (Blank, []) s" rule: scan_end.cases)
     (simp_all add: scan_from_def scan_start_def sql_space_def split: if_splits)

lemma scans_to_number: "scans_to (show_nat n @ '' '') [Word (show_nat n)]"
proof -
  have word: "sql_word c" "upper_char c = c" "\<not> sql_space c" "c \<noteq> CHR 0x00" "c \<noteq> CHR 0x27" if "is_digit c" for c
    using that by (auto simp: sql_word_def upper_char_def Let_def is_digit_def sql_space_def)
  have digits: "scan_from (InWord w, []) cs = (InWord (w @ cs), [])" if "\<forall>c \<in> set cs. is_digit c" for w cs
    using that
  proof (induction cs arbitrary: w)
    case (Cons c cs)
    then show ?case using word[of c] by (simp add: scan_from_def)
  qed (simp add: scan_from_def)
  obtain c cs where n: "show_nat n = c # cs" by (cases "show_nat n") auto
  then have d: "is_digit c" "\<forall>c \<in> set cs. is_digit c" using show_nat_digits[of _ n] by auto
  have "scan_from (Blank, []) (show_nat n) = (InWord (show_nat n), [])"
    using digits[OF d(2), of "[c]"] word[OF d(1)] by (simp add: n scan_from_def scan_start_def)
  moreover have "\<not> sql_word (CHR '' '')" by code_simp
  ultimately show ?thesis
    by (simp add: scans_to_def scan_from_append) (simp add: scan_from_def scan_start_def sql_space_def)
qed

section \<open>The queries of the code\<close>

lemmas parse_simps = sql_parse_def parse_query_def strip_def from_log_def parse_where_def parse_cond_def
  numeral_eq_Suc text_column_def text_columns_def at_end_def

lemma parse_find_log_text:
  assumes "lit_safe i"
  shows "sql_parse (find_log_text i) = Some (Select None (Eq Col_id i) None None)"
proof -
  have a: "scans_to ''SELECT * FROM TRANSPARENCYLOG WHERE id = ''
     (Word ''SELECT'' # Sign (CHR ''*'') # from_log @ [Word ''ID'', Sign (CHR ''='')])" by code_simp
  have b: "scans_to ''; '' [Sign (CHR '';'')]" by code_simp
  have "sql_tokens (find_log_text i) = Some (Word ''SELECT'' # Sign (CHR ''*'') # from_log @
      [Word ''ID'', Sign (CHR ''=''), Lit i, Sign (CHR '';'')])"
    using scans_to_append[OF a scans_to_quoted[OF assms b]] by (simp add: find_log_text_def sql_tokens_scans)
  then show ?thesis by (simp add: parse_simps)
qed

definition package_type_tokens :: "PackageType \<Rightarrow> token list" where
  "package_type_tokens pt = [Word ''PACKAGE_TYPE'', Sign (CHR ''=''), Lit (PackageType_to_string pt), Word ''AND'']"

lemma artifact_text_tokens:
  assumes "scans_to (quoted art @ ''; '') ts"
  shows "sql_tokens (artifact_text pt art) = Some (Word ''SELECT'' # Sign (CHR ''*'') # from_log @
    package_type_tokens pt @ Word ''PACKAGE_SPECIFIC_ARTIFACT_ID'' # Sign (CHR ''='') # ts)"
proof -
  have a: "scans_to ''SELECT * FROM TRANSPARENCYLOG WHERE package_type = ''
     (Word ''SELECT'' # Sign (CHR ''*'') # from_log @ [Word ''PACKAGE_TYPE'', Sign (CHR ''='')])" by code_simp
  have b: "scans_to '' AND package_specific_artifact_id = ''
     [Word ''AND'', Word ''PACKAGE_SPECIFIC_ARTIFACT_ID'', Sign (CHR ''='')]" by code_simp
  have c: "scans_to (CHR '' '' # ''AND package_specific_artifact_id = '' @ quoted art @ ''; '')
     ([Word ''AND'', Word ''PACKAGE_SPECIFIC_ARTIFACT_ID'', Sign (CHR ''='')] @ ts)"
    using scans_to_append[OF b assms] by simp
  show ?thesis
    using scans_to_append[OF a scans_to_quoted[OF lit_safe_names(1) c, of pt]]
    by (simp add: artifact_text_def package_type_tokens_def sql_tokens_scans)
qed

lemma parse_artifact_text:
  assumes "lit_safe art"
  shows "sql_parse (artifact_text pt art) =
    Some (Select None (And (Eq Col_package_type (PackageType_to_string pt)) (Eq Col_package_specific_artifact_id art)) None None)"
proof -
  have a: "scans_to ''; '' [Sign (CHR '';'')]" by code_simp
  then show ?thesis
    by (simp add: artifact_text_tokens[OF scans_to_quoted[OF assms a]] package_type_tokens_def parse_simps)
qed

text \<open>\<open>always_true art\<close> is \<open>art\<close> followed by \<^verbatim>\<open>'OR'1'='1\<close>: the quotes around it close \<open>art\<close> and the last literal.\<close>

definition always_true :: "string \<Rightarrow> string" where
  "always_true art = art @ CHR 0x27 # ''OR'' @ quoted ''1'' @ ''='' @ [CHR 0x27] @ ''1''"

lemma parse_artifact_text_injected:
  assumes "lit_safe art"
  shows "sql_parse (artifact_text pt (always_true art)) =
    Some (Select None (Or (And (Eq Col_package_type (PackageType_to_string pt)) (Eq Col_package_specific_artifact_id art))
                          (LitEq ''1'' ''1'')) None None)"
proof -
  have a: "scans_to (CHR ''O'' # ''R'' @ quoted ''1'' @ ''='' @ quoted ''1'' @ ''; '')
    [Word ''OR'', Lit ''1'', Sign (CHR ''=''), Lit ''1'', Sign (CHR '';'')]" by code_simp
  have "scans_to (quoted (always_true art) @ ''; '')
    [Lit art, Word ''OR'', Lit ''1'', Sign (CHR ''=''), Lit ''1'', Sign (CHR '';'')]"
    using scans_to_quoted[OF assms a] by (simp add: always_true_def quoted_def)
  from artifact_text_tokens[OF this] show ?thesis by (simp add: package_type_tokens_def parse_simps)
qed

text \<open>The condition that the two queries on a package share, and how each goes on.\<close>

definition package_text :: "PackageType \<Rightarrow> string \<Rightarrow> string" where
  "package_text pt psid =
     quoted (Operation_to_string AddArtifact) @ '', '' @ quoted (Operation_to_string RemoveArtifact) @
     '') and package_type = '' @ quoted (PackageType_to_string pt) @ '' and package_specific_id = '' @ quoted psid"

definition package_tokens :: "PackageType \<Rightarrow> string \<Rightarrow> token list" where
  "package_tokens pt psid =
     [Lit (Operation_to_string AddArtifact), Sign (CHR '',''), Lit (Operation_to_string RemoveArtifact),
      Sign (CHR '')''), Word ''AND'', Word ''PACKAGE_TYPE'', Sign (CHR ''=''), Lit (PackageType_to_string pt),
      Word ''AND'', Word ''PACKAGE_SPECIFIC_ID'', Sign (CHR ''=''), Lit psid]"

lemma package_text_tokens:
  assumes "lit_safe psid" and "scans_to (c # r) ts" and "c \<noteq> CHR 0x27"
  shows "scans_to (package_text pt psid @ c # r) (package_tokens pt psid @ ts)"
proof -
  have a: "scans_to (CHR '' '' # ''and package_specific_id = '') [Word ''AND'', Word ''PACKAGE_SPECIFIC_ID'', Sign (CHR ''='')]"
    by code_simp
  have b: "scans_to (CHR '')'' # '' and package_type = '')
      [Sign (CHR '')''), Word ''AND'', Word ''PACKAGE_TYPE'', Sign (CHR ''='')]" by code_simp
  have c: "scans_to (CHR '','' # '' '') [Sign (CHR '','')]" by code_simp
  note s1 = scans_to_append[OF a scans_to_quoted[OF assms]]
  note s2 = scans_to_append[OF b scans_to_quoted[OF lit_safe_names(1) s1[unfolded append_Cons], of pt]]
  note s3 = scans_to_append[OF c scans_to_quoted[OF lit_safe_names(2) s2[unfolded append_Cons], of RemoveArtifact]]
  show ?thesis
    using scans_to_quoted[OF lit_safe_names(2) s3[unfolded append_Cons], of AddArtifact]
    by (simp add: package_text_def package_tokens_def del: Operation_to_string.simps)
qed

lemma limit_one: "read_digits ''1'' = 1" "list_all is_digit ''1''" "1 < limit_bound"
proof -
  show "read_digits ''1'' = 1" by code_simp
  show "list_all is_digit ''1''" by code_simp
  show "1 < limit_bound" by (simp add: limit_bound_def)
qed

lemma parse_last_record_text:
  assumes "lit_safe psid"
  shows "sql_parse (last_record_text pt psid) = Some (Select None
     (And (In Col_operation [Operation_to_string AddArtifact, Operation_to_string RemoveArtifact])
     (And (Eq Col_package_type (PackageType_to_string pt)) (Eq Col_package_specific_id psid)))
     (Some ByTimestampDesc) (Some 1))"
proof -
  have a: "scans_to (''SELECT * FROM TRANSPARENCYLOG'' @ newline 12 @ ''WHERE operation in ('')
     (Word ''SELECT'' # Sign (CHR ''*'') # from_log @ [Word ''OPERATION'', Word ''IN'', Sign (CHR ''('')])" by code_simp
  have b: "scans_to (newline 12 @ ''ORDER BY timestamp DESC LIMIT 1'' @ '' '')
     [Word ''ORDER'', Word ''BY'', Word ''TIMESTAMP'', Word ''DESC'', Word ''LIMIT'', Word ''1'']" by code_simp
  note s = scans_to_append[OF a package_text_tokens[OF assms b[unfolded newline_def append_Cons], of pt]]
  have "sql_tokens (last_record_text pt psid) = Some (Word ''SELECT'' # Sign (CHR ''*'') # from_log @
      [Word ''OPERATION'', Word ''IN'', Sign (CHR ''('')] @ package_tokens pt psid @
      [Word ''ORDER'', Word ''BY'', Word ''TIMESTAMP'', Word ''DESC'', Word ''LIMIT'', Word ''1''])"
    using s by (intro sql_tokens_scans) (simp add: last_record_text_def package_text_def newline_def
        del: Operation_to_string.simps)
  then show ?thesis
    using limit_one by (simp add: parse_simps package_tokens_def del: Operation_to_string.simps)
qed

lemma parse_all_records_text:
  assumes "lit_safe psid"
  shows "sql_parse (all_records_text pt psid) = Some (Select None
     (And (In Col_operation [Operation_to_string AddArtifact, Operation_to_string RemoveArtifact])
     (And (Eq Col_package_type (PackageType_to_string pt)) (Eq Col_package_specific_id psid)))
     (Some ByTimestampAsc) None)"
proof -
  have a: "scans_to (''SELECT *'' @ newline 12 @ ''FROM TRANSPARENCYLOG'' @ newline 12 @ ''WHERE operation in ('')
     (Word ''SELECT'' # Sign (CHR ''*'') # from_log @ [Word ''OPERATION'', Word ''IN'', Sign (CHR ''('')])" by code_simp
  have b: "scans_to (newline 12 @ ''ORDER BY timestamp ASC'' @ '' '')
     [Word ''ORDER'', Word ''BY'', Word ''TIMESTAMP'', Word ''ASC'']" by code_simp
  note s = scans_to_append[OF a package_text_tokens[OF assms b[unfolded newline_def append_Cons], of pt]]
  have "sql_tokens (all_records_text pt psid) = Some (Word ''SELECT'' # Sign (CHR ''*'') # from_log @
      [Word ''OPERATION'', Word ''IN'', Sign (CHR ''('')] @ package_tokens pt psid @
      [Word ''ORDER'', Word ''BY'', Word ''TIMESTAMP'', Word ''ASC''])"
    using s by (intro sql_tokens_scans) (simp add: all_records_text_def package_text_def newline_def
        del: Operation_to_string.simps)
  then show ?thesis by (simp add: parse_simps package_tokens_def del: Operation_to_string.simps)
qed

lemma parse_other_records_text:
  assumes "lit_safe psid" and "lit_safe i" and "n < limit_bound"
  shows "sql_parse (other_records_text pt psid i n) = Some (Select None
     (And (Eq Col_operation (Operation_to_string AddArtifact))
     (And (Eq Col_package_type (PackageType_to_string pt))
     (And (Eq Col_package_specific_id psid) (Ne Col_id i))))
     (Some ByTimestampDesc) (Some n))"
proof -
  have a: "scans_to (''SELECT * FROM TRANSPARENCYLOG'' @ newline 20 @ ''WHERE operation = '')
     (Word ''SELECT'' # Sign (CHR ''*'') # from_log @ [Word ''OPERATION'', Sign (CHR ''='')])" by code_simp
  have b: "scans_to (CHR '' '' # ''and package_type = '') [Word ''AND'', Word ''PACKAGE_TYPE'', Sign (CHR ''='')]"
    by code_simp
  have c: "scans_to (CHR '' '' # ''and'' @ newline 20 @ ''package_specific_id = '')
     [Word ''AND'', Word ''PACKAGE_SPECIFIC_ID'', Sign (CHR ''='')]" by code_simp
  have d: "scans_to (CHR '' '' # ''and id != '') [Word ''AND'', Word ''ID'', NotEqual]" by code_simp
  have f: "scans_to (newline 20 @ ''ORDER BY timestamp DESC LIMIT '')
     [Word ''ORDER'', Word ''BY'', Word ''TIMESTAMP'', Word ''DESC'', Word ''LIMIT'']" by code_simp
  note s0 = scans_to_append[OF f[unfolded newline_def append_Cons] scans_to_number, of n]
  note s1 = scans_to_append[OF d scans_to_quoted[OF assms(2) s0[unfolded append_Cons]]]
  note s2 = scans_to_append[OF c scans_to_quoted[OF assms(1) s1[unfolded append_Cons]]]
  note s3 = scans_to_append[OF b scans_to_quoted[OF lit_safe_names(1) s2[unfolded append_Cons], of pt]]
  note s4 = scans_to_append[OF a scans_to_quoted[OF lit_safe_names(2) s3[unfolded append_Cons], of AddArtifact]]
  have "sql_tokens (other_records_text pt psid i n) = Some (Word ''SELECT'' # Sign (CHR ''*'') # from_log @
      [Word ''OPERATION'', Sign (CHR ''=''), Lit (Operation_to_string AddArtifact), Word ''AND'',
       Word ''PACKAGE_TYPE'', Sign (CHR ''=''), Lit (PackageType_to_string pt), Word ''AND'',
       Word ''PACKAGE_SPECIFIC_ID'', Sign (CHR ''=''), Lit psid, Word ''AND'', Word ''ID'', NotEqual, Lit i,
       Word ''ORDER'', Word ''BY'', Word ''TIMESTAMP'', Word ''DESC'', Word ''LIMIT'', Word (show_nat n)])"
    using s4 by (intro sql_tokens_scans) (simp add: other_records_text_def newline_def del: Operation_to_string.simps)
  moreover have "list_all is_digit (show_nat n)" using show_nat_digits by (auto simp: list_all_iff)
  ultimately show ?thesis using assms(3) by (simp add: parse_simps del: Operation_to_string.simps)
qed

lemma parse_node_operation_text:
  assumes "lit_safe peer"
  shows "sql_parse (node_operation_text peer) = Some (Select (Some [Col_operation])
     (And (Or (Eq Col_operation (Operation_to_string AddNode)) (Eq Col_operation (Operation_to_string RemoveNode)))
          (Eq Col_node_id peer))
     (Some ByTimestampDesc) (Some 1))"
proof -
  have a: "scans_to (''SELECT'' @ newline 14 @ ''operation'' @ newline 12 @ ''FROM TRANSPARENCYLOG'' @ newline 12 @
      ''WHERE (operation = '')
     (Word ''SELECT'' # Word ''OPERATION'' # from_log @ [Sign (CHR ''(''), Word ''OPERATION'', Sign (CHR ''='')])" by code_simp
  have b: "scans_to (CHR '' '' # ''or operation = '') [Word ''OR'', Word ''OPERATION'', Sign (CHR ''='')]" by code_simp
  have c: "scans_to (CHR '')'' # '' and node_id = '') [Sign (CHR '')''), Word ''AND'', Word ''NODE_ID'', Sign (CHR ''='')]"
    by code_simp
  have d: "scans_to (newline 12 @ ''ORDER BY timestamp DESC limit 1'' @ '' '')
     [Word ''ORDER'', Word ''BY'', Word ''TIMESTAMP'', Word ''DESC'', Word ''LIMIT'', Word ''1'']" by code_simp
  note s1 = scans_to_append[OF c scans_to_quoted[OF assms d[unfolded newline_def append_Cons]]]
  note s2 = scans_to_append[OF b scans_to_quoted[OF lit_safe_names(2) s1[unfolded append_Cons], of RemoveNode]]
  note s3 = scans_to_append[OF a scans_to_quoted[OF lit_safe_names(2) s2[unfolded append_Cons], of AddNode]]
  have "sql_tokens (node_operation_text peer) = Some (Word ''SELECT'' # Word ''OPERATION'' # from_log @
      [Sign (CHR ''(''), Word ''OPERATION'', Sign (CHR ''=''), Lit (Operation_to_string AddNode), Word ''OR'',
       Word ''OPERATION'', Sign (CHR ''=''), Lit (Operation_to_string RemoveNode), Sign (CHR '')''), Word ''AND'',
       Word ''NODE_ID'', Sign (CHR ''=''), Lit peer,
       Word ''ORDER'', Word ''BY'', Word ''TIMESTAMP'', Word ''DESC'', Word ''LIMIT'', Word ''1''])"
    using s3 by (intro sql_tokens_scans) (simp add: node_operation_text_def newline_def del: Operation_to_string.simps)
  then show ?thesis using limit_one by (simp add: parse_simps del: Operation_to_string.simps)
qed

lemma parse_added_nodes_text:
  "sql_parse added_nodes_text = Some (SelectLatestPerNode
     (Or (Eq Col_operation (Operation_to_string AddNode)) (Eq Col_operation (Operation_to_string RemoveNode)))
     (Eq Col_operation (Operation_to_string AddNode)))"
  by code_simp

end
