(* ===== verification/Interfaces.thy ===== *)
theory Interfaces
  imports Pyrsia_Prelude
begin

text \<open>
  Interfaces that several components share. \<open>enum_text\<close> is a type with a text form that reads back
  (\<^verbatim>\<open>Display\<close> and \<^verbatim>\<open>FromStr\<close>) and \<open>write_once\<close> a store in which the first value written under a key
  stays. Each is interpreted on the operations of the components that provide it.
\<close>

section \<open>Types with a text form\<close>

locale enum_text =
  fixes to_text :: "'a \<Rightarrow> string"
    and of_text :: "string \<Rightarrow> 'a option"
  assumes of_to: "of_text (to_text x) = Some x"
    and to_of: "of_text s = Some x \<Longrightarrow> s = to_text x"
begin

lemma to_text_eq_iff: "to_text x = to_text y \<longleftrightarrow> x = y"
  by (metis of_to option.inject)

lemma of_text_eq_iff: "of_text s = Some x \<longleftrightarrow> s = to_text x"
  using of_to to_of by auto

lemma of_text_None_iff: "of_text s = None \<longleftrightarrow> s \<notin> range to_text"
  using of_to to_of by (auto simp: image_iff) (metis not_None_eq)

end

section \<open>Write-once stores\<close>

text \<open>
  \<open>put s k v\<close> is the state after an attempt to write, successful or not. The laws hold for the keys
  and the entries the client uses (\<open>valid\<close>, \<open>fits\<close>).
\<close>

locale write_once =
  fixes put :: "'s \<Rightarrow> 'k \<Rightarrow> 'v \<Rightarrow> 's"
    and get :: "'s \<Rightarrow> 'k \<Rightarrow> 'v option"
    and inv :: "'s \<Rightarrow> bool"
    and valid :: "'k \<Rightarrow> bool"
    and fits :: "'k \<Rightarrow> 'v \<Rightarrow> bool"
  assumes inv_put: "inv s \<Longrightarrow> valid k \<Longrightarrow> fits k v \<Longrightarrow> inv (put s k v)"
    and get_put_new: "inv s \<Longrightarrow> valid k \<Longrightarrow> fits k v \<Longrightarrow> get s k = None \<Longrightarrow> get (put s k v) k = Some v"
    and get_put_old: "inv s \<Longrightarrow> valid k \<Longrightarrow> fits k v \<Longrightarrow> get s k = Some w \<Longrightarrow> get (put s k v) k = Some w"
    and get_put_other: "inv s \<Longrightarrow> valid k \<Longrightarrow> fits k v \<Longrightarrow> valid k' \<Longrightarrow> k' \<noteq> k \<Longrightarrow> get (put s k v) k' = get s k'"
begin

fun put_all :: "'s \<Rightarrow> ('k \<times> 'v) list \<Rightarrow> 's" where
  "put_all s [] = s"
| "put_all s ((k, v) # kvs) = put_all (put s k v) kvs"

lemma inv_put_all:
  assumes "inv s" and "\<forall>(k, v) \<in> set kvs. valid k \<and> fits k v"
  shows "inv (put_all s kvs)"
  using assms by (induction s kvs rule: put_all.induct) (auto simp: inv_put)

text \<open>The first value written under a key is the one every later read returns.\<close>

lemma first_write_stays:
  assumes "inv s" and "\<forall>(k, v) \<in> set kvs. valid k \<and> fits k v" and "valid k"
  shows "get (put_all s kvs) k = (case get s k of Some w \<Rightarrow> Some w | None \<Rightarrow> map_of kvs k)"
  using assms
proof (induction s kvs rule: put_all.induct)
  case (1 s)
  then show ?case by (simp split: option.splits)
next
  case (2 s k' v' kvs)
  then have ok: "valid k'" "fits k' v'" "inv (put s k' v')" by (auto intro: inv_put)
  have IH: "get (put_all (put s k' v') kvs) k =
      (case get (put s k' v') k of Some w \<Rightarrow> Some w | None \<Rightarrow> map_of kvs k)"
    using 2 ok by auto
  show ?case
  proof (cases "k = k'")
    case True
    then show ?thesis
      using IH get_put_new[OF 2(2) ok(1,2)] get_put_old[OF 2(2) ok(1,2)] by (cases "get s k'") auto
  next
    case False
    then show ?thesis using IH get_put_other[OF 2(2) ok(1,2) 2(4)] by (auto split: option.splits)
  qed
qed

end

end
