(* ===== verification/Transparency_Log_Laws.thy ===== *)
theory Transparency_Log_Laws
  imports Sql_Text Interfaces
begin

text \<open>
  The documented behaviour of SQLite, \<^verbatim>\<open>serde_json\<close> and peer id text that the transparency log relies
  on, the abstraction of a table to the list of logs it stores, and the lemmas that turn a query on
  rows into a statement about logs. SQLite leaves the order of rows with equal sort keys open, and so
  does \<open>answers\<close>; nothing is assumed of a text that \<open>sql_parse\<close> does not read.
\<close>

section \<open>SQLite\<close>

definition cell :: "column \<Rightarrow> row \<Rightarrow> sql_value" where
  "cell c r = (if column_index c < length r then r ! column_index c else SqlNull)"

text \<open>A comparison with \<^verbatim>\<open>NULL\<close> is not true; the connectives here have no negation.\<close>

fun cond_holds :: "cond \<Rightarrow> row \<Rightarrow> bool" where
  "cond_holds (Eq c s) r = (cell c r = SqlText s)"
| "cond_holds (Ne c s) r = (cell c r \<noteq> SqlNull \<and> cell c r \<noteq> SqlText s)"
| "cond_holds (In c ss) r = (\<exists>s \<in> set ss. cell c r = SqlText s)"
| "cond_holds (LitEq a b) r = (a = b)"
| "cond_holds (And a b) r = (cond_holds a r \<and> cond_holds b r)"
| "cond_holds (Or a b) r = (cond_holds a r \<or> cond_holds b r)"

definition row_time :: "row \<Rightarrow> int" where
  "row_time r = (case cell Col_timestamp r of SqlInteger i \<Rightarrow> i | _ \<Rightarrow> 0)"

fun row_ordered :: "order option \<Rightarrow> row list \<Rightarrow> bool" where
  "row_ordered None rs = True"
| "row_ordered (Some ByTimestampAsc) rs = sorted (map row_time rs)"
| "row_ordered (Some ByTimestampDesc) rs = sorted (rev (map row_time rs))"

fun limited :: "nat option \<Rightarrow> 'a list \<Rightarrow> 'a list" where
  "limited None xs = xs"
| "limited (Some n) xs = take n xs"

fun project :: "column list option \<Rightarrow> row \<Rightarrow> row" where
  "project None r = r"
| "project (Some cs) r = map (\<lambda>c. cell c r) cs"

fun answers :: "query \<Rightarrow> table \<Rightarrow> row list \<Rightarrow> bool" where
  "answers (Select cols c ord lim) t rs =
     (\<exists>ys. mset ys = mset (filter (cond_holds c) t) \<and> row_ordered ord ys \<and>
           rs = map (project cols) (limited lim ys))"
| "answers (SelectLatestPerNode a b) t rs =
     (\<exists>ys. set ys \<subseteq> set (filter (cond_holds a) t) \<and>
           distinct (map (cell Col_node_id) ys) \<and>
           cell Col_node_id ` set ys = cell Col_node_id ` set (filter (cond_holds a) t) \<and>
           (\<forall>y \<in> set ys. \<forall>r \<in> set (filter (cond_holds a) t).
              cell Col_node_id r = cell Col_node_id y \<longrightarrow> row_time r \<le> row_time y) \<and>
           rs = filter (cond_holds b) ys)"

text \<open>The rows that the code inserts: an id, an integer as timestamp and an operation; other cells may be \<^verbatim>\<open>NULL\<close>.\<close>

definition row_typed :: "row \<Rightarrow> bool" where
  "row_typed r \<longleftrightarrow> length r = 13 \<and>
     (case cell Col_id r of SqlText _ \<Rightarrow> True | _ \<Rightarrow> False) \<and>
     (case cell Col_timestamp r of SqlInteger _ \<Rightarrow> True | _ \<Rightarrow> False) \<and>
     (case cell Col_operation r of SqlText _ \<Rightarrow> True | _ \<Rightarrow> False)"

definition sqlite_laws :: "sqlite \<Rightarrow> bool" where
  "sqlite_laws sql \<longleftrightarrow>
     (\<forall>t. sql_open sql t = Ok ()) \<and>
     (\<forall>t r. row_typed r \<longrightarrow>
        (if cell Col_id r \<in> cell Col_id ` set t then (\<exists>m. sql_insert sql t r = Err m)
         else sql_insert sql t r = Ok (t @ [r]))) \<and>
     (\<forall>t s q. list_all row_typed t \<longrightarrow> sql_parse s = Some q \<longrightarrow>
        (\<exists>rs. sql_query sql t s = Ok rs \<and> answers q t rs))"

definition peer_text_laws :: "peer_text \<Rightarrow> bool" where
  "peer_text_laws pt \<longleftrightarrow>
     (\<forall>p. peer_from_str pt (peer_to_string pt p) = Some p \<and> lit_safe (peer_to_string pt p))"

definition json_laws :: "json \<Rightarrow> bool" where
  "json_laws j \<longleftrightarrow> (\<forall>l. \<exists>s. json_to_string j l = Some s \<and> json_from_slice j (as_bytes s) = Some l)"

definition log_env_ok :: "log_env \<Rightarrow> bool" where
  "log_env_ok e \<longleftrightarrow> sqlite_laws (le_sql e) \<and> env_log_dir e = None"

section \<open>Tables and logs\<close>

definition log_ok :: "TransparencyLog \<Rightarrow> bool" where
  "log_ok l \<longleftrightarrow> uint (timestamp l) < 2 ^ 63"

definition row_of :: "TransparencyLog \<Rightarrow> row" where
  "row_of l = the (log_to_row l)"

definition stores :: "TransparencyLog list \<Rightarrow> table \<Rightarrow> bool" where
  "stores ls t \<longleftrightarrow> t = map row_of ls \<and> (\<forall>l \<in> set ls. log_ok l) \<and> distinct (map log_id ls)"

fun log_ordered :: "order option \<Rightarrow> TransparencyLog list \<Rightarrow> bool" where
  "log_ordered None ls = True"
| "log_ordered (Some ByTimestampAsc) ls = sorted (map timestamp ls)"
| "log_ordered (Some ByTimestampDesc) ls = sorted (rev (map timestamp ls))"

section \<open>Text forms\<close>

interpretation package_type_text: enum_text PackageType_to_string PackageType_from_str
proof unfold_locales
  show "PackageType_from_str (PackageType_to_string x) = Some x" for x
    by (cases x) (simp_all add: PackageType_from_str_def)
  show "PackageType_from_str s = Some x \<Longrightarrow> s = PackageType_to_string x" for s x
    by (auto simp: PackageType_from_str_def split: if_splits)
qed

interpretation operation_text: enum_text Operation_to_string Operation_from_str
proof unfold_locales
  show "Operation_from_str (Operation_to_string x) = Some x" for x
    by (cases x) (simp_all add: Operation_from_str_def)
  show "Operation_from_str s = Some x \<Longrightarrow> s = Operation_to_string x" for s x
    by (auto simp: Operation_from_str_def split: if_splits)
qed

section \<open>Rows stand for logs\<close>

lemma log_to_row_ok: "log_ok l \<Longrightarrow> log_to_row l = Some (row_of l)"
  by (simp add: row_of_def log_to_row_def u64_to_sql_def log_ok_def)

lemma row_of_cells:
  assumes "log_ok l"
  shows "cell Col_id (row_of l) = SqlText (log_id l)"
    "cell Col_package_type (row_of l) =
       (case package_type l of Some pt \<Rightarrow> SqlText (PackageType_to_string pt) | None \<Rightarrow> SqlNull)"
    "cell Col_package_specific_id (row_of l) = SqlText (package_specific_id l)"
    "cell Col_package_specific_artifact_id (row_of l) = SqlText (package_specific_artifact_id l)"
    "cell Col_timestamp (row_of l) = SqlInteger (uint (timestamp l))"
    "cell Col_operation (row_of l) = SqlText (Operation_to_string (operation l))"
    "cell Col_node_id (row_of l) = SqlText (node_id l)"
  using assms
  by (simp_all add: cell_def row_of_def log_to_row_def u64_to_sql_def log_ok_def)

lemma row_typed_row_of: "log_ok l \<Longrightarrow> row_typed (row_of l)"
  by (simp add: row_typed_def row_of_cells) (simp add: row_of_def log_to_row_def u64_to_sql_def log_ok_def)

lemma stores_typed: "stores ls t \<Longrightarrow> list_all row_typed t"
  by (auto simp: stores_def list_all_iff row_typed_row_of)

lemma row_time_row_of: "log_ok l \<Longrightarrow> row_time (row_of l) = uint (timestamp l)"
  by (simp add: row_time_def row_of_cells)

lemma row_to_log_row_of:
  assumes "log_ok l"
  shows "row_to_log (row_of l) = Ok l"
proof -
  have "value_package_type (case package_type l of Some pt \<Rightarrow> SqlText (PackageType_to_string pt)
      | None \<Rightarrow> SqlNull) = Ok (package_type l)"
    by (cases "package_type l") (simp_all add: package_type_text.of_to unwrap_def)
  moreover have "uint (num_artifacts l) < 2 ^ 32"
    using unsigned_less[of "num_artifacts l", where 'a = int] by simp
  ultimately show ?thesis using assms
    by (simp add: row_to_log_def get_value_def row_of_def log_to_row_def u64_to_sql_def log_ok_def
        operation_text.of_to unwrap_def)
qed

lemma row_of_inj: "log_ok l \<Longrightarrow> log_ok l' \<Longrightarrow> row_of l = row_of l' \<Longrightarrow> l = l'"
  by (metis row_to_log_row_of outcome.inject(1))

lemma collect_rows_row_of: "\<forall>l \<in> set ls. log_ok l \<Longrightarrow> collect_rows (map row_of ls) = Ok ls"
  by (induction ls) (simp_all add: row_to_log_row_of)

text \<open>A list of rows drawn from stored logs is the image of a list of logs.\<close>

lemma rows_lift:
  assumes "set rs \<subseteq> row_of ` set ls"
  obtains ys where "rs = map row_of ys" "set ys \<subseteq> set ls"
proof -
  have "\<forall>r \<in> set rs. \<exists>l \<in> set ls. r = row_of l" using assms by auto
  then obtain g where g: "\<forall>r \<in> set rs. g r \<in> set ls \<and> r = row_of (g r)" by metis
  show thesis
    by (rule that[of "map g rs"]) (use g in \<open>auto simp: map_idI\<close>)
qed

lemma rows_lift_mset:
  assumes "mset rs = mset (map row_of ls)" and "\<forall>l \<in> set ls. log_ok l"
  obtains ys where "rs = map row_of ys" "mset ys = mset ls"
proof -
  have "set rs \<subseteq> row_of ` set ls"
    using arg_cong[OF assms(1), of set_mset] by simp
  then obtain ys where ys: "rs = map row_of ys" "set ys \<subseteq> set ls" by (rule rows_lift)
  let ?g = "\<lambda>r. case row_to_log r of Ok l \<Rightarrow> l | Err _ \<Rightarrow> undefined | Panic _ \<Rightarrow> undefined"
  have invert: "mset zs = image_mset ?g (mset (map row_of zs))"
    if "set zs \<subseteq> set ls" for zs
    using that assms(2) by (induction zs) (auto simp: row_to_log_row_of)
  have "mset ys = mset ls"
    using invert[OF ys(2)] invert[of ls] assms(1) ys(1) by simp
  with ys(1) show thesis by (rule that)
qed

section \<open>Queries on logs\<close>

lemma open_db_ok: "log_env_ok e \<Longrightarrow> open_db e s = Ok ()"
  by (simp add: open_db_def log_env_ok_def sqlite_laws_def)

lemma log_ordered_of_rows:
  assumes "row_ordered ord (map row_of ls)" and "\<forall>l \<in> set ls. log_ok l"
  shows "log_ordered ord ls"
proof -
  have times: "map row_time (map row_of ls) = map uint (map timestamp ls)"
    using assms(2) by (simp add: row_time_row_of)
  have le: "sorted (map uint xs) = sorted xs" for xs :: "u64 list"
    by (simp add: sorted_wrt_map flip: word_le_def)
  show ?thesis
  proof (cases ord)
    case None
    then show ?thesis by simp
  next
    case (Some d)
    with assms(1) show ?thesis
      by (cases d) (simp_all only: row_ordered.simps log_ordered.simps times rev_map le)
  qed
qed

text \<open>A text that reads as \<open>q\<close> gets an answer to \<open>q\<close>.\<close>

lemma query_answered:
  assumes "log_env_ok e" and "stores ls (ls_table s)" and "sql_parse txt = Some q"
  obtains rs where "sql_query (le_sql e) (ls_table s) txt = Ok rs" "answers q (ls_table s) rs"
  using assms(1,3) stores_typed[OF assms(2)] unfolding log_env_ok_def sqlite_laws_def by metis

lemma query_select:
  assumes "log_env_ok e" and "stores ls (ls_table s)" and "sql_parse txt = Some (Select cols c ord lim)"
  obtains ys where
    "sql_query (le_sql e) (ls_table s) txt = Ok (map (\<lambda>l. project cols (row_of l)) (limited lim ys))"
    "mset ys = mset (filter (\<lambda>l. cond_holds c (row_of l)) ls)" "log_ordered ord ys"
proof -
  let ?fs = "filter (\<lambda>l. cond_holds c (row_of l)) ls"
  have t: "ls_table s = map row_of ls" and ok: "\<forall>l \<in> set ?fs. log_ok l"
    using assms(2) by (auto simp: stores_def)
  obtain rs where q: "sql_query (le_sql e) (ls_table s) txt = Ok rs"
    and a: "answers (Select cols c ord lim) (ls_table s) rs"
    by (rule query_answered[OF assms])
  obtain zs where zs: "mset zs = mset (map row_of ?fs)" "row_ordered ord zs"
      "rs = map (project cols) (limited lim zs)"
    using a by (auto simp: t filter_map comp_def)
  obtain ys where ys: "zs = map row_of ys" "mset ys = mset ?fs"
    using rows_lift_mset[OF zs(1) ok] by blast
  have oks: "\<forall>l \<in> set ys. log_ok l" using ok mset_eq_setD[OF ys(2)] by simp
  have "limited lim zs = map row_of (limited lim ys)"
    by (cases lim) (simp_all add: ys(1) take_map)
  then show thesis
    using q ys(2) log_ordered_of_rows[OF _ oks] zs(2,3) ys(1) by (auto simp: comp_def intro: that)
qed

lemma process_select:
  assumes "log_env_ok e" and "stores ls (ls_table s)" and "sql_parse txt = Some (Select None c ord lim)"
  obtains ys where "process_query e txt s = Ok (limited lim ys)"
    "mset ys = mset (filter (\<lambda>l. cond_holds c (row_of l)) ls)" "log_ordered ord ys"
proof -
  obtain ys where ys:
    "sql_query (le_sql e) (ls_table s) txt = Ok (map (\<lambda>l. project None (row_of l)) (limited lim ys))"
    "mset ys = mset (filter (\<lambda>l. cond_holds c (row_of l)) ls)" "log_ordered ord ys"
    by (rule query_select[OF assms])
  have "set (limited lim ys) \<subseteq> set ls"
    using mset_eq_setD[OF ys(2)] by (cases lim) (auto dest: in_set_takeD)
  then have "collect_rows (map row_of (limited lim ys)) = Ok (limited lim ys)"
    using assms(2) by (intro collect_rows_row_of) (auto simp: stores_def)
  with ys(1) have "process_query e txt s = Ok (limited lim ys)"
    by (simp add: process_query_def open_db_ok[OF assms(1)])
  then show thesis using ys(2,3) by (rule that)
qed

end
