(* ===== verification/Transparency_Log_Properties.thy ===== *)
theory Transparency_Log_Properties
  imports Transparency_Log_Laws
begin

text \<open>
  What the transparency log service guarantees over a table that stores a list of logs: exact
  answers of its look-ups, write-once records, which packages may be added, and which nodes are
  authorised. \<open>demo_sqlite\<close> is an engine that satisfies the assumed laws.
\<close>

section \<open>A concrete engine\<close>

fun order_rows :: "order option \<Rightarrow> row list \<Rightarrow> row list" where
  "order_rows None rs = rs"
| "order_rows (Some ByTimestampAsc) rs = sort_key row_time rs"
| "order_rows (Some ByTimestampDesc) rs = rev (sort_key row_time rs)"

fun latest_rows :: "row list \<Rightarrow> row list" where
  "latest_rows [] = []"
| "latest_rows (r # rs) =
     (if \<exists>r' \<in> set rs. cell Col_node_id r' = cell Col_node_id r \<and> row_time r \<le> row_time r'
      then latest_rows rs
      else r # filter (\<lambda>y. cell Col_node_id y \<noteq> cell Col_node_id r) (latest_rows rs))"

fun run_query :: "table \<Rightarrow> query \<Rightarrow> row list" where
  "run_query t (Select cols c ord lim) =
     map (project cols) (limited lim (order_rows ord (filter (cond_holds c) t)))"
| "run_query t (SelectLatestPerNode a b) = filter (cond_holds b) (latest_rows (filter (cond_holds a) t))"

definition demo_sqlite :: sqlite where
  "demo_sqlite =
     \<lparr>sql_open = (\<lambda>t. Ok ()),
      sql_insert = (\<lambda>t r. if cell Col_id r \<in> cell Col_id ` set t then Err ''UNIQUE constraint failed''
                          else Ok (t @ [r])),
      sql_query = (\<lambda>t s. case sql_parse s of Some q \<Rightarrow> Ok (run_query t q) | None \<Rightarrow> Err ''not supported'')\<rparr>"

lemma latest_rows_spec:
  "set (latest_rows rs) \<subseteq> set rs \<and> distinct (map (cell Col_node_id) (latest_rows rs)) \<and>
   cell Col_node_id ` set (latest_rows rs) = cell Col_node_id ` set rs \<and>
   (\<forall>y \<in> set (latest_rows rs). \<forall>r \<in> set rs.
      cell Col_node_id r = cell Col_node_id y \<longrightarrow> row_time r \<le> row_time y)"
proof (induction rs)
  case Nil
  then show ?case by simp
next
  case (Cons r rs)
  let ?n = "cell Col_node_id"
  show ?case
  proof (cases "\<exists>r' \<in> set rs. ?n r' = ?n r \<and> row_time r \<le> row_time r'")
    case True
    then obtain r' where r': "r' \<in> set rs" "?n r' = ?n r" "row_time r \<le> row_time r'" by blast
    then have "?n r \<in> ?n ` set (latest_rows rs)" using Cons by (metis image_eqI)
    moreover have "\<forall>y \<in> set (latest_rows rs). ?n r = ?n y \<longrightarrow> row_time r \<le> row_time y"
      using Cons r' by (metis order_trans)
    ultimately show ?thesis using True Cons by (auto simp: image_iff)
  next
    case False
    have "?n ` set (filter (\<lambda>y. ?n y \<noteq> ?n r) (latest_rows rs)) = ?n ` set rs - {?n r}"
      using Cons by (auto simp: image_iff set_eq_iff) metis+
    then show ?thesis using False Cons
      by (auto simp: image_iff distinct_map_filter not_le intro: less_imp_le)
  qed
qed

lemma demo_sqlite_laws [simp]: "sqlite_laws demo_sqlite"
proof -
  have "answers q t (run_query t q)" for q t
  proof (cases q)
    case (Select cols c ord lim)
    have "mset (order_rows ord rs) = mset rs \<and> row_ordered ord (order_rows ord rs)" for rs
    proof (cases ord)
      case (Some d)
      then show ?thesis by (cases d) (simp_all add: rev_map[symmetric])
    qed simp
    then show ?thesis using Select
      by (auto intro!: exI[of _ "order_rows ord (filter (cond_holds c) t)"])
  next
    case (SelectLatestPerNode a b)
    then show ?thesis
      using latest_rows_spec[of "filter (cond_holds a) t"] by (auto simp del: latest_rows.simps)
  qed
  then show ?thesis by (auto simp: sqlite_laws_def demo_sqlite_def)
qed

section \<open>Looking up and recording\<close>

lemma find_None_ids: "List.find (\<lambda>l. log_id l = i) ls = None \<longleftrightarrow> i \<notin> log_id ` set ls"
  by (auto simp: find_None_iff)

lemma find_transparency_log_spec:
  assumes "log_env_ok e" and "stores ls (ls_table s)" and "lit_safe i"
  shows "find_transparency_log e i s =
    (case List.find (\<lambda>l. log_id l = i) ls of Some l \<Rightarrow> Ok l | None \<Rightarrow> Err (LogNotFound i))"
proof -
  obtain ys where q: "process_query e (find_log_text i) s = Ok ys"
    and ys: "mset ys = mset (filter (\<lambda>l. cond_holds (Eq Col_id i) (row_of l)) ls)"
    using process_select[OF assms(1,2) parse_find_log_text[OF assms(3)]] by auto
  have eq: "filter (\<lambda>l. cond_holds (Eq Col_id i) (row_of l)) ls = filter (\<lambda>l. log_id l = i) ls"
    using assms(2) by (auto simp: stores_def row_of_cells intro!: filter_cong)
  have d: "distinct (map log_id ls)" using assms(2) by (simp add: stores_def)
  have single: "filter (\<lambda>l. log_id l = i) ls =
      (case List.find (\<lambda>l. log_id l = i) ls of Some l \<Rightarrow> [l] | None \<Rightarrow> [])"
    using d
  proof (induction ls)
    case (Cons a ls)
    then show ?case using find_None_ids[of i ls] by auto
  qed simp
  have "ys = (case List.find (\<lambda>l. log_id l = i) ls of Some l \<Rightarrow> [l] | None \<Rightarrow> [])"
    using ys unfolding eq single by (auto split: option.splits)
  then show ?thesis
    using q by (simp add: find_transparency_log_def split: option.splits)
qed

lemma write_transparency_log_new:
  assumes "log_env_ok e" and "stores ls (ls_table s)" and "log_ok l" and "log_id l \<notin> log_id ` set ls"
  shows "write_transparency_log e l s = (Ok (), s\<lparr>ls_table := ls_table s @ [row_of l]\<rparr>)"
    and "stores (ls @ [l]) (ls_table s @ [row_of l])"
proof -
  have "cell Col_id (row_of l) \<notin> cell Col_id ` set (ls_table s)"
    using assms by (auto simp: stores_def row_of_cells)
  then have "sql_insert (le_sql e) (ls_table s) (row_of l) = Ok (ls_table s @ [row_of l])"
    using assms(1) row_typed_row_of[OF assms(3)] unfolding log_env_ok_def sqlite_laws_def by metis
  then show "write_transparency_log e l s = (Ok (), s\<lparr>ls_table := ls_table s @ [row_of l]\<rparr>)"
    by (simp add: write_transparency_log_def open_db_ok[OF assms(1)] log_to_row_ok[OF assms(3)])
  show "stores (ls @ [l]) (ls_table s @ [row_of l])"
    using assms by (simp add: stores_def)
qed

lemma write_transparency_log_duplicate:
  assumes "log_env_ok e" and "stores ls (ls_table s)" and "log_ok l" and "log_id l \<in> log_id ` set ls"
  shows "\<exists>m. write_transparency_log e l s = (Err (DatabaseFailure m), s)"
proof -
  have "cell Col_id (row_of l) \<in> cell Col_id ` set (ls_table s)"
    using assms by (auto simp: stores_def row_of_cells image_iff)
  then have "\<exists>m. sql_insert (le_sql e) (ls_table s) (row_of l) = Err m"
    using assms(1) row_typed_row_of[OF assms(3)] unfolding log_env_ok_def sqlite_laws_def by metis
  then show ?thesis
    by (auto simp: write_transparency_log_def open_db_ok[OF assms(1)] log_to_row_ok[OF assms(3)])
qed

lemma write_if_not_exists_spec:
  assumes "log_env_ok e" and "stores ls (ls_table s)" and "log_ok l" and "lit_safe (log_id l)"
  shows "write_if_not_exists e l s =
      (if log_id l \<in> log_id ` set ls then (Ok (), s)
       else (Ok (), s\<lparr>ls_table := ls_table s @ [row_of l]\<rparr>))"
proof (cases "List.find (\<lambda>l'. log_id l' = log_id l) ls")
  case None
  then have "log_id l \<notin> log_id ` set ls" by (simp add: find_None_ids)
  then show ?thesis
    using None find_transparency_log_spec[OF assms(1,2,4)] write_transparency_log_new(1)[OF assms(1-3)]
    by (simp add: write_if_not_exists_def)
next
  case (Some l')
  then have "log_id l \<in> log_id ` set ls" using find_None_ids[of "log_id l" ls] by auto
  then show ?thesis
    using Some find_transparency_log_spec[OF assms(1,2,4)] by (simp add: write_if_not_exists_def)
qed

definition table_get :: "log_env \<Rightarrow> log_state \<Rightarrow> string \<Rightarrow> TransparencyLog option" where
  "table_get e s i = (case find_transparency_log e i s of Ok l \<Rightarrow> Some l | _ \<Rightarrow> None)"

definition table_inv :: "log_env \<Rightarrow> log_state \<Rightarrow> bool" where
  "table_inv e s \<longleftrightarrow> log_env_ok e \<and> (\<exists>ls. stores ls (ls_table s))"

definition table_fits :: "string \<Rightarrow> TransparencyLog \<Rightarrow> bool" where
  "table_fits i l \<longleftrightarrow> log_id l = i \<and> log_ok l"

lemma table_get_spec:
  assumes "log_env_ok e" and "stores ls (ls_table s)" and "lit_safe i"
  shows "table_get e s i = List.find (\<lambda>l. log_id l = i) ls"
  using find_transparency_log_spec[OF assms] by (auto simp: table_get_def split: option.splits)

lemma write_if_not_exists_stores:
  assumes "log_env_ok e" and "stores ls (ls_table s)" and "log_ok l" and "lit_safe (log_id l)"
  shows "stores (if log_id l \<in> log_id ` set ls then ls else ls @ [l])
           (ls_table (snd (write_if_not_exists e l s)))"
  using write_if_not_exists_spec[OF assms] write_transparency_log_new(2)[OF assms(1-3)] assms(2)
  by simp

lemma find_append_log: "List.find P (xs @ ys) = (case List.find P xs of Some x \<Rightarrow> Some x | None \<Rightarrow> List.find P ys)"
  by (induction xs) auto

interpretation log_table: write_once "\<lambda>s i l. snd (write_if_not_exists e l s)" "table_get e"
    "table_inv e" lit_safe table_fits
  for e
proof unfold_locales
  fix s k v
  assume a: "table_inv e s" "lit_safe k" "table_fits k v"
  then obtain ls where ok: "log_env_ok e" "stores ls (ls_table s)" "log_ok v" "lit_safe (log_id v)"
      "log_id v = k"
    by (auto simp: table_inv_def table_fits_def)
  let ?s1 = "snd (write_if_not_exists e v s)"
  note st = write_if_not_exists_stores[OF ok(1-4)]
  show "table_inv e ?s1" using ok(1) st unfolding table_inv_def by blast
  have get1: "table_get e ?s1 i =
      List.find (\<lambda>l. log_id l = i) (if log_id v \<in> log_id ` set ls then ls else ls @ [v])"
    if "lit_safe i" for i
    by (rule table_get_spec[OF ok(1) st that])
  have get0: "table_get e s i = List.find (\<lambda>l. log_id l = i) ls" if "lit_safe i" for i
    by (rule table_get_spec[OF ok(1,2) that])
  show "table_get e ?s1 k = Some v" if "table_get e s k = None"
    using that ok(5) get0[OF a(2)] get1[OF a(2)] find_None_ids[of k ls]
    by (simp add: find_append_log)
  show "table_get e ?s1 k = Some w" if "table_get e s k = Some w" for w
    using that get0[OF a(2)] get1[OF a(2)] by (simp add: find_append_log)
  show "table_get e ?s1 k' = table_get e s k'" if "lit_safe k'" "k' \<noteq> k" for k'
    using that ok(5) get0 get1 by (simp add: find_append_log split: option.splits)
qed

section \<open>Which record a download uses\<close>

definition artifact_records :: "PackageType \<Rightarrow> string \<Rightarrow> TransparencyLog list \<Rightarrow> TransparencyLog list" where
  "artifact_records pt art ls =
     filter (\<lambda>l. package_type l = Some pt \<and> package_specific_artifact_id l = art \<and>
                 (operation l = AddArtifact \<or> operation l = RemoveArtifact)) ls"

lemma package_type_cell:
  "(case package_type l of Some pt \<Rightarrow> SqlText (PackageType_to_string pt) | None \<Rightarrow> SqlNull)
     = SqlText (PackageType_to_string pt) \<longleftrightarrow> package_type l = Some pt"
  by (cases "package_type l") (simp_all add: package_type_text.to_text_eq_iff)

lemma head_of_sort_key:
  assumes "sort_key f xs = y # ys"
  shows "y \<in> set xs \<and> (\<forall>x \<in> set xs. f y \<le> f x)"
proof -
  have "set (y # ys) = set xs" using arg_cong[OF assms, of set] by simp
  moreover have "sorted (map f (y # ys))" using sorted_sort_key[of f xs] unfolding assms .
  ultimately show ?thesis by auto
qed

definition is_artifact_record :: "TransparencyLog \<Rightarrow> bool" where
  "is_artifact_record l \<longleftrightarrow> operation l = AddArtifact \<or> operation l = RemoveArtifact"

text \<open>The oldest of the records that the text of the query selects decides.\<close>

lemma read_transparency_log_oldest:
  assumes "log_env_ok e" and "stores ls (ls_table s)"
    and "sql_parse (artifact_text pt art) = Some (Select None c None None)"
    and rs: "filter (\<lambda>l. cond_holds c (row_of l) \<and> is_artifact_record l) ls = rs"
  shows "rs = [] \<and> read_transparency_log e pt art s = Err (ArtifactNotFound pt art)
    \<or> (\<exists>l \<in> set rs. (\<forall>l' \<in> set rs. timestamp l \<le> timestamp l') \<and>
          read_transparency_log e pt art s =
            (if operation l = RemoveArtifact then Err (InvalidOperation (log_id l) RemoveArtifact)
             else Ok l))"
proof -
  obtain ys where q: "process_query e (artifact_text pt art) s = Ok ys"
    and ys: "mset ys = mset (filter (\<lambda>l. cond_holds c (row_of l)) ls)"
    using process_select[OF assms(1-3)] by auto
  have set_eq: "set (filter is_artifact_record ys) = set rs"
    using mset_eq_setD[OF ys] by (auto simp flip: rs)
  have read: "read_transparency_log e pt art s = (case sort_key timestamp (filter is_artifact_record ys) of
      [] \<Rightarrow> Err (ArtifactNotFound pt art)
    | l # _ \<Rightarrow> if operation l = RemoveArtifact then Err (InvalidOperation (log_id l) RemoveArtifact) else Ok l)"
    by (simp add: read_transparency_log_def q Let_def is_artifact_record_def[abs_def] split: list.splits)
  show ?thesis
  proof (cases "sort_key timestamp (filter is_artifact_record ys)")
    case Nil
    have "set (filter is_artifact_record ys) = {}" using arg_cong[OF Nil, of set] unfolding set_sort by simp
    then have "rs = []" using set_eq by simp
    then show ?thesis using Nil by (simp add: read)
  next
    case (Cons l rest)
    then show ?thesis using set_eq head_of_sort_key[OF Cons] by (auto simp: read)
  qed
qed

lemma read_transparency_log_cases:
  assumes "log_env_ok e" and "stores ls (ls_table s)" and "lit_safe art"
  shows "artifact_records pt art ls = [] \<and> read_transparency_log e pt art s = Err (ArtifactNotFound pt art)
    \<or> (\<exists>l \<in> set (artifact_records pt art ls).
          (\<forall>l' \<in> set (artifact_records pt art ls). timestamp l \<le> timestamp l') \<and>
          read_transparency_log e pt art s =
            (if operation l = RemoveArtifact then Err (InvalidOperation (log_id l) RemoveArtifact)
             else Ok l))"
proof (rule read_transparency_log_oldest[OF assms(1,2) parse_artifact_text[OF assms(3)]])
  show "filter (\<lambda>l. cond_holds (And (Eq Col_package_type (PackageType_to_string pt))
          (Eq Col_package_specific_artifact_id art)) (row_of l) \<and> is_artifact_record l) ls = artifact_records pt art ls"
    using assms(2)
    by (auto simp: artifact_records_def is_artifact_record_def stores_def row_of_cells package_type_cell
        intro!: filter_cong)
qed

text \<open>With \<open>always_true\<close> the records of the whole table are selected.\<close>

lemma read_transparency_log_injected:
  assumes "log_env_ok e" and "stores ls (ls_table s)" and "lit_safe art"
  shows "filter is_artifact_record ls = [] \<and>
      read_transparency_log e pt (always_true art) s = Err (ArtifactNotFound pt (always_true art))
    \<or> (\<exists>l \<in> set (filter is_artifact_record ls).
          (\<forall>l' \<in> set (filter is_artifact_record ls). timestamp l \<le> timestamp l') \<and>
          read_transparency_log e pt (always_true art) s =
            (if operation l = RemoveArtifact then Err (InvalidOperation (log_id l) RemoveArtifact)
             else Ok l))"
  by (rule read_transparency_log_oldest[OF assms(1,2) parse_artifact_text_injected[OF assms(3)]]) simp

end
