(* ===== verification/Rust_Text.thy ===== *)
theory Rust_Text
  imports Pyrsia_Prelude
begin

text \<open>
  The string operations of Rust's standard library that the sources use on ids, URLs and paths, with
  the lemmas about them that the components share.
\<close>

section \<open>Operations\<close>

text \<open>\<^verbatim>\<open>str::split\<close> at a character.\<close>

fun split_at :: "char \<Rightarrow> string \<Rightarrow> string list" where
  "split_at d [] = [[]]"
| "split_at d (c # cs) =
     (if c = d then [] # split_at d cs
      else (case split_at d cs of w # ws \<Rightarrow> (c # w) # ws | [] \<Rightarrow> [[c]]))"

text \<open>\<^verbatim>\<open>rfind\<close> of a character, as the text before and after its last occurrence.\<close>

definition rfind_split :: "char \<Rightarrow> string \<Rightarrow> (string \<times> string) option" where
  "rfind_split d s =
     (case dropWhile (\<lambda>c. c \<noteq> d) (rev s) of
        [] \<Rightarrow> None
      | _ # before \<Rightarrow> Some (rev before, rev (takeWhile (\<lambda>c. c \<noteq> d) (rev s))))"

definition replace_char :: "char \<Rightarrow> char \<Rightarrow> string \<Rightarrow> string" where
  "replace_char a b s = map (\<lambda>c. if c = a then b else c) s"

definition ends_with :: "string \<Rightarrow> string \<Rightarrow> bool" where
  "ends_with suffix s \<longleftrightarrow> length suffix \<le> length s \<and> drop (length s - length suffix) s = suffix"

definition starts_with :: "string \<Rightarrow> string \<Rightarrow> bool" where
  "starts_with prefix s \<longleftrightarrow> take (length prefix) s = prefix"

fun join_with :: "string \<Rightarrow> string list \<Rightarrow> string" where
  "join_with sep [] = []"
| "join_with sep [x] = x"
| "join_with sep (x # y # ys) = x @ sep @ join_with sep (y # ys)"

text \<open>\<^verbatim>\<open>remove_last_character\<close> on an endpoint that ends with a slash.\<close>

definition strip_slash :: "string \<Rightarrow> string" where
  "strip_slash s = (if ends_with ''/'' s then butlast s else s)"

section \<open>Lemmas\<close>

lemma split_at_none: "d \<notin> set s \<Longrightarrow> split_at d s = [s]"
  by (induction s) auto

lemma split_at_nonempty: "split_at d s \<noteq> []"
  by (induction s) (auto split: list.splits)

lemma split_at_append:
  assumes "d \<notin> set s"
  shows "split_at d (s @ d # t) = s # split_at d t"
  using assms
proof (induction s)
  case (Cons c s)
  then show ?case by (auto split: list.splits)
qed simp

lemma split_at_join:
  "\<forall>p \<in> set ps. d \<notin> set p \<Longrightarrow> ps \<noteq> [] \<Longrightarrow> split_at d (join_with [d] ps) = ps"
  by (induction "[d]" ps rule: join_with.induct) (simp_all add: split_at_none split_at_append)

lemma rfind_split_none: "d \<notin> set s \<Longrightarrow> rfind_split d s = None"
proof -
  assume "d \<notin> set s"
  then have "dropWhile (\<lambda>c. c \<noteq> d) (rev s) = []" by (auto simp: dropWhile_eq_Nil_conv)
  then show ?thesis unfolding rfind_split_def by (simp only: list.case)
qed

lemma rfind_split_append:
  assumes "d \<notin> set t"
  shows "rfind_split d (s @ d # t) = Some (s, t)"
proof -
  have "dropWhile (\<lambda>c. c \<noteq> d) (rev t) = []" using assms by (auto simp: dropWhile_eq_Nil_conv)
  then have "dropWhile (\<lambda>c. c \<noteq> d) (rev t @ d # rev s) = d # rev s"
    by (simp add: dropWhile_append3)
  moreover have "takeWhile (\<lambda>c. c \<noteq> d) (rev t) = rev t"
    using assms by (auto simp: takeWhile_eq_all_conv)
  then have "takeWhile (\<lambda>c. c \<noteq> d) (rev t @ d # rev s) = rev t"
    by (simp add: takeWhile_tail)
  ultimately show ?thesis by (simp add: rfind_split_def)
qed

lemma ends_with_append: "ends_with t (s @ t)"
  by (simp add: ends_with_def)

lemma ends_with_char: "ends_with [c] s \<longleftrightarrow> s \<noteq> [] \<and> last s = c"
  by (cases s rule: rev_cases) (auto simp: ends_with_def)

lemma strip_slash_idem:
  "strip_slash s = (if s \<noteq> [] \<and> last s = CHR ''/'' then butlast s else s)"
  by (simp add: strip_slash_def ends_with_char)

end
