(* ===== verification/Artifact_Storage.thy ===== *)
theory Artifact_Storage
  imports Blockchain_Chain Interfaces Rust_Text
begin

text \<open>
  The artifact files of a node (\<^verbatim>\<open>src/src/artifact_service/storage.rs\<close>). A path is the list of its
  components; \<^verbatim>\<open>PathBuf::push\<close>, \<^verbatim>\<open>file_name\<close>, \<^verbatim>\<open>file_stem\<close>, \<^verbatim>\<open>extension\<close> and \<^verbatim>\<open>set_extension\<close> are modelled
  as the standard library documents them, so that unusual artifact ids go where the code sends them.
  The storage is interpreted as a \<open>write_once\<close> store for plain ids.
\<close>

section \<open>Paths\<close>

definition components :: "string \<Rightarrow> path" where
  "components s = filter (\<lambda>c. c \<noteq> [] \<and> c \<noteq> ''.'') (split_at (CHR ''/'') s)"

text \<open>Pushing an absolute path replaces the whole path.\<close>

definition PathBuf_push :: "path \<Rightarrow> string \<Rightarrow> path" where
  "PathBuf_push base s = (case s of c # _ \<Rightarrow> if c = CHR ''/'' then components s else base @ components s
                                  | [] \<Rightarrow> base)"

definition file_name :: "path \<Rightarrow> string option" where
  "file_name p = (if p = [] \<or> last p = ''..'' then None else Some (last p))"

text \<open>
  The part before the last dot, or the whole name when there is no dot or the only dot is in front.
\<close>

definition name_stem :: "string \<Rightarrow> string" where
  "name_stem f =
     (case dropWhile (\<lambda>c. c \<noteq> CHR ''.'') (rev f) of
        [] \<Rightarrow> f
      | _ # before \<Rightarrow> if before = [] then f else rev before)"

definition name_extension :: "string \<Rightarrow> string option" where
  "name_extension f =
     (if name_stem f = f then None else Some (drop (Suc (length (name_stem f))) f))"

definition set_extension :: "string \<Rightarrow> path \<Rightarrow> path" where
  "set_extension ext p =
     (case file_name p of None \<Rightarrow> p | Some f \<Rightarrow> butlast p @ [name_stem f @ ''.'' @ ext])"

section \<open>ArtifactStorage\<close>

definition FILE_EXTENSION :: string where
  "FILE_EXTENSION = ''file''"

record ArtifactStorage =
  repository_path :: path

definition base_file_path :: "ArtifactStorage \<Rightarrow> string \<Rightarrow> path" where
  "base_file_path st i = PathBuf_push (repository_path st) i"

definition artifact_file_path :: "ArtifactStorage \<Rightarrow> string \<Rightarrow> path" where
  "artifact_file_path st i = set_extension FILE_EXTENSION (base_file_path st i)"

text \<open>\<^verbatim>\<open>create_new(true)\<close>: the file must not exist, and is empty when it has been made.\<close>

definition create_artifact_file ::
    "io_env \<Rightarrow> ArtifactStorage \<Rightarrow> string \<Rightarrow> disk \<Rightarrow> (path, io_error) outcome \<times> disk" where
  "create_artifact_file io st i d =
     (let p = artifact_file_path st i in
      case write_fault_at io p of
        Some (OpenFault e) \<Rightarrow> (Err e, d)
      | _ \<Rightarrow> (case map_of d p of
               Some _ \<Rightarrow> (Err AlreadyExists, d)
             | None \<Rightarrow> (Ok p, AList.update p [] d)))"

text \<open>
  A reader is the bytes it yields and the error it ends with, if any. A failing write leaves the
  prefix that was written.
\<close>

type_synonym reader = "bytes \<times> io_error option"

definition push_artifact ::
    "io_env \<Rightarrow> ArtifactStorage \<Rightarrow> reader \<Rightarrow> string \<Rightarrow> disk \<Rightarrow> (unit, io_error) outcome \<times> disk" where
  "push_artifact io st rd i d =
     sbind (create_artifact_file io st i d) (\<lambda>p d1.
       case (write_fault_at io p, rd) of
         (Some (WriteFault k e), (bs, _)) \<Rightarrow> (Err e, AList.update p (take k bs) d1)
       | (_, (bs, Some e)) \<Rightarrow> (Err e, AList.update p bs d1)
       | (_, (bs, None)) \<Rightarrow> (Ok (), AList.update p bs d1))"

definition pull_artifact ::
    "io_env \<Rightarrow> ArtifactStorage \<Rightarrow> string \<Rightarrow> disk \<Rightarrow> (bytes, io_error) outcome" where
  "pull_artifact io st i d =
     (let p = artifact_file_path st i in
      case read_fault_at io p of
        Some e \<Rightarrow> Err e
      | None \<Rightarrow> (case map_of d p of Some bs \<Rightarrow> Ok bs | None \<Rightarrow> Err NotFound))"

definition list_artifacts :: "io_env \<Rightarrow> ArtifactStorage \<Rightarrow> disk \<Rightarrow> (path list, io_error) outcome" where
  "list_artifacts io st d =
     (if stat_fault_at io (repository_path st) then Ok []
      else (case read_fault_at io (repository_path st) of
        Some e \<Rightarrow> Err e
      | None \<Rightarrow> Ok (filter (\<lambda>p. p \<noteq> [] \<and> butlast p = repository_path st \<and>
                              name_extension (last p) = Some FILE_EXTENSION) (map fst d))))"

section \<open>Plain ids\<close>

text \<open>Ids such as UUIDs: one non-empty name without dots and slashes.\<close>

definition plain_id :: "string \<Rightarrow> bool" where
  "plain_id i \<longleftrightarrow> i \<noteq> [] \<and> CHR ''/'' \<notin> set i \<and> CHR ''.'' \<notin> set i"

lemma name_stem_no_dot:
  assumes "CHR ''.'' \<notin> set f"
  shows "name_stem f = f"
proof -
  have "dropWhile (\<lambda>c. c \<noteq> CHR ''.'') (rev f) = []" using assms by (auto simp: dropWhile_eq_Nil_conv)
  then show ?thesis unfolding name_stem_def by (simp only: list.case)
qed

lemma artifact_file_path_plain:
  assumes "plain_id i"
  shows "artifact_file_path st i = repository_path st @ [i @ ''.file'']"
proof -
  have "components i = [i]"
    using assms by (auto simp: plain_id_def components_def split_at_none)
  moreover have "i \<noteq> ''..''" using assms by (auto simp: plain_id_def)
  ultimately show ?thesis using assms
    by (cases i) (auto simp: plain_id_def artifact_file_path_def base_file_path_def PathBuf_push_def
        set_extension_def file_name_def name_stem_no_dot FILE_EXTENSION_def)
qed

lemma artifact_file_path_inj:
  "plain_id i \<Longrightarrow> plain_id j \<Longrightarrow> artifact_file_path st i = artifact_file_path st j \<longleftrightarrow> i = j"
  by (simp add: artifact_file_path_plain)

lemma name_extension_plain:
  assumes "plain_id i"
  shows "name_extension (i @ ''.file'') = Some FILE_EXTENSION" and "name_stem (i @ ''.file'') = i"
proof -
  show "name_stem (i @ ''.file'') = i"
    using assms by (simp add: name_stem_def plain_id_def)
  then show "name_extension (i @ ''.file'') = Some FILE_EXTENSION"
    by (simp add: name_extension_def FILE_EXTENSION_def)
qed

section \<open>The storage is a write-once store\<close>

definition file_get :: "ArtifactStorage \<Rightarrow> disk \<Rightarrow> string \<Rightarrow> bytes option" where
  "file_get st d i = (case pull_artifact no_faults st i d of Ok bs \<Rightarrow> Some bs | _ \<Rightarrow> None)"

lemma file_get_spec: "file_get st d i = map_of d (artifact_file_path st i)"
  by (auto simp: file_get_def pull_artifact_def no_faults_def Let_def split: option.splits)

lemma push_no_faults:
  "push_artifact no_faults st (bs, None) i d =
     (case map_of d (artifact_file_path st i) of
        Some _ \<Rightarrow> (Err AlreadyExists, d)
      | None \<Rightarrow> (Ok (), AList.update (artifact_file_path st i) bs
                       (AList.update (artifact_file_path st i) [] d)))"
  by (simp add: push_artifact_def create_artifact_file_def no_faults_def Let_def split: option.splits)

interpretation artifact_files: write_once
  "\<lambda>d i bs. snd (push_artifact no_faults st (bs, None) i d)" "file_get st" "\<lambda>_. True" plain_id "\<lambda>_ _. True"
  for st
  by unfold_locales
     (auto simp: push_no_faults file_get_spec update_conv' artifact_file_path_inj split: option.splits)

end
