(* ===== verification/Network_Client.thy ===== *)
theory Network_Client
  imports Blockchain_Service
begin

text \<open>
  The choice of a peer to download from (\<^verbatim>\<open>Client::get_idle_peer\<close> of \<^verbatim>\<open>src/src/network/client.rs\<close>).
  Idle metrics travel as the eight bytes of a double; doubles are kept as their bit pattern and
  compared the way IEEE 754 does, so that the \<^verbatim>\<open>NaN\<close> case of \<^verbatim>\<open>partial_cmp\<close> is there.
\<close>

section \<open>Doubles\<close>

type_synonym f64 = "64 word"

definition f64_from_le_bytes :: "bytes \<Rightarrow> f64" where
  "f64_from_le_bytes bs = foldr (\<lambda>b acc. acc * 256 + ucast b) bs 0"

definition f64_magnitude :: "f64 \<Rightarrow> nat" where
  "f64_magnitude x = unat x mod 2 ^ 63"

definition f64_is_nan :: "f64 \<Rightarrow> bool" where
  "f64_is_nan x \<longleftrightarrow> f64_magnitude x > 2047 * 2 ^ 52"

text \<open>The position of a number that is not \<^verbatim>\<open>NaN\<close> on the line of doubles; both zeros are at 0.\<close>

definition f64_key :: "f64 \<Rightarrow> int" where
  "f64_key x = (if unat x \<ge> 2 ^ 63 then - int (f64_magnitude x) else int (f64_magnitude x))"

definition f64_less :: "f64 \<Rightarrow> f64 \<Rightarrow> bool" where
  "f64_less x y \<longleftrightarrow> \<not> f64_is_nan x \<and> \<not> f64_is_nan y \<and> f64_key x < f64_key y"

definition f64_half :: f64 where
  "f64_half = 1022 * 2 ^ 52"

section \<open>Choosing a peer\<close>

definition PEER_METRIC_THRESHOLD :: f64 where
  "PEER_METRIC_THRESHOLD = f64_half"

record IdleMetric =
  im_peer :: PeerId
  im_metric :: f64

text \<open>
  What the event loop answers to \<^verbatim>\<open>RequestIdleMetric\<close>: \<open>None\<close> when it drops the sender, which the
  client turns into a panic.
\<close>

type_synonym metric_oracle = "PeerId \<Rightarrow> (bytes, string) outcome option"

text \<open>
  \<^verbatim>\<open>sort_by\<close> with \<^verbatim>\<open>partial_cmp().unwrap()\<close>: a sort of two or more elements compares every one of
  them, so a single \<^verbatim>\<open>NaN\<close> panics.
\<close>

definition sort_by_metric :: "IdleMetric list \<Rightarrow> (IdleMetric list, string) outcome" where
  "sort_by_metric ms =
     (if length ms \<ge> 2 \<and> (\<exists>m \<in> set ms. f64_is_nan (im_metric m)) then Panic ''partial_cmp''
      else Ok (sort_key (\<lambda>m. f64_key (im_metric m)) ms))"

fun collect_idle_metrics ::
    "metric_oracle \<Rightarrow> PeerId list \<Rightarrow> IdleMetric list \<Rightarrow> (PeerId option, string) outcome" where
  "collect_idle_metrics ask [] ms =
     map_ok (\<lambda>sorted_ms. case sorted_ms of [] \<Rightarrow> None | m # _ \<Rightarrow> Some (im_peer m)) (sort_by_metric ms)"
| "collect_idle_metrics ask (peer # peers) ms =
     (case ask peer of
        None \<Rightarrow> Panic ''Sender not to be dropped.''
      | Some (Panic m) \<Rightarrow> Panic m
      | Some (Err e) \<Rightarrow> collect_idle_metrics ask peers ms
      | Some (Ok bs) \<Rightarrow>
        (let metric = f64_from_le_bytes bs in
         if f64_less metric PEER_METRIC_THRESHOLD then Ok (Some peer)
         else collect_idle_metrics ask peers (ms @ [\<lparr>im_peer = peer, im_metric = metric\<rparr>])))"

text \<open>The providers come as a \<^verbatim>\<open>HashSet\<close>; the list is the order it is walked in.\<close>

definition get_idle_peer :: "metric_oracle \<Rightarrow> PeerId list \<Rightarrow> (PeerId option, string) outcome" where
  "get_idle_peer ask providers = collect_idle_metrics ask providers []"

section \<open>Specification\<close>

definition answered :: "metric_oracle \<Rightarrow> PeerId \<Rightarrow> f64 option" where
  "answered ask p = (case ask p of Some (Ok bs) \<Rightarrow> Some (f64_from_le_bytes bs) | _ \<Rightarrow> None)"

text \<open>The event loop answers every request, and no answer is \<^verbatim>\<open>NaN\<close>.\<close>

definition metrics_sane :: "metric_oracle \<Rightarrow> PeerId list \<Rightarrow> bool" where
  "metrics_sane ask ps \<longleftrightarrow>
     (\<forall>p \<in> set ps. case ask p of Some (Ok bs) \<Rightarrow> \<not> f64_is_nan (f64_from_le_bytes bs)
                                | Some (Err _) \<Rightarrow> True | _ \<Rightarrow> False)"

lemma half_not_nan: "\<not> f64_is_nan PEER_METRIC_THRESHOLD"
  by (simp add: f64_is_nan_def f64_magnitude_def PEER_METRIC_THRESHOLD_def f64_half_def)

text \<open>The peers whose metric has been collected so far.\<close>

definition collected :: "metric_oracle \<Rightarrow> IdleMetric list \<Rightarrow> bool" where
  "collected ask ms \<longleftrightarrow> (\<forall>m \<in> set ms. answered ask (im_peer m) = Some (im_metric m) \<and>
     \<not> f64_is_nan (im_metric m))"

lemma sort_by_metric_head:
  assumes "collected ask ms"
  shows "\<exists>ss. sort_by_metric ms = Ok ss \<and> set ss = set ms \<and>
    (\<forall>s rest. ss = s # rest \<longrightarrow> (\<forall>m \<in> set ms. f64_key (im_metric s) \<le> f64_key (im_metric m)))"
proof -
  let ?ss = "sort_key (\<lambda>m. f64_key (im_metric m)) ms"
  have "sort_by_metric ms = Ok ?ss" using assms by (auto simp: sort_by_metric_def collected_def)
  moreover have "\<forall>m \<in> set ms. f64_key (im_metric s) \<le> f64_key (im_metric m)" if "?ss = s # rest" for s rest
  proof -
    have "sorted (map (\<lambda>m. f64_key (im_metric m)) (s # rest))"
      using sorted_sort_key[of "\<lambda>m. f64_key (im_metric m)" ms] unfolding that .
    moreover have "set (s # rest) = set ms" using arg_cong[OF that, of set] by simp
    ultimately show ?thesis by auto
  qed
  ultimately show ?thesis by auto
qed

text \<open>The outcome the client promises, given the metrics collected before the loop.\<close>

definition good_choice :: "metric_oracle \<Rightarrow> PeerId set \<Rightarrow> PeerId option \<Rightarrow> bool" where
  "good_choice ask ps r \<longleftrightarrow>
     (case r of
        None \<Rightarrow> \<forall>q \<in> ps. answered ask q = None
      | Some p \<Rightarrow> p \<in> ps \<and> (\<exists>m. answered ask p = Some m \<and>
          (f64_less m PEER_METRIC_THRESHOLD \<or>
           (\<forall>q \<in> ps. \<forall>n. answered ask q = Some n \<longrightarrow> f64_key m \<le> f64_key n))))"

lemma collect_idle_metrics_good:
  assumes "metrics_sane ask ps" and "collected ask ms"
    and "\<forall>q \<in> qs. answered ask q = None \<or> q \<in> im_peer ` set ms" and "im_peer ` set ms \<subseteq> qs"
  shows "\<exists>r. collect_idle_metrics ask ps ms = Ok r \<and> good_choice ask (qs \<union> set ps) r"
  using assms
proof (induction ps arbitrary: ms qs)
  case Nil
  obtain ss where ss: "sort_by_metric ms = Ok ss" "set ss = set ms"
      "\<forall>s rest. ss = s # rest \<longrightarrow> (\<forall>m \<in> set ms. f64_key (im_metric s) \<le> f64_key (im_metric m))"
    using sort_by_metric_head[OF Nil(2)] by blast
  show ?case
  proof (cases ss)
    case Nil
    then show ?thesis using ss Nil.prems by (auto simp: good_choice_def)
  next
    case (Cons s rest)
    then have s: "s \<in> set ms" using ss(2) by auto
    have "f64_key (im_metric s) \<le> f64_key n" if q: "q \<in> qs" "answered ask q = Some n" for q n
    proof -
      obtain m where "m \<in> set ms" "q = im_peer m" using q Nil.prems(3) by auto
      then show ?thesis using q(2) Nil.prems(2) ss(3) Cons by (auto simp: collected_def)
    qed
    then show ?thesis using ss(1) Cons s Nil.prems(2,4)
      by (auto simp: good_choice_def collected_def)
  qed
next
  case (Cons p ps)
  have sane: "metrics_sane ask ps" using Cons.prems(1) by (simp add: metrics_sane_def)
  show ?case
  proof (cases "ask p")
    case None
    then show ?thesis using Cons.prems(1) by (simp add: metrics_sane_def)
  next
    case (Some a)
    show ?thesis
    proof (cases a)
      case (Ok bs)
      let ?m = "f64_from_le_bytes bs"
      have ans: "answered ask p = Some ?m" by (simp add: answered_def Some Ok)
      show ?thesis
      proof (cases "f64_less ?m PEER_METRIC_THRESHOLD")
        case True
        then show ?thesis using Some Ok ans by (auto simp: good_choice_def)
      next
        case False
        have "collected ask (ms @ [\<lparr>im_peer = p, im_metric = ?m\<rparr>])"
          using Cons.prems(1,2) ans Some Ok by (auto simp: collected_def metrics_sane_def)
        from Cons.IH[OF sane this, of "insert p qs"] show ?thesis
          using False Some Ok Cons.prems(3,4) by (auto simp: Let_def)
      qed
    next
      case (Err e)
      then have "answered ask p = None" by (simp add: answered_def Some)
      with Cons.IH[OF sane Cons.prems(2), of "insert p qs"] show ?thesis
        using Some Err Cons.prems(3,4) by auto
    next
      case (Panic m)
      then show ?thesis using Some Cons.prems(1) by (simp add: metrics_sane_def)
    qed
  qed
qed

text \<open>
  When the event loop answers every request and no metric is \<^verbatim>\<open>NaN\<close>, the client returns a peer
  exactly if some provider answered, and that peer is a provider whose metric is below the threshold
  or the smallest of all answers.
\<close>

theorem idle_peer_is_good_choice:
  assumes "metrics_sane ask providers"
  shows "\<exists>r. get_idle_peer ask providers = Ok r \<and> good_choice ask (set providers) r"
  using collect_idle_metrics_good[OF assms, of "[]" "{}"]
  by (simp add: get_idle_peer_def collected_def)

theorem idle_peer_is_good_choice_witness:
  "\<exists>r. get_idle_peer (\<lambda>p. Some (Ok [0, 0, 0, 0, 0, 0, 0xE8, 0x3F])) [[1], [2]] = Ok r \<and>
     good_choice (\<lambda>p. Some (Ok [0, 0, 0, 0, 0, 0, 0xE8, 0x3F])) {[1], [2]} r"
  using idle_peer_is_good_choice[of "\<lambda>p. Some (Ok [0, 0, 0, 0, 0, 0, 0xE8, 0x3F])" "[[1], [2]]"]
  by (simp add: metrics_sane_def f64_is_nan_def f64_magnitude_def f64_from_le_bytes_def)

end
