(* ===== verification/Artifact_Service.thy ===== *)
theory Artifact_Service
  imports Transparency_Log_Properties Artifact_Storage Network_Client
begin

text \<open>
  The artifact service (\<^verbatim>\<open>src/src/artifact_service/service.rs\<close>) with the build data types it shares
  with the build service (\<^verbatim>\<open>build_service/model.rs\<close>, \<^verbatim>\<open>build_service/error.rs\<close>). It owns the artifact
  files and the transparency log of a node. What its p2p client and the build event loop answer is
  part of the environment; the artifacts it announces and the builds it spawns are recorded.
\<close>

section \<open>Builds\<close>

datatype BuildStatus = Running | Success "string list" | FailureStatus string

fun BuildStatus_to_string :: "BuildStatus \<Rightarrow> string" where
  "BuildStatus_to_string Running = ''RUNNING''"
| "BuildStatus_to_string (Success urls) = ''SUCCESS''"
| "BuildStatus_to_string (FailureStatus m) = ''FAILED - (Error: '' @ m @ '')''"

record BuildInfo =
  bi_id :: string
  bi_status :: BuildStatus

record BuildResultArtifact =
  artifact_specific_id :: string
  artifact_location :: path
  ra_artifact_hash :: string

datatype BuildTrigger = FromSource | Verification PeerId

record BuildResult =
  br_package_type :: PackageType
  br_package_specific_id :: string
  br_artifacts :: "BuildResultArtifact list"

text \<open>Text of an error that was turned into a string with \<^verbatim>\<open>to_string\<close>, kept as what it was made of.\<close>

datatype message = Msg string | LogMsg TransparencyLogError

datatype BuildError =
    Failure string string
  | InitializationFailed message
  | TransparencyLogFailure TransparencyLogError
  | UnauthorizedPeerId PeerId
  | BuildArtifactAlreadyExists message
  | InvalidMappingResponse string
  | InvalidPipelineResponse string
  | MappingNotFound PackageType string
  | MappingServiceEndpointFailure nat
  | MappingServiceEndpointRequestFailure string
  | PipelineServiceEndpointFailure nat
  | PipelineServiceEndpointRequestFailure string
  | BuildStatusFailed message

text \<open>What an \<^verbatim>\<open>anyhow::Error\<close> was made from.\<close>

datatype anyhow =
    AnyLog TransparencyLogError
  | AnyIo io_error
  | AnyBuild BuildError
  | AnyChain BlockchainError
  | AnyJson
  | AnyMsg string

section \<open>The service\<close>

record art_env =
  ae_log :: log_env
  ae_io :: io_env
  ae_storage :: ArtifactStorage
  ae_local_peer :: PeerId
  ae_sha256_hex :: "bytes \<Rightarrow> string"
  ae_fresh :: "nat \<Rightarrow> fresh"
  net_list_providers :: "string \<Rightarrow> (PeerId list, string) outcome"
  net_idle_metric :: metric_oracle
  net_request_artifact :: "PeerId \<Rightarrow> string \<Rightarrow> (bytes, string) outcome"
  net_provide :: "string \<Rightarrow> (unit, string) outcome"
  net_request_build :: "PeerId \<Rightarrow> PackageType \<Rightarrow> string \<Rightarrow> (string, string) outcome"
  net_request_build_status :: "PeerId \<Rightarrow> string \<Rightarrow> (BuildStatus, string) outcome"
  ev_start_build :: "PackageType \<Rightarrow> string \<Rightarrow> (string, BuildError) outcome"
  ev_build_status :: "string \<Rightarrow> (BuildStatus, BuildError) outcome"

record art_state =
  as_log :: log_state
  as_files :: disk
  as_provided :: "string list"
  as_spawned :: "(PackageType \<times> string) list"

text \<open>\<^verbatim>\<open>Itertools::find_or_last\<close>.\<close>

fun find_or_last :: "('a \<Rightarrow> bool) \<Rightarrow> 'a list \<Rightarrow> 'a option" where
  "find_or_last P [] = None"
| "find_or_last P [x] = Some x"
| "find_or_last P (x # y # ys) = (if P x then Some x else find_or_last P (y # ys))"

definition request_build ::
    "art_env \<Rightarrow> PackageType \<Rightarrow> string \<Rightarrow> art_state \<Rightarrow> (string, BuildError) outcome" where
  "request_build e pt psid s =
     rbind (map_err (\<lambda>x. InitializationFailed (LogMsg x)) (get_authorized_nodes (ae_log e) (as_log s)))
       (\<lambda>nodes.
         if nodes = [] then Err (InitializationFailed (Msg ''No authorized nodes found''))
         else
           rbind (unwrap ''Error unexpected looking for authorized nodes''
                    (find_or_last (\<lambda>p. ae_local_peer e = p) nodes)) (\<lambda>peer_id.
           rbind (map_err (\<lambda>t. BuildArtifactAlreadyExists (LogMsg t))
                    (verify_package_can_be_added_to_transparency_logs (ae_log e) pt psid (as_log s))) (\<lambda>_.
             if ae_local_peer e = peer_id then ev_start_build e pt psid
             else map_err (\<lambda>m. InitializationFailed (Msg m)) (net_request_build e peer_id pt psid))))"

definition get_build_status ::
    "art_env \<Rightarrow> string \<Rightarrow> art_state \<Rightarrow> (BuildStatus, BuildError) outcome" where
  "get_build_status e build_id s =
     rbind (map_err (\<lambda>x. BuildStatusFailed (LogMsg x)) (get_authorized_nodes (ae_log e) (as_log s)))
       (\<lambda>nodes.
     rbind (unwrap ''Error while looking for authorized nodes (build status)''
              (find_or_last (\<lambda>p. ae_local_peer e = p) nodes)) (\<lambda>peer_id.
       if ae_local_peer e = peer_id then ev_build_status e build_id
       else map_err (\<lambda>m. BuildStatusFailed (Msg m)) (net_request_build_status e peer_id build_id)))"

definition handle_block_added ::
    "art_env \<Rightarrow> bytes list \<Rightarrow> art_state \<Rightarrow> (unit, anyhow) outcome \<times> art_state" where
  "handle_block_added e payloads s =
     (case payloads of
        [payload] \<Rightarrow>
          (case json_from_slice (le_json (ae_log e)) payload of
             None \<Rightarrow> (Err AnyJson, s)
           | Some l \<Rightarrow>
             (let (res, l1) = write_if_not_exists (ae_log e) l (as_log s)
              in (map_err AnyLog res, s\<lparr>as_log := l1\<rparr>)))
      | _ \<Rightarrow> (Ok (), s))"

definition put_artifact ::
    "art_env \<Rightarrow> string \<Rightarrow> reader \<Rightarrow> art_state \<Rightarrow> (unit, anyhow) outcome \<times> art_state" where
  "put_artifact e i rd s =
     (let (res, d1) = push_artifact (ae_io e) (ae_storage e) rd i (as_files s)
      in (map_err AnyIo res, s\<lparr>as_files := d1\<rparr>))"

definition put_artifact_from_build_result ::
    "art_env \<Rightarrow> path \<Rightarrow> string \<Rightarrow> art_state \<Rightarrow> (unit, anyhow) outcome \<times> art_state" where
  "put_artifact_from_build_result e location i s =
     (case map_of (as_files s) location of
        None \<Rightarrow> (Err (AnyIo NotFound), s)
      | Some bs \<Rightarrow> put_artifact e i (bs, read_fault_at (ae_io e) location) s)"

definition provide :: "art_env \<Rightarrow> string \<Rightarrow> art_state \<Rightarrow> (unit, anyhow) outcome \<times> art_state" where
  "provide e i s = (map_err AnyMsg (net_provide e i), s\<lparr>as_provided := as_provided s @ [i]\<rparr>)"

text \<open>One round of the loop over the artifacts of a build; \<open>k\<close> counts the rounds.\<close>

definition add_build_artifact ::
    "art_env \<Rightarrow> BuildResult \<Rightarrow> nat \<Rightarrow> BuildResultArtifact \<Rightarrow> art_state
      \<Rightarrow> (string, anyhow) outcome \<times> art_state" where
  "add_build_artifact e br k a s =
     (let q = \<lparr>req_package_type = br_package_type br,
               req_package_specific_id = br_package_specific_id br,
               req_num_artifacts = of_nat (length (br_artifacts br)),
               req_package_specific_artifact_id = artifact_specific_id a,
               req_artifact_hash = ra_artifact_hash a\<rparr>;
          (res, l1) = log_add_artifact (ae_log e) (ae_fresh e k) q (as_log s)
      in sbind (map_err AnyLog res, s\<lparr>as_log := l1\<rparr>) (\<lambda>(l, payload) s.
         sbind (put_artifact_from_build_result e (artifact_location a) (artifact_id l) s) (\<lambda>_ s.
         sbind (provide e (artifact_id l) s) (\<lambda>_ s. (Ok payload, s)))))"

fun add_build_artifacts ::
    "art_env \<Rightarrow> BuildResult \<Rightarrow> nat \<Rightarrow> BuildResultArtifact list \<Rightarrow> art_state
      \<Rightarrow> (string list, anyhow) outcome \<times> art_state" where
  "add_build_artifacts e br k [] s = (Ok [], s)"
| "add_build_artifacts e br k (a # as) s =
     sbind (add_build_artifact e br k a s) (\<lambda>payload s.
     sbind (add_build_artifacts e br (Suc k) as s) (\<lambda>payloads s. (Ok (payload # payloads), s)))"

definition handle_build_result ::
    "art_env \<Rightarrow> string \<Rightarrow> BuildResult \<Rightarrow> art_state \<Rightarrow> (unit, anyhow) outcome \<times> art_state" where
  "handle_build_result e build_id br s =
     sbind (add_build_artifacts e br 0 (br_artifacts br) s) (\<lambda>payloads s.
       let (res, l1) = broadcast_artifacts (ae_log e) payloads (as_log s)
       in (map_err AnyLog res, s\<lparr>as_log := l1\<rparr>))"

definition get_artifact_locally :: "art_env \<Rightarrow> string \<Rightarrow> art_state \<Rightarrow> (bytes, anyhow) outcome" where
  "get_artifact_locally e i s = map_err AnyIo (pull_artifact (ae_io e) (ae_storage e) i (as_files s))"

definition get_artifact_from_peer ::
    "art_env \<Rightarrow> PeerId \<Rightarrow> string \<Rightarrow> art_state \<Rightarrow> (bytes, anyhow) outcome \<times> art_state" where
  "get_artifact_from_peer e peer i s =
     sbind (map_err AnyMsg (net_request_artifact e peer i), s) (\<lambda>bs s.
     sbind (put_artifact e i (bs, None) s) (\<lambda>_ s. (get_artifact_locally e i s, s)))"

definition get_artifact_from_peers ::
    "art_env \<Rightarrow> string \<Rightarrow> art_state \<Rightarrow> (bytes, anyhow) outcome \<times> art_state" where
  "get_artifact_from_peers e i s =
     sbind (map_err AnyMsg (net_list_providers e i), s) (\<lambda>providers s.
     sbind (map_err AnyMsg (get_idle_peer (net_idle_metric e) providers), s) (\<lambda>idle s.
       case idle of
         Some peer \<Rightarrow> get_artifact_from_peer e peer i s
       | None \<Rightarrow> (Err (AnyMsg (''Artifact with id '' @ i @ '' is not available on the p2p network.'')), s)))"

definition verify_artifact ::
    "art_env \<Rightarrow> TransparencyLog \<Rightarrow> bytes \<Rightarrow> (unit, TransparencyLogError) outcome" where
  "verify_artifact e l artifact =
     (let calculated_hash = ae_sha256_hex e artifact in
      if artifact_hash l = calculated_hash then Ok ()
      else Err (InvalidHash (package_specific_artifact_id l) calculated_hash (artifact_hash l)))"

definition get_artifact ::
    "art_env \<Rightarrow> PackageType \<Rightarrow> string \<Rightarrow> art_state \<Rightarrow> (bytes, anyhow) outcome \<times> art_state" where
  "get_artifact e pt art s =
     sbind (map_err AnyLog (log_get_artifact (ae_log e) pt art (as_log s)), s) (\<lambda>l s.
     sbind (case get_artifact_locally e (artifact_id l) s of
              Ok bs \<Rightarrow> (Ok bs, s)
            | Err _ \<Rightarrow> get_artifact_from_peers e (artifact_id l) s
            | Panic m \<Rightarrow> (Panic m, s)) (\<lambda>bs s.
     sbind (map_err AnyLog (verify_artifact e l bs), s) (\<lambda>_ s. (Ok bs, s))))"

definition get_artifact_or_build ::
    "art_env \<Rightarrow> PackageType \<Rightarrow> string \<Rightarrow> string \<Rightarrow> art_state \<Rightarrow> (bytes, anyhow) outcome \<times> art_state" where
  "get_artifact_or_build e pt psid art s =
     (case get_artifact e pt art s of
        (Err x, s1) \<Rightarrow> (Err x, s1\<lparr>as_spawned := as_spawned s1 @ [(pt, psid)]\<rparr>)
      | other \<Rightarrow> other)"

definition get_logs_for_artifact ::
    "art_env \<Rightarrow> PackageType \<Rightarrow> string \<Rightarrow> art_state \<Rightarrow> (TransparencyLog list, anyhow) outcome" where
  "get_logs_for_artifact e pt psid s =
     map_err AnyLog (search_transparency_logs (ae_log e) pt psid False (as_log s))"

fun provide_paths :: "art_env \<Rightarrow> path list \<Rightarrow> art_state \<Rightarrow> (unit, anyhow) outcome \<times> art_state" where
  "provide_paths e [] s = (Ok (), s)"
| "provide_paths e (p # ps) s =
     (case file_name p of
        None \<Rightarrow> provide_paths e ps s
      | Some f \<Rightarrow> sbind (provide e (name_stem f) s) (\<lambda>_ s. provide_paths e ps s))"

definition provide_local_artifacts :: "art_env \<Rightarrow> art_state \<Rightarrow> (unit, anyhow) outcome \<times> art_state" where
  "provide_local_artifacts e s =
     sbind (map_err AnyIo (list_artifacts (ae_io e) (ae_storage e) (as_files s)), s) (\<lambda>ps s.
       provide_paths e ps s)"

end
