(* ===== verification/Node_Handlers.thy ===== *)
theory Node_Handlers
  imports Artifact_Service
begin

text \<open>
  The blockchain event loop (\<^verbatim>\<open>src/src/blockchain_service/event.rs\<close>) and the handler for blockchain
  commands of peers (\<^verbatim>\<open>src/pyrsia_node/src/network/handlers.rs\<close>). Each event is handled to its end
  before the next one; the reply goes to the sender the event carries. A panic ends the task of the loop,
  and the client that waits for the reply gets an error.
\<close>

section \<open>The blockchain event loop\<close>

datatype BlockchainEvent =
    AddBlock bytes
  | PullBlocksFromPeer PeerId
  | PullBlocksLocal Ordinal Ordinal
  | HandleBlockBroadcast Ordinal Block
  | HandlePullBlocks Ordinal Ordinal
  | HandleQueryBlockOrdinal

datatype EventReply =
    AddBlockReply "(unit, BlockchainError) outcome"
  | PullFromPeerReply "(Ordinal, BlockchainError) outcome"
  | PullLocalReply "(Block list, BlockchainError) outcome"
  | BroadcastReply "(unit, anyhow) outcome"
  | PullReply "(Block list, anyhow) outcome"
  | QueryReply "(Ordinal, anyhow) outcome"

abbreviation chain_part :: "art_state \<Rightarrow> chain_state" where
  "chain_part s \<equiv> ls_chain (as_log s)"

abbreviation set_chain :: "art_state \<Rightarrow> chain_state \<Rightarrow> art_state" where
  "set_chain s c \<equiv> s\<lparr>as_log := (as_log s)\<lparr>ls_chain := c\<rparr>\<rparr>"

fun handle_blockchain_event :: "art_env \<Rightarrow> BlockchainEvent \<Rightarrow> art_state \<Rightarrow> EventReply \<times> art_state" where
  "handle_blockchain_event e (AddBlock payload) s =
     (let (res, c1) = add_payload (le_chain (ae_log e)) (le_net (ae_log e))
            (env_rng (ae_log e) (Chain_len (chain_of (chain_part s)))) payload (chain_part s)
      in (AddBlockReply res, set_chain s c1))"
| "handle_blockchain_event e (PullBlocksFromPeer peer) s =
     (let (res, c1) = init_pull_from_others (le_chain (ae_log e)) (le_net (ae_log e)) peer (chain_part s)
      in (PullFromPeerReply res, set_chain s c1))"
| "handle_blockchain_event e (PullBlocksLocal start stop) s =
     (PullLocalReply (BlockchainService_pull_blocks start stop (chain_part s)), s)"
| "handle_blockchain_event e (HandleBlockBroadcast n b) s =
     (let payloads = fetch_payload b;
          (res, c1) = BlockchainService_add_block (le_chain (ae_log e)) n b (chain_part s);
          s1 = set_chain s c1
      in case res of
           Err x \<Rightarrow> (BroadcastReply (Err (AnyChain x)), s1)
         | Panic m \<Rightarrow> (BroadcastReply (Panic m), s1)
         | Ok _ \<Rightarrow> (let (res2, s2) = handle_block_added e payloads s1 in (BroadcastReply res2, s2)))"
| "handle_blockchain_event e (HandlePullBlocks start stop) s =
     (PullReply (map_err AnyChain (BlockchainService_pull_blocks start stop (chain_part s))), s)"
| "handle_blockchain_event e HandleQueryBlockOrdinal s =
     (QueryReply (case query_last_block (chain_part s) of
                    Some latest \<Rightarrow> Ok (ordinal (header latest))
                  | None \<Rightarrow> Err (AnyChain (InvalidBlockchainLength 0))), s)"

fun reply_panicked :: "EventReply \<Rightarrow> bool" where
  "reply_panicked (AddBlockReply r) = is_panic r"
| "reply_panicked (PullFromPeerReply r) = is_panic r"
| "reply_panicked (PullLocalReply r) = is_panic r"
| "reply_panicked (BroadcastReply r) = is_panic r"
| "reply_panicked (PullReply r) = is_panic r"
| "reply_panicked (QueryReply r) = is_panic r"

text \<open>The loop until the channel is empty, or until a panic ends its task: the later events get no reply.\<close>

fun run_blockchain_events ::
    "art_env \<Rightarrow> BlockchainEvent list \<Rightarrow> art_state \<Rightarrow> EventReply list \<times> art_state" where
  "run_blockchain_events e [] s = ([], s)"
| "run_blockchain_events e (ev # evs) s =
     (let (r, s1) = handle_blockchain_event e ev s
      in if reply_panicked r then ([r], s1)
         else (let (rs, s2) = run_blockchain_events e evs s1 in (r # rs, s2)))"

section \<open>The event client\<close>

text \<open>A call sends the event and waits; when the loop is gone, or panics, the receiver fails.\<close>

definition handle_broadcast_blockchain ::
    "art_env \<Rightarrow> Ordinal \<Rightarrow> Block \<Rightarrow> art_state \<Rightarrow> (unit, anyhow) outcome \<times> art_state" where
  "handle_broadcast_blockchain e n b s =
     (if env_loop_alive (ae_log e) then
        (case handle_blockchain_event e (HandleBlockBroadcast n b) s of
           (BroadcastReply r, s1) \<Rightarrow> (awaited (AnyChain ChannelClosed) r, s1)
         | (_, s1) \<Rightarrow> (Err (AnyChain ChannelClosed), s1))
      else (Err (AnyChain ChannelClosed), s))"

definition handle_pull_blockchain_from_peer ::
    "art_env \<Rightarrow> Ordinal \<Rightarrow> Ordinal \<Rightarrow> art_state \<Rightarrow> (Block list, anyhow) outcome \<times> art_state" where
  "handle_pull_blockchain_from_peer e start stop s =
     (if env_loop_alive (ae_log e) then
        (case handle_blockchain_event e (HandlePullBlocks start stop) s of
           (PullReply r, s1) \<Rightarrow> (awaited (AnyChain ChannelClosed) r, s1)
         | (_, s1) \<Rightarrow> (Err (AnyChain ChannelClosed), s1))
      else (Err (AnyChain ChannelClosed), s))"

definition handle_query_block_ordinal_from_peer ::
    "art_env \<Rightarrow> art_state \<Rightarrow> (Ordinal, anyhow) outcome \<times> art_state" where
  "handle_query_block_ordinal_from_peer e s =
     (if env_loop_alive (ae_log e) then
        (case handle_blockchain_event e HandleQueryBlockOrdinal s of
           (QueryReply r, s1) \<Rightarrow> (awaited (AnyChain ChannelClosed) r, s1)
         | (_, s1) \<Rightarrow> (Err (AnyChain ChannelClosed), s1))
      else (Err (AnyChain ChannelClosed), s))"

definition pull_blocks_from_peer ::
    "art_env \<Rightarrow> PeerId \<Rightarrow> art_state \<Rightarrow> (Ordinal, BlockchainError) outcome \<times> art_state" where
  "pull_blocks_from_peer e peer s =
     (if env_loop_alive (ae_log e) then
        (case handle_blockchain_event e (PullBlocksFromPeer peer) s of
           (PullFromPeerReply r, s1) \<Rightarrow> (awaited ChannelClosed r, s1)
         | (_, s1) \<Rightarrow> (Err ChannelClosed, s1))
      else (Err ChannelClosed, s))"

definition pull_blocks_local ::
    "art_env \<Rightarrow> Ordinal \<Rightarrow> Ordinal \<Rightarrow> art_state \<Rightarrow> (Block list, BlockchainError) outcome \<times> art_state" where
  "pull_blocks_local e start stop s =
     (if env_loop_alive (ae_log e) then
        (case handle_blockchain_event e (PullBlocksLocal start stop) s of
           (PullLocalReply r, s1) \<Rightarrow> (awaited ChannelClosed r, s1)
         | (_, s1) \<Rightarrow> (Err ChannelClosed, s1))
      else (Err ChannelClosed, s))"

section \<open>Handlers for requests of peers\<close>

text \<open>Slices of received bytes: Rust panics when the range does not fit.\<close>

definition byte_at :: "nat \<Rightarrow> bytes \<Rightarrow> (u8, anyhow) outcome" where
  "byte_at i data = (if i < length data then Ok (data ! i) else Panic ''index out of bounds'')"

definition slice :: "nat \<Rightarrow> nat \<Rightarrow> bytes \<Rightarrow> (bytes, anyhow) outcome" where
  "slice i j data =
     (if i \<le> j \<and> j \<le> length data then Ok (take (j - i) (drop i data)) else Panic ''range out of bounds'')"

definition slice_from :: "nat \<Rightarrow> bytes \<Rightarrow> (bytes, anyhow) outcome" where
  "slice_from i data = (if i \<le> length data then Ok (drop i data) else Panic ''range out of bounds'')"

definition handle_incoming_blockchain_command ::
    "art_env \<Rightarrow> bytes \<Rightarrow> art_state \<Rightarrow> (bytes, anyhow) outcome \<times> art_state" where
  "handle_incoming_blockchain_command e data s =
     (let bin = env_bincode (le_chain (ae_log e)); bad = AnyMsg ''bincode'' in
      sbind (byte_at 0 data, s) (\<lambda>b s.
      sbind (map_err AnyChain (BlockchainCommand_try_from b), s) (\<lambda>cmd s.
        case cmd of
          Broadcast \<Rightarrow>
            sbind (rbind (slice 1 17 data) (\<lambda>x. ok_or bad (de_ordinal bin x)), s) (\<lambda>n s.
            sbind (rbind (slice_from 17 data) (\<lambda>x. ok_or bad (de_block bin x)), s) (\<lambda>blk s.
            sbind (handle_broadcast_blockchain e n blk s) (\<lambda>_ s. (Ok [0], s))))
        | PullFromPeer \<Rightarrow>
            sbind (rbind (slice 1 17 data) (\<lambda>x. ok_or bad (de_ordinal bin x)), s) (\<lambda>start s.
            sbind (rbind (slice_from 17 data) (\<lambda>x. ok_or bad (de_ordinal bin x)), s) (\<lambda>stop s.
            sbind (handle_pull_blockchain_from_peer e start stop s) (\<lambda>bs s.
              (unwrap ''serialize blocks'' (ser_blocks bin bs), s))))
        | QueryHighestBlockOrdinal \<Rightarrow>
            sbind (handle_query_block_ordinal_from_peer e s) (\<lambda>n s.
              (unwrap ''serialize ordinal'' (ser_ordinal bin n), s))
        | PushToPeer \<Rightarrow> (Panic ''not yet implemented'', s))))"

text \<open>The components of a multi-address; only the peer id is told apart from the rest.\<close>

datatype Protocol = P2p bytes | OtherProtocol string

end
