(* ===== verification/Rust_Parse.thy ===== *)
theory Rust_Parse
  imports Rust_Text
begin

text \<open>
  The parsers of Rust's standard library that the sources use: decimal integers of a width, IPv4
  addresses, UTF-8, and \<^verbatim>\<open>trim\<close>; and \<^verbatim>\<open>util/env_util.rs\<close>, which is built on the last. Text is a list of
  UTF-8 bytes; white space beyond ASCII is left alone by \<open>trim\<close> here.
\<close>

section \<open>Characters\<close>

definition is_space :: "char \<Rightarrow> bool" where
  "is_space c \<longleftrightarrow> c = CHR '' '' \<or> 9 \<le> (of_char c :: nat) \<and> (of_char c :: nat) \<le> 13"

definition trim :: "string \<Rightarrow> string" where
  "trim s = rev (dropWhile is_space (rev (dropWhile is_space s)))"

section \<open>Decimal integers\<close>

text \<open>
  \<^verbatim>\<open>parse\<close> of an unsigned type with the maximum \<open>mx\<close>: an optional plus sign, at least one digit,
  nothing else, and no overflow.
\<close>

definition parse_unsigned :: "nat \<Rightarrow> string \<Rightarrow> nat option" where
  "parse_unsigned mx s =
     (let ds = (case s of c # cs \<Rightarrow> if c = CHR ''+'' then cs else s | [] \<Rightarrow> []) in
      if ds = [] \<or> \<not> list_all is_digit ds \<or> read_digits ds > mx then None
      else Some (read_digits ds))"

definition parse_u16 :: "string \<Rightarrow> nat option" where
  "parse_u16 s = parse_unsigned 65535 s"

section \<open>IPv4 addresses\<close>

text \<open>One part: one to three digits, no leading zero, at most 255.\<close>

definition parse_octet :: "string \<Rightarrow> nat option" where
  "parse_octet s =
     (if s \<noteq> [] \<and> length s \<le> 3 \<and> list_all is_digit s \<and> read_digits s \<le> 255 \<and>
         (hd s = CHR ''0'' \<longrightarrow> s = ''0'')
      then Some (read_digits s) else None)"

definition parse_ipv4 :: "string \<Rightarrow> (nat \<times> nat \<times> nat \<times> nat) option" where
  "parse_ipv4 s =
     (case map parse_octet (split_at (CHR ''.'') s) of
        [Some a, Some b, Some c, Some d] \<Rightarrow> Some (a, b, c, d)
      | _ \<Rightarrow> None)"

section \<open>UTF-8\<close>

definition utf8_tail :: "u8 \<Rightarrow> bool" where
  "utf8_tail b \<longleftrightarrow> 0x80 \<le> b \<and> b \<le> 0xBF"

text \<open>The table of well-formed byte sequences of the Unicode standard.\<close>

fun valid_utf8 :: "bytes \<Rightarrow> bool" where
  "valid_utf8 [] = True"
| "valid_utf8 (a # bs) =
     (if a \<le> 0x7F then valid_utf8 bs
      else if 0xC2 \<le> a \<and> a \<le> 0xDF then
        (case bs of b # cs \<Rightarrow> utf8_tail b \<and> valid_utf8 cs | _ \<Rightarrow> False)
      else if 0xE0 \<le> a \<and> a \<le> 0xEF then
        (case bs of b # c # cs \<Rightarrow>
           utf8_tail b \<and> (a = 0xE0 \<longrightarrow> 0xA0 \<le> b) \<and> (a = 0xED \<longrightarrow> b \<le> 0x9F) \<and> utf8_tail c \<and> valid_utf8 cs
         | _ \<Rightarrow> False)
      else if 0xF0 \<le> a \<and> a \<le> 0xF4 then
        (case bs of b # c # d # cs \<Rightarrow>
           utf8_tail b \<and> (a = 0xF0 \<longrightarrow> 0x90 \<le> b) \<and> (a = 0xF4 \<longrightarrow> b \<le> 0x8F) \<and>
           utf8_tail c \<and> utf8_tail d \<and> valid_utf8 cs
         | _ \<Rightarrow> False)
      else False)"

definition of_bytes :: "bytes \<Rightarrow> string" where
  "of_bytes bs = map (\<lambda>b. char_of (unat b)) bs"

definition from_utf8 :: "bytes \<Rightarrow> string option" where
  "from_utf8 bs = (if valid_utf8 bs then Some (of_bytes bs) else None)"

text \<open>What a Rust \<^verbatim>\<open>String\<close> can hold.\<close>

definition is_text :: "string \<Rightarrow> bool" where
  "is_text s \<longleftrightarrow> valid_utf8 (as_bytes s)"

lemma of_bytes_as_bytes [simp]: "of_bytes (as_bytes s) = s"
proof -
  have "char_of (unat (of_nat (of_char c) :: u8)) = c" for c
  proof -
    have "(of_char c :: nat) < 256" by simp
    then show ?thesis by (simp add: unat_of_nat take_bit_eq_mod)
  qed
  then show ?thesis by (simp add: of_bytes_def as_bytes_def map_idI)
qed

lemma as_bytes_of_bytes [simp]: "as_bytes (of_bytes bs) = bs"
proof -
  have "(of_nat (of_char (char_of (unat b) :: char)) :: u8) = b" for b :: u8
  proof -
    have "unat b < 256" using unsigned_less[of b, where 'a = nat] by simp
    then show ?thesis by simp
  qed
  then show ?thesis by (simp add: of_bytes_def as_bytes_def map_idI)
qed

lemma from_utf8_as_bytes: "is_text s \<Longrightarrow> from_utf8 (as_bytes s) = Some s"
  by (simp add: from_utf8_def is_text_def)

lemma from_utf8_Some_iff: "from_utf8 bs = Some s \<longleftrightarrow> is_text s \<and> bs = as_bytes s"
  by (auto simp: from_utf8_def is_text_def)

text \<open>ASCII text is UTF-8.\<close>

lemma ascii_is_text: "\<forall>c \<in> set s. (of_char c :: nat) < 128 \<Longrightarrow> is_text s"
proof (induction s)
  case (Cons c s)
  have c: "(of_char c :: nat) < 128" using Cons.prems by simp
  then have "unat (of_nat (of_char c) :: u8) = of_char c" by (simp add: unat_of_nat take_bit_eq_mod)
  then have "(of_nat (of_char c) :: u8) \<le> 0x7F" using c by (simp add: word_le_nat_alt)
  then show ?case using Cons by (simp add: is_text_def as_bytes_def)
qed (simp add: is_text_def as_bytes_def)

section \<open>Environment variables\<close>

text \<open>\<open>var\<close> is \<^verbatim>\<open>env::var\<close>: \<open>None\<close> for a variable that is absent or not text.\<close>

definition read_var :: "(string \<Rightarrow> string option) \<Rightarrow> string \<Rightarrow> string \<Rightarrow> string" where
  "read_var var variable_name default_value =
     (case var variable_name of
        Some v \<Rightarrow> (let tr = trim v in if tr \<noteq> [] then tr else default_value)
      | None \<Rightarrow> default_value)"

lemma read_var_not_empty: "d \<noteq> [] \<Longrightarrow> read_var var v d \<noteq> []"
  by (simp add: read_var_def Let_def split: option.splits)

end
