(* ===== verification/Network_Event_Loop.thy ===== *)
theory Network_Event_Loop
  imports Node_Handlers Rust_Parse
begin

text \<open>
  The p2p event loop (\<^verbatim>\<open>src/src/network/event_loop.rs\<close>, \<^verbatim>\<open>network/client/command.rs\<close>). A command of the
  client carries the sender of its answer; senders are numbers here. The loop keeps one table of
  senders per kind of answer that the swarm gives later. The libp2p swarm is an argument of every
  step: the record \<open>swarm\<close> holds what its calls answer in that step. What the loop asks of the swarm
  and the events it sends to the node are kept as lists.
\<close>

section \<open>Types\<close>

type_synonym QueryId = nat
type_synonym RequestId = nat
type_synonym sender = nat
type_synonym channel = nat
type_synonym Multiaddr = "Protocol list"
type_synonym PeerMetrics = bytes

record Status =
  peers_count :: nat
  st_peer_id :: string
  peer_addrs :: "string set"

record VerifyBuildData =
  vb_package_type :: PackageType
  vb_package_specific_id :: string

datatype Command =
    AddProbe PeerId Multiaddr sender
  | BroadcastBlock bytes sender
  | BootstrapDht sender
  | Listen Multiaddr sender
  | Dial PeerId Multiaddr sender
  | ListPeers sender
  | GetStatus sender
  | Provide string sender
  | ListProviders string sender
  | RequestBuild PeerId PackageType string sender
  | RespondBuild string channel
  | VerifyBuild PackageType string sender
  | RequestArtifact string PeerId sender
  | RespondArtifact bytes channel
  | RequestIdleMetric PeerId sender
  | RespondIdleMetric PeerMetrics channel
  | RequestBlockchain bytes PeerId sender
  | RespondBlockchain bytes channel
  | RequestBuildStatus PeerId string sender
  | RespondBuildStatus BuildStatus channel

datatype PyrsiaEvent =
    EvRequestArtifact string channel
  | EvRequestBuild PackageType string channel
  | EvVerifyBuild PeerId PackageType string
  | EvIdleMetricRequest channel
  | EvBlockchainRequest bytes "channel option"
  | EvRequestBuildStatus string channel

text \<open>What goes through a sender.\<close>

datatype Answer =
    Done "(unit, string) outcome"
  | Provided
  | Peers "PeerId set"
  | NodeStatus Status
  | Providers "PeerId set"
  | Bytes "(bytes, string) outcome"
  | BuildId "(string, string) outcome"
  | Metrics "(PeerMetrics, string) outcome"
  | StatusOf "(BuildStatus, string) outcome"

datatype topic = BlockchainTopic | BuildTopic | OtherTopic string

text \<open>What the loop asks of the swarm; the answers are in the record \<open>swarm\<close>.\<close>

datatype exchange = ArtifactExchange | BuildExchange | IdleMetricExchange | BlockchainExchange
  | BuildStatusExchange

datatype wire =
    ArtifactRequest string | ArtifactResponse bytes
  | BuildRequest PackageType string | BuildResponse string
  | IdleMetricRequest | IdleMetricResponse PeerMetrics
  | BlockchainRequest bytes | BlockchainResponse bytes
  | BuildStatusRequest string | BuildStatusResponse BuildStatus

datatype swarm_call =
    Subscribe topic
  | AddServer PeerId Multiaddr
  | AddAddress PeerId Multiaddr
  | ListenOn Multiaddr
  | DialAddr Multiaddr
  | StartProviding bytes
  | GetProviders bytes
  | SendRequest PeerId wire
  | SendResponse channel wire
  | Publish topic bytes
  | KadBootstrap

record swarm =
  sw_local_peer :: PeerId
  sw_bootstrap :: "(QueryId, string) outcome"
  sw_listen_on :: "Multiaddr \<Rightarrow> (unit, string) outcome"
  sw_dial :: "Multiaddr \<Rightarrow> (unit, string) outcome"
  sw_connected :: "PeerId set"
  sw_listeners :: "Multiaddr list"
  sw_start_providing :: "bytes \<Rightarrow> (QueryId, string) outcome"
  sw_get_providers :: "bytes \<Rightarrow> QueryId"
  sw_send_request :: "PeerId \<Rightarrow> wire \<Rightarrow> RequestId"
  sw_channel_open :: "channel \<Rightarrow> bool"
  sw_subscribe :: "topic \<Rightarrow> (unit, string) outcome"
  sw_publish :: "topic \<Rightarrow> bytes \<Rightarrow> (unit, string) outcome"

text \<open>The rest of the surroundings: serialisation, the environment, text forms, the channels' ends.\<close>

record loop_env =
  ser_verify_build :: "VerifyBuildData \<Rightarrow> (bytes, string) outcome"
  de_verify_build :: "bytes \<Rightarrow> VerifyBuildData option"
  env_var :: "string \<Rightarrow> string option"
  addr_text :: "Multiaddr \<Rightarrow> string"
  ip4_protocol :: "nat \<times> nat \<times> nat \<times> nat \<Rightarrow> Protocol"
  lp_peer_text :: "PeerId \<Rightarrow> string"
  event_receiver_alive :: bool
  status_awaited :: bool

section \<open>State\<close>

record PendingListProviders =
  plp_sender :: sender
  plp_providers :: "PeerId set"

record PyrsiaEventLoop =
  bootstrapped :: bool
  pending_bootstrap :: "(QueryId \<times> sender) list"
  pending_dial :: "(PeerId \<times> sender) list"
  pending_start_providing :: "(QueryId \<times> sender) list"
  pending_list_providers :: "(QueryId \<times> PendingListProviders) list"
  pending_request_artifact :: "(RequestId \<times> sender) list"
  pending_request_build :: "(RequestId \<times> sender) list"
  pending_idle_metric_requests :: "(RequestId \<times> sender) list"
  pending_blockchain_requests :: "(RequestId \<times> sender) list"
  pending_build_status_requests :: "(RequestId \<times> sender) list"
  answers_sent :: "(sender \<times> Answer) list"
  senders_dropped :: "sender list"
  events_sent :: "PyrsiaEvent list"
  swarm_calls :: "swarm_call list"

definition PyrsiaEventLoop_new :: PyrsiaEventLoop where
  "PyrsiaEventLoop_new =
     \<lparr>bootstrapped = False, pending_bootstrap = [], pending_dial = [], pending_start_providing = [],
      pending_list_providers = [], pending_request_artifact = [], pending_request_build = [],
      pending_idle_metric_requests = [], pending_blockchain_requests = [],
      pending_build_status_requests = [], answers_sent = [], senders_dropped = [], events_sent = [],
      swarm_calls = []\<rparr>"

type_synonym 'v el_table = "PyrsiaEventLoop \<Rightarrow> 'v"
type_synonym 'v el_update = "('v \<Rightarrow> 'v) \<Rightarrow> PyrsiaEventLoop \<Rightarrow> PyrsiaEventLoop"
type_synonym el_result = "(unit, string) outcome \<times> PyrsiaEventLoop"

definition call_swarm :: "swarm_call \<Rightarrow> PyrsiaEventLoop \<Rightarrow> PyrsiaEventLoop" where
  "call_swarm c s = s\<lparr>swarm_calls := swarm_calls s @ [c]\<rparr>"

text \<open>\<^verbatim>\<open>sender.send\<close>: a receiver that is gone is only logged.\<close>

definition send_answer :: "sender \<Rightarrow> Answer \<Rightarrow> PyrsiaEventLoop \<Rightarrow> PyrsiaEventLoop" where
  "send_answer x a s = s\<lparr>answers_sent := answers_sent s @ [(x, a)]\<rparr>"

definition drop_sender :: "sender \<Rightarrow> PyrsiaEventLoop \<Rightarrow> PyrsiaEventLoop" where
  "drop_sender x s = s\<lparr>senders_dropped := senders_dropped s @ [x]\<rparr>"

definition send_pyrsia_event :: "loop_env \<Rightarrow> PyrsiaEvent \<Rightarrow> PyrsiaEventLoop \<Rightarrow> el_result" where
  "send_pyrsia_event e ev s =
     (if event_receiver_alive e then (Ok (), s\<lparr>events_sent := events_sent s @ [ev]\<rparr>)
      else (Panic ''Event receiver not to be dropped.'', s))"

text \<open>
  \<^verbatim>\<open>HashMap::insert\<close> of a sender and \<^verbatim>\<open>HashMap::remove\<close> with \<^verbatim>\<open>expect\<close>, on the table that \<open>tab\<close> reads and
  \<open>upd\<close> changes; \<open>who\<close> finds the sender in an entry. Inserting over an entry drops its sender.
\<close>

definition await_answer ::
    "('k \<times> 'v) list el_table \<Rightarrow> ('k \<times> 'v) list el_update \<Rightarrow> ('v \<Rightarrow> sender) \<Rightarrow> 'k \<Rightarrow> 'v
      \<Rightarrow> PyrsiaEventLoop \<Rightarrow> PyrsiaEventLoop" where
  "await_answer tab upd who k v s =
     (case map_of (tab s) k of
        None \<Rightarrow> upd (AList.update k v) s
      | Some old \<Rightarrow> upd (AList.update k v) (drop_sender (who old) s))"

definition resolve ::
    "('k \<times> 'v) list el_table \<Rightarrow> ('k \<times> 'v) list el_update \<Rightarrow> ('v \<Rightarrow> sender) \<Rightarrow> string \<Rightarrow> 'k \<Rightarrow> ('v \<Rightarrow> Answer)
      \<Rightarrow> PyrsiaEventLoop \<Rightarrow> el_result" where
  "resolve tab upd who why k a s =
     (case map_of (tab s) k of
        None \<Rightarrow> (Panic why, s)
      | Some v \<Rightarrow> (Ok (), send_answer (who v) (a v) (upd (AList.delete k) s)))"

definition PyrsiaEventLoop_initialize :: "swarm \<Rightarrow> PyrsiaEventLoop \<Rightarrow> (unit, string) outcome \<times> PyrsiaEventLoop" where
  "PyrsiaEventLoop_initialize sw s =
     sbind (sw_subscribe sw BlockchainTopic, call_swarm (Subscribe BlockchainTopic) s) (\<lambda>_ s.
       (sw_subscribe sw BuildTopic, call_swarm (Subscribe BuildTopic) s))"

section \<open>Swarm events\<close>

datatype autonat_event = NatPublic Multiaddr | NatPrivate | NatUnknown | AutonatProbe

datatype gossip_event = GossipMessage topic "PeerId option" bytes | OtherGossip

text \<open>
  \<open>OtherKademlia\<close> is every event that the code has no arm for, an unsuccessful \<^verbatim>\<open>GetProviders\<close> among
  them.
\<close>

datatype kademlia_event =
    StartProvidingResult QueryId "(unit, string) outcome"
  | FoundProviders QueryId "PeerId set"
  | FinishedWithNoAdditionalRecord QueryId
  | BootstrapProgress QueryId nat
  | BootstrapFailed QueryId string
  | OtherKademlia

datatype ('q, 'r) rr_event =
    Request 'q channel
  | Response RequestId 'r
  | InboundFailure
  | OutboundFailure RequestId string
  | ResponseSent

datatype other_swarm_event =
    ConnectionEstablished PeerId bool Multiaddr
  | OutgoingConnectionError "PeerId option" string
  | IgnoredEvent

datatype swarm_event =
    AutoNat autonat_event
  | Gossipsub gossip_event
  | Identify
  | Kademlia kademlia_event
  | ArtifactRR "(string, bytes) rr_event"
  | BuildRR "(PackageType \<times> string, string) rr_event"
  | IdleMetricRR "(unit, PeerMetrics) rr_event"
  | BlockchainRR "(bytes, bytes) rr_event"
  | BuildStatusRR "(string, BuildStatus) rr_event"
  | OtherSwarm other_swarm_event

definition handle_autonat_event :: "swarm \<Rightarrow> autonat_event \<Rightarrow> PyrsiaEventLoop \<Rightarrow> el_result" where
  "handle_autonat_event sw ev s =
     (case ev of
        NatPublic address \<Rightarrow> (Ok (), call_swarm (AddAddress (sw_local_peer sw) address) s)
      | _ \<Rightarrow> (Ok (), s))"

definition handle_gossipsub_event :: "loop_env \<Rightarrow> gossip_event \<Rightarrow> PyrsiaEventLoop \<Rightarrow> el_result" where
  "handle_gossipsub_event e ev s =
     (case ev of
        GossipMessage BuildTopic source data \<Rightarrow>
          (case source of
             None \<Rightarrow> (Ok (), s)
           | Some peer \<Rightarrow>
             (case de_verify_build e data of
                Some v \<Rightarrow> send_pyrsia_event e (EvVerifyBuild peer (vb_package_type v) (vb_package_specific_id v)) s
              | None \<Rightarrow> (Ok (), s)))
      | GossipMessage BlockchainTopic source data \<Rightarrow> send_pyrsia_event e (EvBlockchainRequest data None) s
      | _ \<Rightarrow> (Ok (), s))"

definition completed_query :: string where
  "completed_query = ''Completed query to be previously pending.''"

definition handle_kademlia_event :: "kademlia_event \<Rightarrow> PyrsiaEventLoop \<Rightarrow> el_result" where
  "handle_kademlia_event ev s =
     (case ev of
        StartProvidingResult q _ \<Rightarrow>
          resolve pending_start_providing pending_start_providing_update id completed_query q (\<lambda>_. Provided) s
      | FoundProviders q ps \<Rightarrow>
          (case map_of (pending_list_providers s) q of
             None \<Rightarrow> (Panic completed_query, s)
           | Some v \<Rightarrow> (Ok (), s\<lparr>pending_list_providers :=
               AList.update q (v\<lparr>plp_providers := plp_providers v \<union> ps\<rparr>) (pending_list_providers s)\<rparr>))
      | FinishedWithNoAdditionalRecord q \<Rightarrow>
          resolve pending_list_providers pending_list_providers_update plp_sender completed_query q
            (\<lambda>v. Providers (plp_providers v)) s
      | BootstrapProgress q num_remaining \<Rightarrow>
          (if num_remaining = 0
           then resolve pending_bootstrap pending_bootstrap_update id completed_query q (\<lambda>_. Done (Ok ())) s
           else (Ok (), s))
      | BootstrapFailed q err \<Rightarrow>
          resolve pending_bootstrap pending_bootstrap_update id completed_query q (\<lambda>_. Done (Err err)) s
      | OtherKademlia \<Rightarrow> (Ok (), s))"

text \<open>The five request and response protocols have handlers of one shape.\<close>

definition still_pending :: string where
  "still_pending = ''Request to still be pending.''"

definition handle_rr_event ::
    "loop_env \<Rightarrow> (RequestId \<times> sender) list el_table \<Rightarrow> (RequestId \<times> sender) list el_update
      \<Rightarrow> ('q \<Rightarrow> channel \<Rightarrow> PyrsiaEvent) \<Rightarrow> (('r, string) outcome \<Rightarrow> Answer) \<Rightarrow> ('q, 'r) rr_event
      \<Rightarrow> PyrsiaEventLoop \<Rightarrow> el_result" where
  "handle_rr_event e tab upd incoming ans ev s =
     (case ev of
        Request q ch \<Rightarrow> send_pyrsia_event e (incoming q ch) s
      | Response i r \<Rightarrow> resolve tab upd id still_pending i (\<lambda>_. ans (Ok r)) s
      | InboundFailure \<Rightarrow> (Ok (), s)
      | OutboundFailure i err \<Rightarrow> resolve tab upd id still_pending i (\<lambda>_. ans (Err err)) s
      | ResponseSent \<Rightarrow> (Ok (), s))"

definition handle_request_response_event ::
    "loop_env \<Rightarrow> (string, bytes) rr_event \<Rightarrow> PyrsiaEventLoop \<Rightarrow> el_result" where
  "handle_request_response_event e =
     handle_rr_event e pending_request_artifact pending_request_artifact_update EvRequestArtifact Bytes"

definition handle_idle_metric_request_response_event ::
    "loop_env \<Rightarrow> (unit, PeerMetrics) rr_event \<Rightarrow> PyrsiaEventLoop \<Rightarrow> el_result" where
  "handle_idle_metric_request_response_event e =
     handle_rr_event e pending_idle_metric_requests pending_idle_metric_requests_update
       (\<lambda>_ ch. EvIdleMetricRequest ch) Metrics"

definition handle_build_request_response_event ::
    "loop_env \<Rightarrow> (PackageType \<times> string, string) rr_event \<Rightarrow> PyrsiaEventLoop \<Rightarrow> el_result" where
  "handle_build_request_response_event e =
     handle_rr_event e pending_request_build pending_request_build_update
       (\<lambda>(pt, psid) ch. EvRequestBuild pt psid ch) BuildId"

definition handle_build_status_request_response_event ::
    "loop_env \<Rightarrow> (string, BuildStatus) rr_event \<Rightarrow> PyrsiaEventLoop \<Rightarrow> el_result" where
  "handle_build_status_request_response_event e =
     handle_rr_event e pending_build_status_requests pending_build_status_requests_update
       EvRequestBuildStatus StatusOf"

definition handle_blockchain_request_response_event ::
    "loop_env \<Rightarrow> (bytes, bytes) rr_event \<Rightarrow> PyrsiaEventLoop \<Rightarrow> el_result" where
  "handle_blockchain_request_response_event e =
     handle_rr_event e pending_blockchain_requests pending_blockchain_requests_update
       (\<lambda>data ch. EvBlockchainRequest data (Some ch)) Bytes"

text \<open>A dial that has no sender any more is left alone.\<close>

definition settle_dial :: "PeerId \<Rightarrow> (unit, string) outcome \<Rightarrow> swarm_call list \<Rightarrow> PyrsiaEventLoop \<Rightarrow> PyrsiaEventLoop" where
  "settle_dial peer r calls s =
     (case map_of (pending_dial s) peer of
        None \<Rightarrow> s
      | Some x \<Rightarrow> send_answer x (Done r) (fold call_swarm calls
          (s\<lparr>pending_dial := AList.delete peer (pending_dial s)\<rparr>)))"

definition handle_swarm_event :: "other_swarm_event \<Rightarrow> PyrsiaEventLoop \<Rightarrow> el_result" where
  "handle_swarm_event ev s =
     (case ev of
        ConnectionEstablished peer is_dialer address \<Rightarrow>
          (Ok (), if is_dialer then settle_dial peer (Ok ()) [AddAddress peer address] s else s)
      | OutgoingConnectionError (Some peer) err \<Rightarrow> (Ok (), settle_dial peer (Err err) [] s)
      | _ \<Rightarrow> (Ok (), s))"

definition dispatch_swarm_event :: "loop_env \<Rightarrow> swarm \<Rightarrow> swarm_event \<Rightarrow> PyrsiaEventLoop \<Rightarrow> el_result" where
  "dispatch_swarm_event e sw ev s =
     (case ev of
        AutoNat x \<Rightarrow> handle_autonat_event sw x s
      | Gossipsub x \<Rightarrow> handle_gossipsub_event e x s
      | Identify \<Rightarrow> (Ok (), s)
      | Kademlia x \<Rightarrow> handle_kademlia_event x s
      | ArtifactRR x \<Rightarrow> handle_request_response_event e x s
      | BuildRR x \<Rightarrow> handle_build_request_response_event e x s
      | IdleMetricRR x \<Rightarrow> handle_idle_metric_request_response_event e x s
      | BlockchainRR x \<Rightarrow> handle_blockchain_request_response_event e x s
      | BuildStatusRR x \<Rightarrow> handle_build_status_request_response_event e x s
      | OtherSwarm x \<Rightarrow> handle_swarm_event x s)"

section \<open>Commands\<close>

text \<open>
  The addresses of the status: with an external address in the environment that parses, the first
  component of every listener is replaced, which panics for an address without components.
\<close>

definition status_addr :: "loop_env \<Rightarrow> swarm \<Rightarrow> string \<Rightarrow> Multiaddr \<Rightarrow> (string, string) outcome" where
  "status_addr e sw externalip addr =
     (let shown = (\<lambda>a. addr_text e a @ addr_text e [P2p (sw_local_peer sw)]) in
      if externalip \<noteq> [] then
        (case parse_ipv4 externalip of
           Some ip \<Rightarrow> (case addr of
                        [] \<Rightarrow> Panic ''replace''
                      | _ # rest \<Rightarrow> Ok (shown (ip4_protocol e ip # rest)))
         | None \<Rightarrow> Ok (shown addr))
      else Ok (shown addr))"

fun status_addrs :: "loop_env \<Rightarrow> swarm \<Rightarrow> string \<Rightarrow> Multiaddr list \<Rightarrow> (string set, string) outcome" where
  "status_addrs e sw ip [] = Ok {}"
| "status_addrs e sw ip (a # as) =
     rbind (status_addr e sw ip a) (\<lambda>t. rbind (status_addrs e sw ip as) (\<lambda>ts. Ok (insert t ts)))"

definition node_status :: "loop_env \<Rightarrow> swarm \<Rightarrow> (Status, string) outcome" where
  "node_status e sw =
     rbind (status_addrs e sw (read_var (env_var e) ''PYRSIA_EXTERNAL_IP'' []) (sw_listeners sw)) (\<lambda>addrs.
       Ok \<lparr>peers_count = card (sw_connected sw), st_peer_id = lp_peer_text e (sw_local_peer sw),
           peer_addrs = addrs\<rparr>)"

definition send_request ::
    "swarm \<Rightarrow> (RequestId \<times> sender) list el_table \<Rightarrow> (RequestId \<times> sender) list el_update \<Rightarrow> PeerId \<Rightarrow> wire \<Rightarrow> sender
      \<Rightarrow> PyrsiaEventLoop \<Rightarrow> el_result" where
  "send_request sw tab upd peer w x s =
     (Ok (), await_answer tab upd id (sw_send_request sw peer w) x (call_swarm (SendRequest peer w) s))"

definition send_response :: "swarm \<Rightarrow> string \<Rightarrow> channel \<Rightarrow> wire \<Rightarrow> PyrsiaEventLoop \<Rightarrow> el_result" where
  "send_response sw why ch w s =
     (if sw_channel_open sw ch then (Ok (), call_swarm (SendResponse ch w) s) else (Panic why, s))"

definition peer_open :: string where
  "peer_open = ''Connection to peer to be still open.''"

fun handle_command :: "loop_env \<Rightarrow> swarm \<Rightarrow> Command \<Rightarrow> PyrsiaEventLoop \<Rightarrow> el_result" where
  "handle_command e sw (AddProbe peer addr x) s =
     (case map_of (pending_dial s) peer of
        None \<Rightarrow> (Ok (), call_swarm (AddServer peer addr)
                  (s\<lparr>pending_dial := AList.update peer x (pending_dial s)\<rparr>))
      | Some _ \<Rightarrow> (Ok (), drop_sender x s))"
| "handle_command e sw (BootstrapDht x) s =
     (if \<not> bootstrapped s then
        (let s1 = call_swarm KadBootstrap s in
         case sw_bootstrap sw of
           Ok q \<Rightarrow> (Ok (), await_answer pending_bootstrap pending_bootstrap_update id q x (s1\<lparr>bootstrapped := True\<rparr>))
         | Err err \<Rightarrow> (Ok (), send_answer x (Done (Err err)) s1)
         | Panic m \<Rightarrow> (Panic m, drop_sender x s1))
      else (Ok (), drop_sender x s))"
| "handle_command e sw (Listen addr x) s =
     (Ok (), send_answer x (Done (sw_listen_on sw addr)) (call_swarm (ListenOn addr) s))"
| "handle_command e sw (Dial peer addr x) s =
     (case map_of (pending_dial s) peer of
        None \<Rightarrow>
          (let a = addr @ [P2p peer]; s1 = call_swarm (DialAddr a) s in
           case sw_dial sw a of
             Ok _ \<Rightarrow> (Ok (), s1\<lparr>pending_dial := AList.update peer x (pending_dial s1)\<rparr>)
           | Err err \<Rightarrow> (Ok (), send_answer x (Done (Err err)) s1)
           | Panic m \<Rightarrow> (Panic m, drop_sender x s1))
      | Some _ \<Rightarrow> (Ok (), drop_sender x s))"
| "handle_command e sw (ListPeers x) s = (Ok (), send_answer x (Peers (sw_connected sw)) s)"
| "handle_command e sw (GetStatus x) s =
     (case node_status e sw of
        Ok st \<Rightarrow> if status_awaited e then (Ok (), send_answer x (NodeStatus st) s)
                 else (Panic ''unwrap'', drop_sender x s)
      | Err m \<Rightarrow> (Panic m, drop_sender x s)
      | Panic m \<Rightarrow> (Panic m, drop_sender x s))"
| "handle_command e sw (Provide i x) s =
     (let s1 = call_swarm (StartProviding (as_bytes i)) s in
      case sw_start_providing sw (as_bytes i) of
        Ok q \<Rightarrow> (Ok (), await_answer pending_start_providing pending_start_providing_update id q x s1)
      | _ \<Rightarrow> (Panic ''No store error.'', drop_sender x s1))"
| "handle_command e sw (ListProviders i x) s =
     (Ok (), await_answer pending_list_providers pending_list_providers_update plp_sender
        (sw_get_providers sw (as_bytes i)) \<lparr>plp_sender = x, plp_providers = {}\<rparr>
        (call_swarm (GetProviders (as_bytes i)) s))"
| "handle_command e sw (RequestBuild peer pt psid x) s =
     send_request sw pending_request_build pending_request_build_update peer (BuildRequest pt psid) x s"
| "handle_command e sw (RespondBuild build_id ch) s = send_response sw peer_open ch (BuildResponse build_id) s"
| "handle_command e sw (VerifyBuild pt psid x) s =
     (case ser_verify_build e \<lparr>vb_package_type = pt, vb_package_specific_id = psid\<rparr> of
        Ok data \<Rightarrow> (Ok (), send_answer x (Done (sw_publish sw BuildTopic data)) (call_swarm (Publish BuildTopic data) s))
      | Err err \<Rightarrow> (Ok (), send_answer x (Done (Err err)) s)
      | Panic m \<Rightarrow> (Panic m, drop_sender x s))"
| "handle_command e sw (RequestArtifact i peer x) s =
     send_request sw pending_request_artifact pending_request_artifact_update peer (ArtifactRequest i) x s"
| "handle_command e sw (RespondArtifact artifact ch) s =
     send_response sw peer_open ch (ArtifactResponse artifact) s"
| "handle_command e sw (RequestIdleMetric peer x) s =
     send_request sw pending_idle_metric_requests pending_idle_metric_requests_update peer IdleMetricRequest x s"
| "handle_command e sw (RespondIdleMetric m ch) s = send_response sw peer_open ch (IdleMetricResponse m) s"
| "handle_command e sw (RequestBlockchain data peer x) s =
     send_request sw pending_blockchain_requests pending_blockchain_requests_update peer (BlockchainRequest data) x s"
| "handle_command e sw (RespondBlockchain data ch) s = send_response sw peer_open ch (BlockchainResponse data) s"
| "handle_command e sw (BroadcastBlock block x) s =
     (Ok (), send_answer x (Done (sw_publish sw BlockchainTopic block)) (call_swarm (Publish BlockchainTopic block) s))"
| "handle_command e sw (RequestBuildStatus peer build_id x) s =
     send_request sw pending_build_status_requests pending_build_status_requests_update peer
       (BuildStatusRequest build_id) x s"
| "handle_command e sw (RespondBuildStatus st ch) s =
     send_response sw ''Connection to peer to be still open (Build status).'' ch (BuildStatusResponse st) s"

section \<open>The loop\<close>

text \<open>
  One turn of \<^verbatim>\<open>select!\<close>: a swarm event or a command, with the swarm as it is then. \<open>CommandsClosed\<close> is
  the \<^verbatim>\<open>None\<close> of the command channel, at which the loop returns.
\<close>

datatype turn = SwarmTurn swarm swarm_event | CommandTurn swarm Command | CommandsClosed

text \<open>
  The loop owns its tables: when \<^verbatim>\<open>run\<close> returns, or a panic unwinds it, every sender that still waits is
  dropped with it.
\<close>

definition waiting_senders :: "PyrsiaEventLoop \<Rightarrow> sender list" where
  "waiting_senders s =
     map snd (pending_bootstrap s) @ map snd (pending_dial s) @ map snd (pending_start_providing s) @
     map (plp_sender \<circ> snd) (pending_list_providers s) @ map snd (pending_request_artifact s) @
     map snd (pending_request_build s) @ map snd (pending_idle_metric_requests s) @
     map snd (pending_blockchain_requests s) @ map snd (pending_build_status_requests s)"

definition end_loop :: "PyrsiaEventLoop \<Rightarrow> PyrsiaEventLoop" where
  "end_loop s =
     s\<lparr>pending_bootstrap := [], pending_dial := [], pending_start_providing := [], pending_list_providers := [],
       pending_request_artifact := [], pending_request_build := [], pending_idle_metric_requests := [],
       pending_blockchain_requests := [], pending_build_status_requests := [],
       senders_dropped := senders_dropped s @ waiting_senders s\<rparr>"

definition or_unwind :: "el_result \<Rightarrow> (PyrsiaEventLoop \<Rightarrow> el_result) \<Rightarrow> el_result" where
  "or_unwind rs f = (case rs of (Ok _, s) \<Rightarrow> f s | (r, s) \<Rightarrow> (r, end_loop s))"

fun run_event_loop :: "loop_env \<Rightarrow> turn list \<Rightarrow> PyrsiaEventLoop \<Rightarrow> el_result" where
  "run_event_loop e [] s = (Ok (), s)"
| "run_event_loop e (SwarmTurn sw ev # ts) s = or_unwind (dispatch_swarm_event e sw ev s) (run_event_loop e ts)"
| "run_event_loop e (CommandTurn sw c # ts) s = or_unwind (handle_command e sw c s) (run_event_loop e ts)"
| "run_event_loop e (CommandsClosed # ts) s = (Ok (), end_loop s)"

lemma or_unwind_Ok [simp]: "or_unwind (Ok u, s) f = f s"
  by (simp add: or_unwind_def)

lemma or_unwind_Panic [simp]: "or_unwind (Panic m, s) f = (Panic m, end_loop s)"
  by (simp add: or_unwind_def)

lemma or_unwind_Ok_iff:
  "or_unwind rs f = (Ok (), s') \<longleftrightarrow> (\<exists>s. rs = (Ok (), s) \<and> f s = (Ok (), s'))"
  by (auto simp: or_unwind_def split: prod.splits outcome.splits)

end
