(* ===== verification/Network_Client_Calls.thy ===== *)
theory Network_Client_Calls
  imports Network_Event_Loop
begin

text \<open>
  The client side of the event loop (\<^verbatim>\<open>src/src/network/client.rs\<close>): each call makes a one-shot channel,
  sends a command with its sender and awaits the receiver. The turns the loop takes meanwhile are an
  argument of the call. \<open>None\<close> as a result is a call that still waits after these turns.
\<close>

section \<open>Awaiting\<close>

type_synonym 'a call_result = "('a, string) outcome option"

definition channel_closed :: string where
  "channel_closed = ''channel closed''"

text \<open>A dropped sender ends the await with an error.\<close>

definition receive :: "sender \<Rightarrow> PyrsiaEventLoop \<Rightarrow> Answer call_result" where
  "receive x s =
     (case map_of (answers_sent s) x of
        Some a \<Rightarrow> Some (Ok a)
      | None \<Rightarrow> if x \<in> set (senders_dropped s) then Some (Err channel_closed) else None)"

text \<open>The loop as the client meets it: running, or ended (closed command channel).\<close>

record client_side =
  cl_loop :: PyrsiaEventLoop
  cl_running :: bool

definition call_loop ::
    "loop_env \<Rightarrow> swarm \<Rightarrow> Command \<Rightarrow> sender \<Rightarrow> turn list \<Rightarrow> client_side \<Rightarrow> Answer call_result \<times> client_side" where
  "call_loop e sw c x ts cl =
     (if \<not> cl_running cl then (Some (Err channel_closed), cl)
      else (let (r, s) = run_event_loop e (CommandTurn sw c # ts) (cl_loop cl) in
            (receive x s, \<lparr>cl_loop = s, cl_running = (r = Ok () \<and> CommandsClosed \<notin> set ts)\<rparr>)))"

text \<open>A command without an answer.\<close>

definition tell_loop ::
    "loop_env \<Rightarrow> swarm \<Rightarrow> Command \<Rightarrow> client_side \<Rightarrow> (unit, string) outcome \<times> client_side" where
  "tell_loop e sw c cl =
     (if \<not> cl_running cl then (Err channel_closed, cl)
      else (let (r, s) = run_event_loop e [CommandTurn sw c] (cl_loop cl) in
            (Ok (), \<lparr>cl_loop = s, cl_running = (r = Ok ())\<rparr>)))"

text \<open>
  Reading the answer at the type of the receiver; the last case is an answer of another type, which
  the types of the code exclude.
\<close>

definition as_answer :: "(Answer \<Rightarrow> ('a, string) outcome option) \<Rightarrow> Answer call_result \<Rightarrow> 'a call_result" where
  "as_answer f r =
     (case r of
        None \<Rightarrow> None
      | Some (Ok a) \<Rightarrow> Some (case f a of Some v \<Rightarrow> v | None \<Rightarrow> Panic ''answer of another type'')
      | Some (Err m) \<Rightarrow> Some (Err m)
      | Some (Panic m) \<Rightarrow> Some (Panic m))"

fun the_done :: "Answer \<Rightarrow> (unit, string) outcome option" where
  "the_done (Done r) = Some r"
| "the_done _ = None"

fun the_provided :: "Answer \<Rightarrow> (unit, string) outcome option" where
  "the_provided Provided = Some (Ok ())"
| "the_provided _ = None"

fun the_peers :: "Answer \<Rightarrow> (PeerId set, string) outcome option" where
  "the_peers (Peers ps) = Some (Ok ps)"
| "the_peers _ = None"

fun the_status :: "Answer \<Rightarrow> (Status, string) outcome option" where
  "the_status (NodeStatus st) = Some (Ok st)"
| "the_status _ = None"

fun the_providers :: "Answer \<Rightarrow> (PeerId set, string) outcome option" where
  "the_providers (Providers ps) = Some (Ok ps)"
| "the_providers _ = None"

fun the_bytes :: "Answer \<Rightarrow> (bytes, string) outcome option" where
  "the_bytes (Bytes r) = Some r"
| "the_bytes _ = None"

fun the_build_id :: "Answer \<Rightarrow> (string, string) outcome option" where
  "the_build_id (BuildId r) = Some r"
| "the_build_id _ = None"

fun the_metrics :: "Answer \<Rightarrow> (PeerMetrics, string) outcome option" where
  "the_metrics (Metrics r) = Some r"
| "the_metrics _ = None"

fun the_build_status :: "Answer \<Rightarrow> (BuildStatus, string) outcome option" where
  "the_build_status (StatusOf r) = Some r"
| "the_build_status _ = None"

definition call_as ::
    "(Answer \<Rightarrow> ('a, string) outcome option) \<Rightarrow> loop_env \<Rightarrow> swarm \<Rightarrow> (sender \<Rightarrow> Command) \<Rightarrow> sender \<Rightarrow> turn list
      \<Rightarrow> client_side \<Rightarrow> 'a call_result \<times> client_side" where
  "call_as f e sw c x ts cl = (let (r, cl1) = call_loop e sw (c x) x ts cl in (as_answer f r, cl1))"

section \<open>Calls\<close>

text \<open>
  The second half of \<^verbatim>\<open>dial\<close> and \<^verbatim>\<open>add_probe_address\<close>: \<open>x\<close> and \<open>ts\<close> belong to the first command, \<open>y\<close>, \<open>sw2\<close>
  and \<open>us\<close> to the bootstrap of the DHT that follows when it succeeds.
\<close>

definition then_bootstrap ::
    "loop_env \<Rightarrow> unit call_result \<times> client_side \<Rightarrow> swarm \<Rightarrow> sender \<Rightarrow> turn list \<Rightarrow> unit call_result \<times> client_side" where
  "then_bootstrap e r sw2 y us =
     (case r of
        (Some (Ok _), cl1) \<Rightarrow> call_as the_done e sw2 BootstrapDht y us cl1
      | (other, cl1) \<Rightarrow> (other, cl1))"

definition Client_add_probe_address ::
    "loop_env \<Rightarrow> swarm \<Rightarrow> PeerId \<Rightarrow> Multiaddr \<Rightarrow> sender \<Rightarrow> turn list \<Rightarrow> swarm \<Rightarrow> sender \<Rightarrow> turn list \<Rightarrow> client_side
      \<Rightarrow> unit call_result \<times> client_side" where
  "Client_add_probe_address e sw peer addr x ts sw2 y us cl =
     then_bootstrap e (call_as the_done e sw (AddProbe peer addr) x ts cl) sw2 y us"

definition Client_dial ::
    "loop_env \<Rightarrow> swarm \<Rightarrow> PeerId \<Rightarrow> Multiaddr \<Rightarrow> sender \<Rightarrow> turn list \<Rightarrow> swarm \<Rightarrow> sender \<Rightarrow> turn list \<Rightarrow> client_side
      \<Rightarrow> unit call_result \<times> client_side" where
  "Client_dial e sw peer addr x ts sw2 y us cl =
     then_bootstrap e (call_as the_done e sw (Dial peer addr) x ts cl) sw2 y us"

definition Client_listen ::
    "loop_env \<Rightarrow> swarm \<Rightarrow> Multiaddr \<Rightarrow> sender \<Rightarrow> turn list \<Rightarrow> client_side \<Rightarrow> unit call_result \<times> client_side" where
  "Client_listen e sw addr = call_as the_done e sw (Listen addr)"

definition Client_list_peers ::
    "loop_env \<Rightarrow> swarm \<Rightarrow> sender \<Rightarrow> turn list \<Rightarrow> client_side \<Rightarrow> PeerId set call_result \<times> client_side" where
  "Client_list_peers e sw = call_as the_peers e sw ListPeers"

definition Client_status ::
    "loop_env \<Rightarrow> swarm \<Rightarrow> sender \<Rightarrow> turn list \<Rightarrow> client_side \<Rightarrow> Status call_result \<times> client_side" where
  "Client_status e sw = call_as the_status e sw GetStatus"

definition Client_provide ::
    "loop_env \<Rightarrow> swarm \<Rightarrow> string \<Rightarrow> sender \<Rightarrow> turn list \<Rightarrow> client_side \<Rightarrow> unit call_result \<times> client_side" where
  "Client_provide e sw i = call_as the_provided e sw (Provide i)"

definition Client_list_providers ::
    "loop_env \<Rightarrow> swarm \<Rightarrow> string \<Rightarrow> sender \<Rightarrow> turn list \<Rightarrow> client_side \<Rightarrow> PeerId set call_result \<times> client_side" where
  "Client_list_providers e sw i = call_as the_providers e sw (ListProviders i)"

definition Client_request_build ::
    "loop_env \<Rightarrow> swarm \<Rightarrow> PeerId \<Rightarrow> PackageType \<Rightarrow> string \<Rightarrow> sender \<Rightarrow> turn list \<Rightarrow> client_side
      \<Rightarrow> string call_result \<times> client_side" where
  "Client_request_build e sw peer pt psid = call_as the_build_id e sw (RequestBuild peer pt psid)"

definition Client_verify_build ::
    "loop_env \<Rightarrow> swarm \<Rightarrow> PackageType \<Rightarrow> string \<Rightarrow> sender \<Rightarrow> turn list \<Rightarrow> client_side
      \<Rightarrow> unit call_result \<times> client_side" where
  "Client_verify_build e sw pt psid = call_as the_done e sw (VerifyBuild pt psid)"

definition Client_respond_build ::
    "loop_env \<Rightarrow> swarm \<Rightarrow> string \<Rightarrow> channel \<Rightarrow> client_side \<Rightarrow> (unit, string) outcome \<times> client_side" where
  "Client_respond_build e sw build_id ch = tell_loop e sw (RespondBuild build_id ch)"

definition Client_request_artifact ::
    "loop_env \<Rightarrow> swarm \<Rightarrow> PeerId \<Rightarrow> string \<Rightarrow> sender \<Rightarrow> turn list \<Rightarrow> client_side
      \<Rightarrow> bytes call_result \<times> client_side" where
  "Client_request_artifact e sw peer i = call_as the_bytes e sw (RequestArtifact i peer)"

definition Client_respond_artifact ::
    "loop_env \<Rightarrow> swarm \<Rightarrow> bytes \<Rightarrow> channel \<Rightarrow> client_side \<Rightarrow> (unit, string) outcome \<times> client_side" where
  "Client_respond_artifact e sw artifact ch = tell_loop e sw (RespondArtifact artifact ch)"

definition Client_request_idle_metric ::
    "loop_env \<Rightarrow> swarm \<Rightarrow> PeerId \<Rightarrow> sender \<Rightarrow> turn list \<Rightarrow> client_side \<Rightarrow> PeerMetrics call_result \<times> client_side" where
  "Client_request_idle_metric e sw peer = call_as the_metrics e sw (RequestIdleMetric peer)"

definition Client_respond_idle_metric ::
    "loop_env \<Rightarrow> swarm \<Rightarrow> PeerMetrics \<Rightarrow> channel \<Rightarrow> client_side \<Rightarrow> (unit, string) outcome \<times> client_side" where
  "Client_respond_idle_metric e sw m ch = tell_loop e sw (RespondIdleMetric m ch)"

definition Client_request_blockchain ::
    "loop_env \<Rightarrow> swarm \<Rightarrow> PeerId \<Rightarrow> bytes \<Rightarrow> sender \<Rightarrow> turn list \<Rightarrow> client_side
      \<Rightarrow> bytes call_result \<times> client_side" where
  "Client_request_blockchain e sw peer data = call_as the_bytes e sw (RequestBlockchain data peer)"

definition Client_respond_blockchain ::
    "loop_env \<Rightarrow> swarm \<Rightarrow> bytes \<Rightarrow> channel \<Rightarrow> client_side \<Rightarrow> (unit, string) outcome \<times> client_side" where
  "Client_respond_blockchain e sw data ch = tell_loop e sw (RespondBlockchain data ch)"

definition Client_broadcast_block ::
    "loop_env \<Rightarrow> swarm \<Rightarrow> bytes \<Rightarrow> sender \<Rightarrow> turn list \<Rightarrow> client_side \<Rightarrow> unit call_result \<times> client_side" where
  "Client_broadcast_block e sw block = call_as the_done e sw (BroadcastBlock block)"

definition Client_request_build_status ::
    "loop_env \<Rightarrow> swarm \<Rightarrow> PeerId \<Rightarrow> string \<Rightarrow> sender \<Rightarrow> turn list \<Rightarrow> client_side
      \<Rightarrow> BuildStatus call_result \<times> client_side" where
  "Client_request_build_status e sw peer build_id = call_as the_build_status e sw (RequestBuildStatus peer build_id)"

definition Client_respond_build_status ::
    "loop_env \<Rightarrow> swarm \<Rightarrow> BuildStatus \<Rightarrow> channel \<Rightarrow> client_side \<Rightarrow> (unit, string) outcome \<times> client_side" where
  "Client_respond_build_status e sw st ch = tell_loop e sw (RespondBuildStatus st ch)"

end
