(* ===== verification/Peer_Metrics.thy ===== *)
theory Peer_Metrics
  imports Network_Client "HOL-Library.Log_Nat"
begin

text \<open>
  The load a node tells its peers (\<^verbatim>\<open>src/src/peer_metrics/metrics.rs\<close>). The sum is computed in doubles,
  so the file opens with addition, multiplication and conversion of IEEE 754 doubles on their bits,
  rounding to nearest with ties to even. The readings of the host come from \<^verbatim>\<open>sysinfo\<close> and are arguments.
\<close>

section \<open>Arithmetic of doubles\<close>

text \<open>A finite double is \<open>f64_sig\<close> times two to the power \<open>f64_exp\<close>, in units of the smallest double.\<close>

definition f64_inf :: nat where
  "f64_inf = 2047 * 2 ^ 52"

definition f64_nan :: f64 where
  "f64_nan = word_of_nat (f64_inf + 2 ^ 51)"

definition f64_exponent :: "f64 \<Rightarrow> nat" where
  "f64_exponent x = f64_magnitude x div 2 ^ 52"

definition f64_sig :: "f64 \<Rightarrow> nat" where
  "f64_sig x = f64_magnitude x mod 2 ^ 52 + (if f64_exponent x = 0 then 0 else 2 ^ 52)"

definition f64_exp :: "f64 \<Rightarrow> nat" where
  "f64_exp x = f64_exponent x - 1"

definition f64_negative :: "f64 \<Rightarrow> bool" where
  "f64_negative x \<longleftrightarrow> unat x \<ge> 2 ^ 63"

definition f64_infinite :: "f64 \<Rightarrow> bool" where
  "f64_infinite x \<longleftrightarrow> f64_magnitude x = f64_inf"

definition round_even :: "nat \<Rightarrow> nat \<Rightarrow> nat" where
  "round_even m k =
     (let q = m div 2 ^ k; r = m mod 2 ^ k in
      if 2 * r > 2 ^ k \<or> 2 * r = 2 ^ k \<and> odd q then q + 1 else q)"

text \<open>
  The bits of the double nearest to \<open>m\<close> times two to the power \<open>e\<close>. The exponent is chosen so that the
  significand has 53 bits, or is the smallest one; a carry out of the significand moves into the
  exponent by itself, and what is too big is infinite.
\<close>

definition f64_nearest :: "nat \<Rightarrow> int \<Rightarrow> nat" where
  "f64_nearest m e =
     (let x = max 0 (e + int (floorlog 2 m) - 53);
          sig = (if x \<le> e then m * 2 ^ nat (e - x) else round_even m (nat (x - e)))
      in if m = 0 then 0 else min f64_inf (nat x * 2 ^ 52 + sig))"

definition f64_signed :: "bool \<Rightarrow> nat \<Rightarrow> f64" where
  "f64_signed neg bits = word_of_nat (bits + (if neg then 2 ^ 63 else 0))"

definition f64_exact :: "f64 \<Rightarrow> int" where
  "f64_exact x = (if f64_negative x then - 1 else 1) * int (f64_sig x * 2 ^ f64_exp x)"

definition f64_add :: "f64 \<Rightarrow> f64 \<Rightarrow> f64" where
  "f64_add x y =
     (if f64_is_nan x \<or> f64_is_nan y then f64_nan
      else if f64_infinite x then
        (if f64_infinite y \<and> f64_negative x \<noteq> f64_negative y then f64_nan else x)
      else if f64_infinite y then y
      else (let v = f64_exact x + f64_exact y in
            if v = 0 then f64_signed (f64_negative x \<and> f64_negative y) 0
            else f64_signed (v < 0) (f64_nearest (nat \<bar>v\<bar>) 0)))"

definition f64_mul :: "f64 \<Rightarrow> f64 \<Rightarrow> f64" where
  "f64_mul x y =
     (let neg = (f64_negative x \<noteq> f64_negative y) in
      if f64_is_nan x \<or> f64_is_nan y then f64_nan
      else if f64_infinite x \<or> f64_infinite y then
        (if f64_sig x = 0 \<or> f64_sig y = 0 then f64_nan else f64_signed neg f64_inf)
      else f64_signed neg
             (f64_nearest (f64_sig x * f64_sig y) (int (f64_exp x) + int (f64_exp y) - 1074)))"

definition f64_of_u64 :: "64 word \<Rightarrow> f64" where
  "f64_of_u64 n = f64_signed False (f64_nearest (unat n) 1074)"

definition f64_to_le_bytes :: "f64 \<Rightarrow> bytes" where
  "f64_to_le_bytes x = map (\<lambda>i. word_of_nat (unat x div 256 ^ i)) [0..<8]"

section \<open>Readings of the host\<close>

text \<open>What \<^verbatim>\<open>sysinfo\<close> holds after a refresh; the counters of a network are received and transmitted.\<close>

record host =
  load_average_one :: f64
  network_counters :: "(64 word \<times> 64 word) list"
  disk_usages :: "(64 word \<times> 64 word) list"

definition CPU_STRESS_WEIGHT :: f64 where
  "CPU_STRESS_WEIGHT = 0x4000000000000000"

definition NETWORK_STRESS_WEIGHT :: f64 where
  "NETWORK_STRESS_WEIGHT = 0x3F50624DD2F1A9FC"

definition DISK_STRESS_WEIGHT :: f64 where
  "DISK_STRESS_WEIGHT = 0x3F50624DD2F1A9FC"

definition get_cpu_stress :: "host \<Rightarrow> f64" where
  "get_cpu_stress h = load_average_one h"

text \<open>The sums of \<^verbatim>\<open>u64\<close> counters wrap, as in a release build.\<close>

definition get_network_stress :: "host \<Rightarrow> f64" where
  "get_network_stress h =
     (let (packets_in, packets_out) =
        foldl (\<lambda>(i, out) (received, transmitted). (i + received, out + transmitted)) (0, 0) (network_counters h)
      in f64_add (f64_of_u64 packets_in) (f64_of_u64 packets_out))"

definition get_disk_stress :: "host \<Rightarrow> f64" where
  "get_disk_stress h =
     f64_of_u64 (foldl (\<lambda>total (written, read). total + written + read) 0 (disk_usages h))"

text \<open>The system is refreshed before each of the three readings.\<close>

definition get_quality_metric :: "host \<Rightarrow> host \<Rightarrow> host \<Rightarrow> f64" where
  "get_quality_metric h1 h2 h3 =
     (let qm = f64_mul (get_cpu_stress h1) CPU_STRESS_WEIGHT;
          qm = f64_add qm (f64_mul (get_network_stress h2) NETWORK_STRESS_WEIGHT)
      in f64_add qm (f64_mul (get_disk_stress h3) DISK_STRESS_WEIGHT))"

end
