(* ===== verification/Node_Keypair.thy ===== *)
theory Node_Keypair
  imports Artifact_Storage Rust_Parse
begin

text \<open>
  The identity of a node in its key file (\<^verbatim>\<open>src/src/util/keypair_util.rs\<close>). The encoding of an ed25519
  key pair is libp2p's and an argument; \<open>key_codec_laws\<close> states what libp2p documents of it. Making
  directories can fail like any other access to the disk.
\<close>

section \<open>Loading and saving\<close>

text \<open>
  A key pair is its 64 bytes, the secret key and the public key, which \<^verbatim>\<open>generate\<close> derives from 32 random
  bytes. Not every 64 bytes are a key pair; libp2p documents that those it generates survive encoding.
\<close>

type_synonym Keypair = bytes

record ed25519 =
  kp_generate :: "bytes \<Rightarrow> Keypair"
  kp_encode :: "Keypair \<Rightarrow> bytes"
  kp_decode :: "bytes \<Rightarrow> Keypair option"

definition generated :: "ed25519 \<Rightarrow> Keypair \<Rightarrow> bool" where
  "generated kc k \<longleftrightarrow> (\<exists>seed. length seed = 32 \<and> k = kp_generate kc seed)"

definition key_codec_laws :: "ed25519 \<Rightarrow> bool" where
  "key_codec_laws kc \<longleftrightarrow>
     (\<forall>k. generated kc k \<longrightarrow> length (kp_encode kc k) = 64 \<and> kp_decode kc (kp_encode kc k) = Some k)"

definition load_ed25519 :: "ed25519 \<Rightarrow> io_env \<Rightarrow> path \<Rightarrow> disk \<Rightarrow> (Keypair, io_error) outcome" where
  "load_ed25519 kc io p d =
     (case (read_fault_at io p, map_of d p) of
        (Some e, _) \<Rightarrow> Err e
      | (None, None) \<Rightarrow> Err NotFound
      | (None, Some bs) \<Rightarrow>
        if stat_fault_at io p then Err (OtherIo ''metadata'')
        else if length bs = 64 then
          (case kp_decode kc bs of Some k \<Rightarrow> Ok k | None \<Rightarrow> Err InvalidData)
        else Err InvalidData)"

text \<open>\<^verbatim>\<open>File::create\<close> makes the file or empties it; a failing write leaves a prefix.\<close>

definition save_ed25519 ::
    "ed25519 \<Rightarrow> io_env \<Rightarrow> (path \<Rightarrow> io_error option) \<Rightarrow> Keypair \<Rightarrow> path \<Rightarrow> disk \<Rightarrow> (unit, io_error) outcome \<times> disk" where
  "save_ed25519 kc io mkdir k p d =
     (if p = [] then (Panic ''parent'', d)
      else (case (mkdir (butlast p), write_fault_at io p) of
        (Some e, _) \<Rightarrow> (Err e, d)
      | (None, Some (OpenFault e)) \<Rightarrow> (Err e, d)
      | (None, Some (WriteFault n e)) \<Rightarrow> (Err e, AList.update p (take n (kp_encode kc k)) d)
      | (None, _) \<Rightarrow> (Ok (), AList.update p (kp_encode kc k) d)))"

text \<open>\<open>fresh\<close> is the key pair that \<^verbatim>\<open>generate\<close> would make; failing to save it is only logged.\<close>

definition load_or_generate_ed25519 ::
    "ed25519 \<Rightarrow> io_env \<Rightarrow> (path \<Rightarrow> io_error option) \<Rightarrow> Keypair \<Rightarrow> path \<Rightarrow> disk \<Rightarrow> (Keypair, io_error) outcome \<times> disk" where
  "load_or_generate_ed25519 kc io mkdir fresh p d =
     (case load_ed25519 kc io p d of
        Ok k \<Rightarrow> (Ok k, d)
      | Panic m \<Rightarrow> (Panic m, d)
      | Err _ \<Rightarrow> (case save_ed25519 kc io mkdir fresh p d of
                   (Panic m, d1) \<Rightarrow> (Panic m, d1)
                 | (_, d1) \<Rightarrow> (Ok fresh, d1)))"

text \<open>The name of the key file; its directory is made when the name is first used, or the node panics.\<close>

definition KEYPAIR_FILENAME ::
    "(string \<Rightarrow> string option) \<Rightarrow> (path \<Rightarrow> io_error option) \<Rightarrow> (path, io_error) outcome" where
  "KEYPAIR_FILENAME env mkdir =
     (let p = PathBuf_push [] (read_var env ''PYRSIA_KEYPAIR'' ''pyrsia/p2p_keypair.ser'') in
      if p = [] then Panic ''parent''
      else (case mkdir (butlast p) of
              Some _ \<Rightarrow> Panic ''Error initializing Pyrsia Key Pair directory''
            | None \<Rightarrow> Ok p))"

section \<open>Restarts\<close>

definition key_file_usable :: "io_env \<Rightarrow> (path \<Rightarrow> io_error option) \<Rightarrow> path \<Rightarrow> bool" where
  "key_file_usable io mkdir p \<longleftrightarrow> p \<noteq> [] \<and> mkdir (butlast p) = None \<and> write_fault_at io p = None \<and>
     read_fault_at io p = None \<and> \<not> stat_fault_at io p"

lemma load_saved:
  assumes "key_codec_laws kc" and "generated kc k" and "key_file_usable io mkdir p" and "map_of d p = Some (kp_encode kc k)"
  shows "load_ed25519 kc io p d = Ok k"
  using assms by (simp add: load_ed25519_def key_codec_laws_def key_file_usable_def)

lemma load_or_generate_persists:
  assumes "key_codec_laws kc" and "generated kc fresh" and "key_file_usable io mkdir p"
    and "load_or_generate_ed25519 kc io mkdir fresh p d = (Ok k, d1)"
  shows "load_ed25519 kc io p d1 = Ok k"
proof (cases "load_ed25519 kc io p d")
  case (Err e)
  have "save_ed25519 kc io mkdir fresh p d = (Ok (), AList.update p (kp_encode kc fresh) d)"
    using assms(3) by (simp add: save_ed25519_def key_file_usable_def)
  then have "k = fresh" "d1 = AList.update p (kp_encode kc fresh) d"
    using assms(4) Err by (auto simp: load_or_generate_ed25519_def)
  then show ?thesis using load_saved[OF assms(1-3)] by (simp add: update_conv')
qed (use assms(4) in \<open>simp_all add: load_or_generate_ed25519_def\<close>)

text \<open>
  A node keeps its identity over restarts. On a key file that can be read and written the first
  start returns a key pair, the stored one or a newly generated one, and every later start returns the
  same key pair and leaves the disk alone, whatever it would generate; a file of the wrong size or with
  bytes that do not decode is replaced by the generated key pair. When the file cannot be opened for
  writing and no key pair is stored, each start takes a new identity.
\<close>

theorem keypair_survives_restart:
  assumes "key_codec_laws kc" and "generated kc fresh"
  shows "(key_file_usable io mkdir p \<longrightarrow>
      (\<exists>k d1. load_or_generate_ed25519 kc io mkdir fresh p d = (Ok k, d1) \<and>
         (k = fresh \<or> load_ed25519 kc io p d = Ok k) \<and>
         (\<forall>fresh2. load_or_generate_ed25519 kc io mkdir fresh2 p d1 = (Ok k, d1)))) \<and>
    (p \<noteq> [] \<and> write_fault_at io p = Some (OpenFault e) \<and> map_of d p = None \<longrightarrow>
       load_or_generate_ed25519 kc io mkdir fresh p d = (Ok fresh, d))"
proof (intro conjI impI)
  assume usable: "key_file_usable io mkdir p"
  have "\<exists>k d1. load_or_generate_ed25519 kc io mkdir fresh p d = (Ok k, d1) \<and>
      (k = fresh \<or> load_ed25519 kc io p d = Ok k)"
    using usable by (cases "load_ed25519 kc io p d")
      (auto simp: load_or_generate_ed25519_def save_ed25519_def key_file_usable_def load_ed25519_def
        split: option.splits if_splits)
  then obtain k d1 where k: "load_or_generate_ed25519 kc io mkdir fresh p d = (Ok k, d1)"
      "k = fresh \<or> load_ed25519 kc io p d = Ok k" by blast
  have "load_or_generate_ed25519 kc io mkdir fresh2 p d1 = (Ok k, d1)" for fresh2
    using load_or_generate_persists[OF assms usable k(1)] by (simp add: load_or_generate_ed25519_def)
  then show "\<exists>k d1. load_or_generate_ed25519 kc io mkdir fresh p d = (Ok k, d1) \<and>
      (k = fresh \<or> load_ed25519 kc io p d = Ok k) \<and>
      (\<forall>fresh2. load_or_generate_ed25519 kc io mkdir fresh2 p d1 = (Ok k, d1))" using k by blast
qed (auto simp: load_or_generate_ed25519_def save_ed25519_def load_ed25519_def split: option.splits)

text \<open>Key pairs stored as they are, whose public half repeats the secret one; nothing else decodes.\<close>

definition demo_ed25519 :: ed25519 where
  "demo_ed25519 = \<lparr>kp_generate = (\<lambda>seed. seed @ seed), kp_encode = (\<lambda>k. k),
     kp_decode = (\<lambda>bs. if take 32 bs = drop 32 bs then Some bs else None)\<rparr>"

lemma demo_key_codec_laws: "key_codec_laws demo_ed25519"
  by (auto simp: key_codec_laws_def demo_ed25519_def generated_def)

lemma demo_generated: "generated demo_ed25519 (replicate 64 b)"
  unfolding generated_def
  by (rule exI[of _ "replicate 32 b"]) (simp add: demo_ed25519_def replicate_add[symmetric])

theorem keypair_survives_restart_witness:
  "\<exists>k d1. load_or_generate_ed25519 demo_ed25519 no_faults (\<lambda>_. None) (replicate 64 7) [''k''] [] = (Ok k, d1) \<and>
     load_or_generate_ed25519 demo_ed25519 no_faults (\<lambda>_. None) (replicate 64 9) [''k''] d1 = (Ok k, d1)"
  using keypair_survives_restart[OF demo_key_codec_laws demo_generated, of no_faults "\<lambda>_. None" "[''k'']" 7 "[]" NotFound]
  by (auto simp: key_file_usable_def no_faults_def)

end
