(* ===== verification/Verification_Service.thy ===== *)
theory Verification_Service
  imports Artifact_Service
begin

text \<open>
  The verification service of authorised nodes (\<^verbatim>\<open>src/src/verification_service/service.rs\<close>): it
  collects the transactions of a package until all its artifacts are there, has the package built and
  answers each transaction by comparing hashes. A sender is the number of the transaction it answers;
  the answers sent are recorded, and so are the senders that are dropped without an answer. A run of the
  service is a list of transactions and reports of the build service.
\<close>

section \<open>State\<close>

datatype VerificationError =
    VerArtifactNotFound string string
  | NonMatchingHash string string string string
  | VerFailure string
  | UnsupportedOperation Operation
  | VerifyBuildError BuildError

record Package =
  pk_type :: PackageType
  pk_specific_id :: string

record VerificationInfo =
  vi_sender :: nat
  vi_artifact_specific_id :: string
  vi_artifact_hash :: string

record VerificationService =
  pending_info :: "(Package \<times> VerificationInfo list) list"
  verifying_info :: "(string \<times> VerificationInfo list) list"
  vs_answers :: "(nat \<times> (unit, VerificationError) outcome) list"
  vs_dropped :: "nat list"

definition VerificationService_new :: VerificationService where
  "VerificationService_new = \<lparr>pending_info = [], verifying_info = [], vs_answers = [], vs_dropped = []\<rparr>"

text \<open>
  What the service calls: \<^verbatim>\<open>serde_json\<close>, the build event client, and \<^verbatim>\<open>PeerId::random\<close>.
\<close>

record ver_env =
  ve_json :: json
  ve_verify_build :: "PeerId \<Rightarrow> PackageType \<Rightarrow> string \<Rightarrow> (string, BuildError) outcome"
  ve_random_peer :: PeerId

section \<open>Operations\<close>

definition senders :: "VerificationInfo list \<Rightarrow> nat list" where
  "senders vis = map vi_sender vis"

definition answer :: "nat \<Rightarrow> (unit, VerificationError) outcome \<Rightarrow> VerificationService \<Rightarrow> VerificationService" where
  "answer x r vs = vs\<lparr>vs_answers := vs_answers vs @ [(x, r)]\<rparr>"

definition drop_senders :: "nat list \<Rightarrow> VerificationService \<Rightarrow> VerificationService" where
  "drop_senders xs vs = vs\<lparr>vs_dropped := vs_dropped vs @ xs\<rparr>"

definition verify_add_artifact ::
    "ver_env \<Rightarrow> TransparencyLog \<Rightarrow> nat \<Rightarrow> VerificationService
      \<Rightarrow> (string option, VerificationError) outcome \<times> VerificationService" where
  "verify_add_artifact e l sender vs =
     (case package_type l of
        None \<Rightarrow> (Panic ''Package type should not be empty'', drop_senders [sender] vs)
      | Some pt \<Rightarrow>
        (let package = \<lparr>pk_type = pt, pk_specific_id = package_specific_id l\<rparr>;
             info = \<lparr>vi_sender = sender, vi_artifact_specific_id = package_specific_artifact_id l,
                     vi_artifact_hash = artifact_hash l\<rparr>;
             collected = (case map_of (pending_info vs) package of
                            Some vis \<Rightarrow> vis @ [info] | None \<Rightarrow> [info]);
             n = (of_nat (length collected) :: u32);
             vs1 = vs\<lparr>pending_info := AList.update package collected (pending_info vs)\<rparr>
         in if n = num_artifacts l then
              (let vs2 = vs1\<lparr>pending_info := AList.delete package (pending_info vs1)\<rparr> in
               case ve_verify_build e (ve_random_peer e) pt (package_specific_id l) of
                 Ok build_id \<Rightarrow>
                   (Ok (Some build_id),
                    let replaced = (case map_of (verifying_info vs2) build_id of Some vis \<Rightarrow> senders vis | None \<Rightarrow> [])
                    in drop_senders replaced
                         (vs2\<lparr>verifying_info := AList.update build_id collected (verifying_info vs2)\<rparr>))
               | Err x \<Rightarrow> (Err (VerifyBuildError x), drop_senders (senders collected) vs2)
               | Panic m \<Rightarrow> (Panic m, drop_senders (senders collected) vs2))
            else (Ok None, vs1)))"

definition verify_transaction ::
    "ver_env \<Rightarrow> bytes \<Rightarrow> nat \<Rightarrow> VerificationService
      \<Rightarrow> (string option, VerificationError) outcome \<times> VerificationService" where
  "verify_transaction e payload sender vs =
     (case json_from_slice (ve_json e) payload of
        None \<Rightarrow> (Err (VerFailure ''json''), drop_senders [sender] vs)
      | Some l \<Rightarrow>
        if operation l = AddArtifact then verify_add_artifact e l sender vs
        else (Err (UnsupportedOperation (operation l)), drop_senders [sender] vs))"

fun answer_all ::
    "(VerificationInfo \<Rightarrow> (unit, VerificationError) outcome) \<Rightarrow> VerificationInfo list
      \<Rightarrow> VerificationService \<Rightarrow> VerificationService" where
  "answer_all f [] vs = vs"
| "answer_all f (vi # vis) vs = answer_all f vis (answer (vi_sender vi) (f vi) vs)"

definition handle_build_failed :: "string \<Rightarrow> BuildError \<Rightarrow> VerificationService \<Rightarrow> VerificationService" where
  "handle_build_failed build_id err vs =
     (case map_of (verifying_info vs) build_id of
        None \<Rightarrow> vs
      | Some vis \<Rightarrow> answer_all (\<lambda>_. Err (VerifyBuildError err)) vis
                     (vs\<lparr>verifying_info := AList.delete build_id (verifying_info vs)\<rparr>))"

definition verdict :: "string \<Rightarrow> BuildResult \<Rightarrow> VerificationInfo \<Rightarrow> (unit, VerificationError) outcome" where
  "verdict build_id br vi =
     (case List.find (\<lambda>a. artifact_specific_id a = vi_artifact_specific_id vi) (br_artifacts br) of
        Some a \<Rightarrow>
          if vi_artifact_hash vi = ra_artifact_hash a then Ok ()
          else Err (NonMatchingHash build_id (vi_artifact_specific_id vi) (vi_artifact_hash vi) (ra_artifact_hash a))
      | None \<Rightarrow> Err (VerArtifactNotFound build_id (vi_artifact_specific_id vi)))"

definition handle_verification_result :: "string \<Rightarrow> BuildResult \<Rightarrow> VerificationService \<Rightarrow> VerificationService" where
  "handle_verification_result build_id br vs =
     (case map_of (verifying_info vs) build_id of
        None \<Rightarrow> vs
      | Some vis \<Rightarrow> answer_all (verdict build_id br) vis
                     (vs\<lparr>verifying_info := AList.delete build_id (verifying_info vs)\<rparr>))"

section \<open>Runs\<close>

text \<open>
  What happens to the service: a transaction, with the environment it meets (the answer of the build service
  may differ from call to call), and the failure or the result of a build.
\<close>

datatype ver_event =
    Transaction ver_env bytes nat
  | BuildFailed string BuildError
  | BuildDone string BuildResult

fun ver_run :: "ver_event list \<Rightarrow> VerificationService
      \<Rightarrow> (string option, VerificationError) outcome list \<times> VerificationService" where
  "ver_run [] vs = ([], vs)"
| "ver_run (Transaction e payload x # evs) vs =
     (let (r, vs1) = verify_transaction e payload x vs; (rs, vs2) = ver_run evs vs1 in (r # rs, vs2))"
| "ver_run (BuildFailed build_id err # evs) vs = ver_run evs (handle_build_failed build_id err vs)"
| "ver_run (BuildDone build_id br # evs) vs = ver_run evs (handle_verification_result build_id br vs)"

text \<open>Where the senders of a table of verification infos are.\<close>

definition table_senders :: "('k \<times> VerificationInfo list) list \<Rightarrow> nat multiset" where
  "table_senders t = (\<Sum>\<^sub># (image_mset (\<lambda>(k, vis). mset (senders vis)) (mset t)))"

definition all_senders :: "VerificationService \<Rightarrow> nat multiset" where
  "all_senders vs = table_senders (pending_info vs) + table_senders (verifying_info vs) +
     mset (map fst (vs_answers vs)) + mset (vs_dropped vs)"

definition tables_ok :: "VerificationService \<Rightarrow> bool" where
  "tables_ok vs \<longleftrightarrow> distinct (map fst (pending_info vs)) \<and> distinct (map fst (verifying_info vs))"

lemma table_senders_update:
  assumes "distinct (map fst t)"
  shows "table_senders (AList.update k vis t) + (case map_of t k of Some old \<Rightarrow> mset (senders old) | None \<Rightarrow> {#})
    = table_senders t + mset (senders vis)"
  using assms
proof (induction t)
  case Nil
  then show ?case by (simp add: table_senders_def)
next
  case (Cons p t)
  then show ?case
    by (cases p) (auto simp: table_senders_def map_of_eq_None_iff ac_simps split: option.splits)
qed

lemma table_senders_delete:
  assumes "distinct (map fst t)"
  shows "table_senders (AList.delete k t) + (case map_of t k of Some old \<Rightarrow> mset (senders old) | None \<Rightarrow> {#})
    = table_senders t"
  using assms
proof (induction t)
  case Nil
  then show ?case by (simp add: table_senders_def)
next
  case (Cons p t)
  then show ?case
    by (cases p) (auto simp: table_senders_def map_of_eq_None_iff delete_conv ac_simps split: option.splits)
qed

lemma answer_all_fields [simp]:
  "pending_info (answer_all f vis vs) = pending_info vs"
  "verifying_info (answer_all f vis vs) = verifying_info vs"
  "vs_dropped (answer_all f vis vs) = vs_dropped vs"
  "vs_answers (answer_all f vis vs) = vs_answers vs @ map (\<lambda>vi. (vi_sender vi, f vi)) vis"
  by (induction vis arbitrary: vs) (simp_all add: answer_def)

end
