(* ===== verification/Build_Service.thy ===== *)
theory Build_Service
  imports Verification_Service Rust_Text
begin

text \<open>
  The build service of authorised nodes and its event loop (\<^verbatim>\<open>src/src/build_service/\<close>: \<^verbatim>\<open>service.rs\<close>,
  \<^verbatim>\<open>mapping/service.rs\<close>, \<^verbatim>\<open>mapping/model.rs\<close>, \<^verbatim>\<open>pipeline/service.rs\<close>, \<^verbatim>\<open>event.rs\<close>). The HTTP client and the JSON of
  the mapping and pipeline services are arguments. The task that polls a started build is
  \<open>poll_build\<close>, a loop that need not end; the events it and the service send are queued in the state.
\<close>

section \<open>HTTP\<close>

record http_response =
  hr_status :: nat
  hr_body :: bytes

definition is_success :: "nat \<Rightarrow> bool" where
  "is_success st \<longleftrightarrow> 200 \<le> st \<and> st < 300"

datatype SourceRepository = Git string string

record MappingInfo =
  mi_package_type :: PackageType
  mi_package_specific_id :: string
  mi_source_repository :: "SourceRepository option"
  mi_build_spec_url :: "string option"

text \<open>The packages: \<^verbatim>\<open>reqwest\<close> and the decoding of response bodies.\<close>

record http_env =
  http_get :: "string \<Rightarrow> (http_response, string) outcome"
  http_put_mapping :: "string \<Rightarrow> MappingInfo \<Rightarrow> (http_response, string) outcome"
  body_mapping :: "bytes \<Rightarrow> (MappingInfo, string) outcome"
  body_string :: "bytes \<Rightarrow> (string, string) outcome"
  body_build_info :: "bytes \<Rightarrow> (BuildInfo, string) outcome"

section \<open>The mapping service\<close>

record MappingService =
  mapping_service_endpoint :: string

definition MappingService_new :: "string \<Rightarrow> MappingService" where
  "MappingService_new endpoint = \<lparr>mapping_service_endpoint = strip_slash endpoint\<rparr>"

text \<open>Indexing the pieces panics when there are fewer than three.\<close>

definition piece :: "string list \<Rightarrow> nat \<Rightarrow> (string, BuildError) outcome" where
  "piece ps i = (if i < length ps then Ok (ps ! i) else Panic ''index out of bounds'')"

definition maven_mapping_url :: "MappingService \<Rightarrow> string \<Rightarrow> (string, BuildError) outcome" where
  "maven_mapping_url ms psid =
     (let pieces = split_at (CHR '':'') psid in
      rbind (piece pieces 0) (\<lambda>g.
      rbind (piece pieces 1) (\<lambda>artifact_id.
      rbind (piece pieces 2) (\<lambda>version.
        let group_id = replace_char (CHR ''.'') (CHR ''/'') g in
        Ok (mapping_service_endpoint ms @ ''/Maven2/'' @ group_id @ ''/'' @ artifact_id @ ''/'' @ version @
            ''/'' @ artifact_id @ ''-'' @ version @ ''.mapping'')))))"

definition get_maven_mapping ::
    "http_env \<Rightarrow> MappingService \<Rightarrow> string \<Rightarrow> (MappingInfo, BuildError) outcome" where
  "get_maven_mapping h ms psid =
     rbind (maven_mapping_url ms psid) (\<lambda>url.
     rbind (map_err MappingServiceEndpointRequestFailure (http_get h url)) (\<lambda>response.
       if is_success (hr_status response) then
         map_err InvalidMappingResponse (body_mapping h (hr_body response))
       else if hr_status response = 404 then Err (MappingNotFound Maven2 psid)
       else Err (MappingServiceEndpointFailure (hr_status response))))"

definition get_mapping ::
    "http_env \<Rightarrow> MappingService \<Rightarrow> PackageType \<Rightarrow> string \<Rightarrow> (MappingInfo, BuildError) outcome" where
  "get_mapping h ms pt psid =
     (case pt of
        Docker \<Rightarrow> Ok \<lparr>mi_package_type = pt, mi_package_specific_id = psid, mi_source_repository = None,
                      mi_build_spec_url = None\<rparr>
      | Maven2 \<Rightarrow> get_maven_mapping h ms psid)"

section \<open>The pipeline service\<close>

record PipelineService =
  pipeline_service_endpoint :: string

definition PipelineService_new :: "string \<Rightarrow> PipelineService" where
  "PipelineService_new endpoint = \<lparr>pipeline_service_endpoint = strip_slash endpoint\<rparr>"

definition pipeline_body ::
    "(bytes \<Rightarrow> ('a, string) outcome) \<Rightarrow> (http_response, string) outcome \<Rightarrow> ('a, BuildError) outcome" where
  "pipeline_body decode sent =
     rbind (map_err PipelineServiceEndpointRequestFailure sent) (\<lambda>response.
       if is_success (hr_status response) then map_err InvalidPipelineResponse (decode (hr_body response))
       else Err (PipelineServiceEndpointFailure (hr_status response)))"

definition pipeline_start_build ::
    "http_env \<Rightarrow> PipelineService \<Rightarrow> MappingInfo \<Rightarrow> (string, BuildError) outcome" where
  "pipeline_start_build h p mi =
     pipeline_body (body_string h) (http_put_mapping h (pipeline_service_endpoint p @ ''/build'') mi)"

definition pipeline_get_build_status ::
    "http_env \<Rightarrow> PipelineService \<Rightarrow> string \<Rightarrow> (BuildInfo, BuildError) outcome" where
  "pipeline_get_build_status h p build_id =
     pipeline_body (body_build_info h) (http_get h (pipeline_service_endpoint p @ ''/build/'' @ build_id))"

definition download_artifact ::
    "http_env \<Rightarrow> PipelineService \<Rightarrow> string \<Rightarrow> (bytes, BuildError) outcome" where
  "download_artifact h p url =
     pipeline_body Ok (http_get h (pipeline_service_endpoint p @ url))"

section \<open>Names of built artifacts\<close>

definition get_docker_image_name :: "string \<Rightarrow> string" where
  "get_docker_image_name psid =
     (case rfind_split (CHR ''@'') psid of
        Some (before, _) \<Rightarrow> before
      | None \<Rightarrow> (case rfind_split (CHR '':'') psid of Some (before, _) \<Rightarrow> before | None \<Rightarrow> psid))"

definition url_filename :: "string \<Rightarrow> string" where
  "url_filename url = (case rfind_split (CHR ''/'') url of Some (_, f) \<Rightarrow> f | None \<Rightarrow> url)"

definition artifact_specific_ids :: "PackageType \<Rightarrow> string \<Rightarrow> string \<Rightarrow> string \<Rightarrow> string list" where
  "artifact_specific_ids pt psid url hash =
     (case pt of
        Docker \<Rightarrow>
          if ends_with ''/manifest'' url then
            (if CHR ''@'' \<in> set psid then [psid]
             else [psid, get_docker_image_name psid @ ''@sha256:'' @ hash])
          else
            (let filename = url_filename url;
                 blob_digest = (case rfind_split (CHR ''.'') filename of Some (b, _) \<Rightarrow> b | None \<Rightarrow> filename)
             in [get_docker_image_name psid @ ''@'' @ blob_digest])
      | Maven2 \<Rightarrow> [replace_char (CHR '':'') (CHR ''/'') psid @ ''/'' @ url_filename url])"

section \<open>The build service\<close>

datatype BuildEvent =
    Failed string BuildError
  | Status string
  | Start PackageType string BuildTrigger
  | Succeeded string PackageType string BuildTrigger "string list"
  | Result string BuildTrigger BuildResult

record build_env =
  be_art :: art_env
  be_http :: http_env
  be_ver :: ver_env
  be_mapping :: MappingService
  be_pipeline :: PipelineService
  be_repository :: path
  be_mkdir :: "path \<Rightarrow> io_error option"
  be_rmdir :: "path \<Rightarrow> io_error option"
  be_io_text :: "io_error \<Rightarrow> string"
  net_verify_build :: "PackageType \<Rightarrow> string \<Rightarrow> (unit, string) outcome"

text \<open>\<open>polling\<close> are the builds whose polling task has been spawned, \<open>queue\<close> the events sent.\<close>

record build_state =
  bs_art :: art_state
  bs_ver :: VerificationService
  polling :: "(string \<times> PackageType \<times> string \<times> BuildTrigger) list"
  queue :: "BuildEvent list"

definition send_event :: "BuildEvent \<Rightarrow> build_state \<Rightarrow> build_state" where
  "send_event ev s = s\<lparr>queue := queue s @ [ev]\<rparr>"

definition check_trigger ::
    "build_env \<Rightarrow> PackageType \<Rightarrow> string \<Rightarrow> BuildTrigger \<Rightarrow> build_state \<Rightarrow> (unit, BuildError) outcome" where
  "check_trigger e pt psid trigger s =
     (case trigger of
        FromSource \<Rightarrow> map_err (\<lambda>m. InitializationFailed (Msg m)) (net_verify_build e pt psid)
      | Verification requestor \<Rightarrow>
        rbind (map_err TransparencyLogFailure (get_authorized_nodes (ae_log (be_art e)) (as_log (bs_art s))))
          (\<lambda>nodes. if requestor \<in> set nodes then Ok () else Err (UnauthorizedPeerId requestor)))"

definition start_build ::
    "build_env \<Rightarrow> PackageType \<Rightarrow> string \<Rightarrow> BuildTrigger \<Rightarrow> build_state
      \<Rightarrow> (string, BuildError) outcome \<times> build_state" where
  "start_build e pt psid trigger s =
     sbind (check_trigger e pt psid trigger s, s) (\<lambda>_ s.
     sbind (get_mapping (be_http e) (be_mapping e) pt psid, s) (\<lambda>mi s.
     sbind (pipeline_start_build (be_http e) (be_pipeline e) mi, s) (\<lambda>build_id s.
       (Ok build_id, s\<lparr>polling := polling s @ [(build_id, pt, psid, trigger)]\<rparr>))))"

text \<open>
  The polling task: \<open>status k\<close> is what the pipeline answers at the \<open>k\<close>-th tick. The value is the one
  event the task sends, and \<open>None\<close> if the build is reported as running for ever.
\<close>

partial_function (option) poll_build ::
    "(nat \<Rightarrow> (BuildInfo, BuildError) outcome) \<Rightarrow> string \<Rightarrow> PackageType \<Rightarrow> string \<Rightarrow> BuildTrigger \<Rightarrow> nat
      \<Rightarrow> (BuildEvent, string) outcome option" where
  "poll_build status build_id pt psid trigger k =
     (case status k of
        Ok info \<Rightarrow>
          (case bi_status info of
             Running \<Rightarrow> poll_build status build_id pt psid trigger (Suc k)
           | Success urls \<Rightarrow> Some (Ok (Succeeded build_id pt psid trigger urls))
           | FailureStatus m \<Rightarrow> Some (Ok (Failed build_id (Failure (bi_id info) m))))
      | Err err \<Rightarrow> Some (Ok (Failed build_id err))
      | Panic m \<Rightarrow> Some (Panic m))"

definition get_build_path :: "build_env \<Rightarrow> string \<Rightarrow> path" where
  "get_build_path e build_id = PathBuf_push (be_repository e @ [''builds'']) build_id"

text \<open>\<^verbatim>\<open>File::create\<close> truncates; a failing copy leaves a prefix.\<close>

definition hash_and_store_data ::
    "build_env \<Rightarrow> path \<Rightarrow> bytes \<Rightarrow> disk \<Rightarrow> (path \<times> string, io_error) outcome \<times> disk" where
  "hash_and_store_data e build_path bs d =
     (let hash = ae_sha256_hex (be_art e) bs; p = PathBuf_push build_path hash in
      case write_fault_at (ae_io (be_art e)) p of
        Some (OpenFault x) \<Rightarrow> (Err x, d)
      | Some (WriteFault k x) \<Rightarrow> (Err x, AList.update p (take k bs) d)
      | _ \<Rightarrow> (Ok (p, hash), AList.update p bs d))"

fun process_artifact_urls ::
    "build_env \<Rightarrow> string \<Rightarrow> PackageType \<Rightarrow> string \<Rightarrow> path \<Rightarrow> string list \<Rightarrow> disk
      \<Rightarrow> (BuildResultArtifact list, BuildError) outcome \<times> disk" where
  "process_artifact_urls e build_id pt psid build_path [] d = (Ok [], d)"
| "process_artifact_urls e build_id pt psid build_path (url # urls) d =
     sbind (download_artifact (be_http e) (be_pipeline e) url, d) (\<lambda>artifact d.
     sbind (let (r, d1) = hash_and_store_data e build_path artifact d
            in (map_err (\<lambda>x. Failure build_id (be_io_text e x)) r, d1)) (\<lambda>(location, hash) d.
     sbind (process_artifact_urls e build_id pt psid build_path urls d) (\<lambda>rest d.
       (Ok (map (\<lambda>i. \<lparr>artifact_specific_id = i, artifact_location = location, ra_artifact_hash = hash\<rparr>)
              (artifact_specific_ids pt psid url hash) @ rest), d))))"

definition clean_up_build :: "build_env \<Rightarrow> string \<Rightarrow> build_state \<Rightarrow> build_state" where
  "clean_up_build e build_id s =
     (let bp = get_build_path e build_id in
      case be_rmdir e bp of
        Some _ \<Rightarrow> s
      | None \<Rightarrow> s\<lparr>bs_art := (bs_art s)\<lparr>as_files :=
           filter (\<lambda>(p, _). take (length bp) p \<noteq> bp) (as_files (bs_art s))\<rparr>\<rparr>)"

definition handle_successful_build ::
    "build_env \<Rightarrow> string \<Rightarrow> PackageType \<Rightarrow> string \<Rightarrow> BuildTrigger \<Rightarrow> string list \<Rightarrow> build_state
      \<Rightarrow> (unit, string) outcome \<times> build_state" where
  "handle_successful_build e build_id pt psid trigger urls s =
     (let bp = get_build_path e build_id in
      case be_mkdir e bp of
        Some x \<Rightarrow> (Ok (), send_event (Failed build_id (Failure build_id (be_io_text e x))) s)
      | None \<Rightarrow>
        (let (r, d1) = process_artifact_urls e build_id pt psid bp urls (as_files (bs_art s));
             s1 = s\<lparr>bs_art := (bs_art s)\<lparr>as_files := d1\<rparr>\<rparr>
         in case r of
              Ok artifacts \<Rightarrow>
                (Ok (), send_event (Result build_id trigger
                   \<lparr>br_package_type = pt, br_package_specific_id = psid, br_artifacts = artifacts\<rparr>) s1)
            | Err x \<Rightarrow> (Ok (), clean_up_build e build_id (send_event (Failed build_id x) s1))
            | Panic m \<Rightarrow> (Panic m, s1)))"

section \<open>The build event loop\<close>

datatype BuildReply = NoReply | StatusReply "(BuildStatus, BuildError) outcome" | StartReply "(string, BuildError) outcome"

definition handle_build_event ::
    "build_env \<Rightarrow> BuildEvent \<Rightarrow> build_state \<Rightarrow> (BuildReply, string) outcome \<times> build_state" where
  "handle_build_event e ev s =
     (case ev of
        Start pt psid trigger \<Rightarrow>
          (let (r, s1) = start_build e pt psid trigger s
           in case r of Panic m \<Rightarrow> (Panic m, s1) | _ \<Rightarrow> (Ok (StartReply r), s1))
      | Failed build_id err \<Rightarrow>
          (Ok NoReply, s\<lparr>bs_ver := handle_build_failed build_id err (bs_ver s)\<rparr>)
      | Status build_id \<Rightarrow>
          (case pipeline_get_build_status (be_http e) (be_pipeline e) build_id of
             Panic m \<Rightarrow> (Panic m, s)
           | r \<Rightarrow> (Ok (StatusReply (map_ok bi_status r)), s))
      | Succeeded build_id pt psid trigger urls \<Rightarrow>
          (let (r, s1) = handle_successful_build e build_id pt psid trigger urls s
           in (map_ok (\<lambda>_. NoReply) r, s1))
      | Result build_id trigger br \<Rightarrow>
          (case trigger of
             FromSource \<Rightarrow>
               (let (r, a1) = handle_build_result (be_art e) build_id br (bs_art s);
                    s1 = s\<lparr>bs_art := a1\<rparr>
                in case r of
                     Panic m \<Rightarrow> (Panic m, s1)
                   | _ \<Rightarrow> (Ok NoReply, clean_up_build e build_id s1))
           | Verification leader \<Rightarrow>
               (Ok NoReply, clean_up_build e build_id
                  (s\<lparr>bs_ver := handle_verification_result build_id br (bs_ver s)\<rparr>))))"

text \<open>The build event client, for a running loop; a loop that panics drops the sender of the answer.\<close>

definition client_verify_build ::
    "build_env \<Rightarrow> PeerId \<Rightarrow> PackageType \<Rightarrow> string \<Rightarrow> build_state \<Rightarrow> (string, BuildError) outcome \<times> build_state" where
  "client_verify_build e requestor pt psid s =
     (case handle_build_event e (Start pt psid (Verification requestor)) s of
        (Ok (StartReply r), s1) \<Rightarrow> (r, s1)
      | (_, s1) \<Rightarrow> (Err (InitializationFailed (Msg ''channel closed'')), s1))"

definition client_start_build ::
    "build_env \<Rightarrow> PackageType \<Rightarrow> string \<Rightarrow> build_state \<Rightarrow> (string, BuildError) outcome \<times> build_state" where
  "client_start_build e pt psid s =
     (case handle_build_event e (Start pt psid FromSource) s of
        (Ok (StartReply r), s1) \<Rightarrow> (r, s1)
      | (_, s1) \<Rightarrow> (Err (InitializationFailed (Msg ''channel closed'')), s1))"

definition client_get_build_status ::
    "build_env \<Rightarrow> string \<Rightarrow> build_state \<Rightarrow> (BuildStatus, BuildError) outcome \<times> build_state" where
  "client_get_build_status e build_id s =
     (case handle_build_event e (Status build_id) s of
        (Ok (StatusReply r), s1) \<Rightarrow> (r, s1)
      | (_, s1) \<Rightarrow> (Err (BuildStatusFailed (Msg ''channel closed'')), s1))"

end
