(* ===== verification/Node_Process.thy ===== *)
theory Node_Process
  imports Network_Client_Calls Peer_Metrics Node_Keypair Build_Service
begin

text \<open>
  The process of a node (\<^verbatim>\<open>src/pyrsia_node/src/main.rs\<close>) with the handlers it runs for its peers
  (\<^verbatim>\<open>pyrsia_node/src/network/handlers.rs\<close>) and its arguments (\<^verbatim>\<open>pyrsia_node/src/args/parser.rs\<close>): the services it
  sets up, how it joins the network, and what it does with each event of the network. Every call of
  the p2p client goes to the event loop; the turns the loop takes meanwhile are arguments.
\<close>

section \<open>Arguments\<close>

record PyrsiaNodeArgs =
  arg_host :: string
  arg_listen_address :: Multiaddr
  arg_port :: string
  arg_peer :: "Multiaddr option"
  arg_init_blockchain :: bool
  arg_probe :: "Multiaddr option"
  arg_listen_only :: bool
  arg_bootstrap_url :: string
  arg_max_provided_keys :: nat
  arg_mapping_service_endpoint :: string
  arg_pipeline_service_endpoint :: string

definition DEFAULT_HOST :: string where
  "DEFAULT_HOST = ''127.0.0.1''"

definition DEFAULT_PORT :: string where
  "DEFAULT_PORT = ''7888''"

section \<open>Setting up\<close>

text \<open>The address of the HTTP server: a host or a port that does not parse panics.\<close>

definition bind_address :: "PyrsiaNodeArgs \<Rightarrow> ((nat \<times> nat \<times> nat \<times> nat) \<times> nat, string) outcome" where
  "bind_address args =
     rbind (unwrap ''host'' (parse_ipv4 (arg_host args))) (\<lambda>ip.
     rbind (unwrap ''port'' (parse_u16 (arg_port args))) (\<lambda>port. Ok (ip, port)))"

record setup_env =
  se_env_var :: "string \<Rightarrow> string option"
  se_chain :: chain_env
  se_entropy :: entropy
  se_ed25519 :: ed25519
  se_fresh_keypair :: Keypair
  se_canonicalize :: "path \<Rightarrow> (path, io_error) outcome"
  se_is_dir :: "path \<Rightarrow> bool"

record services =
  sv_blockchain :: BlockchainService
  sv_log_path :: path
  sv_storage :: ArtifactStorage
  sv_build_path :: path
  sv_mapping :: MappingService
  sv_pipeline :: PipelineService
  sv_verification :: VerificationService

definition TransparencyLogService_new :: "setup_env \<Rightarrow> path \<Rightarrow> (path, anyhow) outcome" where
  "TransparencyLogService_new e p = map_ok (\<lambda>a. a @ [''transparency_log'']) (map_err AnyIo (se_canonicalize e p))"

definition ArtifactStorage_new :: "setup_env \<Rightarrow> path \<Rightarrow> (ArtifactStorage, anyhow) outcome" where
  "ArtifactStorage_new e p =
     rbind (map_err AnyIo (se_canonicalize e p)) (\<lambda>a.
       if se_is_dir e a then Ok \<lparr>repository_path = a\<rparr> else Err (AnyMsg ''Not an accessible directory''))"

definition setup_blockchain_service ::
    "setup_env \<Rightarrow> PyrsiaNodeArgs \<Rightarrow> Keypair \<Rightarrow> disk \<Rightarrow> (BlockchainService, anyhow) outcome \<times> disk" where
  "setup_blockchain_service e args local_keypair d =
     (let p = PathBuf_push [] (read_var (se_env_var e) ''PYRSIA_BLOCKCHAIN_PATH'' ''pyrsia/blockchain'') in
      if arg_init_blockchain args then
        sbind (map_err AnyIo (KEYPAIR_FILENAME (se_env_var e) (mkdir_fault (se_chain e))), d) (\<lambda>key_path d.
        let (r, d1) = load_or_generate_ed25519 (se_ed25519 e) (env_io (se_chain e)) (mkdir_fault (se_chain e))
                        (se_fresh_keypair e) key_path d in
        sbind (map_err AnyIo r, d1) (\<lambda>blockchain_keypair d1.
        let (r, d2) = init_first_blockchain_node (se_chain e) (se_entropy e) local_keypair blockchain_keypair p d1
        in (map_err AnyChain r, d2)))
      else (map_err AnyChain (init_other_blockchain_node (se_chain e) local_keypair p), d))"

definition setup_pyrsia_services ::
    "setup_env \<Rightarrow> PyrsiaNodeArgs \<Rightarrow> path \<Rightarrow> Keypair \<Rightarrow> disk \<Rightarrow> (services, anyhow) outcome \<times> disk" where
  "setup_pyrsia_services e args artifact_path local_keypair d =
     sbind (setup_blockchain_service e args local_keypair d) (\<lambda>bc d.
     sbind (TransparencyLogService_new e artifact_path, d) (\<lambda>log_path d.
     sbind (ArtifactStorage_new e artifact_path, d) (\<lambda>storage d.
     sbind (map_err AnyIo (se_canonicalize e artifact_path), d) (\<lambda>build_path d.
       (Ok \<lparr>sv_blockchain = bc, sv_log_path = log_path, sv_storage = storage, sv_build_path = build_path,
            sv_mapping = MappingService_new (arg_mapping_service_endpoint args),
            sv_pipeline = PipelineService_new (arg_pipeline_service_endpoint args),
            sv_verification = VerificationService_new\<rparr>, d)))))"

section \<open>Joining the network\<close>

text \<open>Sequencing calls that may still wait.\<close>

fun cbind :: "'a call_result \<times> 's \<Rightarrow> ('a \<Rightarrow> 's \<Rightarrow> 'b call_result \<times> 's) \<Rightarrow> 'b call_result \<times> 's" where
  "cbind (None, s) f = (None, s)"
| "cbind (Some (Ok x), s) f = f x s"
| "cbind (Some (Err m), s) f = (Some (Err m), s)"
| "cbind (Some (Panic m), s) f = (Some (Panic m), s)"

text \<open>
  The libraries of the bootstrap: \<^verbatim>\<open>reqwest\<close> with the text of the body, the \<^verbatim>\<open>json\<close> crate, and libp2p's
  addresses.
\<close>

datatype JsonValue = JsonArray "JsonValue list" | OtherJson string

record boot_env =
  http_get :: "string \<Rightarrow> ((string, string) outcome, string) outcome"
  js_parse :: "string \<Rightarrow> (JsonValue, string) outcome"
  js_index :: "JsonValue \<Rightarrow> string \<Rightarrow> JsonValue"
  js_to_string :: "JsonValue \<Rightarrow> string"
  parse_multiaddr :: "string \<Rightarrow> (Multiaddr, string) outcome"
  from_multihash :: "bytes \<Rightarrow> PeerId option"
  try_from_multiaddr :: "Multiaddr \<Rightarrow> PeerId option"

definition load_peer_addrs :: "boot_env \<Rightarrow> string \<Rightarrow> (string, string) outcome" where
  "load_peer_addrs b url =
     (case http_get b url of
        Ok body \<Rightarrow>
          rbind body (\<lambda>text.
          rbind (js_parse b text) (\<lambda>jv.
            case js_index b jv ''peer_addrs'' of
              JsonArray [] \<Rightarrow> Err ''did not receive a valid array of peer_addrs in JSON''
            | JsonArray (v # _) \<Rightarrow>
              (let peer_addrs = js_to_string b v in
               if peer_addrs \<noteq> [] then Ok peer_addrs else Err ''Could not read peer_addrs'')
            | _ \<Rightarrow> Err ''did not receive an array of peer_addrs in JSON''))
      | Err err \<Rightarrow> Err err
      | Panic m \<Rightarrow> Panic m)"

text \<open>A call of the client: the swarm when the loop takes the command, its sender, the turns after it.\<close>

type_synonym call_plan = "swarm \<times> sender \<times> turn list"

definition to_peer ::
    "boot_env \<Rightarrow> (PeerId \<Rightarrow> Multiaddr \<Rightarrow> client_side \<Rightarrow> unit call_result \<times> client_side) \<Rightarrow> Multiaddr
      \<Rightarrow> client_side \<Rightarrow> unit call_result \<times> client_side" where
  "to_peer b call addr cl =
     (if addr = [] then (Some (Err ''Expect peer address to contain Peer ID.''), cl)
      else (case last addr of
        P2p h \<Rightarrow> (case from_multihash b h of
                   Some p \<Rightarrow> call p addr cl
                 | None \<Rightarrow> (Some (Err ''Invalid hash provided for Peer ID.''), cl))
      | OtherProtocol _ \<Rightarrow> (Some (Err ''Expect peer address to contain Peer ID.''), cl)))"

definition dial_other_peer ::
    "loop_env \<Rightarrow> boot_env \<Rightarrow> call_plan \<Rightarrow> call_plan \<Rightarrow> Multiaddr \<Rightarrow> client_side \<Rightarrow> unit call_result \<times> client_side" where
  "dial_other_peer e b p1 p2 =
     (case (p1, p2) of ((sw, x, ts), (sw2, y, us)) \<Rightarrow>
        to_peer b (\<lambda>peer addr. Client_dial e sw peer addr x ts sw2 y us))"

definition probe_other_peer ::
    "loop_env \<Rightarrow> boot_env \<Rightarrow> call_plan \<Rightarrow> call_plan \<Rightarrow> Multiaddr \<Rightarrow> client_side \<Rightarrow> unit call_result \<times> client_side" where
  "probe_other_peer e b p1 p2 =
     (case (p1, p2) of ((sw, x, ts), (sw2, y, us)) \<Rightarrow>
        to_peer b (\<lambda>peer addr. Client_add_probe_address e sw peer addr x ts sw2 y us))"

definition connect_to_p2p_network ::
    "loop_env \<Rightarrow> boot_env \<Rightarrow> call_plan \<Rightarrow> call_plan \<Rightarrow> call_plan \<Rightarrow> PyrsiaNodeArgs \<Rightarrow> client_side
      \<Rightarrow> PeerId option call_result \<times> client_side" where
  "connect_to_p2p_network e b p0 p1 p2 args cl =
     cbind (case p0 of (sw, x, ts) \<Rightarrow> Client_listen e sw (arg_listen_address args) x ts cl) (\<lambda>_ cl.
       case arg_probe args of
         Some to_probe \<Rightarrow>
           cbind (probe_other_peer e b p1 p2 to_probe cl) (\<lambda>_ cl. (Some (Ok (try_from_multiaddr b to_probe)), cl))
       | None \<Rightarrow>
         (case arg_peer args of
            Some to_dial \<Rightarrow>
              cbind (dial_other_peer e b p1 p2 to_dial cl) (\<lambda>_ cl. (Some (Ok (try_from_multiaddr b to_dial)), cl))
          | None \<Rightarrow>
            if arg_listen_only args then (Some (Ok None), cl)
            else
              cbind (Some (load_peer_addrs b (arg_bootstrap_url args)), cl) (\<lambda>text cl.
              cbind (Some (parse_multiaddr b text), cl) (\<lambda>pa cl.
              cbind (probe_other_peer e b p1 p2 pa cl) (\<lambda>_ cl. (Some (Ok (try_from_multiaddr b pa)), cl))))))"

fun add_pulled_blocks :: "art_env \<Rightarrow> Block list \<Rightarrow> art_state \<Rightarrow> (unit, anyhow) outcome \<times> art_state" where
  "add_pulled_blocks e [] s = (Ok (), s)"
| "add_pulled_blocks e (b # bs) s =
     sbind (handle_block_added e (fetch_payload b) s) (\<lambda>_ s. add_pulled_blocks e bs s)"

definition node_pull_blocks :: "art_env \<Rightarrow> PeerId \<Rightarrow> art_state \<Rightarrow> (unit, anyhow) outcome \<times> art_state" where
  "node_pull_blocks e peer s =
     (let (r, s) = pull_blocks_from_peer e peer s in
      sbind (map_err AnyChain r, s) (\<lambda>n s.
      let (r, s) = pull_blocks_local e 1 n s in
      sbind (map_err AnyChain r, s) (\<lambda>bs s. add_pulled_blocks e bs s)))"

section \<open>Events of the network\<close>

record node_env =
  ne_art :: art_env
  ne_loop :: loop_env
  ne_verify_build :: "PeerId \<Rightarrow> PackageType \<Rightarrow> string \<Rightarrow> (string, BuildError) outcome"

record node_state =
  nd_art :: art_state
  nd_client :: client_side

text \<open>The spawned task that joins the network; \<open>None\<close> while a call still waits.\<close>

definition establish_connection_with_p2p_network ::
    "node_env \<Rightarrow> boot_env \<Rightarrow> call_plan \<Rightarrow> call_plan \<Rightarrow> call_plan \<Rightarrow> PyrsiaNodeArgs \<Rightarrow> node_state
      \<Rightarrow> (unit, anyhow) outcome option \<times> node_state" where
  "establish_connection_with_p2p_network e b p0 p1 p2 args s =
     (let (r, cl) = connect_to_p2p_network (ne_loop e) b p0 p1 p2 args (nd_client s);
          s = s\<lparr>nd_client := cl\<rparr> in
      case r of
        None \<Rightarrow> (None, s)
      | Some (Panic m) \<Rightarrow> (Some (Panic m), s)
      | Some (Err _) \<Rightarrow> (Some (Ok ()), s)
      | Some (Ok None) \<Rightarrow> (Some (Ok ()), s)
      | Some (Ok (Some peer)) \<Rightarrow>
        if arg_init_blockchain args then (Some (Ok ()), s)
        else (case node_pull_blocks (ne_art e) peer (nd_art s) of
                (Ok _, a) \<Rightarrow> (Some (Ok ()), s\<lparr>nd_art := a\<rparr>)
              | (Err _, a) \<Rightarrow> (Some (Panic ''Failed to pull blocks from p2p network''), s\<lparr>nd_art := a\<rparr>)
              | (Panic m, a) \<Rightarrow> (Some (Panic m), s\<lparr>nd_art := a\<rparr>)))"

text \<open>Each handler ends with a call of the client that sends the response to the event loop.\<close>

definition respond :: "('a, anyhow) outcome \<Rightarrow> ('a \<Rightarrow> client_side \<Rightarrow> (unit, string) outcome \<times> client_side) \<Rightarrow> node_state
    \<Rightarrow> (unit, anyhow) outcome \<times> node_state" where
  "respond r send s =
     sbind (r, s) (\<lambda>v s. let (r, cl) = send v (nd_client s) in (map_err AnyMsg r, s\<lparr>nd_client := cl\<rparr>))"

definition handle_request_artifact ::
    "node_env \<Rightarrow> swarm \<Rightarrow> string \<Rightarrow> channel \<Rightarrow> node_state \<Rightarrow> (unit, anyhow) outcome \<times> node_state" where
  "handle_request_artifact e sw i ch s =
     respond (get_artifact_locally (ne_art e) i (nd_art s))
       (\<lambda>content. Client_respond_artifact (ne_loop e) sw content ch) s"

definition handle_request_build ::
    "node_env \<Rightarrow> swarm \<Rightarrow> PackageType \<Rightarrow> string \<Rightarrow> channel \<Rightarrow> node_state \<Rightarrow> (unit, anyhow) outcome \<times> node_state" where
  "handle_request_build e sw pt psid ch s =
     respond (map_err AnyBuild (ev_start_build (ne_art e) pt psid))
       (\<lambda>build_id. Client_respond_build (ne_loop e) sw build_id ch) s"

definition handle_verify_build ::
    "node_env \<Rightarrow> PeerId \<Rightarrow> PackageType \<Rightarrow> string \<Rightarrow> node_state \<Rightarrow> (unit, anyhow) outcome \<times> node_state" where
  "handle_verify_build e peer pt psid s =
     (map_ok (\<lambda>_. ()) (map_err AnyBuild (ne_verify_build e peer pt psid)), s)"

text \<open>The metric of the host, which is read three times.\<close>

definition handle_request_idle_metric ::
    "node_env \<Rightarrow> swarm \<Rightarrow> host \<times> host \<times> host \<Rightarrow> channel \<Rightarrow> node_state \<Rightarrow> (unit, anyhow) outcome \<times> node_state" where
  "handle_request_idle_metric e sw hs ch s =
     (case hs of (h1, h2, h3) \<Rightarrow>
        respond (Ok (f64_to_le_bytes (get_quality_metric h1 h2 h3)))
          (\<lambda>m. Client_respond_idle_metric (ne_loop e) sw m ch) s)"

definition handle_request_build_status ::
    "node_env \<Rightarrow> swarm \<Rightarrow> string \<Rightarrow> channel \<Rightarrow> node_state \<Rightarrow> (unit, anyhow) outcome \<times> node_state" where
  "handle_request_build_status e sw build_id ch s =
     respond (map_err AnyBuild (ev_build_status (ne_art e) build_id))
       (\<lambda>st. Client_respond_build_status (ne_loop e) sw st ch) s"

text \<open>A blockchain request without a channel came by gossip and gets no response.\<close>

definition handle_blockchain_request ::
    "node_env \<Rightarrow> swarm \<Rightarrow> bytes \<Rightarrow> channel option \<Rightarrow> node_state \<Rightarrow> (unit, anyhow) outcome \<times> node_state" where
  "handle_blockchain_request e sw data ch s =
     (let (r, a) = handle_incoming_blockchain_command (ne_art e) data (nd_art s) in
      respond r (\<lambda>response cl. case ch of
          Some c \<Rightarrow> Client_respond_blockchain (ne_loop e) sw response c cl
        | None \<Rightarrow> (Ok (), cl)) (s\<lparr>nd_art := a\<rparr>))"

definition handle_pyrsia_event ::
    "node_env \<Rightarrow> swarm \<Rightarrow> host \<times> host \<times> host \<Rightarrow> PyrsiaEvent \<Rightarrow> node_state \<Rightarrow> (unit, anyhow) outcome \<times> node_state" where
  "handle_pyrsia_event e sw hs ev s =
     (case ev of
        EvRequestArtifact i ch \<Rightarrow> handle_request_artifact e sw i ch s
      | EvRequestBuild pt psid ch \<Rightarrow> handle_request_build e sw pt psid ch s
      | EvVerifyBuild peer pt psid \<Rightarrow> handle_verify_build e peer pt psid s
      | EvIdleMetricRequest ch \<Rightarrow> handle_request_idle_metric e sw hs ch s
      | EvBlockchainRequest data ch \<Rightarrow> handle_blockchain_request e sw data ch s
      | EvRequestBuildStatus build_id ch \<Rightarrow> handle_request_build_status e sw build_id ch s)"

text \<open>The loop of \<^verbatim>\<open>main\<close>: an error of a handler is logged and the loop goes on, a panic ends the node.\<close>

fun run_node :: "node_env \<Rightarrow> (swarm \<times> (host \<times> host \<times> host) \<times> PyrsiaEvent) list \<Rightarrow> node_state
    \<Rightarrow> (unit, anyhow) outcome \<times> node_state" where
  "run_node e [] s = (Ok (), s)"
| "run_node e ((sw, hs, ev) # evs) s =
     (case handle_pyrsia_event e sw hs ev s of
        (Panic m, s1) \<Rightarrow> (Panic m, s1)
      | (_, s1) \<Rightarrow> run_node e evs s1)"

end
