(* ===== verification/Transparency_Log_Claims.thy ===== *)
theory Transparency_Log_Claims
  imports Transparency_Log_Properties Blockchain_Properties
begin

text \<open>
  The properties of the transparency log: rows read back as the logs they were made from, which
  record a download uses, when a package may be built again, and which nodes are authorised.
\<close>

section \<open>Specification\<close>

definition package_records :: "PackageType \<Rightarrow> string \<Rightarrow> TransparencyLog list \<Rightarrow> TransparencyLog list" where
  "package_records pt psid ls =
     filter (\<lambda>l. package_type l = Some pt \<and> package_specific_id l = psid \<and>
                 (operation l = AddArtifact \<or> operation l = RemoveArtifact)) ls"

definition node_records :: "TransparencyLog list \<Rightarrow> TransparencyLog list" where
  "node_records ls = filter (\<lambda>l. operation l = AddNode \<or> operation l = RemoveNode) ls"

definition lit_safe_ids :: "TransparencyLog list \<Rightarrow> bool" where
  "lit_safe_ids ls \<longleftrightarrow> (\<forall>l \<in> set ls. lit_safe (log_id l))"

section \<open>A concrete node\<close>

definition nibbles :: "u8 \<Rightarrow> string" where
  "nibbles b = [char_of (65 + unat b div 16), char_of (65 + unat b mod 16)]"

definition of_nibble_pair :: "char \<Rightarrow> char \<Rightarrow> u8" where
  "of_nibble_pair x y = of_nat ((of_char x - 65) * 16 + (of_char y - 65))"

fun of_nibbles :: "string \<Rightarrow> PeerId option" where
  "of_nibbles [] = Some []"
| "of_nibbles [x] = None"
| "of_nibbles (x # y # rest) =
     map_option (Cons (of_nibble_pair x y)) (of_nibbles rest)"

definition demo_peer_text :: peer_text where
  "demo_peer_text = \<lparr>peer_to_string = (\<lambda>p. concat (map nibbles p)), peer_from_str = of_nibbles\<rparr>"

definition demo_log_env :: log_env where
  "demo_log_env =
     \<lparr>le_chain = \<lparr>env_crypto = demo_crypto, env_bincode = demo_bincode, env_io = no_faults,
                  mkdir_fault = (\<lambda>_. None)\<rparr>,
      le_net = \<lparr>net_broadcast_block = (\<lambda>_. Ok ()), net_request_blockchain = (\<lambda>_ _. Err ''offline'')\<rparr>,
      le_sql = demo_sqlite,
      le_json = \<lparr>json_to_string = (\<lambda>l. Some (node_id l)), json_from_slice = (\<lambda>_. None)\<rparr>,
      le_peer = demo_peer_text, env_rng = (\<lambda>_. demo_entropy), env_loop_alive = True,
      env_log_dir = None\<rparr>"

definition demo_log :: "string \<Rightarrow> Operation \<Rightarrow> u64 \<Rightarrow> TransparencyLog" where
  "demo_log i op time =
     \<lparr>log_id = i, package_type = Some Maven2, package_specific_id = ''g:a:1'', num_artifacts = 1,
      package_specific_artifact_id = ''g/a/1/a-1.jar'', artifact_hash = ''h'', source_hash = [],
      artifact_id = i, source_id = [], timestamp = time, operation = op, node_id = ''n'',
      node_public_key = []\<rparr>"

definition demo_log_state :: "TransparencyLog list \<Rightarrow> log_state" where
  "demo_log_state ls =
     \<lparr>ls_chain = \<lparr>service = \<lparr>blockchain = demo_blockchain, keypair = [9]\<rparr>, cs_disk = demo_disk,
                  gossiped = []\<rparr>,
      ls_table = map row_of ls\<rparr>"

lemma demo_log_env_ok [simp]: "log_env_ok demo_log_env"
  by (simp add: log_env_ok_def demo_log_env_def)

lemma nibble_back: "of_nibble_pair (char_of (65 + unat b div 16)) (char_of (65 + unat b mod 16)) = b"
proof -
  have "unat b < 256" using unsigned_less[of b, where 'a = nat] by simp
  then have "unat b div 16 < 16" by (simp add: less_mult_imp_div_less)
  then have "(65 + unat b div 16) mod 256 = 65 + unat b div 16"
    "(65 + unat b mod 16) mod 256 = 65 + unat b mod 16"
    by (simp_all add: trans_less_add2)
  then show ?thesis
    by (simp only: of_nibble_pair_def of_char_of diff_add_inverse div_mult_mod_eq) simp
qed

lemma letter_not_sign:
  assumes "65 \<le> (n :: nat)" and "n < 256" and "(of_char c :: nat) < 65"
  shows "c \<noteq> char_of n"
proof
  assume "c = char_of n"
  then have "(of_char c :: nat) = n mod 256" by simp
  with assms show False by simp
qed

lemma demo_peer_text_laws [simp]: "peer_text_laws demo_peer_text"
proof -
  have "of_nibbles (concat (map nibbles p)) = Some p" for p
    by (induction p) (simp_all add: nibbles_def nibble_back)
  moreover have "CHR 0x27 \<notin> set (nibbles b) \<and> CHR 0x00 \<notin> set (nibbles b)" for b
  proof -
    have "unat b < 256" using unsigned_less[of b, where 'a = nat] by simp
    then have "unat b div 16 < 16" by (simp add: less_mult_imp_div_less)
    then show ?thesis
      using letter_not_sign[of "65 + unat b div 16"] letter_not_sign[of "65 + unat b mod 16"]
      by (auto simp: nibbles_def trans_less_add2)
  qed
  ultimately show ?thesis by (auto simp: peer_text_laws_def demo_peer_text_def lit_safe_def)
qed

section \<open>Rows\<close>

text \<open>
  What the service writes to a row it reads back unchanged, field by field, \<^verbatim>\<open>NULL\<close> package type
  included; a row is refused exactly for a timestamp that does not fit SQLite's signed integer.
\<close>

theorem log_row_roundtrip:
  "(log_to_row l = None \<longleftrightarrow> uint (timestamp l) \<ge> 2 ^ 63) \<and>
   (case log_to_row l of Some r \<Rightarrow> row_to_log r = Ok l \<and> length r = 13 | None \<Rightarrow> True)"
proof -
  have "length (row_of l) = 13" if "log_ok l"
    using that by (simp add: row_of_def log_to_row_def u64_to_sql_def log_ok_def)
  moreover have "log_to_row l = None" if "\<not> log_ok l"
    using that by (simp add: log_to_row_def u64_to_sql_def log_ok_def)
  ultimately show ?thesis
    by (cases "log_ok l") (auto simp: log_to_row_ok row_to_log_row_of log_ok_def not_less)
qed

section \<open>Downloads\<close>

text \<open>
  The record that decides a download is the one with the smallest timestamp among the records of
  the artifact, so the oldest one: without a record the artifact is not found, if the oldest record is
  a removal the operation is invalid, and otherwise that oldest record is used, whatever was recorded
  later.
\<close>

theorem download_uses_oldest_record:
  assumes "log_env_ok e" and "stores ls (ls_table s)" and "lit_safe art"
  shows "artifact_records pt art ls = [] \<and> log_get_artifact e pt art s = Err (ArtifactNotFound pt art)
    \<or> (\<exists>l \<in> set (artifact_records pt art ls).
          (\<forall>l' \<in> set (artifact_records pt art ls). timestamp l \<le> timestamp l') \<and>
          log_get_artifact e pt art s =
            (if operation l = RemoveArtifact then Err (InvalidOperation (log_id l) RemoveArtifact)
             else Ok l))"
  using read_transparency_log_cases[OF assms] by (simp add: log_get_artifact_def)

lemma demo_stores: "distinct (map log_id ls) \<Longrightarrow> \<forall>l \<in> set ls. log_ok l \<Longrightarrow>
    stores ls (ls_table (demo_log_state ls))"
  by (simp add: stores_def demo_log_state_def)

lemma demo_log_sel [simp]:
  "log_id (demo_log i op time) = i" "operation (demo_log i op time) = op"
  "timestamp (demo_log i op time) = time" "package_type (demo_log i op time) = Some Maven2"
  "package_specific_artifact_id (demo_log i op time) = ''g/a/1/a-1.jar''"
  "package_specific_id (demo_log i op time) = ''g:a:1''" "node_id (demo_log i op time) = ''n''"
  "num_artifacts (demo_log i op time) = 1"
  by (simp_all add: demo_log_def)

theorem download_uses_oldest_record_witness:
  "log_get_artifact demo_log_env Maven2 ''g/a/1/a-1.jar''
     (demo_log_state [demo_log ''x'' AddArtifact 5, demo_log ''y'' RemoveArtifact 7])
   = Ok (demo_log ''x'' AddArtifact 5)"
proof -
  let ?ls = "[demo_log ''x'' AddArtifact 5, demo_log ''y'' RemoveArtifact 7]"
  have st: "stores ?ls (ls_table (demo_log_state ?ls))"
    by (rule demo_stores) (simp_all add: log_ok_def)
  have safe: "lit_safe ''g/a/1/a-1.jar''" by (simp add: lit_safe_def)
  have "artifact_records Maven2 ''g/a/1/a-1.jar'' ?ls = ?ls"
    by (simp add: artifact_records_def)
  then show ?thesis
    using download_uses_oldest_record[OF demo_log_env_ok st safe, of Maven2] by fastforce
qed

section \<open>Packages\<close>

lemma package_filter:
  assumes "stores ls t"
  shows "filter (\<lambda>l. cond_holds (And (In Col_operation [Operation_to_string AddArtifact,
      Operation_to_string RemoveArtifact]) (And (Eq Col_package_type (PackageType_to_string pt))
      (Eq Col_package_specific_id psid))) (row_of l)) ls = package_records pt psid ls"
  using assms
  by (auto simp: stores_def package_records_def row_of_cells package_type_cell
      operation_text.to_text_eq_iff simp del: Operation_to_string.simps intro!: filter_cong)

lemma added_package_filter:
  assumes "stores ls t"
  shows "set (filter (\<lambda>l. cond_holds (And (Eq Col_operation (Operation_to_string AddArtifact))
      (And (Eq Col_package_type (PackageType_to_string pt))
      (And (Eq Col_package_specific_id psid) (Ne Col_id i)))) (row_of l)) ls)
    \<subseteq> {l \<in> set (package_records pt psid ls). operation l = AddArtifact}"
  using assms
  by (auto simp: stores_def package_records_def row_of_cells package_type_cell
      operation_text.to_text_eq_iff simp del: Operation_to_string.simps)

text \<open>The whole history of a package, in the order of the timestamps.\<close>

lemma read_transparency_logs_spec:
  assumes "log_env_ok e" and "stores ls (ls_table s)" and "lit_safe psid"
  obtains ys where "search_transparency_logs e pt psid False s = Ok ys"
    "mset ys = mset (package_records pt psid ls)" "sorted (map timestamp ys)"
  using process_select[OF assms(1,2) parse_all_records_text[OF assms(3)], of pt]
  unfolding package_filter[OF assms(2)] limited.simps log_ordered.simps search_transparency_logs_def
    read_transparency_logs_def by auto

lemma append_added_all:
  "\<forall>l \<in> set ls. operation l = AddArtifact \<Longrightarrow> append_added pt psid n res ls = Ok (res @ ls)"
  by (induction ls arbitrary: res) simp_all

text \<open>The newest record heads the answer of the first query.\<close>

lemma read_last_head:
  assumes "log_env_ok e" and "stores ls (ls_table s)" and "lit_safe psid" and "lit_safe_ids ls"
  shows "package_records pt psid ls = [] \<and> read_last_transparency_log e pt psid s = Ok []
    \<or> (\<exists>l \<in> set (package_records pt psid ls). (\<forall>l' \<in> set (package_records pt psid ls). timestamp l' \<le> timestamp l) \<and>
         (if operation l = AddArtifact
          then (\<exists>rest. read_last_transparency_log e pt psid s = Ok (l # rest)) \<or>
               (\<exists>n. read_last_transparency_log e pt psid s
                      = Err (ArtifactLogIsNotConsistentState pt psid (num_artifacts l) n))
          else read_last_transparency_log e pt psid s = Ok [l]))"
proof -
  let ?c = "And (In Col_operation [Operation_to_string AddArtifact, Operation_to_string RemoveArtifact])
     (And (Eq Col_package_type (PackageType_to_string pt)) (Eq Col_package_specific_id psid))"
  obtain ys where q: "process_query e (last_record_text pt psid) s = Ok (take 1 ys)"
    and ys: "mset ys = mset (package_records pt psid ls)" "sorted (rev (map timestamp ys))"
    using process_select[OF assms(1,2) parse_last_record_text[OF assms(3)], of pt]
    unfolding package_filter[OF assms(2)] limited.simps log_ordered.simps by blast
  show ?thesis
  proof (cases ys)
    case Nil
    then show ?thesis using ys(1) q by (simp add: read_last_transparency_log_def)
  next
    case (Cons l rest)
    have mem: "set (package_records pt psid ls) = set (l # rest)"
      using mset_eq_setD[OF ys(1)] Cons by simp
    have newest: "\<forall>l' \<in> set (package_records pt psid ls). timestamp l' \<le> timestamp l"
      using ys(2) mem unfolding Cons by (auto simp: sorted_append)
    let ?n = "num_artifacts l"
    let ?c2 = "And (Eq Col_operation (Operation_to_string AddArtifact))
       (And (Eq Col_package_type (PackageType_to_string pt))
       (And (Eq Col_package_specific_id psid) (Ne Col_id (log_id l))))"
    have safe: "lit_safe (log_id l)" using assms(4) mem by (auto simp: lit_safe_ids_def package_records_def)
    have bound: "unat (?n - 1) < limit_bound"
      using unsigned_less[of "?n - 1", where 'a = nat] by (simp add: limit_bound_def)
    obtain zs where q2: "process_query e (other_records_text pt psid (log_id l) (unat (?n - 1))) s
        = Ok (take (unat (?n - 1)) zs)"
      and zs: "mset zs = mset (filter (\<lambda>l. cond_holds ?c2 (row_of l)) ls)"
      using process_select[OF assms(1,2) parse_other_records_text[OF assms(3) safe bound], of pt]
      unfolding limited.simps by blast
    let ?zs = "take (unat (?n - 1)) zs"
    have added: "\<forall>l \<in> set ?zs. operation l = AddArtifact"
      using mset_eq_setD[OF zs] added_package_filter[OF assms(2)] by (fastforce dest: in_set_takeD)
    have len: "length (l # ?zs) < 2 ^ 32" if "?n > 1"
    proof -
      have "unat ?n < 2 ^ 32" using unsigned_less[of ?n, where 'a = nat] by simp
      moreover have "Suc (unat (?n - 1)) = unat ?n"
        using that by (simp add: unat_sub word_less_nat_alt word_le_nat_alt)
      ultimately show ?thesis by simp
    qed
    have "if operation l = AddArtifact
          then (\<exists>rest. read_last_transparency_log e pt psid s = Ok (l # rest)) \<or>
               (\<exists>n. read_last_transparency_log e pt psid s
                      = Err (ArtifactLogIsNotConsistentState pt psid (num_artifacts l) n))
          else read_last_transparency_log e pt psid s = Ok [l]"
      using q q2 Cons append_added_all[OF added] len
      by (simp add: read_last_transparency_log_def Let_def len_u32_def
          del: Operation_to_string.simps)
    then show ?thesis using mem newest by auto
  qed
qed

lemma verify_package_cases:
  assumes "log_env_ok e" and "stores ls (ls_table s)" and "lit_safe psid" and "lit_safe_ids ls"
  shows "package_records pt psid ls = [] \<and>
      verify_package_can_be_added_to_transparency_logs e pt psid s = Ok ()
    \<or> (\<exists>l \<in> set (package_records pt psid ls). (\<forall>l' \<in> set (package_records pt psid ls). timestamp l' \<le> timestamp l) \<and>
        (if operation l = AddArtifact
         then \<exists>err. verify_package_can_be_added_to_transparency_logs e pt psid s = Err err
         else verify_package_can_be_added_to_transparency_logs e pt psid s = Ok ()))"
  using read_last_head[OF assms, of pt]
proof (elim disjE conjE bexE)
  assume "package_records pt psid ls = []" "read_last_transparency_log e pt psid s = Ok []"
  then show ?thesis by (simp add: verify_package_can_be_added_to_transparency_logs_def)
next
  fix l assume l: "l \<in> set (package_records pt psid ls)"
      "\<forall>l' \<in> set (package_records pt psid ls). timestamp l' \<le> timestamp l"
    and r: "if operation l = AddArtifact
          then (\<exists>rest. read_last_transparency_log e pt psid s = Ok (l # rest)) \<or>
               (\<exists>n. read_last_transparency_log e pt psid s
                      = Err (ArtifactLogIsNotConsistentState pt psid (num_artifacts l) n))
          else read_last_transparency_log e pt psid s = Ok [l]"
  have "if operation l = AddArtifact
         then \<exists>err. verify_package_can_be_added_to_transparency_logs e pt psid s = Err err
         else verify_package_can_be_added_to_transparency_logs e pt psid s = Ok ()"
    using r by (auto simp: verify_package_can_be_added_to_transparency_logs_def split: if_splits)
  with l show ?thesis by blast
qed

text \<open>
  No package is added twice. A package without records may be added, one with a removal newer
  than every addition may be added again, and one with an addition newer than every removal is
  refused with an error value.
\<close>

theorem package_not_added_twice:
  assumes "log_env_ok e" and "stores ls (ls_table s)" and "lit_safe psid" and "lit_safe_ids ls"
  shows "(package_records pt psid ls = [] \<longrightarrow>
      verify_package_can_be_added_to_transparency_logs e pt psid s = Ok ()) \<and>
    (\<forall>l \<in> set (package_records pt psid ls). operation l = RemoveArtifact \<and>
      (\<forall>l' \<in> set (package_records pt psid ls). operation l' = AddArtifact \<longrightarrow> timestamp l' < timestamp l) \<longrightarrow>
      verify_package_can_be_added_to_transparency_logs e pt psid s = Ok ()) \<and>
    (\<forall>l \<in> set (package_records pt psid ls). operation l = AddArtifact \<and>
      (\<forall>l' \<in> set (package_records pt psid ls). operation l' = RemoveArtifact \<longrightarrow> timestamp l' < timestamp l) \<longrightarrow>
      (\<exists>err. verify_package_can_be_added_to_transparency_logs e pt psid s = Err err))"
proof -
  have op: "operation l = AddArtifact \<or> operation l = RemoveArtifact"
    if "l \<in> set (package_records pt psid ls)" for l
    using that by (auto simp: package_records_def)
  show ?thesis
    using verify_package_cases[OF assms, of pt]
  proof (elim disjE conjE bexE)
    assume "package_records pt psid ls = []"
      "verify_package_can_be_added_to_transparency_logs e pt psid s = Ok ()"
    then show ?thesis by simp
  next
    fix l0 assume l0: "l0 \<in> set (package_records pt psid ls)"
        "\<forall>l' \<in> set (package_records pt psid ls). timestamp l' \<le> timestamp l0"
        "if operation l0 = AddArtifact
         then \<exists>err. verify_package_can_be_added_to_transparency_logs e pt psid s = Err err
         else verify_package_can_be_added_to_transparency_logs e pt psid s = Ok ()"
    then show ?thesis
      using op[OF l0(1)] by (cases "operation l0 = AddArtifact") (auto dest: leD)
  qed
qed

theorem package_not_added_twice_witness:
  "\<exists>err. verify_package_can_be_added_to_transparency_logs demo_log_env Maven2 ''g:a:1''
     (demo_log_state [demo_log ''x'' RemoveArtifact 5, demo_log ''y'' AddArtifact 7]) = Err err"
proof -
  let ?ls = "[demo_log ''x'' RemoveArtifact 5, demo_log ''y'' AddArtifact 7]"
  have st: "stores ?ls (ls_table (demo_log_state ?ls))"
    by (rule demo_stores) (simp_all add: log_ok_def)
  have safe: "lit_safe ''g:a:1''" "lit_safe_ids ?ls" by (simp_all add: lit_safe_def lit_safe_ids_def)
  have "package_records Maven2 ''g:a:1'' ?ls = ?ls" by (simp add: package_records_def)
  then show ?thesis
    using package_not_added_twice[OF demo_log_env_ok st safe, of Maven2] by simp
qed

section \<open>Authorised nodes\<close>

lemma find_added_nodes_spec:
  assumes "log_env_ok e" and "stores ls (ls_table s)"
  obtains ys where "find_added_nodes e s = Ok (filter (\<lambda>l. operation l = AddNode) ys)"
    "set ys \<subseteq> set (node_records ls)" "node_id ` set ys = node_id ` set (node_records ls)"
    "distinct (map node_id ys)"
    "\<forall>y \<in> set ys. \<forall>l \<in> set (node_records ls). node_id l = node_id y \<longrightarrow> timestamp l \<le> timestamp y"
proof -
  let ?a = "Or (Eq Col_operation (Operation_to_string AddNode)) (Eq Col_operation (Operation_to_string RemoveNode))"
  let ?b = "Eq Col_operation (Operation_to_string AddNode)"
  have t: "ls_table s = map row_of ls" and ok: "\<forall>l \<in> set ls. log_ok l"
    using assms(2) by (auto simp: stores_def)
  obtain rs where q: "sql_query (le_sql e) (ls_table s) added_nodes_text = Ok rs"
    and a: "answers (SelectLatestPerNode ?a ?b) (ls_table s) rs"
    by (rule query_answered[OF assms parse_added_nodes_text])
  have recs: "set (filter (cond_holds ?a) (ls_table s)) = row_of ` set (node_records ls)"
    using ok by (auto simp: t node_records_def row_of_cells operation_text.to_text_eq_iff
        simp del: Operation_to_string.simps)
  obtain zs where zs: "set zs \<subseteq> row_of ` set (node_records ls)"
      "distinct (map (cell Col_node_id) zs)"
      "cell Col_node_id ` set zs = cell Col_node_id ` row_of ` set (node_records ls)"
      "\<forall>y \<in> set zs. \<forall>r \<in> row_of ` set (node_records ls).
         cell Col_node_id r = cell Col_node_id y \<longrightarrow> row_time r \<le> row_time y"
      "rs = filter (cond_holds ?b) zs"
    using a unfolding answers.simps recs by blast
  obtain ys where ys: "zs = map row_of ys" "set ys \<subseteq> set (node_records ls)"
    using rows_lift[OF zs(1)] by blast
  have rec_ok: "log_ok l" if "l \<in> set (node_records ls)" for l
    using that ok by (simp add: node_records_def)
  have ys_ok: "log_ok l" if "l \<in> set ys" for l using that ys(2) rec_ok by blast
  have cells: "cell Col_node_id (row_of l) = SqlText (node_id l)" if "l \<in> set ys \<union> set (node_records ls)" for l
    using that rec_ok ys_ok by (auto simp: row_of_cells)
  have "rs = map row_of (filter (\<lambda>l. operation l = AddNode) ys)"
    using ys_ok by (auto simp: zs(5) ys(1) filter_map row_of_cells operation_text.to_text_eq_iff
        simp del: Operation_to_string.simps intro!: arg_cong[of _ _ "map row_of"] filter_cong)
  then have "find_added_nodes e s = Ok (filter (\<lambda>l. operation l = AddNode) ys)"
    using q ys_ok by (simp add: find_added_nodes_def process_query_def open_db_ok[OF assms(1)]
        collect_rows_row_of del: Operation_to_string.simps)
  moreover have "node_id ` set ys = node_id ` set (node_records ls)"
  proof -
    have "SqlText ` node_id ` set ys = SqlText ` node_id ` set (node_records ls)"
      using zs(3) cells by (simp add: ys(1) image_image)
    then show ?thesis by (simp add: inj_image_eq_iff inj_def)
  qed
  moreover have "distinct (map node_id ys)"
  proof -
    have "map (cell Col_node_id) zs = map SqlText (map node_id ys)" using cells by (simp add: ys(1))
    then show ?thesis using zs(2) by (auto simp: distinct_map dest: inj_on_imageI2)
  qed
  moreover have "\<forall>y \<in> set ys. \<forall>l \<in> set (node_records ls). node_id l = node_id y \<longrightarrow> timestamp l \<le> timestamp y"
    using zs(4) cells rec_ok ys_ok by (auto simp: ys(1) row_time_row_of word_le_def)
  ultimately show thesis using ys(2) that by blast
qed

lemma authorized_nodes_spec:
  assumes "log_env_ok e" and "stores ls (ls_table s)"
  shows "\<exists>ps. get_authorized_nodes e s = Ok ps \<and>
    (\<forall>p \<in> set ps. \<exists>l \<in> set ls. operation l = AddNode \<and> peer_from_str (le_peer e) (node_id l) = Some p \<and>
       (\<forall>l' \<in> set (node_records ls). node_id l' = node_id l \<longrightarrow> timestamp l' \<le> timestamp l)) \<and>
    (\<forall>l \<in> set ls. \<forall>p. operation l = AddNode \<and> peer_from_str (le_peer e) (node_id l) = Some p \<and>
       (\<forall>l' \<in> set (node_records ls). node_id l' = node_id l \<and> l' \<noteq> l \<longrightarrow> timestamp l' < timestamp l)
       \<longrightarrow> p \<in> set ps)"
proof -
  obtain ys where ys: "find_added_nodes e s = Ok (filter (\<lambda>l. operation l = AddNode) ys)"
    "set ys \<subseteq> set (node_records ls)" "node_id ` set ys = node_id ` set (node_records ls)"
    "distinct (map node_id ys)"
    "\<forall>y \<in> set ys. \<forall>l \<in> set (node_records ls). node_id l = node_id y \<longrightarrow> timestamp l \<le> timestamp y"
    by (rule find_added_nodes_spec[OF assms])
  let ?ps = "List.map_filter (\<lambda>l. peer_from_str (le_peer e) (node_id l)) (filter (\<lambda>l. operation l = AddNode) ys)"
  have mem: "p \<in> set ?ps \<longleftrightarrow>
      (\<exists>l \<in> set ys. operation l = AddNode \<and> peer_from_str (le_peer e) (node_id l) = Some p)" for p
    by (auto simp: map_filter_def image_iff)
  have "p \<in> set ?ps" if l: "l \<in> set ls" "operation l = AddNode" "peer_from_str (le_peer e) (node_id l) = Some p"
      "\<forall>l' \<in> set (node_records ls). node_id l' = node_id l \<and> l' \<noteq> l \<longrightarrow> timestamp l' < timestamp l" for l p
  proof -
    have "l \<in> set (node_records ls)" using l(1,2) by (simp add: node_records_def)
    then obtain y where y: "y \<in> set ys" "node_id y = node_id l" using ys(3) by (metis imageE image_eqI)
    then have "y = l" using ys(2,5) l(4) \<open>l \<in> set (node_records ls)\<close> by (metis leD subsetD)
    with y l show ?thesis by (auto simp: mem)
  qed
  moreover have "\<exists>l \<in> set ls. operation l = AddNode \<and> peer_from_str (le_peer e) (node_id l) = Some p \<and>
       (\<forall>l' \<in> set (node_records ls). node_id l' = node_id l \<longrightarrow> timestamp l' \<le> timestamp l)"
    if pm: "p \<in> set ?ps" for p
  proof -
    obtain l where l: "l \<in> set ys" "operation l = AddNode" "peer_from_str (le_peer e) (node_id l) = Some p"
      using mem[of p] pm by auto
    then have "l \<in> set ls" using ys(2) by (auto simp: node_records_def)
    with l ys(5) show ?thesis by blast
  qed
  moreover have "get_authorized_nodes e s = Ok ?ps" by (simp add: get_authorized_nodes_def ys(1))
  ultimately show ?thesis by blast
qed

text \<open>
  C21: a peer is in the list of authorised nodes only if some addition of it is at least as new as
  every other record of that node, and it is there if an addition of it is newer than every other
  record of the node; no text of a node id that fails to parse stops the others. When there is no addition
  at all the answer is the empty list, not the error that the documentation of \<^verbatim>\<open>get_authorized_nodes\<close> announces.
\<close>

theorem authorized_nodes_are_latest_added:
  assumes "log_env_ok e" and "stores ls (ls_table s)"
  shows "\<exists>ps. get_authorized_nodes e s = Ok ps \<and>
    (\<forall>p \<in> set ps. \<exists>l \<in> set ls. operation l = AddNode \<and> peer_from_str (le_peer e) (node_id l) = Some p \<and>
       (\<forall>l' \<in> set (node_records ls). node_id l' = node_id l \<longrightarrow> timestamp l' \<le> timestamp l)) \<and>
    (\<forall>l \<in> set ls. \<forall>p. operation l = AddNode \<and> peer_from_str (le_peer e) (node_id l) = Some p \<and>
       (\<forall>l' \<in> set (node_records ls). node_id l' = node_id l \<and> l' \<noteq> l \<longrightarrow> timestamp l' < timestamp l)
       \<longrightarrow> p \<in> set ps) \<and>
    ((\<forall>l \<in> set ls. operation l \<noteq> AddNode) \<longrightarrow> ps = [])"
proof -
  obtain ps where ps: "get_authorized_nodes e s = Ok ps"
      and only: "\<forall>p \<in> set ps. \<exists>l \<in> set ls. operation l = AddNode \<and> peer_from_str (le_peer e) (node_id l) = Some p \<and>
        (\<forall>l' \<in> set (node_records ls). node_id l' = node_id l \<longrightarrow> timestamp l' \<le> timestamp l)"
      and all: "\<forall>l \<in> set ls. \<forall>p. operation l = AddNode \<and> peer_from_str (le_peer e) (node_id l) = Some p \<and>
        (\<forall>l' \<in> set (node_records ls). node_id l' = node_id l \<and> l' \<noteq> l \<longrightarrow> timestamp l' < timestamp l) \<longrightarrow> p \<in> set ps"
    using authorized_nodes_spec[OF assms] by blast
  have "ps = []" if "\<forall>l \<in> set ls. operation l \<noteq> AddNode" using only that by (cases ps) auto
  then show ?thesis using ps only all by (intro exI[of _ ps] conjI impI)
qed

definition demo_node_log :: "string \<Rightarrow> Operation \<Rightarrow> u64 \<Rightarrow> TransparencyLog" where
  "demo_node_log i op time =
     (node_log \<lparr>uuid_id = i, uuid_artifact = [], uuid_source = [], uuid_node = [], uuid_key = [],
       now_secs = time\<rparr> (peer_to_string demo_peer_text [9]))\<lparr>operation := op\<rparr>"

lemma demo_node_log_sel [simp]:
  "log_id (demo_node_log i op time) = i" "operation (demo_node_log i op time) = op"
  "timestamp (demo_node_log i op time) = time"
  "node_id (demo_node_log i op time) = peer_to_string demo_peer_text [9]"
  by (simp_all add: demo_node_log_def node_log_def)

theorem authorized_nodes_are_latest_added_witness:
  "\<exists>ps. get_authorized_nodes demo_log_env
      (demo_log_state [demo_node_log ''x'' RemoveNode 5, demo_node_log ''y'' AddNode 7]) = Ok ps \<and> [9] \<in> set ps"
proof -
  let ?ls = "[demo_node_log ''x'' RemoveNode 5, demo_node_log ''y'' AddNode 7]"
  have st: "stores ?ls (ls_table (demo_log_state ?ls))"
    by (rule demo_stores) (simp_all add: log_ok_def)
  have "peer_from_str (le_peer demo_log_env) (peer_to_string demo_peer_text [9]) = Some [9]"
    using demo_peer_text_laws by (simp add: peer_text_laws_def demo_log_env_def)
  moreover have "node_records ?ls = ?ls" by (simp add: node_records_def)
  ultimately show ?thesis
    using authorized_nodes_are_latest_added[OF demo_log_env_ok st] by auto
qed

lemma verify_node_cases:
  assumes "log_env_ok e" and "stores ls (ls_table s)" and "lit_safe peer"
  shows "(\<forall>l \<in> set (node_records ls). node_id l \<noteq> peer) \<and> verify_node_does_not_exist e peer s = Ok ()
    \<or> (\<exists>l \<in> set (node_records ls). node_id l = peer \<and>
        (\<forall>l' \<in> set (node_records ls). node_id l' = peer \<longrightarrow> timestamp l' \<le> timestamp l) \<and>
        verify_node_does_not_exist e peer s
          = (if operation l = AddNode then Err (NodeAlreadyExists peer) else Ok ()))"
proof -
  let ?c = "And (Or (Eq Col_operation (Operation_to_string AddNode)) (Eq Col_operation (Operation_to_string RemoveNode)))
     (Eq Col_node_id peer)"
  obtain ys where q: "sql_query (le_sql e) (ls_table s) (node_operation_text peer)
        = Ok (map (\<lambda>l. project (Some [Col_operation]) (row_of l)) (take 1 ys))"
    and ys: "mset ys = mset (filter (\<lambda>l. cond_holds ?c (row_of l)) ls)" "sorted (rev (map timestamp ys))"
    using query_select[OF assms(1,2) parse_node_operation_text[OF assms(3)]]
    unfolding limited.simps log_ordered.simps by blast
  have "set (filter (\<lambda>l. cond_holds ?c (row_of l)) ls) = {l \<in> set (node_records ls). node_id l = peer}"
    using assms(2) by (auto simp: stores_def node_records_def row_of_cells operation_text.to_text_eq_iff
        simp del: Operation_to_string.simps)
  then have mem: "set ys = {l \<in> set (node_records ls). node_id l = peer}"
    using mset_eq_setD[OF ys(1)] by simp
  show ?thesis
  proof (cases ys)
    case Nil
    then show ?thesis using mem q
      by (auto simp: verify_node_does_not_exist_def open_db_ok[OF assms(1)] simp del: Operation_to_string.simps)
  next
    case (Cons l rest)
    have "log_ok l" using mem Cons assms(2) by (auto simp: stores_def node_records_def)
    moreover have "Operation_to_string (operation l) = ''AddNode'' \<longleftrightarrow> operation l = AddNode"
      using operation_text.to_text_eq_iff[of "operation l" AddNode] by simp
    ultimately have "verify_node_does_not_exist e peer s
          = (if operation l = AddNode then Err (NodeAlreadyExists peer) else Ok ())"
      using q Cons by (simp add: verify_node_does_not_exist_def open_db_ok[OF assms(1)] row_of_cells
          del: Operation_to_string.simps)
    moreover have "\<forall>l' \<in> set ys. timestamp l' \<le> timestamp l"
      using ys(2) unfolding Cons by (auto simp: sorted_append)
    ultimately show ?thesis using mem Cons by (intro disjI2 bexI[of _ l]) auto
  qed
qed

lemma client_add_block_table:
  "BlockchainEventClient_add_block e payload s = (res, s1) \<Longrightarrow> ls_table s1 = ls_table s"
  by (auto simp: BlockchainEventClient_add_block_def split: if_splits prod.splits)

lemma add_authorized_node_writes:
  assumes "add_authorized_node e f p s = (Ok (), s1)"
  obtains s0 where "ls_table s0 = ls_table s"
    "write_transparency_log e (node_log f (peer_to_string (le_peer e) p)) s0 = (Ok (), s1)"
  using assms client_add_block_table
  by (fastforce simp: add_authorized_node_def Let_def outcome_simps split: option.splits prod.splits)

text \<open>
  C20: after \<^verbatim>\<open>add_authorized_node\<close> has succeeded the peer is listed as authorised and adding it again is
  refused and leaves the node unchanged, provided the clock has passed the older records of that peer. And
  nothing takes the authorisation away again: \<^verbatim>\<open>remove_authorized_node\<close> reports success, contrary to what its
  documentation says it changes nothing, and the peer stays on the list.
\<close>

theorem added_node_is_authorized:
  assumes "log_env_ok e" and "peer_text_laws (le_peer e)" and "stores ls (ls_table s)"
    and "uuid_id f \<notin> log_id ` set ls" and "uint (now_secs f) < 2 ^ 63"
    and "\<forall>l \<in> set (node_records ls). node_id l = peer_to_string (le_peer e) p \<longrightarrow> timestamp l < now_secs f"
    and "add_authorized_node e f p s = (Ok (), s1)"
  shows "(\<exists>ps. get_authorized_nodes e s1 = Ok ps \<and> p \<in> set ps) \<and>
    add_authorized_node e f' p s1 = (Err (NodeAlreadyExists (peer_to_string (le_peer e) p)), s1) \<and>
    (\<exists>s2 ps. remove_authorized_node e p s1 = (Ok (), s2) \<and> s2 = s1 \<and> get_authorized_nodes e s2 = Ok ps \<and> p \<in> set ps)"
proof -
  let ?peer = "peer_to_string (le_peer e) p"
  let ?l = "node_log f ?peer"
  have sel: "log_id ?l = uuid_id f" "operation ?l = AddNode" "node_id ?l = ?peer" "timestamp ?l = now_secs f"
    by (simp_all add: node_log_def)
  obtain s0 where s0: "ls_table s0 = ls_table s" "write_transparency_log e ?l s0 = (Ok (), s1)"
    by (rule add_authorized_node_writes[OF assms(7)])
  have st0: "stores ls (ls_table s0)" and okl: "log_ok ?l"
    using assms(3,5) s0(1) by (simp_all add: log_ok_def sel)
  have st1: "stores (ls @ [?l]) (ls_table s1)"
    using write_transparency_log_new[OF assms(1) st0 okl] s0(2) assms(4) by (auto simp: sel)
  have recs: "set (node_records (ls @ [?l])) = insert ?l (set (node_records ls))"
    by (simp add: node_records_def sel)
  have peer: "peer_from_str (le_peer e) ?peer = Some p" "lit_safe ?peer"
    using assms(2) by (simp_all add: peer_text_laws_def)
  have "\<exists>ps. get_authorized_nodes e s1 = Ok ps \<and> p \<in> set ps"
    using authorized_nodes_spec[OF assms(1) st1] assms(6) peer(1)
    by (auto simp: recs sel dest!: bspec[of _ _ ?l])
  moreover have "verify_node_does_not_exist e ?peer s1 = Err (NodeAlreadyExists ?peer)"
    using verify_node_cases[OF assms(1) st1 peer(2)] assms(6) by (auto simp: recs sel dest: leD)
  ultimately show ?thesis by (simp add: add_authorized_node_def remove_authorized_node_def)
qed

definition demo_fresh :: fresh where
  "demo_fresh = \<lparr>uuid_id = ''u'', uuid_artifact = ''v'', uuid_source = ''w'', uuid_node = ''x'',
     uuid_key = ''y'', now_secs = 8\<rparr>"

lemma demo_add_payload:
  "fst (BlockchainEventClient_add_block demo_log_env payload (demo_log_state ls)) = Ok ()"
  by (simp add: BlockchainEventClient_add_block_def add_payload_def broadcast_blockchain_def
      broadcast_message_def demo_log_env_def demo_log_state_def Blockchain_add_block_def
      Blockchain_last_block_def Chain_last_block_def structure_defs Let_def HashDigest_new_def
      Address_from_public_def demo_defs Blockchain_commit_block_def Blockchain_save_block_def
      Chain_save_block_def Chain_get_block_position_def Chain_len_def Chain_add_block_def no_faults_def
      unwrap_def)

theorem added_node_is_authorized_witness:
  "\<exists>s1 ps. add_authorized_node demo_log_env demo_fresh [9] (demo_log_state []) = (Ok (), s1) \<and>
     get_authorized_nodes demo_log_env s1 = Ok ps \<and> [9] \<in> set ps"
proof -
  have st: "stores [] (ls_table (demo_log_state []))" by (simp add: stores_def demo_log_state_def)
  have laws: "peer_text_laws (le_peer demo_log_env)" by (simp add: demo_log_env_def)
  obtain payload where p: "json_to_string (le_json demo_log_env)
      (node_log demo_fresh (peer_to_string (le_peer demo_log_env) [9])) = Some payload"
    by (simp add: demo_log_env_def)
  obtain s0 where s0: "BlockchainEventClient_add_block demo_log_env (as_bytes payload) (demo_log_state [])
      = (Ok (), s0)"
    using demo_add_payload by (metis prod.collapse)
  have "stores [] (ls_table s0)" using client_add_block_table[OF s0] st by simp
  moreover have "log_ok (node_log demo_fresh (peer_to_string (le_peer demo_log_env) [9]))"
    by (simp add: log_ok_def node_log_def demo_fresh_def)
  moreover have "verify_node_does_not_exist demo_log_env (peer_to_string (le_peer demo_log_env) [9])
      (demo_log_state []) = Ok ()"
    using verify_node_cases[OF demo_log_env_ok st] laws by (auto simp: peer_text_laws_def node_records_def)
  ultimately obtain s1 where s1: "add_authorized_node demo_log_env demo_fresh [9] (demo_log_state []) = (Ok (), s1)"
    using write_transparency_log_new(1)[OF demo_log_env_ok] by (auto simp: add_authorized_node_def p s0)
  show ?thesis
    using added_node_is_authorized[OF demo_log_env_ok laws st _ _ _ s1] s1
    by (auto simp: demo_fresh_def node_records_def)
qed

end
