(* ===== verification/Artifact_Claims.thy ===== *)
theory Artifact_Claims
  imports Artifact_Service Transparency_Log_Claims
begin

text \<open>
  The properties of the artifact service: downloads are what the transparency log says, what a build
  delivers can be downloaded, the first record of an id stays, builds go to an authorised node, and
  what a node does with content that fails verification.
\<close>

section \<open>Integrity of downloads\<close>

lemma put_artifact_log: "put_artifact e i rd s = (res, s1) \<Longrightarrow> as_log s1 = as_log s"
  by (auto simp: put_artifact_def split: prod.splits)

lemma from_peers_log: "get_artifact_from_peers e i s = (res, s1) \<Longrightarrow> as_log s1 = as_log s"
  by (auto simp: get_artifact_from_peers_def get_artifact_from_peer_def sbind_iff
      split: option.splits dest: put_artifact_log)

lemma from_peers_local:
  "get_artifact_from_peers e i s = (Ok bs, s1) \<Longrightarrow> get_artifact_locally e i s1 = Ok bs"
  by (auto simp: get_artifact_from_peers_def get_artifact_from_peer_def outcome_simps
      split: option.splits)

text \<open>
  C14: a download that succeeds returns bytes whose SHA-256 digest is the one recorded for the
  artifact in the transparency log, whatever the network answered; the bytes are then also stored
  locally, and the log is unchanged.
\<close>

theorem download_matches_log:
  assumes "get_artifact e pt art s = (Ok bs, s1)"
  shows "\<exists>l. log_get_artifact (ae_log e) pt art (as_log s) = Ok l \<and>
    artifact_hash l = ae_sha256_hex e bs \<and>
    get_artifact_locally e (artifact_id l) s1 = Ok bs \<and> as_log s1 = as_log s"
proof -
  obtain l where l: "log_get_artifact (ae_log e) pt art (as_log s) = Ok l"
    and got: "(case get_artifact_locally e (artifact_id l) s of Ok bs \<Rightarrow> (Ok bs, s)
        | Err _ \<Rightarrow> get_artifact_from_peers e (artifact_id l) s | Panic m \<Rightarrow> (Panic m, s)) = (Ok bs, s1)"
    and v: "verify_artifact e l bs = Ok ()"
    using assms by (auto simp: get_artifact_def outcome_simps)
  have "artifact_hash l = ae_sha256_hex e bs"
    using v by (auto simp: verify_artifact_def Let_def split: if_splits)
  moreover have "get_artifact_locally e (artifact_id l) s1 = Ok bs \<and> as_log s1 = as_log s"
    using got from_peers_local from_peers_log by (auto split: outcome.splits)
  ultimately show ?thesis using l by blast
qed

section \<open>What a build delivers can be downloaded\<close>

definition build_log :: "art_env \<Rightarrow> BuildResult \<Rightarrow> nat \<Rightarrow> BuildResultArtifact \<Rightarrow> TransparencyLog" where
  "build_log e br k a = TransparencyLog_from (ae_fresh e k)
     \<lparr>req_package_type = br_package_type br, req_package_specific_id = br_package_specific_id br,
      req_num_artifacts = of_nat (length (br_artifacts br)),
      req_package_specific_artifact_id = artifact_specific_id a,
      req_artifact_hash = ra_artifact_hash a\<rparr>"

fun build_logs :: "art_env \<Rightarrow> BuildResult \<Rightarrow> nat \<Rightarrow> BuildResultArtifact list \<Rightarrow> TransparencyLog list" where
  "build_logs e br k [] = []"
| "build_logs e br k (a # as) = build_log e br k a # build_logs e br (Suc k) as"

text \<open>The ids drawn for the artifacts are new, plain and the clock fits the database.\<close>

fun draws_fresh :: "art_env \<Rightarrow> BuildResult \<Rightarrow> nat \<Rightarrow> BuildResultArtifact list \<Rightarrow> TransparencyLog list \<Rightarrow> bool" where
  "draws_fresh e br k [] ls = True"
| "draws_fresh e br k (a # as) ls =
     (uuid_id (ae_fresh e k) \<notin> log_id ` set ls \<and> uint (now_secs (ae_fresh e k)) < 2 ^ 63 \<and>
      draws_fresh e br (Suc k) as (ls @ [build_log e br k a]))"

text \<open>Every artifact has been copied from where the build left it to the file of its id.\<close>

fun delivered :: "art_env \<Rightarrow> disk \<Rightarrow> nat \<Rightarrow> BuildResultArtifact list \<Rightarrow> bool" where
  "delivered e d k [] = True"
| "delivered e d k (a # as) =
     ((\<exists>bs. map_of d (artifact_location a) = Some bs \<and>
            map_of d (artifact_file_path (ae_storage e) (uuid_artifact (ae_fresh e k))) = Some bs) \<and>
      delivered e d (Suc k) as)"

definition files_kept :: "disk \<Rightarrow> disk \<Rightarrow> bool" where
  "files_kept d d1 \<longleftrightarrow> (\<forall>p bs. map_of d p = Some bs \<longrightarrow> map_of d1 p = Some bs)"

lemma files_kept_trans: "files_kept a b \<Longrightarrow> files_kept b c \<Longrightarrow> files_kept a c"
  by (simp add: files_kept_def)

lemma delivered_mono: "delivered e d k as \<Longrightarrow> files_kept d d1 \<Longrightarrow> delivered e d1 k as"
  by (induction e d k as rule: delivered.induct) (auto simp: files_kept_def)

lemma build_log_sel [simp]:
  "log_id (build_log e br k a) = uuid_id (ae_fresh e k)"
  "artifact_id (build_log e br k a) = uuid_artifact (ae_fresh e k)"
  "timestamp (build_log e br k a) = now_secs (ae_fresh e k)"
  "operation (build_log e br k a) = AddArtifact"
  "package_type (build_log e br k a) = Some (br_package_type br)"
  "package_specific_artifact_id (build_log e br k a) = artifact_specific_id a"
  "artifact_hash (build_log e br k a) = ra_artifact_hash a"
  by (simp_all add: build_log_def TransparencyLog_from_def)

lemma put_artifact_delivers:
  assumes "put_artifact e i (bs, None) s = (Ok (), s1)" and "ae_io e = no_faults"
  shows "files_kept (as_files s) (as_files s1) \<and>
    map_of (as_files s1) (artifact_file_path (ae_storage e) i) = Some bs"
  using assms
  by (auto simp: put_artifact_def push_no_faults files_kept_def update_conv' outcome_simps
      split: option.splits)

lemma add_build_artifact_ok:
  assumes "add_build_artifact e br k a s = (Ok payload, s1)"
    and "log_env_ok (ae_log e)" and "ae_io e = no_faults" and "stores ls (ls_table (as_log s))"
    and "uuid_id (ae_fresh e k) \<notin> log_id ` set ls" and "uint (now_secs (ae_fresh e k)) < 2 ^ 63"
  shows "stores (ls @ [build_log e br k a]) (ls_table (as_log s1)) \<and>
    files_kept (as_files s) (as_files s1) \<and> delivered e (as_files s1) k [a]"
proof -
  let ?l = "build_log e br k a"
  have ok: "log_ok ?l" "log_id ?l \<notin> log_id ` set ls" using assms(5,6) by (simp_all add: log_ok_def)
  note w = write_transparency_log_new[OF assms(2,4) ok]
  have l: "TransparencyLog_from (ae_fresh e k)
     \<lparr>req_package_type = br_package_type br, req_package_specific_id = br_package_specific_id br,
      req_num_artifacts = of_nat (length (br_artifacts br)),
      req_package_specific_artifact_id = artifact_specific_id a,
      req_artifact_hash = ra_artifact_hash a\<rparr> = ?l"
    by (simp add: build_log_def)
  define t where "t = ls_table (as_log s) @ [row_of ?l]"
  define s2 where "s2 = s\<lparr>as_log := (as_log s)\<lparr>ls_table := t\<rparr>\<rparr>"
  obtain bs s3 where bs: "map_of (as_files s) (artifact_location a) = Some bs"
    and put: "put_artifact e (artifact_id ?l) (bs, None) s2 = (Ok (), s3)"
    and prov: "s1 = s3\<lparr>as_provided := as_provided s3 @ [artifact_id ?l]\<rparr>"
    using assms(1) w(1) unfolding add_build_artifact_def l Let_def log_add_artifact_def
    by (auto simp: sbind_Ok_iff outcome_simps provide_def put_artifact_from_build_result_def assms(3)
        no_faults_def t_def s2_def split: option.splits prod.splits)
  have "as_log s3 = as_log s2" by (rule put_artifact_log[OF put])
  moreover have "files_kept (as_files s2) (as_files s3) \<and>
      map_of (as_files s3) (artifact_file_path (ae_storage e) (artifact_id ?l)) = Some bs"
    by (rule put_artifact_delivers[OF put assms(3)])
  ultimately show ?thesis
    using w(2) bs by (auto simp: prov s2_def t_def files_kept_def)
qed

lemma add_build_artifacts_ok:
  assumes "add_build_artifacts e br k as s = (Ok ps, s1)"
    and "log_env_ok (ae_log e)" and "ae_io e = no_faults" and "stores ls (ls_table (as_log s))"
    and "draws_fresh e br k as ls"
  shows "stores (ls @ build_logs e br k as) (ls_table (as_log s1)) \<and>
    files_kept (as_files s) (as_files s1) \<and> delivered e (as_files s1) k as"
  using assms(1,4,5)
proof (induction as arbitrary: k s ls ps)
  case Nil
  then show ?case by (simp add: files_kept_def)
next
  case (Cons a as)
  obtain p s0 ps' where step: "add_build_artifact e br k a s = (Ok p, s0)"
    and rest: "add_build_artifacts e br (Suc k) as s0 = (Ok ps', s1)"
    using Cons.prems(1) by (auto simp: sbind_Ok_iff)
  have one: "stores (ls @ [build_log e br k a]) (ls_table (as_log s0)) \<and>
      files_kept (as_files s) (as_files s0) \<and> delivered e (as_files s0) k [a]"
    using Cons.prems(2,3) by (intro add_build_artifact_ok[OF step assms(2,3)]) auto
  have many: "stores ((ls @ [build_log e br k a]) @ build_logs e br (Suc k) as) (ls_table (as_log s1)) \<and>
      files_kept (as_files s0) (as_files s1) \<and> delivered e (as_files s1) (Suc k) as"
    using Cons.prems(3) one by (intro Cons.IH[OF rest]) auto
  then show ?case
    using one delivered_mono[of e "as_files s0" k "[a]"] files_kept_trans by auto
qed

lemma broadcast_artifacts_table:
  "broadcast_artifacts e ps s = (res, s1) \<Longrightarrow> ls_table s1 = ls_table s"
  by (induction ps arbitrary: s)
     (auto simp: sbind_iff split: prod.splits dest!: client_add_block_table)

lemma build_logs_member:
  "l \<in> set (build_logs e br k as) \<longleftrightarrow> (\<exists>i < length as. l = build_log e br (k + i) (as ! i))"
proof (induction as arbitrary: k)
  case Nil
  then show ?case by simp
next
  case (Cons a as)
  then show ?case by (auto simp: less_Suc_eq_0_disj)
qed

lemma build_logs_common:
  "l \<in> set (build_logs e br k as) \<Longrightarrow> package_type l = Some (br_package_type br) \<and> operation l = AddArtifact"
  by (auto simp: build_logs_member)

lemma build_logs_unique:
  assumes "i < length as" and "distinct (map artifact_specific_id as)"
  shows "{l \<in> set (build_logs e br k as). package_specific_artifact_id l = artifact_specific_id (as ! i)}
    = {build_log e br (k + i) (as ! i)}"
proof (intro set_eqI iffI)
  fix l assume "l \<in> {l \<in> set (build_logs e br k as). package_specific_artifact_id l = artifact_specific_id (as ! i)}"
  then obtain j where j: "j < length as" "l = build_log e br (k + j) (as ! j)"
      "artifact_specific_id (as ! j) = artifact_specific_id (as ! i)"
    by (auto simp: build_logs_member)
  then have "j = i"
    using assms nth_eq_iff_index_eq[of "map artifact_specific_id as" j i] by simp
  with j show "l \<in> {build_log e br (k + i) (as ! i)}" by simp
next
  fix l assume "l \<in> {build_log e br (k + i) (as ! i)}"
  then show "l \<in> {l \<in> set (build_logs e br k as). package_specific_artifact_id l = artifact_specific_id (as ! i)}"
    using assms(1) by (auto simp: build_logs_member)
qed

lemma delivered_nth:
  "delivered e d k as \<Longrightarrow> i < length as \<Longrightarrow> map_of d (artifact_location (as ! i)) = Some bs \<Longrightarrow>
   map_of d (artifact_file_path (ae_storage e) (uuid_artifact (ae_fresh e (k + i)))) = Some bs"
proof (induction as arbitrary: k i)
  case Nil
  then show ?case by simp
next
  case (Cons a as)
  then show ?case by (cases i) (use Cons.IH[of "Suc k"] in \<open>auto\<close>)
qed

lemma built_artifact_downloadable:
  assumes "add_build_artifacts e br 0 (br_artifacts br) s = (Ok ps, s0)"
    and "log_env_ok (ae_log e)" and "ae_io e = no_faults" and "stores ls (ls_table (as_log s))"
    and "draws_fresh e br 0 (br_artifacts br) ls"
    and "distinct (map artifact_specific_id (br_artifacts br))"
    and "a \<in> set (br_artifacts br)" and "lit_safe (artifact_specific_id a)"
    and "artifact_records (br_package_type br) (artifact_specific_id a) ls = []"
    and "map_of (as_files s) (artifact_location a) = Some bs"
    and "ra_artifact_hash a = ae_sha256_hex e bs"
    and "ls_table (as_log s1) = ls_table (as_log s0)"
    and "\<And>k. k < length (br_artifacts br) \<Longrightarrow>
      map_of (as_files s1) (artifact_file_path (ae_storage e) (uuid_artifact (ae_fresh e k))) =
      map_of (as_files s0) (artifact_file_path (ae_storage e) (uuid_artifact (ae_fresh e k)))"
  shows "get_artifact e (br_package_type br) (artifact_specific_id a) s1 = (Ok bs, s1)"
proof -
  let ?as = "br_artifacts br" and ?pt = "br_package_type br" and ?art = "artifact_specific_id a"
  have inv: "stores (ls @ build_logs e br 0 ?as) (ls_table (as_log s1))"
      "files_kept (as_files s) (as_files s0)" "delivered e (as_files s0) 0 ?as"
    using add_build_artifacts_ok[OF assms(1-5)] assms(12) by auto
  obtain i where i: "i < length ?as" "?as ! i = a" using assms(7) by (auto simp: in_set_conv_nth)
  have "set (artifact_records ?pt ?art (ls @ build_logs e br 0 ?as)) = {build_log e br i a}"
  proof -
    have "set (artifact_records ?pt ?art (ls @ build_logs e br 0 ?as))
        = {l \<in> set (build_logs e br 0 ?as). package_specific_artifact_id l = ?art}"
      using assms(9) build_logs_common[of _ e br 0 ?as]
      unfolding artifact_records_def filter_append set_append by auto
    also have "\<dots> = {build_log e br i a}"
      using build_logs_unique[OF i(1) assms(6)] i(2) by simp
    finally show ?thesis .
  qed
  then have log: "log_get_artifact (ae_log e) ?pt ?art (as_log s1) = Ok (build_log e br i a)"
    using read_transparency_log_cases[OF assms(2) inv(1) assms(8), of ?pt]
    by (auto simp: log_get_artifact_def)
  have "map_of (as_files s0) (artifact_location a) = Some bs"
    using inv(2) assms(10) by (simp add: files_kept_def)
  then have "get_artifact_locally e (uuid_artifact (ae_fresh e i)) s1 = Ok bs"
    using delivered_nth[OF inv(3) i(1)] i(2) assms(13)[OF i(1)]
    by (simp add: get_artifact_locally_def pull_artifact_def assms(3) no_faults_def)
  then show ?thesis
    using log assms(11) by (simp add: get_artifact_def verify_artifact_def)
qed

text \<open>Broadcasting changes neither the table nor the files.\<close>

lemma handle_build_result_keeps:
  assumes "add_build_artifacts e br 0 (br_artifacts br) s = (Ok ps, s0)"
    and "handle_build_result e build_id br s = (r, s1)"
  shows "ls_table (as_log s1) = ls_table (as_log s0)" "as_files s1 = as_files s0"
  using assms(2) broadcast_artifacts_table[of "ae_log e" ps "as_log s0"]
  by (auto simp: handle_build_result_def assms(1) split: prod.splits)

text \<open>
  C16: once \<^verbatim>\<open>handle_build_result\<close> has succeeded, every artifact of the build can be downloaded from
  this node without any network: the bytes returned are those of the file the build left, provided
  the build named their digest, the artifact ids of the build differ and none was recorded before.
\<close>

theorem build_result_downloadable:
  assumes "handle_build_result e build_id br s = (Ok (), s1)"
    and "log_env_ok (ae_log e)" and "ae_io e = no_faults" and "stores ls (ls_table (as_log s))"
    and "draws_fresh e br 0 (br_artifacts br) ls"
    and "distinct (map artifact_specific_id (br_artifacts br))"
    and "a \<in> set (br_artifacts br)" and "lit_safe (artifact_specific_id a)"
    and "artifact_records (br_package_type br) (artifact_specific_id a) ls = []"
    and "map_of (as_files s) (artifact_location a) = Some bs"
    and "ra_artifact_hash a = ae_sha256_hex e bs"
  shows "get_artifact e (br_package_type br) (artifact_specific_id a) s1 = (Ok bs, s1)"
proof -
  obtain ps s0 where loop: "add_build_artifacts e br 0 (br_artifacts br) s = (Ok ps, s0)"
    using assms(1) unfolding handle_build_result_def sbind_Ok_iff by blast
  show ?thesis
    by (rule built_artifact_downloadable[OF loop assms(2-11)]) (simp_all add: handle_build_result_keeps[OF loop assms(1)])
qed

section \<open>Content that fails verification\<close>

text \<open>
  C25: content received from a peer is stored before it is checked. When the content a peer sends for
  an artifact does not have the recorded digest the download fails, the wrong content stays in the
  node's storage, and from then on every download of that artifact fails the same way, whatever the
  network would answer then.
\<close>

theorem rejected_content_poisons_storage:
  assumes "log_get_artifact (ae_log e) pt art (as_log s) = Ok l" and "ae_io e = no_faults"
    and "get_artifact_locally e (artifact_id l) s = Err x"
    and "net_list_providers e (artifact_id l) = Ok providers"
    and "get_idle_peer (net_idle_metric e) providers = Ok (Some peer)"
    and "net_request_artifact e peer (artifact_id l) = Ok bad"
    and "ae_sha256_hex e bad \<noteq> artifact_hash l"
  shows "\<exists>s1. get_artifact e pt art s =
        (Err (AnyLog (InvalidHash (package_specific_artifact_id l) (ae_sha256_hex e bad) (artifact_hash l))), s1) \<and>
      get_artifact_locally e (artifact_id l) s1 = Ok bad \<and>
      (\<forall>providers' metric' request'.
        get_artifact (e\<lparr>net_list_providers := providers', net_idle_metric := metric',
                        net_request_artifact := request'\<rparr>) pt art s1 =
        (Err (AnyLog (InvalidHash (package_specific_artifact_id l) (ae_sha256_hex e bad) (artifact_hash l))), s1))"
proof -
  let ?p = "artifact_file_path (ae_storage e) (artifact_id l)"
  have none: "map_of (as_files s) ?p = None"
    using assms(2,3) by (auto simp: get_artifact_locally_def pull_artifact_def no_faults_def Let_def
        split: option.splits)
  let ?s1 = "s\<lparr>as_files := AList.update ?p bad (AList.update ?p [] (as_files s))\<rparr>"
  have put: "put_artifact e (artifact_id l) (bad, None) s = (Ok (), ?s1)"
    using none by (simp add: put_artifact_def assms(2) push_no_faults)
  have "map_of (as_files ?s1) ?p = Some bad" by (simp add: update_conv')
  then have stored: "get_artifact_locally (e\<lparr>net_list_providers := a, net_idle_metric := b,
      net_request_artifact := c\<rparr>) (artifact_id l) ?s1 = Ok bad"
    "get_artifact_locally e (artifact_id l) ?s1 = Ok bad" for a b c
    by (simp_all add: get_artifact_locally_def pull_artifact_def assms(2) no_faults_def)
  have "get_artifact_from_peers e (artifact_id l) s = (Ok bad, ?s1)"
    using put stored(2) by (simp add: get_artifact_from_peers_def get_artifact_from_peer_def assms(4-6))
  then show ?thesis
    using assms(1,3,7) stored
    by (intro exI[of _ ?s1]) (simp add: get_artifact_def verify_artifact_def Let_def)
qed

section \<open>Recording blocks\<close>

text \<open>What the node does with the payloads of a sequence of blocks, one transaction each.\<close>

fun record_payloads :: "art_env \<Rightarrow> bytes list \<Rightarrow> art_state \<Rightarrow> art_state" where
  "record_payloads e [] s = s"
| "record_payloads e (p # ps) s = record_payloads e ps (snd (handle_block_added e [p] s))"

lemma record_payloads_put_all:
  assumes "\<forall>(p, l) \<in> set pls. json_from_slice (le_json (ae_log e)) p = Some l"
  shows "as_log (record_payloads e (map fst pls) s)
    = log_table.put_all (ae_log e) (as_log s) (map (\<lambda>(p, l). (log_id l, l)) pls)"
  using assms
proof (induction pls arbitrary: s)
  case Nil
  then show ?case by simp
next
  case (Cons pl pls)
  have "as_log (snd (handle_block_added e [fst pl] s)) = snd (write_if_not_exists (ae_log e) (snd pl) (as_log s))"
    using Cons.prems by (auto simp: handle_block_added_def split: prod.splits)
  with Cons show ?case by (cases pl) simp
qed

text \<open>
  Records are write-once. After any sequence of blocks, each carrying the JSON of a log, looking
  up an id finds the log the table held before under that id, and otherwise the first log with that
  id in the sequence; a later block cannot change a record.
\<close>

theorem recorded_logs_are_write_once:
  assumes "table_inv (ae_log e) (as_log s)" and "lit_safe i"
    and "\<forall>(p, l) \<in> set pls. json_from_slice (le_json (ae_log e)) p = Some l \<and> log_ok l \<and> lit_safe (log_id l)"
  shows "table_get (ae_log e) (as_log (record_payloads e (map fst pls) s)) i =
    (case table_get (ae_log e) (as_log s) i of
       Some l \<Rightarrow> Some l
     | None \<Rightarrow> List.find (\<lambda>l. log_id l = i) (map snd pls))"
proof -
  have "map_of (map (\<lambda>(p, l). (log_id l, l)) pls) i = List.find (\<lambda>l. log_id l = i) (map snd pls)"
    by (induction pls) auto
  moreover have "table_get (ae_log e) (log_table.put_all (ae_log e) (as_log s) (map (\<lambda>(p, l). (log_id l, l)) pls)) i
      = (case table_get (ae_log e) (as_log s) i of Some w \<Rightarrow> Some w
         | None \<Rightarrow> map_of (map (\<lambda>(p, l). (log_id l, l)) pls) i)"
    using assms by (intro log_table.first_write_stays) (auto simp: table_fits_def)
  moreover have "as_log (record_payloads e (map fst pls) s)
      = log_table.put_all (ae_log e) (as_log s) (map (\<lambda>(p, l). (log_id l, l)) pls)"
    using assms(3) by (intro record_payloads_put_all) auto
  ultimately show ?thesis by (simp split: option.split)
qed

section \<open>Where builds run\<close>

lemma find_or_last_spec:
  "xs \<noteq> [] \<Longrightarrow> find_or_last (\<lambda>p. q = p) xs = Some (if q \<in> set xs then q else last xs)"
  by (induction "\<lambda>p. q = p" xs rule: find_or_last.induct) auto

text \<open>
  Where a requested build runs. It is refused when no node is authorised or the package may not
  be added; otherwise it starts on this node exactly if this node is authorised, and is sent to the
  last authorised node if not.
\<close>

theorem request_build_routing:
  assumes "get_authorized_nodes (ae_log e) (as_log s) = Ok nodes"
  shows "request_build e pt psid s =
    (if nodes = [] then Err (InitializationFailed (Msg ''No authorized nodes found''))
     else case verify_package_can_be_added_to_transparency_logs (ae_log e) pt psid (as_log s) of
            Err x \<Rightarrow> Err (BuildArtifactAlreadyExists (LogMsg x))
          | Panic m \<Rightarrow> Panic m
          | Ok _ \<Rightarrow>
            if ae_local_peer e \<in> set nodes then ev_start_build e pt psid
            else map_err (\<lambda>m. InitializationFailed (Msg m)) (net_request_build e (last nodes) pt psid))"
proof (cases "nodes = []")
  case False
  have "last nodes \<noteq> ae_local_peer e" if "ae_local_peer e \<notin> set nodes"
    using that False last_in_set by metis
  then show ?thesis
    using False by (simp add: request_build_def assms find_or_last_spec unwrap_def split: outcome.splits)
qed (simp add: request_build_def assms)

text \<open>
  Asking for the status of a build on a node that knows no authorised node panics, where asking
  for the build itself is an error value.
\<close>

theorem build_status_panics_without_nodes:
  assumes "get_authorized_nodes (ae_log e) (as_log s) = Ok []"
  shows "is_panic (get_build_status e build_id s) \<and> \<not> is_panic (request_build e pt psid s)"
  by (simp add: get_build_status_def request_build_def assms unwrap_def)

section \<open>A concrete node\<close>

definition demo_art_env :: art_env where
  "demo_art_env =
     \<lparr>ae_log = demo_log_env\<lparr>le_json := \<lparr>json_to_string = (\<lambda>l. Some ''j''),
        json_from_slice = (\<lambda>bs. Some (demo_log ''x'' AddArtifact (if bs = [1] then 5 else 6)))\<rparr>\<rparr>,
      ae_io = no_faults,
      ae_storage = \<lparr>repository_path = [''store'']\<rparr>, ae_local_peer = [9],
      ae_sha256_hex = (\<lambda>bs. if bs = [1] then ''h'' else ''other''), ae_fresh = (\<lambda>_. demo_fresh),
      net_list_providers = (\<lambda>_. Ok [[7]]), net_idle_metric = (\<lambda>_. Some (Ok [0, 0, 0, 0, 0, 0, 0, 0])),
      net_request_artifact = (\<lambda>_ _. Ok [2]), net_provide = (\<lambda>_. Ok ()),
      net_request_build = (\<lambda>_ _ _. Ok ''remote''), net_request_build_status = (\<lambda>_ _. Ok Running),
      ev_start_build = (\<lambda>_ _. Ok ''local''), ev_build_status = (\<lambda>_. Ok Running)\<rparr>"

definition demo_art_state :: "TransparencyLog list \<Rightarrow> disk \<Rightarrow> art_state" where
  "demo_art_state ls d =
     \<lparr>as_log = demo_log_state ls, as_files = d, as_provided = [], as_spawned = []\<rparr>"

lemma demo_art_log_ok [simp]: "log_env_ok (ae_log demo_art_env)"
  by (simp add: log_env_ok_def demo_log_env_def demo_art_env_def)

lemma demo_art_io [simp]: "ae_io demo_art_env = no_faults"
  by (simp add: demo_art_env_def)

lemma demo_art_stores: "distinct (map log_id ls) \<Longrightarrow> \<forall>l \<in> set ls. log_ok l \<Longrightarrow>
    stores ls (ls_table (as_log (demo_art_state ls d)))"
  by (simp add: stores_def demo_log_state_def demo_art_state_def)

lemma demo_jar_log:
  "log_get_artifact (ae_log demo_art_env) Maven2 ''g/a/1/a-1.jar''
     (as_log (demo_art_state [demo_log ''x'' AddArtifact 5] d)) = Ok (demo_log ''x'' AddArtifact 5)"
proof -
  let ?ls = "[demo_log ''x'' AddArtifact 5]"
  have st: "stores ?ls (ls_table (as_log (demo_art_state ?ls d)))"
    by (rule demo_art_stores) (simp_all add: log_ok_def)
  have safe: "lit_safe ''g/a/1/a-1.jar''" by (simp add: lit_safe_def)
  have "artifact_records Maven2 ''g/a/1/a-1.jar'' ?ls = ?ls" by (simp add: artifact_records_def)
  then show ?thesis
    using read_transparency_log_cases[OF demo_art_log_ok st safe, of Maven2]
    by (auto simp: log_get_artifact_def)
qed

lemma demo_art_path: "artifact_file_path (ae_storage demo_art_env) ''x'' = [''store'', ''x.file'']"
  by (simp add: artifact_file_path_plain plain_id_def demo_art_env_def)

lemma demo_log_hash [simp]: "artifact_hash (demo_log i op time) = ''h''" "artifact_id (demo_log i op time) = i"
  by (simp_all add: demo_log_def)

theorem download_matches_log_witness:
  "\<exists>l. log_get_artifact (ae_log demo_art_env) Maven2 ''g/a/1/a-1.jar''
        (as_log (demo_art_state [demo_log ''x'' AddArtifact 5] [([''store'', ''x.file''], [1])])) = Ok l \<and>
     artifact_hash l = ae_sha256_hex demo_art_env [1]"
proof -
  let ?s = "demo_art_state [demo_log ''x'' AddArtifact 5] [([''store'', ''x.file''], [1])]"
  have "get_artifact demo_art_env Maven2 ''g/a/1/a-1.jar'' ?s = (Ok [1], ?s)"
    by (simp add: get_artifact_def demo_jar_log get_artifact_locally_def pull_artifact_def demo_art_path
        no_faults_def verify_artifact_def)
       (simp add: demo_art_state_def demo_art_env_def)
  then show ?thesis using download_matches_log by blast
qed

theorem rejected_content_poisons_storage_witness:
  "\<exists>s1. get_artifact demo_art_env Maven2 ''g/a/1/a-1.jar'' (demo_art_state [demo_log ''x'' AddArtifact 5] [])
      = (Err (AnyLog (InvalidHash ''g/a/1/a-1.jar'' ''other'' ''h'')), s1) \<and>
     get_artifact_locally demo_art_env ''x'' s1 = Ok [2]"
proof -
  let ?s = "demo_art_state [demo_log ''x'' AddArtifact 5] []"
  have "get_artifact_locally demo_art_env ''x'' ?s = Err (AnyIo NotFound)"
    by (simp add: get_artifact_locally_def pull_artifact_def demo_art_path no_faults_def demo_art_state_def)
  moreover have "get_idle_peer (net_idle_metric demo_art_env) [[7]] = Ok (Some [7])"
    by (simp add: get_idle_peer_def demo_art_env_def f64_less_def f64_is_nan_def f64_magnitude_def
        f64_key_def f64_from_le_bytes_def PEER_METRIC_THRESHOLD_def f64_half_def)
  moreover have "net_list_providers demo_art_env i = Ok [[7]]"
      "net_request_artifact demo_art_env p i = Ok [2]"
      "ae_sha256_hex demo_art_env [2] = ''other''" for i p
    by (simp_all add: demo_art_env_def)
  ultimately show ?thesis
    using rejected_content_poisons_storage[OF demo_jar_log[of "[]"] demo_art_io,
        where x = "AnyIo NotFound" and providers = "[[7]]" and peer = "[7]" and bad = "[2]"]
    by auto
qed

theorem recorded_logs_are_write_once_witness:
  "table_get (ae_log demo_art_env)
     (as_log (record_payloads demo_art_env [[1], [2]] (demo_art_state [] []))) ''x''
   = Some (demo_log ''x'' AddArtifact 5)"
proof -
  let ?pls = "[([1], demo_log ''x'' AddArtifact 5), ([2], demo_log ''x'' AddArtifact 6)]"
  let ?s = "demo_art_state [] []"
  have st: "stores [] (ls_table (as_log ?s))" by (rule demo_art_stores) simp_all
  have safe: "lit_safe ''x''" by (simp add: lit_safe_def)
  have "table_get (ae_log demo_art_env) (as_log ?s) ''x'' = None"
    by (simp add: table_get_spec[OF demo_art_log_ok st safe])
  moreover have "table_inv (ae_log demo_art_env) (as_log ?s)" using st by (auto simp: table_inv_def)
  ultimately show ?thesis
    using recorded_logs_are_write_once[of demo_art_env ?s "''x''" ?pls] safe
    by (simp add: demo_art_env_def log_ok_def)
qed

theorem request_build_routing_witness:
  "request_build demo_art_env Maven2 ''g:a:1'' (demo_art_state [] [])
    = Err (InitializationFailed (Msg ''No authorized nodes found''))"
proof -
  have st: "stores [] (ls_table (as_log (demo_art_state [] [])))" by (rule demo_art_stores) simp_all
  then have "get_authorized_nodes (ae_log demo_art_env) (as_log (demo_art_state [] [])) = Ok []"
    using authorized_nodes_spec[OF demo_art_log_ok st] by (metis empty_iff empty_set last_in_set)
  then show ?thesis using request_build_routing by simp
qed

theorem build_status_panics_without_nodes_witness:
  "is_panic (get_build_status demo_art_env ''b'' (demo_art_state [] []))"
proof -
  have st: "stores [] (ls_table (as_log (demo_art_state [] [])))" by (rule demo_art_stores) simp_all
  then have "get_authorized_nodes (ae_log demo_art_env) (as_log (demo_art_state [] [])) = Ok []"
    using authorized_nodes_spec[OF demo_art_log_ok st] by (metis empty_iff empty_set last_in_set)
  then show ?thesis using build_status_panics_without_nodes by blast
qed

definition demo_artifact :: BuildResultArtifact where
  "demo_artifact = \<lparr>artifact_specific_id = ''g/a/1/a-1.jar'', artifact_location = [''out'', ''a.jar''],
     ra_artifact_hash = ''h''\<rparr>"

definition demo_build :: BuildResult where
  "demo_build = \<lparr>br_package_type = Maven2, br_package_specific_id = ''g:a:1'',
     br_artifacts = [demo_artifact]\<rparr>"

lemma demo_art_sel [simp]:
  "net_provide demo_art_env i = Ok ()" "ae_fresh demo_art_env k = demo_fresh"
  "json_to_string (le_json (ae_log demo_art_env)) l = Some ''j''"
  "artifact_location demo_artifact = [''out'', ''a.jar'']" "uuid_artifact demo_fresh = ''v''"
  "br_artifacts demo_build = [demo_artifact]"
  "as_files (demo_art_state ls d) = d"
  by (simp_all add: demo_art_env_def demo_artifact_def demo_fresh_def demo_build_def demo_art_state_def)

lemma no_read_fault: "read_fault_at no_faults p = None"
  by (simp add: no_faults_def)

lemma demo_art_payload:
  "fst (BlockchainEventClient_add_block (ae_log demo_art_env) payload (demo_log_state ls)) = Ok ()"
  using demo_add_payload[of payload ls]
  by (simp add: BlockchainEventClient_add_block_def demo_art_env_def Let_def split: if_splits)

theorem build_result_downloadable_witness:
  "\<exists>s1. handle_build_result demo_art_env ''b'' demo_build (demo_art_state [] [([''out'', ''a.jar''], [1])])
      = (Ok (), s1) \<and>
     get_artifact demo_art_env Maven2 ''g/a/1/a-1.jar'' s1 = (Ok [1], s1)"
proof -
  let ?s = "demo_art_state [] [([''out'', ''a.jar''], [1])]"
  let ?l = "build_log demo_art_env demo_build 0 demo_artifact"
  have st: "stores [] (ls_table (as_log ?s))" by (rule demo_art_stores) simp_all
  have ok: "log_ok ?l" by (simp add: log_ok_def demo_fresh_def)
  have w: "write_transparency_log (ae_log demo_art_env) ?l (as_log ?s) = (Ok (), demo_log_state [?l])"
    using write_transparency_log_new(1)[OF demo_art_log_ok st ok]
    by (simp add: demo_art_state_def demo_log_state_def)
  obtain l1 where b: "BlockchainEventClient_add_block (ae_log demo_art_env) (as_bytes ''j'') (demo_log_state [?l])
      = (Ok (), l1)"
    using demo_art_payload by (metis prod.collapse)
  have p: "artifact_file_path (ae_storage demo_art_env) ''v'' = [''store'', ''v.file'']"
    by (simp add: artifact_file_path_plain plain_id_def demo_art_env_def)
  have "\<exists>s1. add_build_artifact demo_art_env demo_build 0 demo_artifact ?s = (Ok ''j'', s1) \<and>
      as_log s1 = demo_log_state [?l]"
    using w unfolding add_build_artifact_def build_log_def[symmetric] Let_def log_add_artifact_def
    by (simp add: put_artifact_from_build_result_def put_artifact_def push_no_faults provide_def p
        no_read_fault)
  then obtain s1 where s1: "handle_build_result demo_art_env ''b'' demo_build ?s = (Ok (), s1)"
    using b by (auto simp: handle_build_result_def)
  have "get_artifact demo_art_env (br_package_type demo_build) (artifact_specific_id demo_artifact) s1
      = (Ok [1], s1)"
    by (rule build_result_downloadable[OF s1 demo_art_log_ok demo_art_io st])
       (simp_all add: demo_fresh_def artifact_records_def lit_safe_def,
        simp_all add: demo_artifact_def demo_art_env_def)
  with s1 show ?thesis by (simp add: demo_artifact_def demo_build_def)
qed

end
