(* ===== verification/Node_Claims.thy ===== *)
theory Node_Claims
  imports Node_Handlers Artifact_Claims
begin

text \<open>
  Properties of the blockchain service and of the messages between nodes: which blocks a node
  accepts, that a gossiped block reaches the chain and the transparency log of a peer, that a node
  synchronises to the chain of a peer, and what malformed messages do.
\<close>

section \<open>Blocks from peers\<close>

lemma add_block_ahead:
  assumes "service_wf env s" and "unat n > Chain_len (chain_of s)" and "Chain_len (chain_of s) < 2 ^ 128"
  shows "BlockchainService_add_block env n b s =
    (if chain_blocks (chain_of s) = [] then (Ok (), s) else (Err LaggingBlockchainData, s))"
proof (cases "chain_blocks (chain_of s) = []")
  case True
  then show ?thesis using assms(2)
    by (auto simp: BlockchainService_add_block_def Blockchain_last_block_def Chain_last_block_def)
next
  case False
  have "ordinal (header (last (chain_blocks (chain_of s)))) + 1 < n"
    using next_ordinal[OF _ False assms(3)] assms by (simp add: service_wf_def word_less_nat_alt)
  with False show ?thesis
    by (simp add: BlockchainService_add_block_def Blockchain_last_block_def Chain_last_block_def Let_def)
qed

text \<open>
  What a node does with a block from a peer whose message names the ordinal of its header. The
  next block is appended, in memory and on disk; an older one is ignored with success; a newer one is
  refused as lagging data, except that an empty chain ignores it with success. The service invariant
  is kept in every case.
\<close>

theorem peer_block_accepted_in_order:
  assumes "service_wf env s" and "env_reliable env" and "block_codec_ok (env_bincode env) b"
    and "ordinal (header b) = n" and "Chain_len (chain_of s) < 2 ^ 128"
  shows "\<exists>res s1. BlockchainService_add_block env n b s = (res, s1) \<and> service_wf env s1 \<and>
    (if unat n = Chain_len (chain_of s)
     then res = Ok () \<and> chain_blocks (chain_of s1) = chain_blocks (chain_of s) @ [b]
     else s1 = s \<and> res = (if unat n < Chain_len (chain_of s) \<or> Chain_len (chain_of s) = 0 then Ok ()
                          else Err LaggingBlockchainData))"
proof -
  consider "unat n = Chain_len (chain_of s)" | "unat n < Chain_len (chain_of s)"
    | "unat n > Chain_len (chain_of s)" by linarith
  then show ?thesis
  proof cases
    case 1
    then have ord: "unat (ordinal (header b)) = Chain_len (chain_of s)" using assms(4) by simp
    obtain s1 where s1: "update_from_peers env b s = (Ok (), s1)" "service_wf env s1"
      by (rule update_from_peers_next[OF assms(1,2) ord assms(3)])
    then show ?thesis
      using add_block_next[OF assms(1) 1] update_from_peers_chain[OF s1(1)] 1 by simp
  next
    case 2
    then show ?thesis using add_block_old[OF assms(1) 2 assms(5)] assms(1) by simp
  next
    case 3
    then show ?thesis using add_block_ahead[OF assms(1) 3 assms(5)] assms(1)
      by (auto simp: Chain_len_def)
  qed
qed

text \<open>Every block names the hash of the one before it.\<close>

definition linked :: "Block list \<Rightarrow> bool" where
  "linked bs \<longleftrightarrow> (\<forall>i. Suc i < length bs \<longrightarrow> parent_hash (header (bs ! Suc i)) = hd_hash (header (bs ! i)))"

lemma linked_snoc:
  assumes "bs \<noteq> []" and "linked (bs @ [b])"
  shows "parent_hash (header b) = hd_hash (header (last bs))"
proof -
  have "Suc (length bs - 1) < length (bs @ [b])" using assms(1) by simp
  then have "parent_hash (header ((bs @ [b]) ! Suc (length bs - 1))) = hd_hash (header ((bs @ [b]) ! (length bs - 1)))"
    using assms(2) unfolding linked_def by blast
  then show ?thesis using assms(1) by (simp add: nth_append last_conv_nth)
qed

text \<open>
  C23: nothing of the header of a block that a peer sends is checked. A message that names the next ordinal makes
  the node append whatever block it carries. A block with that ordinal in its header whose parent hash is not
  the hash of the last block is accepted with success and stored like any other, and the blocks of the chain are no longer linked.
  A block with another ordinal in its header is appended as well, and breaks the invariant that block \<open>i\<close> carries ordinal \<open>i\<close>.
\<close>

theorem unchecked_header_breaks_chain:
  assumes "service_wf env s" and "unat n = Chain_len (chain_of s)"
  shows "(env_reliable env \<and> block_codec_ok (env_bincode env) b \<and> ordinal (header b) = n \<and> chain_blocks (chain_of s) \<noteq> [] \<and>
      parent_hash (header b) \<noteq> hd_hash (header (last (chain_blocks (chain_of s)))) \<longrightarrow>
      (\<exists>s1. BlockchainService_add_block env n b s = (Ok (), s1) \<and> service_wf env s1 \<and>
        chain_blocks (chain_of s1) = chain_blocks (chain_of s) @ [b] \<and> \<not> linked (chain_blocks (chain_of s1)))) \<and>
    (ordinal (header b) \<noteq> n \<longrightarrow>
      (\<exists>res s1. BlockchainService_add_block env n b s = (res, s1) \<and>
        chain_blocks (chain_of s1) = chain_blocks (chain_of s) @ [b] \<and> \<not> chain_wf (chain_of s1)))"
proof (intro conjI impI; (elim conjE)?)
  assume h: "env_reliable env" "block_codec_ok (env_bincode env) b" "ordinal (header b) = n" "chain_blocks (chain_of s) \<noteq> []"
    "parent_hash (header b) \<noteq> hd_hash (header (last (chain_blocks (chain_of s))))"
  then have ord: "unat (ordinal (header b)) = Chain_len (chain_of s)" using assms(2) by simp
  obtain s1 where s1: "update_from_peers env b s = (Ok (), s1)" "service_wf env s1"
    by (rule update_from_peers_next[OF assms(1) h(1) ord h(2)])
  then show "\<exists>s1. BlockchainService_add_block env n b s = (Ok (), s1) \<and> service_wf env s1 \<and>
      chain_blocks (chain_of s1) = chain_blocks (chain_of s) @ [b] \<and> \<not> linked (chain_blocks (chain_of s1))"
    using add_block_next[OF assms] update_from_peers_chain[OF s1(1)] linked_snoc[OF h(4)] h(5) by auto
next
  assume "ordinal (header b) \<noteq> n"
  then have "unat (ordinal (header b)) \<noteq> Chain_len (chain_of s)" using assms(2) by (metis word_unat_eq_iff)
  moreover obtain res s1 where s1: "update_from_peers env b s = (res, s1)" by force
  ultimately show "\<exists>res s1. BlockchainService_add_block env n b s = (res, s1) \<and>
      chain_blocks (chain_of s1) = chain_blocks (chain_of s) @ [b] \<and> \<not> chain_wf (chain_of s1)"
    using add_block_next[OF assms] update_from_peers_chain[OF s1] by (simp add: Chain_len_def)
qed

section \<open>Messages\<close>

text \<open>
  What bincode documents of a \<^verbatim>\<open>u128\<close>: sixteen bytes that read back, and of a list of blocks.
\<close>

definition ordinal_codec_ok :: "bincode \<Rightarrow> Ordinal \<Rightarrow> bool" where
  "ordinal_codec_ok bin n \<longleftrightarrow>
     (\<exists>bs. ser_ordinal bin n = Some bs \<and> length bs = 16 \<and> de_ordinal bin bs = Some n)"

definition blocks_codec_ok :: "bincode \<Rightarrow> Block list \<Rightarrow> bool" where
  "blocks_codec_ok bin bs \<longleftrightarrow> (\<exists>x. ser_blocks bin bs = Some x \<and> de_blocks bin x = Some bs)"

lemma slice_message:
  assumes "length o_bytes = 16"
  shows "byte_at 0 (c # o_bytes @ rest) = Ok c" "slice (Suc 0) 17 (c # o_bytes @ rest) = Ok o_bytes"
    "slice_from 17 (c # o_bytes @ rest) = Ok rest"
  using assms by (simp_all add: byte_at_def slice_def slice_from_def)

lemma try_from_as_u8: "BlockchainCommand_try_from (BlockchainCommand_as_u8 c) = Ok c"
  by (cases c) (simp_all add: BlockchainCommand_try_from_def)

lemma incoming_broadcast:
  assumes "broadcast_message bin b = Ok m" and "ordinal_codec_ok bin (ordinal (header b))"
    and "block_codec_ok bin b" and "bin = env_bincode (le_chain (ae_log e))"
  shows "handle_incoming_blockchain_command e m s =
    sbind (handle_broadcast_blockchain e (ordinal (header b)) b s) (\<lambda>_ s. (Ok [0], s))"
proof -
  obtain o_bytes b_bytes where m: "m = BlockchainCommand_as_u8 Broadcast # o_bytes @ b_bytes"
      "ser_ordinal bin (ordinal (header b)) = Some o_bytes" "ser_block bin b = Some b_bytes"
    using assms(1) by (auto simp: broadcast_message_def outcome_simps unwrap_def split: option.splits)
  have "length o_bytes = 16" "de_ordinal bin o_bytes = Some (ordinal (header b))"
    using assms(2) m(2) by (auto simp: ordinal_codec_ok_def)
  moreover have "de_block bin b_bytes = Some b"
    using assms(3) m(3) by (metis append_Nil2 block_codec_ok_def option.inject)
  ultimately show ?thesis
    using assms(4)
    by (simp add: handle_incoming_blockchain_command_def Let_def m(1) slice_message try_from_as_u8 ok_or_def
        del: BlockchainCommand_as_u8.simps)
qed

lemma add_payload_ok:
  assumes "add_payload env net r payload s = (Ok (), s1)"
    and "ed25519_laws (env_crypto env) (keypair (service s))" and "bincode_total (env_bincode env)"
    and "service_wf env s" and "chain_blocks (chain_of s) \<noteq> []" and "Chain_len (chain_of s) < 2 ^ 128"
  obtains b m where "chain_blocks (chain_of s1) = chain_blocks (chain_of s) @ [b]"
    "unat (ordinal (header b)) = Chain_len (chain_of s)" "fetch_payload b = [payload]"
    "broadcast_message (env_bincode env) b = Ok m" "gossiped s1 = gossiped s @ [m]"
proof -
  let ?bc = "blockchain (service s)" and ?k = "keypair (service s)"
  obtain t b where t: "Transaction_new (env_crypto env) (env_bincode env) r Create
        (Address_from_public (env_crypto env) (ed25519_public (env_crypto env) ?k)) payload ?k
        = (Ok t :: (Transaction, BlockchainError) outcome)"
    and b: "Block_new (env_crypto env) (env_bincode env) r (hd_hash (header (last (chain_blocks (bc_chain ?bc)))))
       (ordinal (header (last (chain_blocks (bc_chain ?bc)))) + 1) [t] ?k
       = (Ok b :: (Block, BlockchainError) outcome)"
    and eq: "Blockchain_add_block (env_crypto env) (env_bincode env) (env_io env) r ?bc payload ?k (cs_disk s)
       = Blockchain_commit_block (env_bincode env) (env_io env) ?bc b (cs_disk s)"
    by (rule add_block_cases[OF assms(2,3,5)])
  obtain res bc1 d1 where com: "Blockchain_commit_block (env_bincode env) (env_io env) ?bc b (cs_disk s) = (res, bc1, d1)"
    using prod_cases3 by blast
  have chain: "bc_chain bc1 = Chain_add_block (bc_chain ?bc) b" using commit_chain[OF com] by simp
  then have last: "Blockchain_last_block bc1 = Some b"
    by (simp add: Blockchain_last_block_def Chain_last_block_def)
  let ?s2 = "s\<lparr>service := (service s)\<lparr>blockchain := bc1\<rparr>, cs_disk := d1\<rparr>"
  have run: "broadcast_blockchain env net b ?s2 = (Ok (), s1)"
    using assms(1) last by (auto simp: add_payload_def eq com Let_def sbind_Ok_iff)
  then obtain m where m: "broadcast_message (env_bincode env) b = Ok m"
      "s1 = ?s2\<lparr>gossiped := gossiped s @ [m]\<rparr>"
    by (auto simp: broadcast_blockchain_def outcome_simps split: outcome.splits)
  have "unat (ordinal (header b)) = Chain_len (chain_of s)"
    using next_ordinal[OF _ assms(5,6)] assms(4)
    by (simp add: Block_new_fields(2)[OF b] service_wf_def)
  moreover have "fetch_payload b = [payload]"
    by (simp add: fetch_payload_def Block_new_fields(3)[OF b] Transaction_new_payload[OF t])
  ultimately show thesis using that m chain by simp
qed

lemma table_get_set_chain [simp]: "table_get e (s\<lparr>ls_chain := c\<rparr>) i = table_get e s i"
proof -
  have "open_db e (s\<lparr>ls_chain := c\<rparr>) = open_db e s" by (simp add: open_db_def split: option.split)
  then show ?thesis by (simp add: table_get_def find_transparency_log_def process_query_def)
qed

lemma table_inv_set_chain [simp]: "table_inv e (s\<lparr>ls_chain := c\<rparr>) = table_inv e s"
  by (simp add: table_inv_def)

lemma handle_block_added_records:
  assumes "table_inv (ae_log e) (as_log s)" and "json_from_slice (le_json (ae_log e)) payload = Some l"
    and "log_ok l" and "lit_safe (log_id l)"
  obtains s1 where "handle_block_added e [payload] s = (Ok (), s1)" "chain_part s1 = chain_part s"
    "table_inv (ae_log e) (as_log s1)"
    "table_get (ae_log e) (as_log s1) (log_id l) =
       (case table_get (ae_log e) (as_log s) (log_id l) of Some w \<Rightarrow> Some w | None \<Rightarrow> Some l)"
proof -
  obtain ls where ok: "log_env_ok (ae_log e)" "stores ls (ls_table (as_log s))"
    using assms(1) by (auto simp: table_inv_def)
  obtain t where w: "write_if_not_exists (ae_log e) l (as_log s) = (Ok (), t)" "ls_chain t = ls_chain (as_log s)"
    using write_if_not_exists_spec[OF ok assms(3,4)] by (auto split: if_splits)
  have fits: "table_fits (log_id l) l" using assms(3) by (simp add: table_fits_def)
  have "table_inv (ae_log e) t"
    using log_table.inv_put[OF assms(1,4) fits] w(1) by simp
  moreover have "table_get (ae_log e) t (log_id l) =
       (case table_get (ae_log e) (as_log s) (log_id l) of Some w \<Rightarrow> Some w | None \<Rightarrow> Some l)"
    using log_table.get_put_new[OF assms(1,4) fits] log_table.get_put_old[OF assms(1,4) fits] w(1)
    by (simp split: option.split)
  moreover have "handle_block_added e [payload] s = (Ok (), s\<lparr>as_log := t\<rparr>)"
    using w(1) assms(2) by (simp add: handle_block_added_def)
  ultimately show thesis using that[of "s\<lparr>as_log := t\<rparr>"] w(2) by simp
qed

text \<open>
  C13: a payload that one node adds reaches its peers. The message the node gossips for it, handled by
  a peer that holds the same chain, is answered with success, makes the chain of the peer equal to
  that of the sender, keeps the peer's invariant, and records the transparency log in the payload.
\<close>

theorem gossiped_block_reaches_peer:
  assumes "add_payload env net r payload sa = (Ok (), sa1)"
    and "ed25519_laws (env_crypto env) (keypair (service sa))" and "bincode_total (env_bincode env)"
    and "service_wf env sa" and "chain_blocks (chain_of sa) \<noteq> []" and "Chain_len (chain_of sa) < 2 ^ 128"
    and "\<forall>b \<in> set (chain_blocks (chain_of sa1)). block_codec_ok (env_bincode env) b \<and>
           ordinal_codec_ok (env_bincode env) (ordinal (header b))"
    and "env_bincode (le_chain (ae_log e)) = env_bincode env" and "env_reliable (le_chain (ae_log e))"
    and "env_loop_alive (ae_log e)" and "service_wf (le_chain (ae_log e)) (chain_part sb)"
    and "chain_blocks (chain_of (chain_part sb)) = chain_blocks (chain_of sa)"
    and "table_inv (ae_log e) (as_log sb)" and "json_from_slice (le_json (ae_log e)) payload = Some l"
    and "log_ok l" and "lit_safe (log_id l)"
  shows "\<exists>m sb1. gossiped sa1 = gossiped sa @ [m] \<and>
    handle_incoming_blockchain_command e m sb = (Ok [0], sb1) \<and>
    chain_blocks (chain_of (chain_part sb1)) = chain_blocks (chain_of sa1) \<and>
    service_wf (le_chain (ae_log e)) (chain_part sb1) \<and>
    table_get (ae_log e) (as_log sb1) (log_id l) =
      (case table_get (ae_log e) (as_log sb) (log_id l) of Some w \<Rightarrow> Some w | None \<Rightarrow> Some l)"
proof -
  let ?env = "le_chain (ae_log e)"
  obtain b m where b: "chain_blocks (chain_of sa1) = chain_blocks (chain_of sa) @ [b]"
    "unat (ordinal (header b)) = Chain_len (chain_of sa)" "fetch_payload b = [payload]"
    "broadcast_message (env_bincode env) b = Ok m" "gossiped sa1 = gossiped sa @ [m]"
    by (rule add_payload_ok[OF assms(1-6)])
  have codec: "block_codec_ok (env_bincode ?env) b" "ordinal_codec_ok (env_bincode ?env) (ordinal (header b))"
    using assms(7,8) b(1) by simp_all
  have len: "unat (ordinal (header b)) = Chain_len (chain_of (chain_part sb))"
    using b(2) assms(12) by (simp add: Chain_len_def)
  obtain c1 where c1: "update_from_peers ?env b (chain_part sb) = (Ok (), c1)" "service_wf ?env c1"
    by (rule update_from_peers_next[OF assms(11,9) len codec(1)])
  have chain: "chain_blocks (chain_of c1) = chain_blocks (chain_of sa1)"
    using update_from_peers_chain[OF c1(1)] assms(12) b(1) by simp
  obtain sb1 where sb1: "handle_block_added e [payload] (set_chain sb c1) = (Ok (), sb1)"
    "chain_part sb1 = c1"
    "table_get (ae_log e) (as_log sb1) (log_id l) =
       (case table_get (ae_log e) (as_log sb) (log_id l) of Some w \<Rightarrow> Some w | None \<Rightarrow> Some l)"
    using handle_block_added_records[of e "set_chain sb c1", OF _ assms(14-16)] assms(13) by auto
  have "handle_broadcast_blockchain e (ordinal (header b)) b sb = (Ok (), sb1)"
    using add_block_next[OF assms(11) len] c1(1) b(3) sb1(1)
    by (simp add: handle_broadcast_blockchain_def assms(10) Let_def)
  then have "handle_incoming_blockchain_command e m sb = (Ok [0], sb1)"
    using incoming_broadcast[OF _ codec(2,1) refl] b(4) assms(8) by simp
  then show ?thesis using b(5) chain c1(2) sb1(2,3) by auto
qed

section \<open>Synchronisation\<close>

text \<open>The network delivers the messages of a node to a peer and the peer's answers back.\<close>

definition served_by :: "p2p \<Rightarrow> PeerId \<Rightarrow> art_env \<Rightarrow> art_state \<Rightarrow> bool" where
  "served_by net peer pe ps \<longleftrightarrow>
     (\<forall>msg. net_request_blockchain net peer msg =
        map_err (\<lambda>_. ''remote error'') (fst (handle_incoming_blockchain_command pe msg ps)))"

lemma query_served:
  assumes "served_by net peer pe ps" and "env_loop_alive (ae_log pe)"
    and "env_bincode (le_chain (ae_log pe)) = env_bincode env"
    and "chain_blocks (chain_of (chain_part ps)) = bs" and "bs \<noteq> []"
    and "ordinal_codec_ok (env_bincode env) (ordinal (header (last bs)))"
  shows "query_blockchain_ordinal env net peer = Ok (ordinal (header (last bs)))"
proof -
  obtain o_bytes where o: "ser_ordinal (env_bincode env) (ordinal (header (last bs))) = Some o_bytes"
      "de_ordinal (env_bincode env) o_bytes = Some (ordinal (header (last bs)))"
    using assms(6) by (auto simp: ordinal_codec_ok_def)
  have "query_last_block (chain_part ps) = Some (last bs)"
    using assms(4,5) by (simp add: query_last_block_def Blockchain_last_block_def Chain_last_block_def)
  then have "handle_incoming_blockchain_command pe [BlockchainCommand_as_u8 QueryHighestBlockOrdinal] ps = (Ok o_bytes, ps)"
    using o(1) assms(2,3)
    by (simp add: handle_incoming_blockchain_command_def byte_at_def try_from_as_u8 Let_def
        handle_query_block_ordinal_from_peer_def unwrap_def del: BlockchainCommand_as_u8.simps)
  then show ?thesis
    using assms(1) o(2) by (simp add: served_by_def query_blockchain_ordinal_def unwrap_def
        del: BlockchainCommand_as_u8.simps)
qed

lemma pull_served:
  assumes "served_by net peer pe ps" and "env_loop_alive (ae_log pe)"
    and "env_bincode (le_chain (ae_log pe)) = env_bincode env"
    and "chain_blocks (chain_of (chain_part ps)) = bs" and "bs \<noteq> []" and "chain_wf (chain_of (chain_part ps))"
    and "ordinal_codec_ok (env_bincode env) (ordinal (header (last bs)))" and "ordinal_codec_ok (env_bincode env) 0"
    and "blocks_codec_ok (env_bincode env) bs"
  shows "pull_block_from_other_nodes env net peer 0 (ordinal (header (last bs))) = Ok bs"
proof -
  let ?n = "ordinal (header (last bs))"
  obtain z_bytes where z: "ser_ordinal (env_bincode env) 0 = Some z_bytes" "length z_bytes = 16"
      "de_ordinal (env_bincode env) z_bytes = Some 0"
    using assms(8) by (auto simp: ordinal_codec_ok_def)
  obtain o_bytes where o: "ser_ordinal (env_bincode env) ?n = Some o_bytes"
      "de_ordinal (env_bincode env) o_bytes = Some ?n"
    using assms(7) by (auto simp: ordinal_codec_ok_def)
  obtain x where x: "ser_blocks (env_bincode env) bs = Some x" "de_blocks (env_bincode env) x = Some bs"
    using assms(9) by (auto simp: blocks_codec_ok_def)
  have n: "unat ?n = length bs - 1"
    using chain_log.last_ordinal[OF assms(6)] assms(4,5) by simp
  have "Chain_retrieve_blocks (chain_of (chain_part ps)) 0 ?n = bs"
    using retrieve_blocks_wf[OF assms(6), of 0 ?n] n assms(4,5)
    by (simp add: Chain_len_def map_nth del: upt_Suc)
  then have "handle_pull_blockchain_from_peer pe 0 ?n ps = (Ok bs, ps)"
    by (simp add: handle_pull_blockchain_from_peer_def assms(2) BlockchainService_pull_blocks_def
        Blockchain_pull_blocks_def)
  then have "handle_incoming_blockchain_command pe
      (BlockchainCommand_as_u8 PullFromPeer # z_bytes @ o_bytes) ps = (Ok x, ps)"
    using z(3) o(2) x(1) assms(3)
    by (simp add: handle_incoming_blockchain_command_def slice_message[OF z(2)] try_from_as_u8 Let_def ok_or_def
        unwrap_def del: BlockchainCommand_as_u8.simps)
  then show ?thesis
    using assms(1) z(1) o(1) x(2)
    by (simp add: pull_block_from_other_nodes_def pull_message_def served_by_def unwrap_def
        del: BlockchainCommand_as_u8.simps)
qed

lemma sync_catches_up:
  assumes "service_wf env s" and "env_reliable env" and "served_by net peer pe ps"
    and "env_loop_alive (ae_log pe)" and "env_bincode (le_chain (ae_log pe)) = env_bincode env"
    and "chain_wf (chain_of (chain_part ps))" and "chain_blocks (chain_of (chain_part ps)) = bs"
    and "bs \<noteq> []" and "length bs < 2 ^ 128"
    and "chain_blocks (chain_of s) = take k bs" and "k \<le> length bs"
    and "\<forall>b \<in> set bs. block_codec_ok (env_bincode env) b" and "blocks_codec_ok (env_bincode env) bs"
    and "ordinal_codec_ok (env_bincode env) (ordinal (header (last bs)))" and "ordinal_codec_ok (env_bincode env) 0"
  shows "\<exists>s1. init_pull_from_others env net peer s = (Ok (ordinal (header (last bs))), s1) \<and>
    chain_blocks (chain_of s1) = bs \<and> service_wf env s1"
proof -
  have ord: "unat (ordinal (header (bs ! i))) = i" if "i < length bs" for i
    using chain_log.wf_ordinal[OF assms(6)] assms(7) that by simp
  have "\<forall>i < length bs. sync_good env (bs ! i) \<and> unat (ordinal (header (bs ! i))) = i"
    using ord assms(2,9,12) by (auto simp: sync_good_def)
  moreover have "sync_inv env s"
    using assms(1,9,10) by (simp add: sync_inv_def Chain_len_def)
  ultimately obtain s1 where "sync.accept_all env bs s = (Ok (), s1)" "chain_blocks (chain_of s1) = bs"
      "sync_inv env s1"
    using sync.accept_all_catches_up[of env s k bs] assms(10,11) by auto
  then show ?thesis
    using query_served[OF assms(3-5,7,8,14)] pull_served[OF assms(3-5,7,8,6,14,15,13)]
    by (simp add: init_pull_from_others_def add_blocks_accept_all sync_inv_def)
qed

text \<open>
  C12: synchronisation. A node whose chain is a prefix of the chain of a peer, possibly empty, and
  whose requests that peer answers, ends up with exactly the chain of the peer, in memory and on
  disk, and returns the peer's highest ordinal.
\<close>

theorem sync_reaches_peer_chain:
  assumes "service_wf env s" and "env_reliable env" and "served_by net peer pe ps"
    and "env_loop_alive (ae_log pe)" and "env_bincode (le_chain (ae_log pe)) = env_bincode env"
    and "chain_wf (chain_of (chain_part ps))" and "chain_blocks (chain_of (chain_part ps)) = bs"
    and "bs \<noteq> []" and "length bs < 2 ^ 128"
    and "chain_blocks (chain_of s) = take k bs" and "k \<le> length bs"
    and "\<forall>b \<in> set bs. block_codec_ok (env_bincode env) b" and "blocks_codec_ok (env_bincode env) bs"
    and "ordinal_codec_ok (env_bincode env) (ordinal (header (last bs)))" and "ordinal_codec_ok (env_bincode env) 0"
  shows "\<exists>s1. init_pull_from_others env net peer s = (Ok (ordinal (header (last bs))), s1) \<and>
    chain_blocks (chain_of s1) = bs \<and> service_wf env s1"
  by (rule sync_catches_up[OF assms])

section \<open>Malformed messages\<close>

text \<open>
  Every command byte decodes to the command it was made from and no other byte decodes; an empty
  message, a broadcast or pull message shorter than seventeen bytes and the \<^verbatim>\<open>PushToPeer\<close> command make
  the handler panic instead of returning an error.
\<close>

theorem malformed_messages_panic:
  "BlockchainCommand_try_from (BlockchainCommand_as_u8 c) = Ok c \<and>
   (v \<notin> range BlockchainCommand_as_u8 \<longleftrightarrow> BlockchainCommand_try_from v = Err InvalidBlockchainCmd) \<and>
   is_panic (fst (handle_incoming_blockchain_command e [] s)) \<and>
   (length rest < 16 \<longrightarrow> is_panic (fst (handle_incoming_blockchain_command e
      (BlockchainCommand_as_u8 Broadcast # rest) s)) \<and>
      is_panic (fst (handle_incoming_blockchain_command e (BlockchainCommand_as_u8 PullFromPeer # rest) s))) \<and>
   is_panic (fst (handle_incoming_blockchain_command e (BlockchainCommand_as_u8 PushToPeer # rest) s))"
proof (intro conjI impI)
  show "BlockchainCommand_try_from (BlockchainCommand_as_u8 c) = Ok c" by (rule try_from_as_u8)
  have "range BlockchainCommand_as_u8 = {1, 2, 3, 4}"
  proof -
    have u: "UNIV = {Broadcast, PushToPeer, PullFromPeer, QueryHighestBlockOrdinal}"
      using BlockchainCommand.exhaust by auto
    show ?thesis unfolding u by simp
  qed
  then show "v \<notin> range BlockchainCommand_as_u8 \<longleftrightarrow> BlockchainCommand_try_from v = Err InvalidBlockchainCmd"
    by (auto simp: BlockchainCommand_try_from_def)
qed (simp_all add: handle_incoming_blockchain_command_def byte_at_def slice_def Let_def try_from_as_u8
      del: BlockchainCommand_as_u8.simps)

section \<open>Concrete nodes\<close>

abbreviation demo_env :: chain_env where
  "demo_env \<equiv> le_chain (ae_log demo_art_env)"

definition demo_chain_state :: "Block list \<Rightarrow> disk \<Rightarrow> chain_state" where
  "demo_chain_state bs d =
     \<lparr>service = \<lparr>blockchain = \<lparr>bc_chain = \<lparr>chain_blocks = bs\<rparr>, blockchain_path = [''bc'']\<rparr>, keypair = [9]\<rparr>,
      cs_disk = d, gossiped = []\<rparr>"

lemma demo_env_sel [simp]:
  "env_bincode demo_env = demo_bincode" "env_crypto demo_env = demo_crypto" "env_io demo_env = no_faults"
  "env_loop_alive (ae_log demo_art_env)" "env_reliable demo_env"
  by (simp_all add: demo_art_env_def demo_log_env_def env_reliable_def no_faults_def)

lemma demo_chain_part: "chain_part (demo_art_state ls d) = demo_chain_state [demo_genesis] demo_disk"
  by (simp add: demo_art_state_def demo_log_state_def demo_chain_state_def demo_blockchain_def demo_chain_def)

lemma demo_service_wf [simp]: "service_wf demo_env (demo_chain_state [demo_genesis] demo_disk)"
  using demo_wf demo_persisted by (simp add: service_wf_def demo_chain_state_def demo_chain_def)

lemma demo_chain_of [simp]: "chain_of (demo_chain_state bs d) = \<lparr>chain_blocks = bs\<rparr>"
  by (simp add: demo_chain_state_def)

lemma demo_codecs [simp]:
  "block_codec_ok demo_bincode demo_genesis" "block_codec_ok demo_bincode (demo_block [0] 1 [7])"
  "ordinal_codec_ok demo_bincode 0" "ordinal_codec_ok demo_bincode 1"
  by (simp_all add: block_codec_ok_def ordinal_codec_ok_def demo_bincode_def demo_block_def demo_genesis_def)

lemma demo_ordinals [simp]:
  "ordinal (header demo_genesis) = 0" "ordinal (header (demo_block p n x)) = n"
  by (simp_all add: demo_genesis_def demo_block_def)

theorem peer_block_accepted_in_order_witness:
  "\<exists>s1. BlockchainService_add_block demo_env 1 (demo_block [0] 1 [7]) (demo_chain_state [demo_genesis] demo_disk)
      = (Ok (), s1) \<and> chain_blocks (chain_of s1) = [demo_genesis, demo_block [0] 1 [7]]"
  using peer_block_accepted_in_order[OF demo_service_wf demo_env_sel(5), of "demo_block [0] 1 [7]" 1]
  by (auto simp: Chain_len_def)

text \<open>A peer that sends a second block whose parent is not the first one.\<close>

definition forged_env :: chain_env where
  "forged_env = demo_env\<lparr>env_bincode := demo_bincode\<lparr>de_block :=
     (\<lambda>bs. case bs of [] \<Rightarrow> None | x # _ \<Rightarrow> if x = 0 then Some demo_genesis else Some (demo_block [3] 1 [7]))\<rparr>\<rparr>"

lemma forged_service_wf: "service_wf forged_env (demo_chain_state [demo_genesis] demo_disk)"
proof -
  have "show_nat i \<noteq> ''0''" if "Suc 0 \<le> i" for i using that show_nat_inj[of i 0] by (simp add: show_nat_0_1)
  then have "persisted (env_bincode forged_env) [''bc''] \<lparr>chain_blocks = [demo_genesis]\<rparr> demo_disk"
    by (auto simp: forged_env_def persisted_def Chain_len_def block_file_def demo_disk_def demo_bincode_def show_nat_0_1)
  then show ?thesis using demo_wf by (simp add: service_wf_def demo_chain_state_def demo_chain_def)
qed

theorem unchecked_header_breaks_chain_witness:
  "(\<exists>s1. BlockchainService_add_block forged_env 1 (demo_block [3] 1 [7]) (demo_chain_state [demo_genesis] demo_disk)
      = (Ok (), s1) \<and> \<not> linked (chain_blocks (chain_of s1))) \<and>
   (\<exists>res s1. BlockchainService_add_block forged_env 1 (demo_block [0] 5 [7]) (demo_chain_state [demo_genesis] demo_disk)
      = (res, s1) \<and> \<not> chain_wf (chain_of s1))"
proof -
  have n: "unat (1 :: Ordinal) = Chain_len (chain_of (demo_chain_state [demo_genesis] demo_disk))"
    by (simp add: Chain_len_def)
  have "env_reliable forged_env" "block_codec_ok (env_bincode forged_env) (demo_block [3] 1 [7])"
      "parent_hash (header (demo_block [3] 1 [7])) \<noteq> hd_hash (header demo_genesis)"
    using demo_env_sel(5)
    by (simp_all add: forged_env_def env_reliable_def block_codec_ok_def demo_bincode_def demo_block_def demo_genesis_def)
  then show ?thesis
    using unchecked_header_breaks_chain[OF forged_service_wf n, of "demo_block [3] 1 [7]"]
      unchecked_header_breaks_chain[OF forged_service_wf n, of "demo_block [0] 5 [7]"]
    by auto
qed

lemma demo_gossip:
  "\<exists>sa1. add_payload demo_env (le_net (ae_log demo_art_env)) demo_entropy [7] (demo_chain_state [demo_genesis] demo_disk)
      = (Ok (), sa1) \<and> chain_blocks (chain_of sa1) = [demo_genesis, demo_block [0] 1 [7]]"
  by (simp add: add_payload_def broadcast_blockchain_def broadcast_message_def demo_art_env_def
      demo_log_env_def demo_chain_state_def Blockchain_add_block_def
      Blockchain_last_block_def Chain_last_block_def structure_defs Let_def HashDigest_new_def
      Address_from_public_def demo_defs Blockchain_commit_block_def Blockchain_save_block_def
      Chain_save_block_def Chain_get_block_position_def Chain_len_def Chain_add_block_def no_faults_def
      unwrap_def)

theorem gossiped_block_reaches_peer_witness:
  "\<exists>sa1 m sb1. add_payload demo_env (le_net (ae_log demo_art_env)) demo_entropy [7]
        (demo_chain_state [demo_genesis] demo_disk) = (Ok (), sa1) \<and> gossiped sa1 = [m] \<and>
     handle_incoming_blockchain_command demo_art_env m (demo_art_state [] []) = (Ok [0], sb1) \<and>
     chain_blocks (chain_of (chain_part sb1)) = chain_blocks (chain_of sa1)"
proof -
  obtain sa1 where sa1: "add_payload demo_env (le_net (ae_log demo_art_env)) demo_entropy [7]
      (demo_chain_state [demo_genesis] demo_disk) = (Ok (), sa1)"
    "chain_blocks (chain_of sa1) = [demo_genesis, demo_block [0] 1 [7]]"
    using demo_gossip by blast
  have "stores [] (ls_table (as_log (demo_art_state [] [])))" by (rule demo_art_stores) simp_all
  then have inv: "table_inv (ae_log demo_art_env) (as_log (demo_art_state [] []))"
    by (auto simp: table_inv_def)
  have "\<exists>m sb1. gossiped sa1 = gossiped (demo_chain_state [demo_genesis] demo_disk) @ [m] \<and>
    handle_incoming_blockchain_command demo_art_env m (demo_art_state [] []) = (Ok [0], sb1) \<and>
    chain_blocks (chain_of (chain_part sb1)) = chain_blocks (chain_of sa1) \<and>
    service_wf demo_env (chain_part sb1) \<and>
    table_get (ae_log demo_art_env) (as_log sb1) (log_id (demo_log ''x'' AddArtifact 6)) =
      (case table_get (ae_log demo_art_env) (as_log (demo_art_state [] [])) (log_id (demo_log ''x'' AddArtifact 6))
       of Some w \<Rightarrow> Some w | None \<Rightarrow> Some (demo_log ''x'' AddArtifact 6))"
    by (rule gossiped_block_reaches_peer[OF sa1(1)])
       (use sa1(2) inv in \<open>simp_all add: demo_chain_part Chain_len_def lit_safe_def log_ok_def\<close>,
        simp add: demo_art_env_def)
  then show ?thesis using sa1(1) by (auto simp: demo_chain_state_def)
qed

definition demo_served_net :: p2p where
  "demo_served_net = \<lparr>net_broadcast_block = (\<lambda>_. Ok ()),
     net_request_blockchain = (\<lambda>_ msg. map_err (\<lambda>_. ''remote error'')
       (fst (handle_incoming_blockchain_command demo_art_env msg (demo_art_state [] []))))\<rparr>"

theorem sync_reaches_peer_chain_witness:
  "\<exists>s1. init_pull_from_others demo_env demo_served_net [5] (demo_chain_state [] []) = (Ok 0, s1) \<and>
     chain_blocks (chain_of s1) = [demo_genesis]"
proof -
  have "service_wf demo_env (demo_chain_state [] [])"
    by (simp add: service_wf_def chain_wf_def persisted_def Chain_len_def demo_chain_state_def)
  moreover have "served_by demo_served_net [5] demo_art_env (demo_art_state [] [])"
    by (simp add: served_by_def demo_served_net_def)
  moreover have "chain_wf (chain_of (chain_part (demo_art_state [] [])))"
    using demo_wf by (simp add: demo_chain_part demo_chain_def)
  moreover have "blocks_codec_ok demo_bincode [demo_genesis]"
    by (simp add: blocks_codec_ok_def demo_bincode_def)
  ultimately show ?thesis
    using sync_reaches_peer_chain[of demo_env "demo_chain_state [] []" demo_served_net "[5]" demo_art_env
        "demo_art_state [] []" "[demo_genesis]" 0]
    by (auto simp: demo_chain_part)
qed

theorem malformed_messages_panic_witness:
  "is_panic (fst (handle_incoming_blockchain_command demo_art_env [1, 0, 0] (demo_art_state [] [])))"
  using malformed_messages_panic[of Broadcast 0 demo_art_env "demo_art_state [] []" "[0, 0]"] by simp

end
