(* ===== verification/Node_Join_Claims.thy ===== *)
theory Node_Join_Claims
  imports Node_Process Node_Claims
begin

text \<open>
  A node joins the network: it synchronises its chain with a peer and records the logs of all blocks
  after the first in its own transparency log.
\<close>

definition block_records :: "art_env \<Rightarrow> Block \<Rightarrow> TransparencyLog \<Rightarrow> bool" where
  "block_records e b l \<longleftrightarrow> (\<exists>p. fetch_payload b = [p] \<and> json_from_slice (le_json (ae_log e)) p = Some l \<and>
     log_ok l \<and> lit_safe (log_id l))"

lemma handle_block_added_writes:
  assumes "handle_block_added e [p] s = (Ok (), s1)" and "json_from_slice (le_json (ae_log e)) p = Some l"
  shows "as_log s1 = snd (write_if_not_exists (ae_log e) l (as_log s))"
  using assms by (auto simp: handle_block_added_def split: prod.splits)

lemma pulled_blocks_recorded:
  assumes "list_all2 (block_records e) bs ls" and "table_inv (ae_log e) (as_log s)"
  shows "\<exists>s1. add_pulled_blocks e bs s = (Ok (), s1) \<and> chain_part s1 = chain_part s \<and>
    as_log s1 = log_table.put_all (ae_log e) (as_log s) (map (\<lambda>l. (log_id l, l)) ls)"
  using assms
proof (induction bs ls arbitrary: s rule: list_all2_induct)
  case (Cons b bs l ls)
  obtain p where p: "fetch_payload b = [p]" "json_from_slice (le_json (ae_log e)) p = Some l" "log_ok l"
      "lit_safe (log_id l)" using Cons.hyps(1) by (auto simp: block_records_def)
  obtain s1 where s1: "handle_block_added e [p] s = (Ok (), s1)" "chain_part s1 = chain_part s"
      "table_inv (ae_log e) (as_log s1)"
    using handle_block_added_records[OF Cons.prems p(2-4)] by metis
  then show ?case using Cons.IH[OF s1(3)] handle_block_added_writes[OF s1(1) p(2)] p(1) by simp
qed simp

lemma blocks_after_first:
  assumes "chain_wf ch" and "chain_blocks ch = bs" and "bs \<noteq> []"
  shows "Chain_retrieve_blocks ch 1 (ordinal (header (last bs))) = tl bs"
proof -
  let ?n = "ordinal (header (last bs))"
  have n: "unat ?n = length bs - 1" using chain_log.last_ordinal[OF assms(1)] assms(2,3) by simp
  have "map ((!) bs) [1..<length bs] = tl bs"
    using assms(3) by (intro nth_equalityI) (auto simp: nth_tl)
  then show ?thesis
    using retrieve_blocks_wf[OF assms(1), of 1 ?n] n assms(2,3)
    by (cases "length bs = 1") (auto simp: Chain_len_def word_le_nat_alt length_Suc_conv simp del: upt_Suc)
qed

text \<open>
  C9: a node that joins learns everything its peer has recorded. It holds a prefix of the peer's chain,
  possibly nothing, and the peer answers its requests; then pulling succeeds, the chain is that of the
  peer, and looking up an id in the transparency log finds the record the node had before, or else the
  first record with that id in the blocks of the peer after the first one.
\<close>

theorem joining_node_learns_the_log:
  assumes "service_wf (le_chain (ae_log e)) (chain_part s)" and "env_reliable (le_chain (ae_log e))"
    and "served_by (le_net (ae_log e)) peer pe ps" and "env_loop_alive (ae_log pe)"
    and "env_bincode (le_chain (ae_log pe)) = env_bincode (le_chain (ae_log e))"
    and "chain_wf (chain_of (chain_part ps))" and "chain_blocks (chain_of (chain_part ps)) = bs"
    and "bs \<noteq> []" and "length bs < 2 ^ 128"
    and "chain_blocks (chain_of (chain_part s)) = take k bs" and "k \<le> length bs"
    and "\<forall>b \<in> set bs. block_codec_ok (env_bincode (le_chain (ae_log e))) b"
    and "blocks_codec_ok (env_bincode (le_chain (ae_log e))) bs"
    and "ordinal_codec_ok (env_bincode (le_chain (ae_log e))) (ordinal (header (last bs)))"
    and "ordinal_codec_ok (env_bincode (le_chain (ae_log e))) 0"
    and "env_loop_alive (ae_log e)" and "table_inv (ae_log e) (as_log s)"
    and "list_all2 (block_records e) (tl bs) ls"
  shows "\<exists>s1. node_pull_blocks e peer s = (Ok (), s1) \<and> chain_blocks (chain_of (chain_part s1)) = bs \<and>
    (\<forall>i. lit_safe i \<longrightarrow> table_get (ae_log e) (as_log s1) i =
      (case table_get (ae_log e) (as_log s) i of
         Some l \<Rightarrow> Some l
       | None \<Rightarrow> map_of (map (\<lambda>l. (log_id l, l)) ls) i))"
proof -
  obtain c1 where c1: "init_pull_from_others (le_chain (ae_log e)) (le_net (ae_log e)) peer (chain_part s)
        = (Ok (ordinal (header (last bs))), c1)" "chain_blocks (chain_of c1) = bs" "service_wf (le_chain (ae_log e)) c1"
    using sync_catches_up[OF assms(1-15)] by blast
  let ?s = "set_chain s c1"
  have "pull_blocks_from_peer e peer s = (Ok (ordinal (header (last bs))), ?s)"
    using c1(1) assms(16) by (simp add: pull_blocks_from_peer_def)
  moreover have "pull_blocks_local e 1 (ordinal (header (last bs))) ?s = (Ok (tl bs), ?s)"
    using blocks_after_first[of "chain_of c1" bs] c1(2,3) assms(8,16)
    by (simp add: pull_blocks_local_def BlockchainService_pull_blocks_def Blockchain_pull_blocks_def service_wf_def)
  moreover have inv: "table_inv (ae_log e) (as_log ?s)" using assms(17) by simp
  moreover obtain s1 where s1: "add_pulled_blocks e (tl bs) ?s = (Ok (), s1)" "chain_part s1 = chain_part ?s"
      "as_log s1 = log_table.put_all (ae_log e) (as_log ?s) (map (\<lambda>l. (log_id l, l)) ls)"
    using pulled_blocks_recorded[OF assms(18) inv] by blast
  moreover have "table_get (ae_log e) (as_log s1) i =
      (case table_get (ae_log e) (as_log ?s) i of Some l \<Rightarrow> Some l | None \<Rightarrow> map_of (map (\<lambda>l. (log_id l, l)) ls) i)"
    if "lit_safe i" for i
    unfolding s1(3) using inv assms(18) that
    by (intro log_table.first_write_stays)
       (auto simp: table_fits_def block_records_def list_all2_conv_all_nth in_set_conv_nth)
  ultimately show ?thesis using c1(2) by (intro exI[of _ s1]) (simp add: node_pull_blocks_def)
qed

section \<open>Witness\<close>

text \<open>A peer with two blocks and a node that has the first of them.\<close>

abbreviation demo_two :: "Block list" where
  "demo_two \<equiv> [demo_genesis, demo_block [0] 1 [7]]"

definition demo_ahead :: art_state where
  "demo_ahead = set_chain (demo_art_state [] []) (demo_chain_state demo_two [])"

definition demo_joining :: art_env where
  "demo_joining = demo_art_env\<lparr>ae_log := (ae_log demo_art_env)\<lparr>le_net := \<lparr>net_broadcast_block = (\<lambda>_. Ok ()),
     net_request_blockchain = (\<lambda>_ msg. map_err (\<lambda>_. ''remote error'')
       (fst (handle_incoming_blockchain_command demo_art_env msg demo_ahead)))\<rparr>\<rparr>\<rparr>"

lemma demo_joining_sel [simp]:
  "le_chain (ae_log demo_joining) = demo_env" "le_json (ae_log demo_joining) = le_json (ae_log demo_art_env)"
  "env_loop_alive (ae_log demo_joining)" "served_by (le_net (ae_log demo_joining)) [5] demo_art_env demo_ahead"
  "chain_part demo_ahead = demo_chain_state demo_two []"
  by (simp_all add: demo_joining_def served_by_def demo_ahead_def)

lemma demo_joining_table: "table_inv (ae_log demo_joining) (as_log (demo_art_state [] []))"
    "table_get (ae_log demo_joining) (as_log (demo_art_state [] [])) ''x'' = None"
proof -
  have st: "stores [] (ls_table (as_log (demo_art_state [] [])))" by (rule demo_art_stores) simp_all
  moreover have ok: "log_env_ok (ae_log demo_joining)"
    using demo_art_log_ok by (simp add: demo_joining_def log_env_ok_def)
  ultimately show "table_inv (ae_log demo_joining) (as_log (demo_art_state [] []))" by (auto simp: table_inv_def)
  show "table_get (ae_log demo_joining) (as_log (demo_art_state [] [])) ''x'' = None"
    by (simp add: table_get_spec[OF ok st] lit_safe_def)
qed

theorem joining_node_learns_the_log_witness:
  "\<exists>s1. node_pull_blocks demo_joining [5] (demo_art_state [] []) = (Ok (), s1) \<and>
     chain_blocks (chain_of (chain_part s1)) = demo_two \<and>
     table_get (ae_log demo_joining) (as_log s1) ''x'' = Some (demo_log ''x'' AddArtifact 6)"
proof -
  have "chain_wf \<lparr>chain_blocks = demo_two\<rparr>"
    using demo_wf by (auto simp: chain_wf_def Chain_len_def demo_defs less_Suc_eq)
  moreover have "blocks_codec_ok demo_bincode demo_two"
    by (simp add: blocks_codec_ok_def demo_bincode_def)
  moreover have "block_records demo_joining (demo_block [0] 1 [7]) (demo_log ''x'' AddArtifact 6)"
    by (simp add: block_records_def demo_block_def demo_tx_def fetch_payload_def lit_safe_def log_ok_def)
       (simp add: demo_art_env_def)
  ultimately show ?thesis
    using joining_node_learns_the_log[of demo_joining "demo_art_state [] []" "[5]" demo_art_env demo_ahead
        demo_two 1 "[demo_log ''x'' AddArtifact 6]"] demo_joining_table
    by (auto simp: demo_chain_part lit_safe_def)
qed

end
