(* ===== verification/Network_Event_Loop_Laws.thy ===== *)
theory Network_Event_Loop_Laws
  imports Network_Event_Loop
begin

text \<open>
  The event loop as an implementation of promises. The nine tables of the loop together are one map
  from slots to senders; \<open>promise_step\<close> says what may happen to it in a turn. The locale
  \<open>pending_table\<close> is the contract of one table and is interpreted on each of the nine.
\<close>

section \<open>Promises\<close>

datatype slot = OfBootstrap QueryId | OfDial PeerId | OfProvide QueryId | OfProviders QueryId
  | OfArtifact RequestId | OfBuild RequestId | OfMetric RequestId | OfBlockchain RequestId
  | OfBuildStatus RequestId

fun pending_of :: "PyrsiaEventLoop \<Rightarrow> slot \<Rightarrow> sender option" where
  "pending_of s (OfBootstrap q) = map_of (pending_bootstrap s) q"
| "pending_of s (OfDial p) = map_of (pending_dial s) p"
| "pending_of s (OfProvide q) = map_of (pending_start_providing s) q"
| "pending_of s (OfProviders q) = map_option plp_sender (map_of (pending_list_providers s) q)"
| "pending_of s (OfArtifact i) = map_of (pending_request_artifact s) i"
| "pending_of s (OfBuild i) = map_of (pending_request_build s) i"
| "pending_of s (OfMetric i) = map_of (pending_idle_metric_requests s) i"
| "pending_of s (OfBlockchain i) = map_of (pending_blockchain_requests s) i"
| "pending_of s (OfBuildStatus i) = map_of (pending_build_status_requests s) i"

record promises =
  open_slots :: "slot \<rightharpoonup> sender"
  kept :: "(sender \<times> Answer) list"
  broken :: "sender list"

definition promises_of :: "PyrsiaEventLoop \<Rightarrow> promises" where
  "promises_of s = \<lparr>open_slots = pending_of s, kept = answers_sent s, broken = senders_dropped s\<rparr>"

text \<open>
  One turn: nothing, a new promise (made, kept at once or broken at once), or an open promise kept.
  The label is the sender that came with the turn.
\<close>

inductive promise_step :: "sender option \<Rightarrow> promises \<Rightarrow> promises \<Rightarrow> bool" where
  idle: "promise_step None p p"
| made: "open_slots p k = None \<Longrightarrow>
    promise_step (Some x) p (p\<lparr>open_slots := (open_slots p)(k \<mapsto> x)\<rparr>)"
| kept_at_once: "promise_step (Some x) p (p\<lparr>kept := kept p @ [(x, a)]\<rparr>)"
| broken_at_once: "promise_step (Some x) p (p\<lparr>broken := broken p @ [x]\<rparr>)"
| kept_later: "open_slots p k = Some x \<Longrightarrow>
    promise_step None p (p\<lparr>open_slots := (open_slots p)(k := None), kept := kept p @ [(x, a)]\<rparr>)"

inductive_cases promise_stepE: "promise_step l p q"

text \<open>A turn that settles a slot with an answer keeps the promise in it, if there is one, with that answer.\<close>

definition settled :: "(slot \<times> Answer) option \<Rightarrow> PyrsiaEventLoop \<Rightarrow> PyrsiaEventLoop \<Rightarrow> bool" where
  "settled i s s' \<longleftrightarrow>
     (case i of
        None \<Rightarrow> promises_of s' = promises_of s
      | Some (k, a) \<Rightarrow>
        (case pending_of s k of
           None \<Rightarrow> promises_of s' = promises_of s
         | Some x \<Rightarrow> promises_of s' = (promises_of s)\<lparr>open_slots := (open_slots (promises_of s))(k := None),
                       kept := kept (promises_of s) @ [(x, a)]\<rparr>))"

lemma settled_step: "settled i s s' \<Longrightarrow> promise_step None (promises_of s) (promises_of s')"
  by (auto simp: settled_def promises_of_def split: option.splits
      intro: promise_step.idle promise_step.kept_later[of "promises_of s", unfolded promises_of_def, simplified])

section \<open>State the promises do not see\<close>

named_theorems promise_frame \<open>operations of the loop that leave the promises alone\<close>

lemma promises_of_eqI:
  assumes "pending_of s' = pending_of s" and "answers_sent s' = answers_sent s"
    and "senders_dropped s' = senders_dropped s"
  shows "promises_of s' = promises_of s"
  using assms by (simp add: promises_of_def)

lemma pending_of_eqI: "(\<And>k. pending_of s' k = pending_of s k) \<Longrightarrow> pending_of s' = pending_of s"
  by auto

lemma pending_of_call_swarm [simp]: "pending_of (call_swarm c s) = pending_of s"
  by (rule pending_of_eqI, rename_tac k, case_tac k) (simp_all add: call_swarm_def)

lemma call_swarm_sel [simp]:
  "answers_sent (call_swarm c s) = answers_sent s"
  "senders_dropped (call_swarm c s) = senders_dropped s"
  "bootstrapped (call_swarm c s) = bootstrapped s"
  "pending_dial (call_swarm c s) = pending_dial s"
  by (simp_all add: call_swarm_def)

lemma pending_of_send_answer [simp]: "pending_of (send_answer x a s) = pending_of s"
  by (rule pending_of_eqI, rename_tac k, case_tac k) (simp_all add: send_answer_def)

lemma pending_of_drop_sender [simp]: "pending_of (drop_sender x s) = pending_of s"
  by (rule pending_of_eqI, rename_tac k, case_tac k) (simp_all add: drop_sender_def)

lemma pending_of_bootstrapped [simp]: "pending_of (s\<lparr>bootstrapped := b\<rparr>) = pending_of s"
  by (rule pending_of_eqI, rename_tac k, case_tac k) simp_all

lemma pending_of_events [simp]: "pending_of (s\<lparr>events_sent := es\<rparr>) = pending_of s"
  by (rule pending_of_eqI, rename_tac k, case_tac k) simp_all

lemma send_answer_sel [simp]:
  "answers_sent (send_answer x a s) = answers_sent s @ [(x, a)]"
  "senders_dropped (send_answer x a s) = senders_dropped s"
  by (simp_all add: send_answer_def)

lemma drop_sender_sel [simp]:
  "answers_sent (drop_sender x s) = answers_sent s"
  "senders_dropped (drop_sender x s) = senders_dropped s @ [x]"
  by (simp_all add: drop_sender_def)

lemma promises_of_call_swarm [promise_frame]: "promises_of (call_swarm c s) = promises_of s"
  by (simp add: promises_of_def)

lemma promises_of_send_answer [promise_frame]:
  "promises_of (send_answer x a s) = (promises_of s)\<lparr>kept := kept (promises_of s) @ [(x, a)]\<rparr>"
  by (simp add: promises_of_def)

lemma promises_of_drop_sender [promise_frame]:
  "promises_of (drop_sender x s) = (promises_of s)\<lparr>broken := broken (promises_of s) @ [x]\<rparr>"
  by (simp add: promises_of_def)

lemma promises_of_bootstrapped [promise_frame]: "promises_of (s\<lparr>bootstrapped := b\<rparr>) = promises_of s"
  by (simp add: promises_of_def)

lemma promises_of_send_event [promise_frame]:
  "send_pyrsia_event e ev s = (r, s') \<Longrightarrow> promises_of s' = promises_of s"
  by (auto simp: send_pyrsia_event_def promises_of_def split: if_splits)

lemma send_answer_step: "promise_step (Some x) (promises_of s) (promises_of (send_answer x a s))"
  unfolding promises_of_send_answer by (rule promise_step.kept_at_once)

lemma drop_sender_step: "promise_step (Some x) (promises_of s) (promises_of (drop_sender x s))"
  unfolding promises_of_drop_sender by (rule promise_step.broken_at_once)

section \<open>One table\<close>

locale pending_table =
  fixes tab :: "PyrsiaEventLoop \<Rightarrow> ('k \<times> 'v) list"
    and upd :: "(('k \<times> 'v) list \<Rightarrow> ('k \<times> 'v) list) \<Rightarrow> PyrsiaEventLoop \<Rightarrow> PyrsiaEventLoop"
    and who :: "'v \<Rightarrow> sender"
    and slot :: "'k \<Rightarrow> slot"
  assumes tab_upd: "tab (upd f s) = f (tab s)"
    and pending_slot: "pending_of s (slot k) = map_option who (map_of (tab s) k)"
    and pending_other: "(\<And>k. i \<noteq> slot k) \<Longrightarrow> pending_of (upd f s) i = pending_of s i"
    and slot_eq: "slot k = slot k' \<longleftrightarrow> k = k'"
    and answers_upd: "answers_sent (upd f s) = answers_sent s"
    and dropped_upd: "senders_dropped (upd f s) = senders_dropped s"
begin

lemma pending_insert: "pending_of (upd (AList.update k v) s) = (pending_of s)(slot k \<mapsto> who v)"
proof
  fix i
  show "pending_of (upd (AList.update k v) s) i = ((pending_of s)(slot k \<mapsto> who v)) i"
  proof (cases "\<exists>k'. i = slot k'")
    case True
    then obtain k' where "i = slot k'" by blast
    then show ?thesis by (simp add: pending_slot tab_upd slot_eq update_conv)
  next
    case False
    then show ?thesis using pending_other[of i] by auto
  qed
qed

lemma pending_delete: "pending_of (upd (AList.delete k) s) = (pending_of s)(slot k := None)"
proof
  fix i
  show "pending_of (upd (AList.delete k) s) i = ((pending_of s)(slot k := None)) i"
  proof (cases "\<exists>k'. i = slot k'")
    case True
    then obtain k' where "i = slot k'" by blast
    then show ?thesis by (simp add: pending_slot tab_upd slot_eq delete_conv)
  next
    case False
    then show ?thesis using pending_other[of i] by auto
  qed
qed

lemma promises_insert:
  "promises_of (upd (AList.update k v) s) = (promises_of s)\<lparr>open_slots := (open_slots (promises_of s))(slot k \<mapsto> who v)\<rparr>"
  by (simp add: promises_of_def pending_insert answers_upd dropped_upd)

lemma insert_step:
  assumes "pending_of s (slot k) = None"
  shows "promise_step (Some (who v)) (promises_of s) (promises_of (upd (AList.update k v) s))"
  unfolding promises_insert by (rule promise_step.made) (simp add: promises_of_def assms)

lemma await_fresh:
  "pending_of s (slot k) = None \<Longrightarrow> await_answer tab upd who k v s = upd (AList.update k v) s"
  by (simp add: await_answer_def pending_slot)

lemma await_step:
  assumes "pending_of s (slot k) = None"
  shows "promise_step (Some (who v)) (promises_of s) (promises_of (await_answer tab upd who k v s))"
  unfolding await_fresh[OF assms] by (rule insert_step[OF assms])

lemma await_pending:
  assumes "pending_of s (slot k) = None"
  shows "pending_of (await_answer tab upd who k v s) = (pending_of s)(slot k \<mapsto> who v)"
  unfolding await_fresh[OF assms] by (rule pending_insert)

lemma resolve_panic_iff:
  "is_panic (fst (resolve tab upd who why k a s)) \<longleftrightarrow> pending_of s (slot k) = None"
  by (simp add: resolve_def pending_slot split: option.splits)

lemma resolve_promises:
  assumes "resolve tab upd who why k a s = (Ok (), s')"
  obtains x v where "pending_of s (slot k) = Some x" "x = who v" "map_of (tab s) k = Some v"
    "promises_of s' = (promises_of s)\<lparr>open_slots := (open_slots (promises_of s))(slot k := None),
       kept := kept (promises_of s) @ [(x, a v)]\<rparr>"
proof -
  from assms obtain v where v: "map_of (tab s) k = Some v"
    and s': "s' = send_answer (who v) (a v) (upd (AList.delete k) s)"
    by (auto simp: resolve_def split: option.splits)
  show thesis
    by (rule that[of "who v" v])
       (use v in \<open>simp_all add: s' pending_slot promises_of_def pending_delete answers_upd dropped_upd\<close>)
qed

lemma resolve_settled:
  assumes "resolve tab upd who why k a s = (Ok (), s')" and "\<And>v. map_of (tab s) k = Some v \<Longrightarrow> a v = b"
  shows "settled (Some (slot k, b)) s s'"
proof -
  obtain x v where "pending_of s (slot k) = Some x" "map_of (tab s) k = Some v"
    "promises_of s' = (promises_of s)\<lparr>open_slots := (open_slots (promises_of s))(slot k := None),
       kept := kept (promises_of s) @ [(x, a v)]\<rparr>"
    using resolve_promises[OF assms(1)] by metis
  then show ?thesis using assms(2)[of v] by (simp add: settled_def)
qed

end

text \<open>The nine tables.\<close>

interpretation bootstrap_table: pending_table pending_bootstrap pending_bootstrap_update id OfBootstrap
proof (unfold_locales, goal_cases)
  case (3 i f s)
  then show ?case by (cases i) auto
qed (simp_all add: option.map_id)

interpretation dial_table: pending_table pending_dial pending_dial_update id OfDial
proof (unfold_locales, goal_cases)
  case (3 i f s)
  then show ?case by (cases i) auto
qed (simp_all add: option.map_id)

interpretation provide_table: pending_table pending_start_providing pending_start_providing_update id OfProvide
proof (unfold_locales, goal_cases)
  case (3 i f s)
  then show ?case by (cases i) auto
qed (simp_all add: option.map_id)

interpretation providers_table:
  pending_table pending_list_providers pending_list_providers_update plp_sender OfProviders
proof (unfold_locales, goal_cases)
  case (3 i f s)
  then show ?case by (cases i) auto
qed (simp_all add: option.map_id)

interpretation artifact_table: pending_table pending_request_artifact pending_request_artifact_update id OfArtifact
proof (unfold_locales, goal_cases)
  case (3 i f s)
  then show ?case by (cases i) auto
qed (simp_all add: option.map_id)

interpretation build_table: pending_table pending_request_build pending_request_build_update id OfBuild
proof (unfold_locales, goal_cases)
  case (3 i f s)
  then show ?case by (cases i) auto
qed (simp_all add: option.map_id)

interpretation metric_table:
  pending_table pending_idle_metric_requests pending_idle_metric_requests_update id OfMetric
proof (unfold_locales, goal_cases)
  case (3 i f s)
  then show ?case by (cases i) auto
qed (simp_all add: option.map_id)

interpretation blockchain_table:
  pending_table pending_blockchain_requests pending_blockchain_requests_update id OfBlockchain
proof (unfold_locales, goal_cases)
  case (3 i f s)
  then show ?case by (cases i) auto
qed (simp_all add: option.map_id)

interpretation build_status_table:
  pending_table pending_build_status_requests pending_build_status_requests_update id OfBuildStatus
proof (unfold_locales, goal_cases)
  case (3 i f s)
  then show ?case by (cases i) auto
qed (simp_all add: option.map_id)

end
