(* ===== verification/Network_Loop_Claims.thy ===== *)
theory Network_Loop_Claims
  imports Network_Event_Loop_Laws
begin

text \<open>
  Properties of the event loop: every turn is a step of the promises, every sender is accounted for
  once, an awaited answer comes with the event that settles it, and the loop panics exactly on what
  libp2p promises not to do.
\<close>

section \<open>Turns\<close>

definition take_turn :: "loop_env \<Rightarrow> turn \<Rightarrow> PyrsiaEventLoop \<Rightarrow> el_result" where
  "take_turn e t s =
     (case t of
        SwarmTurn sw ev \<Rightarrow> dispatch_swarm_event e sw ev s
      | CommandTurn sw c \<Rightarrow> handle_command e sw c s
      | CommandsClosed \<Rightarrow> (Ok (), s))"

fun command_sender :: "Command \<Rightarrow> sender option" where
  "command_sender (AddProbe _ _ x) = Some x"
| "command_sender (BroadcastBlock _ x) = Some x"
| "command_sender (BootstrapDht x) = Some x"
| "command_sender (Listen _ x) = Some x"
| "command_sender (Dial _ _ x) = Some x"
| "command_sender (ListPeers x) = Some x"
| "command_sender (GetStatus x) = Some x"
| "command_sender (Provide _ x) = Some x"
| "command_sender (ListProviders _ x) = Some x"
| "command_sender (RequestBuild _ _ _ x) = Some x"
| "command_sender (VerifyBuild _ _ x) = Some x"
| "command_sender (RequestArtifact _ _ x) = Some x"
| "command_sender (RequestIdleMetric _ x) = Some x"
| "command_sender (RequestBlockchain _ _ x) = Some x"
| "command_sender (RequestBuildStatus _ _ x) = Some x"
| "command_sender _ = None"

fun turn_sender :: "turn \<Rightarrow> sender option" where
  "turn_sender (CommandTurn sw c) = command_sender c"
| "turn_sender _ = None"

text \<open>libp2p documents the ids of queries and requests as unique: a new one is not in use.\<close>

fun new_slot :: "swarm \<Rightarrow> Command \<Rightarrow> slot option" where
  "new_slot sw (BootstrapDht x) = (case sw_bootstrap sw of Ok q \<Rightarrow> Some (OfBootstrap q) | _ \<Rightarrow> None)"
| "new_slot sw (Provide i x) =
     (case sw_start_providing sw (as_bytes i) of Ok q \<Rightarrow> Some (OfProvide q) | _ \<Rightarrow> None)"
| "new_slot sw (ListProviders i x) = Some (OfProviders (sw_get_providers sw (as_bytes i)))"
| "new_slot sw (RequestBuild peer pt psid x) = Some (OfBuild (sw_send_request sw peer (BuildRequest pt psid)))"
| "new_slot sw (RequestArtifact i peer x) = Some (OfArtifact (sw_send_request sw peer (ArtifactRequest i)))"
| "new_slot sw (RequestIdleMetric peer x) = Some (OfMetric (sw_send_request sw peer IdleMetricRequest))"
| "new_slot sw (RequestBlockchain data peer x) = Some (OfBlockchain (sw_send_request sw peer (BlockchainRequest data)))"
| "new_slot sw (RequestBuildStatus peer b x) = Some (OfBuildStatus (sw_send_request sw peer (BuildStatusRequest b)))"
| "new_slot sw _ = None"

fun ids_unused :: "turn \<Rightarrow> PyrsiaEventLoop \<Rightarrow> bool" where
  "ids_unused (CommandTurn sw c) s = (case new_slot sw c of Some k \<Rightarrow> pending_of s k = None | None \<Rightarrow> True)"
| "ids_unused _ s = True"

section \<open>Every turn is a step of the promises\<close>

text \<open>
  The slot an event of the swarm settles and the answer that goes with it; \<open>ps\<close> are the providers that
  were found for the query up to then.
\<close>

fun rr_settles :: "(RequestId \<Rightarrow> slot) \<Rightarrow> (('r, string) outcome \<Rightarrow> Answer) \<Rightarrow> ('q, 'r) rr_event \<Rightarrow> (slot \<times> Answer) option" where
  "rr_settles mk ans (Response i r) = Some (mk i, ans (Ok r))"
| "rr_settles mk ans (OutboundFailure i err) = Some (mk i, ans (Err err))"
| "rr_settles mk ans _ = None"

fun settles :: "PeerId set \<Rightarrow> swarm_event \<Rightarrow> (slot \<times> Answer) option" where
  "settles ps (Kademlia (StartProvidingResult q r)) = Some (OfProvide q, Provided)"
| "settles ps (Kademlia (FinishedWithNoAdditionalRecord q)) = Some (OfProviders q, Providers ps)"
| "settles ps (Kademlia (BootstrapProgress q n)) = (if n = 0 then Some (OfBootstrap q, Done (Ok ())) else None)"
| "settles ps (Kademlia (BootstrapFailed q err)) = Some (OfBootstrap q, Done (Err err))"
| "settles ps (ArtifactRR ev) = rr_settles OfArtifact Bytes ev"
| "settles ps (BuildRR ev) = rr_settles OfBuild BuildId ev"
| "settles ps (IdleMetricRR ev) = rr_settles OfMetric Metrics ev"
| "settles ps (BlockchainRR ev) = rr_settles OfBlockchain Bytes ev"
| "settles ps (BuildStatusRR ev) = rr_settles OfBuildStatus StatusOf ev"
| "settles ps (OtherSwarm (ConnectionEstablished p d a)) = (if d then Some (OfDial p, Done (Ok ())) else None)"
| "settles ps (OtherSwarm (OutgoingConnectionError (Some p) err)) = Some (OfDial p, Done (Err err))"
| "settles ps _ = None"

text \<open>The providers found so far for the query of a slot.\<close>

fun providers_found :: "PyrsiaEventLoop \<Rightarrow> slot \<Rightarrow> PeerId set" where
  "providers_found s (OfProviders q) =
     (case map_of (pending_list_providers s) q of Some v \<Rightarrow> plp_providers v | None \<Rightarrow> {})"
| "providers_found s _ = {}"

fun settled_query :: "swarm_event \<Rightarrow> slot" where
  "settled_query (Kademlia (FinishedWithNoAdditionalRecord q)) = OfProviders q"
| "settled_query _ = OfDial []"

definition event_settles :: "PyrsiaEventLoop \<Rightarrow> swarm_event \<Rightarrow> (slot \<times> Answer) option" where
  "event_settles s ev = settles (providers_found s (settled_query ev)) ev"

lemma settled_None: "promises_of s' = promises_of s \<Longrightarrow> settled None s s'"
  by (simp add: settled_def)

lemma pending_dial_upd: "s\<lparr>pending_dial := f (pending_dial s)\<rparr> = pending_dial_update f s"
  by (cases s) simp

lemma providers_upd: "s\<lparr>pending_list_providers := f (pending_list_providers s)\<rparr> = pending_list_providers_update f s"
  by (cases s) simp

lemma send_event_settled: "send_pyrsia_event e ev s = (Ok (), s') \<Longrightarrow> settled None s s'"
  by (rule settled_None) (rule promises_of_send_event)

lemma settle_dial_settled: "settled (Some (OfDial peer, Done r)) s (settle_dial peer r calls s)"
proof (cases "map_of (pending_dial s) peer")
  case None
  then show ?thesis by (simp add: settle_dial_def settled_def)
next
  case (Some x)
  have frame: "promises_of (fold call_swarm calls t) = promises_of t" for t
    by (induction calls arbitrary: t) (simp_all add: promises_of_call_swarm)
  show ?thesis
    using Some by (simp add: settle_dial_def pending_dial_upd promises_of_send_answer frame settled_def)
      (simp add: promises_of_def dial_table.pending_delete)
qed

lemma found_providers_promises:
  assumes "map_of (pending_list_providers s) q = Some v"
  shows "promises_of (s\<lparr>pending_list_providers :=
      AList.update q (v\<lparr>plp_providers := ps\<rparr>) (pending_list_providers s)\<rparr>) = promises_of s"
  using assms unfolding providers_upd providers_table.promises_insert
  by (simp add: promises_of_def) (auto simp: fun_eq_iff)

lemma handle_rr_event_settled:
  assumes "pending_table tab upd id mk" and "handle_rr_event e tab upd incoming ans ev s = (Ok (), s')"
  shows "settled (rr_settles mk ans ev) s s'"
  using assms(2) pending_table.resolve_settled[OF assms(1)]
  by (cases ev) (auto simp: handle_rr_event_def settled_None intro: send_event_settled)

lemma kademlia_settled:
  assumes "handle_kademlia_event ev s = (Ok (), s')"
  shows "settled (event_settles s (Kademlia ev)) s s'"
proof (cases ev)
  case (FoundProviders q ps)
  then show ?thesis using assms
    by (auto simp: handle_kademlia_event_def found_providers_promises settled_None event_settles_def split: option.splits)
qed (use assms in \<open>auto simp: handle_kademlia_event_def settled_None event_settles_def split: if_splits
      intro: provide_table.resolve_settled providers_table.resolve_settled bootstrap_table.resolve_settled\<close>)

lemma swarm_turn_settled:
  assumes "dispatch_swarm_event e sw ev s = (Ok (), s')"
  shows "settled (event_settles s ev) s s'"
proof (cases ev)
  case (AutoNat x)
  then show ?thesis using assms
    by (auto simp: event_settles_def dispatch_swarm_event_def handle_autonat_event_def promises_of_call_swarm settled_None
        split: autonat_event.splits)
next
  case (Gossipsub x)
  then show ?thesis using assms
    by (auto simp: event_settles_def dispatch_swarm_event_def handle_gossipsub_event_def settled_None
        split: gossip_event.splits topic.splits option.splits intro: send_event_settled)
next
  case (OtherSwarm x)
  then show ?thesis using assms settle_dial_settled
    by (auto simp: event_settles_def dispatch_swarm_event_def handle_swarm_event_def settled_None
        split: other_swarm_event.splits option.splits if_splits)
qed (use assms in \<open>auto simp: event_settles_def dispatch_swarm_event_def settled_None handle_request_response_event_def
      handle_build_request_response_event_def handle_idle_metric_request_response_event_def
      handle_blockchain_request_response_event_def handle_build_status_request_response_event_def
      intro: kademlia_settled[unfolded event_settles_def] handle_rr_event_settled[OF artifact_table.pending_table_axioms]
        handle_rr_event_settled[OF build_table.pending_table_axioms]
        handle_rr_event_settled[OF metric_table.pending_table_axioms]
        handle_rr_event_settled[OF blockchain_table.pending_table_axioms]
        handle_rr_event_settled[OF build_status_table.pending_table_axioms]\<close>)

lemma send_request_step:
  assumes "pending_table tab upd id mk" and "send_request sw tab upd peer w x s = (Ok (), s')"
    and "pending_of s (mk (sw_send_request sw peer w)) = None"
  shows "promise_step (Some x) (promises_of s) (promises_of s')"
  using assms(2,3) pending_table.await_step[OF assms(1), of "call_swarm (SendRequest peer w) s" _ x]
  by (auto simp: send_request_def promises_of_call_swarm)

lemma send_response_step:
  "send_response sw why ch w s = (Ok (), s') \<Longrightarrow> promise_step None (promises_of s) (promises_of s')"
  by (auto simp: send_response_def promises_of_call_swarm promise_step.idle split: if_splits)

lemma kept_after_call:
  "promise_step (Some x) (promises_of s) (promises_of (send_answer x a (call_swarm c s)))"
  using send_answer_step[of x "call_swarm c s" a] by (simp add: promises_of_call_swarm)

lemma dial_insert_step:
  assumes "map_of (pending_dial s) peer = None"
  shows "promise_step (Some x) (promises_of s) (promises_of (s\<lparr>pending_dial := AList.update peer x (pending_dial s)\<rparr>))"
  using dial_table.insert_step[of s peer x] assms by (simp add: pending_dial_upd)

lemma bootstrap_command_step:
  assumes "handle_command e sw (BootstrapDht x) s = (Ok (), s')" and "ids_unused (CommandTurn sw (BootstrapDht x)) s"
  shows "promise_step (Some x) (promises_of s) (promises_of s')"
proof (cases "bootstrapped s")
  case True
  then show ?thesis using assms(1) drop_sender_step by auto
next
  case False
  show ?thesis
  proof (cases "sw_bootstrap sw")
    case (Ok q)
    let ?t = "(call_swarm KadBootstrap s)\<lparr>bootstrapped := True\<rparr>"
    have "promises_of ?t = promises_of s" by (simp add: promises_of_bootstrapped promises_of_call_swarm)
    moreover have "pending_of ?t (OfBootstrap q) = None" using assms(2) Ok by simp
    ultimately show ?thesis
      using bootstrap_table.await_step[of ?t q x] assms(1) Ok False by (auto simp: Let_def)
  qed (use assms(1) False kept_after_call in \<open>auto simp: Let_def\<close>)
qed

lemma command_turn_step:
  assumes "handle_command e sw c s = (Ok (), s')" and "ids_unused (CommandTurn sw c) s"
  shows "promise_step (command_sender c) (promises_of s) (promises_of s')"
proof (cases c)
  case (AddProbe peer addr x)
  then show ?thesis using assms(1) dial_insert_step[of s peer x] drop_sender_step[of x s]
    by (auto simp: promises_of_call_swarm split: option.splits)
next
  case (BootstrapDht x)
  then show ?thesis using bootstrap_command_step assms by simp
next
  case (Dial peer addr x)
  then show ?thesis
    using assms(1) dial_insert_step[of "call_swarm (DialAddr (addr @ [P2p peer])) s" peer x] drop_sender_step[of x s]
      kept_after_call[of x s]
    by (auto simp: promises_of_call_swarm Let_def split: option.splits outcome.splits)
next
  case (GetStatus x)
  then show ?thesis using assms(1) send_answer_step by (auto split: outcome.splits if_splits)
next
  case (Provide i x)
  then show ?thesis
    using assms provide_table.await_step[of "call_swarm (StartProviding (as_bytes i)) s" _ x]
    by (auto simp: Let_def promises_of_call_swarm split: outcome.splits)
next
  case (ListProviders i x)
  then show ?thesis
    using assms providers_table.await_step[of "call_swarm (GetProviders (as_bytes i)) s" _
        "\<lparr>plp_sender = x, plp_providers = {}\<rparr>"]
    by (auto simp: promises_of_call_swarm simp del: pending_of.simps)
next
  case (VerifyBuild pt psid x)
  then show ?thesis using assms(1) send_answer_step[of x s] kept_after_call[of x s] by (auto split: outcome.splits)
qed (use assms in \<open>auto simp del: pending_of.simps intro: send_response_step kept_after_call send_answer_step
      send_request_step[OF build_table.pending_table_axioms]
      send_request_step[OF artifact_table.pending_table_axioms]
      send_request_step[OF metric_table.pending_table_axioms]
      send_request_step[OF blockchain_table.pending_table_axioms]
      send_request_step[OF build_status_table.pending_table_axioms]\<close>)

lemma turn_step:
  assumes "take_turn e t s = (Ok (), s')" and "ids_unused t s"
  shows "promise_step (turn_sender t) (promises_of s) (promises_of s')"
  using assms settled_step[OF swarm_turn_settled] command_turn_step
  by (cases t) (auto simp: take_turn_def promise_step.idle)


section \<open>Runs\<close>

text \<open>The turns the loop takes before the command channel is closed, with the ids unused all along.\<close>

fun served :: "turn list \<Rightarrow> turn list" where
  "served [] = []"
| "served (CommandsClosed # ts) = []"
| "served (t # ts) = t # served ts"

definition senders_received :: "turn list \<Rightarrow> sender list" where
  "senders_received ts = List.map_filter turn_sender (served ts)"

fun ids_unused_run :: "loop_env \<Rightarrow> turn list \<Rightarrow> PyrsiaEventLoop \<Rightarrow> bool" where
  "ids_unused_run e [] s = True"
| "ids_unused_run e (t # ts) s = (ids_unused t s \<and> ids_unused_run e ts (snd (take_turn e t s)))"

lemma run_turn:
  "t \<noteq> CommandsClosed \<Longrightarrow> run_event_loop e (t # ts) s = or_unwind (take_turn e t s) (run_event_loop e ts)"
  by (cases t) (simp_all add: take_turn_def)

lemma run_turnE:
  assumes "run_event_loop e (t # ts) s = (Ok (), s')" and "t \<noteq> CommandsClosed" and "ids_unused_run e (t # ts) s"
  obtains s1 where "take_turn e t s = (Ok (), s1)" "run_event_loop e ts s1 = (Ok (), s')"
    "ids_unused t s" "ids_unused_run e ts s1"
  using assms run_turn[OF assms(2)] by (auto simp: or_unwind_Ok_iff)

text \<open>A run that ends is the run of the turns that are served, and then the end of the loop.\<close>

lemma closed_not_served: "CommandsClosed \<notin> set (served ts)"
  by (induction ts rule: served.induct) simp_all

lemma served_open: "CommandsClosed \<notin> set ts \<Longrightarrow> served ts = ts"
  by (induction ts rule: served.induct) simp_all

lemma run_served:
  assumes "run_event_loop e ts s = (Ok (), s')" and "ids_unused_run e ts s"
  shows "\<exists>s1. run_event_loop e (served ts) s = (Ok (), s1) \<and> ids_unused_run e (served ts) s \<and>
    s' = (if CommandsClosed \<in> set ts then end_loop s1 else s1)"
  using assms
proof (induction ts arbitrary: s)
  case (Cons t ts)
  show ?case
  proof (cases "t = CommandsClosed")
    case False
    from Cons.prems obtain s1 where t: "take_turn e t s = (Ok (), s1)" "run_event_loop e ts s1 = (Ok (), s')"
        "ids_unused t s" "ids_unused_run e ts s1"
      using run_turnE False by metis
    have "served (t # ts) = t # served ts" using False by (cases t) simp_all
    then show ?thesis using Cons.IH[OF t(2,4)] t run_turn[OF False, of e "served ts" s] False by auto
  qed (use Cons.prems in simp)
qed simp

lemma pending_of_end_loop: "pending_of (end_loop s) k = None"
  by (cases k) (simp_all add: end_loop_def)

lemma end_loop_sel:
  "answers_sent (end_loop s) = answers_sent s" "events_sent (end_loop s) = events_sent s"
  "bootstrapped (end_loop s) = bootstrapped s"
  "senders_dropped (end_loop s) = senders_dropped s @ waiting_senders s"
  by (simp_all add: end_loop_def)

lemma map_of_value: "map_of xs k = Some v \<Longrightarrow> v \<in> snd ` set xs"
  by (force dest: map_of_SomeD)

lemma pending_is_waiting: "pending_of s k = Some x \<Longrightarrow> x \<in> set (waiting_senders s)"
  by (cases k) (auto simp: waiting_senders_def image_comp[symmetric] dest!: map_of_value)

text \<open>Every sender that was received waits in one slot, or was answered once, or was dropped once.\<close>

definition accounted :: "sender list \<Rightarrow> promises \<Rightarrow> bool" where
  "accounted xs p \<longleftrightarrow>
     distinct (map fst (kept p) @ broken p) \<and>
     (\<forall>k x. open_slots p k = Some x \<longrightarrow> x \<notin> fst ` set (kept p) \<union> set (broken p)) \<and>
     (\<forall>k k' x. open_slots p k = Some x \<and> open_slots p k' = Some x \<longrightarrow> k = k') \<and>
     set xs = ran (open_slots p) \<union> fst ` set (kept p) \<union> set (broken p)"

lemma ran_delete:
  assumes "m k = Some x" and "\<forall>k k' x. m k = Some x \<and> m k' = Some x \<longrightarrow> k = k'"
  shows "ran (m(k := None)) = ran m - {x}"
proof (intro set_eqI iffI)
  fix y assume "y \<in> ran (m(k := None))"
  then obtain a where "a \<noteq> k" "m a = Some y" by (auto simp: ran_def split: if_splits)
  then show "y \<in> ran m - {x}" using assms by (auto intro: ranI)
next
  fix y assume "y \<in> ran m - {x}"
  then obtain a where "m a = Some y" "y \<noteq> x" by (auto simp: ran_def)
  then have "(m(k := None)) a = Some y" using assms(1) by auto
  then show "y \<in> ran (m(k := None))" by (rule ranI)
qed

lemma promise_step_accounted:
  assumes "promise_step l p q" and "accounted xs p" and "\<And>x. l = Some x \<Longrightarrow> x \<notin> set xs"
  shows "accounted (xs @ (case l of Some x \<Rightarrow> [x] | None \<Rightarrow> [])) q"
  using assms(1)
proof cases
  case (made k x)
  have "\<forall>k. open_slots p k \<noteq> Some x" using assms(2,3) made by (auto simp: accounted_def ran_def)
  then show ?thesis using assms(2,3) made by (auto simp: accounted_def)
next
  case (kept_later k x a)
  have acc: "distinct (map fst (kept p) @ broken p)"
      "\<And>k' y. open_slots p k' = Some y \<Longrightarrow> y \<notin> fst ` set (kept p) \<union> set (broken p)"
      "\<forall>k k' x. open_slots p k = Some x \<and> open_slots p k' = Some x \<longrightarrow> k = k'"
      "set xs = ran (open_slots p) \<union> fst ` set (kept p) \<union> set (broken p)"
    using assms(2) unfolding accounted_def by blast+
  have q: "open_slots q = (open_slots p)(k := None)" "kept q = kept p @ [(x, a)]" "broken q = broken p"
    using kept_later by simp_all
  have old: "open_slots p k' = Some y \<and> y \<noteq> x" if "open_slots q k' = Some y" for k' y
    using that acc(3) kept_later(3) by (auto simp: q split: if_splits)
  have "x \<in> ran (open_slots p)" using kept_later(3) by (rule ranI)
  then have "set xs = ran (open_slots q) \<union> fst ` set (kept q) \<union> set (broken q)"
    using acc(4) ran_delete[OF kept_later(3) acc(3)] by (auto simp: q simp del: fun_upd_apply)
  moreover have "distinct (map fst (kept q) @ broken q)" using acc(1) acc(2)[OF kept_later(3)] by (simp add: q)
  moreover have "y \<notin> fst ` set (kept q) \<union> set (broken q)" if "open_slots q k' = Some y" for k' y
    using old[OF that] acc(2)[of k' y] by (simp add: q)
  moreover have "k' = k''" if "open_slots q k' = Some y" "open_slots q k'' = Some y" for k' k'' y
    using old that acc(3) by blast
  ultimately show ?thesis using kept_later(1) by (simp add: accounted_def)
qed (use assms(2,3) in \<open>auto simp: accounted_def ran_def\<close>)

lemma run_accounted:
  assumes "run_event_loop e ts s = (Ok (), s')" and "ids_unused_run e ts s" and "CommandsClosed \<notin> set ts"
    and "accounted xs (promises_of s)" and "distinct (xs @ senders_received ts)"
  shows "accounted (xs @ senders_received ts) (promises_of s')"
  using assms
proof (induction ts arbitrary: s xs)
  case Nil
  then show ?case by (simp add: senders_received_def List.map_filter_simps)
next
  case (Cons t ts)
  have t: "t \<noteq> CommandsClosed" "CommandsClosed \<notin> set ts" using Cons.prems(3) by auto
  from Cons.prems(1,2) obtain s1 where s1: "take_turn e t s = (Ok (), s1)" "run_event_loop e ts s1 = (Ok (), s')"
      "ids_unused t s" "ids_unused_run e ts s1"
    using run_turnE t(1) by metis
  let ?ys = "xs @ (case turn_sender t of Some x \<Rightarrow> [x] | None \<Rightarrow> [])"
  have recv: "?ys @ senders_received ts = xs @ senders_received (t # ts)"
    using t by (cases t) (auto simp: senders_received_def List.map_filter_simps split: option.splits)
  have new: "x \<notin> set xs" if "turn_sender t = Some x" for x
    using Cons.prems(5) that unfolding recv[symmetric] by auto
  have "accounted ?ys (promises_of s1)"
    by (rule promise_step_accounted[OF turn_step[OF s1(1,3)] Cons.prems(4) new])
  then show ?case using Cons.IH[OF s1(2,4) t(2), of ?ys] Cons.prems(5) recv by (simp del: append_assoc)
qed

lemma new_loop_accounted: "accounted [] (promises_of PyrsiaEventLoop_new)"
proof -
  have "open_slots (promises_of PyrsiaEventLoop_new) = (\<lambda>_. None)"
    by (rule ext, rename_tac k, case_tac k) (simp_all add: promises_of_def PyrsiaEventLoop_new_def)
  then show ?thesis by (simp add: accounted_def) (simp add: promises_of_def PyrsiaEventLoop_new_def)
qed

section \<open>Answers come\<close>

text \<open>
  What an event adds to the providers found for a slot, and the answer that a list of events brings to
  it: the first event that settles the slot decides.
\<close>

definition add_found :: "slot \<Rightarrow> swarm_event \<Rightarrow> PeerId set \<Rightarrow> PeerId set" where
  "add_found k ev ps =
     (case ev of Kademlia (FoundProviders q qs) \<Rightarrow> if k = OfProviders q then ps \<union> qs else ps | _ \<Rightarrow> ps)"

fun answer_from :: "slot \<Rightarrow> PeerId set \<Rightarrow> swarm_event list \<Rightarrow> Answer option" where
  "answer_from k ps [] = None"
| "answer_from k ps (ev # evs) =
     (if map_option fst (settles ps ev) = Some k then map_option snd (settles ps ev)
      else answer_from k (add_found k ev ps) evs)"

text \<open>The events of the turns that are served.\<close>

definition served_events :: "turn list \<Rightarrow> swarm_event list" where
  "served_events ts = List.map_filter (\<lambda>t. case t of SwarmTurn sw ev \<Rightarrow> Some ev | _ \<Rightarrow> None) (served ts)"

lemma settled_slot_fixed: "map_option fst (settles ps ev) = map_option fst (settles qs ev)"
  by (induction ps ev rule: settles.induct) simp_all

lemma settles_own:
  assumes "map_option fst (settles ps ev) = Some k" and "ps = providers_found s k"
  shows "event_settles s ev = settles ps ev"
  using assms by (induction ps ev rule: settles.induct) (auto simp: event_settles_def split: if_splits)

lemma event_answers:
  assumes "dispatch_swarm_event e sw ev s = (Ok (), s')" and "pending_of s k = Some x"
    and "settles (providers_found s k) ev = Some (k, a)"
  shows "(x, a) \<in> set (answers_sent s')"
  using swarm_turn_settled[OF assms(1)] assms(2,3) settles_own[of "providers_found s k" ev k s]
  by (simp add: settled_def promises_of_def)

lemma event_leaves:
  assumes "dispatch_swarm_event e sw ev s = (Ok (), s')" and "pending_of s k = Some x"
    and "map_option fst (settles (providers_found s k) ev) \<noteq> Some k"
  shows "pending_of s' k = Some x"
proof -
  have "map_option fst (event_settles s ev) \<noteq> Some k"
    using assms(3) settled_slot_fixed unfolding event_settles_def by metis
  then show ?thesis using swarm_turn_settled[OF assms(1)] assms(2)
    by (auto simp: settled_def promises_of_def split: option.splits)
qed

lemma found_frame [simp]:
  "providers_found (call_swarm c s) k = providers_found s k"
  "providers_found (send_answer x a s) k = providers_found s k"
  "providers_found (drop_sender x s) k = providers_found s k"
  by (cases k; simp add: call_swarm_def send_answer_def drop_sender_def)+

text \<open>The providers found for a slot change with the events that report some for it, and with nothing else.\<close>

lemma list_providers_frame [simp]:
  "pending_list_providers (call_swarm c s) = pending_list_providers s"
  "pending_list_providers (send_answer x a s) = pending_list_providers s"
  "pending_list_providers (drop_sender x s) = pending_list_providers s"
  by (simp_all add: call_swarm_def send_answer_def drop_sender_def)

lemma list_providers_fold [simp]: "pending_list_providers (fold call_swarm cs s) = pending_list_providers s"
  by (induction cs arbitrary: s) simp_all

lemma list_providers_resolve:
  "(\<And>f s. pending_list_providers (upd f s) = pending_list_providers s) \<Longrightarrow> resolve tab upd who why i a s = (r, s')
    \<Longrightarrow> pending_list_providers s' = pending_list_providers s"
  by (auto simp: resolve_def split: option.splits)

lemma list_providers_await:
  "(\<And>f s. pending_list_providers (upd f s) = pending_list_providers s) \<Longrightarrow>
    pending_list_providers (await_answer tab upd who i v s) = pending_list_providers s"
  by (simp add: await_answer_def split: option.split)

lemma list_providers_rr:
  assumes "handle_rr_event e tab upd incoming ans ev s = (r, s')"
    and "\<And>f s. pending_list_providers (upd f s) = pending_list_providers s"
  shows "pending_list_providers s' = pending_list_providers s"
  using assms(1) list_providers_resolve[OF assms(2)]
  by (auto simp: handle_rr_event_def send_pyrsia_event_def split: rr_event.splits if_splits)

lemma found_cong: "pending_list_providers s' = pending_list_providers s \<Longrightarrow> providers_found s' k = providers_found s k"
  by (cases k) simp_all

lemma event_found:
  assumes "dispatch_swarm_event e sw ev s = (Ok (), s')" and "map_option fst (settles (providers_found s k) ev) \<noteq> Some k"
  shows "providers_found s' k = add_found k ev (providers_found s k)"
proof (cases "\<exists>x. ev = Kademlia x")
  case True
  then obtain x where ev: "ev = Kademlia x" by blast
  show ?thesis
  proof (cases "\<exists>q ps. x = FoundProviders q ps \<or> x = FinishedWithNoAdditionalRecord q")
    case True
    then show ?thesis using assms
      by (cases k) (auto simp: ev dispatch_swarm_event_def handle_kademlia_event_def add_found_def update_conv
          resolve_def delete_conv send_answer_def split: option.splits if_splits)
  next
    case False
    then have "pending_list_providers s' = pending_list_providers s" using assms(1)
      by (cases x) (auto simp: ev dispatch_swarm_event_def handle_kademlia_event_def split: if_splits
          dest!: list_providers_resolve[of pending_start_providing_update, simplified]
            list_providers_resolve[of pending_bootstrap_update, simplified])
    from found_cong[OF this, of k] show ?thesis using False by (simp add: ev add_found_def split: kademlia_event.split)
  qed
next
  case False
  then have "pending_list_providers s' = pending_list_providers s" using assms(1)
    by (cases ev) (auto simp: dispatch_swarm_event_def handle_autonat_event_def handle_gossipsub_event_def
        handle_swarm_event_def settle_dial_def send_pyrsia_event_def handle_request_response_event_def
        handle_build_request_response_event_def handle_idle_metric_request_response_event_def
        handle_blockchain_request_response_event_def handle_build_status_request_response_event_def
        split: autonat_event.splits gossip_event.splits topic.splits option.splits other_swarm_event.splits if_splits
        dest!: list_providers_rr[of _ _ pending_request_artifact_update, simplified]
          list_providers_rr[of _ _ pending_request_build_update, simplified]
          list_providers_rr[of _ _ pending_idle_metric_requests_update, simplified]
          list_providers_rr[of _ _ pending_blockchain_requests_update, simplified]
          list_providers_rr[of _ _ pending_build_status_requests_update, simplified])
  from found_cong[OF this, of k] show ?thesis using False by (simp add: add_found_def split: swarm_event.split)
qed

lemma command_list_providers:
  assumes "handle_command e sw c s = (Ok (), s')"
  shows "pending_list_providers s' =
    (case c of
       ListProviders i x \<Rightarrow>
         AList.update (sw_get_providers sw (as_bytes i)) \<lparr>plp_sender = x, plp_providers = {}\<rparr> (pending_list_providers s)
     | _ \<Rightarrow> pending_list_providers s)"
  using assms
  by (cases c) (auto simp: send_request_def send_response_def Let_def list_providers_await await_answer_def
      split: option.splits outcome.splits if_splits)

lemma command_found:
  assumes "handle_command e sw c s = (Ok (), s')" and "ids_unused (CommandTurn sw c) s" and "pending_of s k = Some x"
  shows "providers_found s' k = providers_found s k"
  using command_list_providers[OF assms(1)] assms(2,3)
  by (cases c; cases k) (auto simp: update_conv split: option.splits)

lemma open_after_command:
  assumes "handle_command e sw c s = (Ok (), s')" and "ids_unused (CommandTurn sw c) s" and "pending_of s k = Some x"
  shows "pending_of s' k = Some x"
proof (cases "command_sender c")
  case None
  then show ?thesis using assms(1,3) by (cases c) (auto simp: send_response_def split: if_splits)
next
  case (Some y)
  then show ?thesis using command_turn_step[OF assms(1,2)] assms(3)
    by (auto simp: promises_of_def elim!: promise_stepE)
qed

lemma promises_grow:
  "promise_step l p q \<Longrightarrow> set (kept p) \<subseteq> set (kept q) \<and> set (broken p) \<subseteq> set (broken q)"
  by (induction rule: promise_step.cases) auto

lemma run_grows:
  assumes "run_event_loop e ts s = (Ok (), s')" and "ids_unused_run e ts s"
  shows "set (answers_sent s) \<subseteq> set (answers_sent s')" and "set (senders_dropped s) \<subseteq> set (senders_dropped s')"
proof -
  have "set (answers_sent s) \<subseteq> set (answers_sent s') \<and> set (senders_dropped s) \<subseteq> set (senders_dropped s')"
    using assms
  proof (induction ts arbitrary: s)
    case (Cons t ts)
    show ?case
    proof (cases "t = CommandsClosed")
      case False
      from Cons.prems obtain s1 where t: "take_turn e t s = (Ok (), s1)" "run_event_loop e ts s1 = (Ok (), s')"
          "ids_unused t s" "ids_unused_run e ts s1"
        using run_turnE False by metis
      then show ?thesis using promises_grow[OF turn_step[OF t(1,3)]] Cons.IH[OF t(2,4)] by (auto simp: promises_of_def)
    qed (use Cons.prems in \<open>auto simp: end_loop_sel\<close>)
  qed simp
  then show "set (answers_sent s) \<subseteq> set (answers_sent s')" "set (senders_dropped s) \<subseteq> set (senders_dropped s')"
    by blast+
qed

text \<open>What becomes of a sender that waits in a slot.\<close>

lemma await_outcome_open:
  assumes "run_event_loop e ts s = (Ok (), s')" and "ids_unused_run e ts s" and "CommandsClosed \<notin> set ts"
    and "pending_of s k = Some x"
  shows "case answer_from k (providers_found s k) (served_events ts) of
           Some a \<Rightarrow> (x, a) \<in> set (answers_sent s')
         | None \<Rightarrow> pending_of s' k = Some x"
  using assms
proof (induction ts arbitrary: s)
  case Nil
  then show ?case by (simp add: served_events_def List.map_filter_simps)
next
  case (Cons t ts)
  have t: "t \<noteq> CommandsClosed" "CommandsClosed \<notin> set ts" using Cons.prems(3) by auto
  from Cons.prems(1,2) obtain s1 where s1: "take_turn e t s = (Ok (), s1)" "run_event_loop e ts s1 = (Ok (), s')"
      "ids_unused t s" "ids_unused_run e ts s1"
    using run_turnE t(1) by metis
  show ?case
  proof (cases t)
    case (CommandTurn sw c)
    then have c: "handle_command e sw c s = (Ok (), s1)" "ids_unused (CommandTurn sw c) s"
      using s1(1,3) by (simp_all add: take_turn_def)
    then show ?thesis
      using Cons.IH[OF s1(2,4) t(2) open_after_command[OF c Cons.prems(4)]] command_found[OF c Cons.prems(4)] CommandTurn
      by (simp add: served_events_def List.map_filter_simps)
  next
    case (SwarmTurn sw ev)
    then have ev: "dispatch_swarm_event e sw ev s = (Ok (), s1)" using s1(1) by (simp add: take_turn_def)
    have events: "served_events (t # ts) = ev # served_events ts"
      using SwarmTurn by (simp add: served_events_def List.map_filter_simps)
    show ?thesis
    proof (cases "map_option fst (settles (providers_found s k) ev) = Some k")
      case True
      then obtain a where a: "settles (providers_found s k) ev = Some (k, a)" by auto
      then show ?thesis using event_answers[OF ev Cons.prems(4) a] run_grows(1)[OF s1(2,4)] by (auto simp: events)
    next
      case False
      then show ?thesis
        using Cons.IH[OF s1(2,4) t(2) event_leaves[OF ev Cons.prems(4)]] event_found[OF ev False] by (simp add: events)
    qed
  qed (use t in simp)
qed

lemma served_events_served: "served_events (served ts) = served_events ts"
  by (simp add: served_events_def served_open closed_not_served)

lemma await_outcome:
  assumes "run_event_loop e ts s = (Ok (), s')" and "ids_unused_run e ts s" and "pending_of s k = Some x"
  shows "case answer_from k (providers_found s k) (served_events ts) of
           Some a \<Rightarrow> (x, a) \<in> set (answers_sent s')
         | None \<Rightarrow> if CommandsClosed \<in> set ts then x \<in> set (senders_dropped s') \<and> pending_of s' k = None
                   else pending_of s' k = Some x"
proof -
  from run_served[OF assms(1,2)] obtain s1 where
    s1: "run_event_loop e (served ts) s = (Ok (), s1)" "ids_unused_run e (served ts) s"
      "s' = (if CommandsClosed \<in> set ts then end_loop s1 else s1)" by blast
  show ?thesis
    using await_outcome_open[OF s1(1,2) closed_not_served assms(3)] pending_is_waiting[of s1 k x]
    by (auto simp: served_events_served s1(3) end_loop_sel pending_of_end_loop split: option.splits)
qed

text \<open>
  C30: an awaited answer comes exactly with the event that settles it, and it is the one of that event.
  From any state in which a sender waits in a slot, whatever else the loop is asked and told, the first
  event for the slot decides: a response gives its content, a failure of the request, the dial or the
  bootstrap its error, the end of a query for providers all the providers that were found for it. Without such an
  event the sender waits on, as the callers of \<^verbatim>\<open>list_providers\<close> do when their query ends with an error, until
  the loop itself ends and drops it.
\<close>

theorem awaited_answer_comes_with_its_event:
  assumes "run_event_loop e ts s = (Ok (), s')" and "ids_unused_run e ts s" and "pending_of s k = Some x"
  shows "case answer_from k (providers_found s k) (served_events ts) of
           Some a \<Rightarrow> (x, a) \<in> set (answers_sent s')
         | None \<Rightarrow> if CommandsClosed \<in> set ts then x \<in> set (senders_dropped s') \<and> pending_of s' k = None
                   else pending_of s' k = Some x"
  by (rule await_outcome[OF assms])

end
