(* ===== verification/Bounded_Channel.thy ===== *)
theory Bounded_Channel
  imports Pyrsia_Prelude
begin

text \<open>
  What tokio's bounded \<^verbatim>\<open>mpsc\<close> channels promise to the loops of a node: a message enters at the end when there
  is room, and the receiver takes the one in front. A step of the system does one of the two, or leaves
  the channel alone. Interpreted on the channel of the build event loop and on the two channels between the
  network loop and \<^verbatim>\<open>main\<close>.
\<close>

locale bounded_channel =
  fixes waiting :: "'s \<Rightarrow> 'm list"
    and taken :: "'s \<Rightarrow> 'm list"
    and accepted :: "'s \<Rightarrow> 'm list"
    and capacity :: nat
    and step :: "'s \<Rightarrow> 's \<Rightarrow> bool"
  assumes channel_step: "step s s' \<Longrightarrow>
      waiting s' = waiting s \<and> taken s' = taken s \<and> accepted s' = accepted s \<or>
      (\<exists>m. length (waiting s) < capacity \<and> waiting s' = waiting s @ [m] \<and> taken s' = taken s \<and>
         accepted s' = accepted s @ [m]) \<or>
      (\<exists>m. waiting s = m # waiting s' \<and> taken s' = taken s @ [m] \<and> accepted s' = accepted s)"
begin

definition in_order :: "'s \<Rightarrow> bool" where
  "in_order s \<longleftrightarrow> accepted s = taken s @ waiting s \<and> length (waiting s) \<le> capacity"

lemma step_in_order: "step s s' \<Longrightarrow> in_order s \<Longrightarrow> in_order s'"
  using channel_step[of s s'] by (auto simp: in_order_def)

lemma run_in_order: "step\<^sup>*\<^sup>* s s' \<Longrightarrow> in_order s \<Longrightarrow> in_order s'"
  by (induction rule: rtranclp_induct) (auto intro: step_in_order)

text \<open>Nothing that was accepted is lost, and nothing overtakes it.\<close>

lemma accepted_grows: "step\<^sup>*\<^sup>* s s' \<Longrightarrow> \<exists>ms. accepted s' = accepted s @ ms"
proof (induction rule: rtranclp_induct)
  case (step s1 s2)
  then obtain ms where "accepted s1 = accepted s @ ms" by blast
  then show ?case using channel_step[OF step.hyps(2)] by auto
qed simp

lemma taken_before_later:
  assumes "step\<^sup>*\<^sup>* s s'" and "in_order s"
  shows "\<exists>ms. taken s' @ waiting s' = taken s @ waiting s @ ms"
  using accepted_grows[OF assms(1)] run_in_order[OF assms] assms(2) by (simp add: in_order_def)

end

end
