(* ===== verification/Node_Channels.thy ===== *)
theory Node_Channels
  imports Node_Process Network_Loop_Claims Bounded_Channel
begin

text \<open>
  The tasks of a node beside each other: the network event loop (\<^verbatim>\<open>PyrsiaEventLoop::run\<close>), the loop of \<^verbatim>\<open>main\<close>, and the
  tasks that call the p2p client (HTTP requests, the services). They meet in two channels with room for
  32 each, made by \<^verbatim>\<open>setup_libp2p_swarm\<close> in \<^verbatim>\<open>src/src/network/p2p.rs\<close>: events from the network loop to \<^verbatim>\<open>main\<close>, and commands to
  the network loop. Whoever sends into a full channel waits. A step of the node is a step of one task; the
  order in which the tasks run is open.
\<close>

section \<open>What main answers\<close>

text \<open>The handler of an event up to the command it sends at the end, if it sends one.\<close>

definition event_reply ::
    "node_env \<Rightarrow> host \<times> host \<times> host \<Rightarrow> PyrsiaEvent \<Rightarrow> art_state \<Rightarrow> (Command option, anyhow) outcome \<times> art_state" where
  "event_reply e hs ev a =
     (case ev of
        EvRequestArtifact i ch \<Rightarrow> (map_ok (\<lambda>bs. Some (RespondArtifact bs ch)) (get_artifact_locally (ne_art e) i a), a)
      | EvRequestBuild pt psid ch \<Rightarrow>
          (map_ok (\<lambda>i. Some (RespondBuild i ch)) (map_err AnyBuild (ev_start_build (ne_art e) pt psid)), a)
      | EvVerifyBuild peer pt psid \<Rightarrow> (map_ok (\<lambda>_. None) (map_err AnyBuild (ne_verify_build e peer pt psid)), a)
      | EvIdleMetricRequest ch \<Rightarrow>
          (case hs of (h1, h2, h3) \<Rightarrow>
             (Ok (Some (RespondIdleMetric (f64_to_le_bytes (get_quality_metric h1 h2 h3)) ch)), a))
      | EvBlockchainRequest data ch \<Rightarrow>
          (let (r, a1) = handle_incoming_blockchain_command (ne_art e) data a
           in (map_ok (\<lambda>response. map_option (RespondBlockchain response) ch) r, a1))
      | EvRequestBuildStatus i ch \<Rightarrow>
          (map_ok (\<lambda>st. Some (RespondBuildStatus st ch)) (map_err AnyBuild (ev_build_status (ne_art e) i)), a))"

definition send_reply ::
    "node_env \<Rightarrow> swarm \<Rightarrow> Command option \<Rightarrow> node_state \<Rightarrow> (unit, anyhow) outcome \<times> node_state" where
  "send_reply e sw c s =
     (case c of
        None \<Rightarrow> (Ok (), s)
      | Some c \<Rightarrow> (let (r, cl) = tell_loop (ne_loop e) sw c (nd_client s) in (map_err AnyMsg r, s\<lparr>nd_client := cl\<rparr>)))"

lemma handle_pyrsia_event_reply:
  "handle_pyrsia_event e sw hs ev s =
     (let (r, a) = event_reply e hs ev (nd_art s) in sbind (r, s\<lparr>nd_art := a\<rparr>) (send_reply e sw))"
proof -
  have main: "respond r f s' = sbind (map_ok g r, s') (send_reply e sw)"
    if "\<And>v cl. f v cl = (case g v of None \<Rightarrow> (Ok (), cl) | Some c \<Rightarrow> tell_loop (ne_loop e) sw c cl)"
    for r :: "('a, anyhow) outcome" and f g s'
    by (cases r) (auto simp: respond_def send_reply_def that split: option.split)
  note defs = handle_pyrsia_event_def event_reply_def handle_request_artifact_def handle_request_build_def
    handle_verify_build_def handle_request_idle_metric_def handle_blockchain_request_def
    handle_request_build_status_def Client_respond_artifact_def Client_respond_build_def
    Client_respond_idle_metric_def Client_respond_blockchain_def Client_respond_build_status_def Let_def
  show ?thesis
  proof (cases ev)
    case (EvVerifyBuild peer pt psid)
    then show ?thesis by (cases "ne_verify_build e peer pt psid") (simp_all add: defs send_reply_def)
  next
    case (EvIdleMetricRequest ch)
    then show ?thesis by (auto simp: defs respond_def send_reply_def split: prod.splits)
  qed (auto simp: defs split: prod.splits option.splits intro!: main)
qed

text \<open>
  The loops that a handler of \<^verbatim>\<open>main\<close> asks, when it comes to that: the blockchain event loop for blockchain
  requests that can be read, the build event loop for everything about builds.
\<close>

datatype service_loop = ChainLoop | BuildLoop

definition asks_chain :: "bincode \<Rightarrow> bytes \<Rightarrow> bool" where
  "asks_chain bin data \<longleftrightarrow>
     data \<noteq> [] \<and>
     (case BlockchainCommand_try_from (hd data) of
        Ok Broadcast \<Rightarrow> 17 \<le> length data \<and> de_ordinal bin (take 16 (drop 1 data)) \<noteq> None \<and>
          de_block bin (drop 17 data) \<noteq> None
      | Ok PullFromPeer \<Rightarrow> 17 \<le> length data \<and> de_ordinal bin (take 16 (drop 1 data)) \<noteq> None \<and>
          de_ordinal bin (drop 17 data) \<noteq> None
      | Ok QueryHighestBlockOrdinal \<Rightarrow> True
      | _ \<Rightarrow> False)"

fun asked_loop :: "node_env \<Rightarrow> PyrsiaEvent \<Rightarrow> service_loop option" where
  "asked_loop e (EvRequestArtifact i ch) = None"
| "asked_loop e (EvRequestBuild pt psid ch) = Some BuildLoop"
| "asked_loop e (EvVerifyBuild peer pt psid) = Some BuildLoop"
| "asked_loop e (EvIdleMetricRequest ch) = None"
| "asked_loop e (EvBlockchainRequest data ch) =
     (if asks_chain (env_bincode (le_chain (ae_log (ne_art e)))) data then Some ChainLoop else None)"
| "asked_loop e (EvRequestBuildStatus i ch) = Some BuildLoop"

text \<open>A request that does not come to the blockchain loop fails the same way in every state.\<close>

lemma unasked_chain:
  assumes "\<not> asks_chain (env_bincode (le_chain (ae_log e))) data"
  shows "\<exists>r. \<forall>s. handle_incoming_blockchain_command e data s = (r, s) \<and> (\<forall>v. r \<noteq> Ok v)"
  using assms
  by (cases data; cases "BlockchainCommand_try_from (hd data)";
      cases "de_ordinal (env_bincode (le_chain (ae_log e))) (take 16 (drop 1 data))")
     (auto simp: handle_incoming_blockchain_command_def asks_chain_def byte_at_def slice_def slice_from_def Let_def
       split: BlockchainCommand.splits option.splits)

section \<open>Steps of the node\<close>

definition CHANNEL_SIZE :: nat where
  "CHANNEL_SIZE = 32"

text \<open>
  Where \<^verbatim>\<open>main\<close> is: announcing the artifacts it stores (\<^verbatim>\<open>provide_local_artifacts\<close>, each call with its one-shot
  sender), awaiting the answer to one announcement, listening for events, in the handler of one, or
  sending the answer to it.
\<close>

datatype main_task =
    Announcing "(string \<times> sender) list"
  | Awaiting sender "(string \<times> sender) list"
  | Listening
  | Serving PyrsiaEvent
  | Responding Command

fun to_announce :: "sender \<Rightarrow> path list \<Rightarrow> (string \<times> sender) list" where
  "to_announce x [] = []"
| "to_announce x (p # ps) =
     (case file_name p of
        None \<Rightarrow> to_announce x ps
      | Some f \<Rightarrow> (name_stem f, x) # to_announce (Suc x) ps)"

text \<open>
  \<open>nr_outbox\<close> is the event that the network loop still has to send. \<open>nr_busy\<close> is the sender of the call of
  the p2p client that the blockchain or the build event loop made last: until it is answered this loop
  serves nobody. \<open>nr_turns\<close> and \<open>nr_received\<close> record what the two loops have done, \<open>nr_accepted\<close> all commands
  ever sent.
\<close>

record node_run =
  nr_loop :: PyrsiaEventLoop
  nr_outbox :: "PyrsiaEvent list"
  nr_events :: "PyrsiaEvent list"
  nr_commands :: "Command list"
  nr_art :: art_state
  nr_main :: main_task
  nr_busy :: "service_loop \<Rightarrow> sender option"
  nr_alive :: bool
  nr_turns :: "turn list"
  nr_received :: "PyrsiaEvent list"
  nr_accepted :: "Command list"

text \<open>A directory that cannot be listed ends \<^verbatim>\<open>main\<close> at once.\<close>

definition node_start :: "node_env \<Rightarrow> sender \<Rightarrow> PyrsiaEventLoop \<Rightarrow> art_state \<Rightarrow> node_run" where
  "node_start e x l a =
     (let r = \<lparr>nr_loop = l, nr_outbox = [], nr_events = [], nr_commands = [], nr_art = a, nr_main = Listening,
               nr_busy = (\<lambda>_. None), nr_alive = True, nr_turns = [], nr_received = [], nr_accepted = []\<rparr> in
      case list_artifacts (ae_io (ne_art e)) (ae_storage (ne_art e)) (as_files a) of
        Ok ps \<Rightarrow> r\<lparr>nr_main := Announcing (to_announce x ps)\<rparr>
      | _ \<Rightarrow> r\<lparr>nr_alive := False\<rparr>)"

text \<open>The turn of the network loop is over; an event it sends comes last in its handler.\<close>

definition turn_taken :: "turn \<Rightarrow> PyrsiaEventLoop \<Rightarrow> node_run \<Rightarrow> node_run" where
  "turn_taken t l r = r\<lparr>nr_loop := l, nr_outbox := drop (length (events_sent (nr_loop r))) (events_sent l),
     nr_turns := nr_turns r @ [t]\<rparr>"

definition event_taken :: "PyrsiaEvent \<Rightarrow> PyrsiaEvent list \<Rightarrow> node_run \<Rightarrow> node_run" where
  "event_taken ev rest r = r\<lparr>nr_events := rest, nr_received := nr_received r @ [ev], nr_main := Serving ev\<rparr>"

definition event_served :: "(Command option, anyhow) outcome \<Rightarrow> art_state \<Rightarrow> node_run \<Rightarrow> node_run" where
  "event_served res a r =
     r\<lparr>nr_art := a, nr_main := (case res of Ok (Some c) \<Rightarrow> Responding c | _ \<Rightarrow> Listening)\<rparr>"

definition loop_free :: "node_run \<Rightarrow> service_loop \<Rightarrow> bool" where
  "loop_free r sv \<longleftrightarrow> (case nr_busy r sv of None \<Rightarrow> True | Some x \<Rightarrow> receive x (nr_loop r) \<noteq> None)"

definition can_serve :: "node_env \<Rightarrow> node_run \<Rightarrow> PyrsiaEvent \<Rightarrow> bool" where
  "can_serve e r ev \<longleftrightarrow> (case asked_loop e ev of None \<Rightarrow> True | Some sv \<Rightarrow> loop_free r sv)"

definition command_sent :: "Command \<Rightarrow> node_run \<Rightarrow> node_run" where
  "command_sent c r = r\<lparr>nr_commands := nr_commands r @ [c], nr_accepted := nr_accepted r @ [c]\<rparr>"

definition room_for_command :: "node_run \<Rightarrow> bool" where
  "room_for_command r \<longleftrightarrow> length (nr_commands r) < CHANNEL_SIZE"

text \<open>
  Steps of the two loops on what they have been given; a panic of one of them, or an error that \<^verbatim>\<open>main\<close>
  returns, stops the model.
\<close>

inductive loops_step :: "node_env \<Rightarrow> node_run \<Rightarrow> node_run \<Rightarrow> bool" for e where
  net_command: "nr_alive r \<Longrightarrow> nr_outbox r = [] \<Longrightarrow> nr_commands r = c # cs \<Longrightarrow>
     handle_command (ne_loop e) sw c (nr_loop r) = (Ok (), l) \<Longrightarrow>
     loops_step e r (turn_taken (CommandTurn sw c) l (r\<lparr>nr_commands := cs\<rparr>))"
| net_panic: "nr_alive r \<Longrightarrow> nr_outbox r = [] \<Longrightarrow> nr_commands r = c # cs \<Longrightarrow>
     handle_command (ne_loop e) sw c (nr_loop r) = (Panic m, l) \<Longrightarrow> loops_step e r (r\<lparr>nr_alive := False\<rparr>)"
| net_send: "nr_alive r \<Longrightarrow> nr_outbox r = ev # evs \<Longrightarrow> length (nr_events r) < CHANNEL_SIZE \<Longrightarrow>
     loops_step e r (r\<lparr>nr_outbox := evs, nr_events := nr_events r @ [ev]\<rparr>)"
| main_announce: "nr_alive r \<Longrightarrow> nr_main r = Announcing ((i, x) # as) \<Longrightarrow> room_for_command r \<Longrightarrow>
     loops_step e r (command_sent (Provide i x) (r\<lparr>nr_main := Awaiting x as\<rparr>))"
| main_answered: "nr_alive r \<Longrightarrow> nr_main r = Awaiting x as \<Longrightarrow> receive x (nr_loop r) = Some (Ok v) \<Longrightarrow>
     loops_step e r (r\<lparr>nr_main := Announcing as\<rparr>)"
| main_returns: "nr_alive r \<Longrightarrow> nr_main r = Awaiting x as \<Longrightarrow> receive x (nr_loop r) = Some (Err m) \<Longrightarrow>
     loops_step e r (r\<lparr>nr_alive := False\<rparr>)"
| main_listen: "nr_alive r \<Longrightarrow> nr_main r = Announcing [] \<Longrightarrow> loops_step e r (r\<lparr>nr_main := Listening\<rparr>)"
| main_take: "nr_alive r \<Longrightarrow> nr_main r = Listening \<Longrightarrow> nr_events r = ev # rest \<Longrightarrow>
     loops_step e r (event_taken ev rest r)"
| main_serve: "nr_alive r \<Longrightarrow> nr_main r = Serving ev \<Longrightarrow> can_serve e r ev \<Longrightarrow>
     event_reply e hs ev (nr_art r) = (res, a) \<Longrightarrow> \<not> is_panic res \<Longrightarrow> loops_step e r (event_served res a r)"
| main_panic: "nr_alive r \<Longrightarrow> nr_main r = Serving ev \<Longrightarrow> can_serve e r ev \<Longrightarrow>
     event_reply e hs ev (nr_art r) = (Panic m, a) \<Longrightarrow> loops_step e r (r\<lparr>nr_alive := False\<rparr>)"
| main_respond: "nr_alive r \<Longrightarrow> nr_main r = Responding c \<Longrightarrow> room_for_command r \<Longrightarrow>
     loops_step e r (command_sent c (r\<lparr>nr_main := Listening\<rparr>))"

text \<open>
  What comes from outside: an event of the swarm, which the network loop takes when it has nothing to
  send; a command of another task; a call of the client by the blockchain or the build event loop, in the
  middle of what it does for others; a change of the services by another task.
\<close>

inductive node_step :: "node_env \<Rightarrow> node_run \<Rightarrow> node_run \<Rightarrow> bool" for e where
  loops: "loops_step e r r' \<Longrightarrow> node_step e r r'"
| swarm: "nr_alive r \<Longrightarrow> nr_outbox r = [] \<Longrightarrow>
     dispatch_swarm_event (ne_loop e) sw ev (nr_loop r) = (Ok (), l) \<Longrightarrow>
     node_step e r (turn_taken (SwarmTurn sw ev) l r)"
| swarm_panic: "nr_alive r \<Longrightarrow> nr_outbox r = [] \<Longrightarrow>
     dispatch_swarm_event (ne_loop e) sw ev (nr_loop r) = (Panic m, l) \<Longrightarrow> node_step e r (r\<lparr>nr_alive := False\<rparr>)"
| caller: "nr_alive r \<Longrightarrow> room_for_command r \<Longrightarrow> node_step e r (command_sent c r)"
| service_calls: "nr_alive r \<Longrightarrow> loop_free r sv \<Longrightarrow> command_sender c = Some x \<Longrightarrow> room_for_command r \<Longrightarrow>
     node_step e r (command_sent c (r\<lparr>nr_busy := (nr_busy r)(sv \<mapsto> x)\<rparr>))"
| services: "nr_alive r \<Longrightarrow> node_step e r (r\<lparr>nr_art := a\<rparr>)"

inductive_simps loops_step_iff: "loops_step e r r'"

abbreviation node_steps :: "node_env \<Rightarrow> node_run \<Rightarrow> node_run \<Rightarrow> bool" where
  "node_steps e \<equiv> (node_step e)\<^sup>*\<^sup>*"

section \<open>What a turn of the network loop sends\<close>

text \<open>A command is answered through its own sender; only events of the swarm go to \<^verbatim>\<open>main\<close>, one each at most.\<close>

lemma events_sent_helpers [simp]:
  "events_sent (call_swarm c s) = events_sent s"
  "events_sent (send_answer x v s) = events_sent s"
  "events_sent (drop_sender x s) = events_sent s"
  by (simp_all add: call_swarm_def send_answer_def drop_sender_def)

lemma events_sent_await_answer:
  "(\<And>f s. events_sent (upd f s) = events_sent s) \<Longrightarrow> events_sent (await_answer tab upd who k v s) = events_sent s"
  by (simp add: await_answer_def split: option.split)

lemma events_sent_resolve:
  "(\<And>f s. events_sent (upd f s) = events_sent s) \<Longrightarrow> resolve tab upd who why k a s = (r, l) \<Longrightarrow>
     events_sent l = events_sent s"
  by (auto simp: resolve_def split: option.splits)

lemma handle_command_sends_nothing:
  "handle_command e sw c s = (r, l) \<Longrightarrow> events_sent l = events_sent s"
  by (cases c)
     (auto simp: send_request_def send_response_def Let_def events_sent_await_answer
       split: option.splits outcome.splits if_splits)

lemma events_sent_settle_dial [simp]: "events_sent (settle_dial p r cs s) = events_sent s"
proof -
  have "events_sent (fold call_swarm cs s) = events_sent s" for s by (induction cs arbitrary: s) simp_all
  then show ?thesis by (simp add: settle_dial_def split: option.split)
qed

lemma rr_event_sends_one:
  assumes "handle_rr_event e tab upd inc ans ev s = (r, l)" and "\<And>f s. events_sent (upd f s) = events_sent s"
  shows "\<exists>es. events_sent l = events_sent s @ es \<and> length es \<le> Suc 0"
  using assms(1)
  by (auto simp: handle_rr_event_def send_pyrsia_event_def dest!: events_sent_resolve[OF assms(2)]
      split: rr_event.splits if_splits)

lemma dispatch_swarm_event_sends_one:
  assumes "dispatch_swarm_event e sw ev s = (r, l)"
  shows "\<exists>es. events_sent l = events_sent s @ es \<and> length es \<le> Suc 0"
proof (cases ev)
  case (Kademlia k)
  then show ?thesis
    using assms by (cases k) (auto simp: dispatch_swarm_event_def handle_kademlia_event_def
      dest!: events_sent_resolve[rotated] split: option.splits if_splits)
next
  case (Gossipsub g)
  then show ?thesis
    using assms by (cases g) (auto simp: dispatch_swarm_event_def handle_gossipsub_event_def send_pyrsia_event_def
      split: option.splits if_splits topic.splits)
qed (use assms in \<open>auto simp: dispatch_swarm_event_def handle_autonat_event_def handle_swarm_event_def
      handle_request_response_event_def handle_idle_metric_request_response_event_def
      handle_build_request_response_event_def handle_build_status_request_response_event_def
      handle_blockchain_request_response_event_def intro: rr_event_sends_one
      split: autonat_event.splits other_swarm_event.splits option.splits\<close>)

lemma handle_command_no_Err: "handle_command e sw c s \<noteq> (Err x, l)"
  by (cases c) (auto simp: send_request_def send_response_def Let_def split: option.splits outcome.splits)

end
