(* ===== verification/Network_Protocols.thy ===== *)
theory Network_Protocols
  imports Network_Event_Loop
begin

text \<open>
  The codecs of the five request and response protocols (\<^verbatim>\<open>src/src/network/artifact_protocol.rs\<close>,
  \<^verbatim>\<open>build_protocol.rs\<close>, \<^verbatim>\<open>build_status_protocol.rs\<close>, \<^verbatim>\<open>blockchain_protocol.rs\<close>, \<^verbatim>\<open>idle_metric_protocol.rs\<close>). A stream
  is the list of bytes on it. The length-prefixed frames of libp2p and the \<^verbatim>\<open>bincode\<close> form of a build
  status are arguments; \<open>framing_laws\<close> states what libp2p documents of the frames.
\<close>

section \<open>Streams\<close>

record framing =
  write_length_prefixed :: "bytes \<Rightarrow> bytes"
  read_length_prefixed :: "nat \<Rightarrow> bytes \<Rightarrow> (bytes \<times> bytes, io_error) outcome"
  read_varint :: "bytes \<Rightarrow> (nat \<times> bytes, io_error) outcome"

definition framing_laws :: "framing \<Rightarrow> bool" where
  "framing_laws fr \<longleftrightarrow>
     (\<forall>mx p rest. length p \<le> mx \<longrightarrow>
        read_length_prefixed fr mx (write_length_prefixed fr p @ rest) = Ok (p, rest)) \<and>
     (\<forall>mx p rest. mx < length p \<longrightarrow>
        (\<exists>err. read_length_prefixed fr mx (write_length_prefixed fr p @ rest) = Err err)) \<and>
     (\<forall>p rest. read_varint fr (write_length_prefixed fr p @ rest) = Ok (length p, p @ rest))"

record status_codec =
  ser_status :: "BuildStatus \<Rightarrow> bytes option"
  de_status :: "bytes \<Rightarrow> BuildStatus option"

text \<open>
  The far end of a stream: the error a write or the close meets, and how many bytes one \<^verbatim>\<open>read\<close> gives at
  most.
\<close>

record stream =
  st_write_fault :: "nat \<Rightarrow> io_error option"
  st_close_fault :: "io_error option"
  st_chunk :: nat

definition reliable :: "stream \<Rightarrow> bool" where
  "reliable st \<longleftrightarrow> st_write_fault st = (\<lambda>_. None) \<and> st_close_fault st = None"

type_synonym written = "(unit, io_error) outcome \<times> bytes"

text \<open>The frames are written one by one; an error leaves the ones before it on the stream.\<close>

fun write_frames :: "framing \<Rightarrow> stream \<Rightarrow> nat \<Rightarrow> bytes list \<Rightarrow> bytes \<Rightarrow> written" where
  "write_frames fr st n [] out = (Ok (), out)"
| "write_frames fr st n (p # ps) out =
     (case st_write_fault st n of
        Some err \<Rightarrow> (Err err, out)
      | None \<Rightarrow> write_frames fr st (Suc n) ps (out @ write_length_prefixed fr p))"

definition close_stream :: "stream \<Rightarrow> written \<Rightarrow> written" where
  "close_stream st w =
     sbind w (\<lambda>_ out. (case st_close_fault st of Some err \<Rightarrow> Err err | None \<Rightarrow> Ok (), out))"

text \<open>A frame that must not be empty, and one that must be UTF-8 besides, or the reader panics.\<close>

definition read_bytes :: "framing \<Rightarrow> nat \<Rightarrow> bytes \<Rightarrow> (bytes \<times> bytes, io_error) outcome" where
  "read_bytes fr mx s =
     rbind (read_length_prefixed fr mx s) (\<lambda>(v, rest). if v = [] then Err UnexpectedEof else Ok (v, rest))"

definition read_text :: "framing \<Rightarrow> nat \<Rightarrow> bytes \<Rightarrow> (string \<times> bytes, io_error) outcome" where
  "read_text fr mx s =
     rbind (read_bytes fr mx s) (\<lambda>(v, rest). rbind (unwrap ''from_utf8'' (from_utf8 v)) (\<lambda>t. Ok (t, rest)))"

section \<open>Artifacts\<close>

definition artifact_read_request :: "framing \<Rightarrow> bytes \<Rightarrow> (wire, io_error) outcome" where
  "artifact_read_request fr s = rbind (read_text fr 1000000 s) (\<lambda>(i, _). Ok (ArtifactRequest i))"

definition artifact_read_response :: "framing \<Rightarrow> bytes \<Rightarrow> (wire, io_error) outcome" where
  "artifact_read_response fr s = rbind (read_bytes fr 100000000 s) (\<lambda>(v, _). Ok (ArtifactResponse v))"

definition artifact_write_request :: "framing \<Rightarrow> stream \<Rightarrow> string \<Rightarrow> written" where
  "artifact_write_request fr st i = close_stream st (write_frames fr st 0 [as_bytes i] [])"

definition artifact_write_response :: "framing \<Rightarrow> stream \<Rightarrow> bytes \<Rightarrow> written" where
  "artifact_write_response fr st data = close_stream st (write_frames fr st 0 [data] [])"

section \<open>Builds\<close>

definition build_read_request :: "framing \<Rightarrow> bytes \<Rightarrow> (wire, io_error) outcome" where
  "build_read_request fr s =
     rbind (read_text fr 1000000 s) (\<lambda>(t, rest).
     rbind (unwrap ''PackageType::from_str'' (PackageType_from_str t)) (\<lambda>pt.
     rbind (read_text fr 1000000 rest) (\<lambda>(psid, _). Ok (BuildRequest pt psid))))"

definition build_read_response :: "framing \<Rightarrow> bytes \<Rightarrow> (wire, io_error) outcome" where
  "build_read_response fr s = rbind (read_text fr 1000000 s) (\<lambda>(b, _). Ok (BuildResponse b))"

definition build_write_request :: "framing \<Rightarrow> stream \<Rightarrow> PackageType \<Rightarrow> string \<Rightarrow> written" where
  "build_write_request fr st pt psid =
     close_stream st (write_frames fr st 0 [as_bytes (PackageType_to_string pt), as_bytes psid] [])"

text \<open>The response is not followed by a close.\<close>

definition build_write_response :: "framing \<Rightarrow> stream \<Rightarrow> string \<Rightarrow> written" where
  "build_write_response fr st build_id = write_frames fr st 0 [as_bytes build_id] []"

section \<open>Build status\<close>

definition status_read_request :: "framing \<Rightarrow> bytes \<Rightarrow> (wire, io_error) outcome" where
  "status_read_request fr s = rbind (read_text fr 1000000 s) (\<lambda>(b, _). Ok (BuildStatusRequest b))"

definition status_read_response :: "framing \<Rightarrow> status_codec \<Rightarrow> bytes \<Rightarrow> (wire, io_error) outcome" where
  "status_read_response fr sc s =
     rbind (read_bytes fr 1000000 s) (\<lambda>(v, _).
     rbind (unwrap ''deserialize'' (de_status sc v)) (\<lambda>st. Ok (BuildStatusResponse st)))"

definition status_write_request :: "framing \<Rightarrow> stream \<Rightarrow> string \<Rightarrow> written" where
  "status_write_request fr st build_id = close_stream st (write_frames fr st 0 [as_bytes build_id] [])"

definition status_write_response :: "framing \<Rightarrow> status_codec \<Rightarrow> stream \<Rightarrow> BuildStatus \<Rightarrow> written" where
  "status_write_response fr sc st x =
     sbind (unwrap ''serialize'' (ser_status sc x), []) (\<lambda>data out. write_frames fr st 0 [data] out)"

section \<open>Blockchain\<close>

definition blockchain_read_request :: "framing \<Rightarrow> bytes \<Rightarrow> (wire, io_error) outcome" where
  "blockchain_read_request fr s =
     rbind (read_bytes fr BLOCKCHAIN_MAX_SIZE_PER_MESSAGE s) (\<lambda>(v, _). Ok (BlockchainRequest v))"

definition blockchain_read_response :: "framing \<Rightarrow> bytes \<Rightarrow> (wire, io_error) outcome" where
  "blockchain_read_response fr s =
     rbind (read_bytes fr BLOCKCHAIN_MAX_SIZE_PER_MESSAGE s) (\<lambda>(v, _). Ok (BlockchainResponse v))"

definition blockchain_write_request :: "framing \<Rightarrow> stream \<Rightarrow> bytes \<Rightarrow> written" where
  "blockchain_write_request fr st data = close_stream st (write_frames fr st 0 [data] [])"

definition blockchain_write_response :: "framing \<Rightarrow> stream \<Rightarrow> bytes \<Rightarrow> written" where
  "blockchain_write_response fr st data = close_stream st (write_frames fr st 0 [data] [])"

section \<open>Idle metrics\<close>

text \<open>The request is empty: nothing is read and nothing but the end of the stream is written.\<close>

definition metric_read_request :: "bytes \<Rightarrow> (wire, io_error) outcome" where
  "metric_read_request s = Ok IdleMetricRequest"

text \<open>One \<^verbatim>\<open>read\<close> into a buffer of eight bytes, which may give fewer than there are.\<close>

definition metric_read_response :: "framing \<Rightarrow> stream \<Rightarrow> bytes \<Rightarrow> (wire, io_error) outcome" where
  "metric_read_response fr st s =
     rbind (read_varint fr s) (\<lambda>(size, rest).
       if size \<noteq> 8 then Err InvalidData
       else (let n = min 8 (min (st_chunk st) (length rest)) in
             if n \<noteq> 8 then Err InvalidData else Ok (IdleMetricResponse (take 8 rest))))"

definition metric_write_request :: "stream \<Rightarrow> written" where
  "metric_write_request st = close_stream st (Ok (), [])"

definition metric_write_response :: "framing \<Rightarrow> stream \<Rightarrow> PeerMetrics \<Rightarrow> written" where
  "metric_write_response fr st m = close_stream st (write_frames fr st 0 [m] [])"

section \<open>The whole wire\<close>

text \<open>Writing a message and reading it at the other end, by protocol and direction.\<close>

definition write_wire :: "framing \<Rightarrow> status_codec \<Rightarrow> stream \<Rightarrow> wire \<Rightarrow> written" where
  "write_wire fr sc st w =
     (case w of
        ArtifactRequest i \<Rightarrow> artifact_write_request fr st i
      | ArtifactResponse v \<Rightarrow> artifact_write_response fr st v
      | BuildRequest pt psid \<Rightarrow> build_write_request fr st pt psid
      | BuildResponse b \<Rightarrow> build_write_response fr st b
      | IdleMetricRequest \<Rightarrow> metric_write_request st
      | IdleMetricResponse m \<Rightarrow> metric_write_response fr st m
      | BlockchainRequest v \<Rightarrow> blockchain_write_request fr st v
      | BlockchainResponse v \<Rightarrow> blockchain_write_response fr st v
      | BuildStatusRequest b \<Rightarrow> status_write_request fr st b
      | BuildStatusResponse x \<Rightarrow> status_write_response fr sc st x)"

datatype direction = AsRequest | AsResponse

fun read_wire :: "framing \<Rightarrow> status_codec \<Rightarrow> stream \<Rightarrow> exchange \<Rightarrow> direction \<Rightarrow> bytes \<Rightarrow> (wire, io_error) outcome" where
  "read_wire fr sc st ArtifactExchange AsRequest s = artifact_read_request fr s"
| "read_wire fr sc st ArtifactExchange AsResponse s = artifact_read_response fr s"
| "read_wire fr sc st BuildExchange AsRequest s = build_read_request fr s"
| "read_wire fr sc st BuildExchange AsResponse s = build_read_response fr s"
| "read_wire fr sc st IdleMetricExchange AsRequest s = metric_read_request s"
| "read_wire fr sc st IdleMetricExchange AsResponse s = metric_read_response fr st s"
| "read_wire fr sc st BlockchainExchange AsRequest s = blockchain_read_request fr s"
| "read_wire fr sc st BlockchainExchange AsResponse s = blockchain_read_response fr s"
| "read_wire fr sc st BuildStatusExchange AsRequest s = status_read_request fr s"
| "read_wire fr sc st BuildStatusExchange AsResponse s = status_read_response fr sc s"

fun route_of :: "wire \<Rightarrow> exchange \<times> direction" where
  "route_of (ArtifactRequest i) = (ArtifactExchange, AsRequest)"
| "route_of (ArtifactResponse v) = (ArtifactExchange, AsResponse)"
| "route_of (BuildRequest pt psid) = (BuildExchange, AsRequest)"
| "route_of (BuildResponse b) = (BuildExchange, AsResponse)"
| "route_of IdleMetricRequest = (IdleMetricExchange, AsRequest)"
| "route_of (IdleMetricResponse m) = (IdleMetricExchange, AsResponse)"
| "route_of (BlockchainRequest v) = (BlockchainExchange, AsRequest)"
| "route_of (BlockchainResponse v) = (BlockchainExchange, AsResponse)"
| "route_of (BuildStatusRequest b) = (BuildStatusExchange, AsRequest)"
| "route_of (BuildStatusResponse x) = (BuildStatusExchange, AsResponse)"

end
