(* ===== verification/Network_Protocol_Claims.thy ===== *)
theory Network_Protocol_Claims
  imports Network_Protocols
begin

text \<open>
  Properties of the wire: messages within the size limits arrive unchanged, larger ones and empty
  ones do not, and text that is not UTF-8 panics the reader. The locale \<open>framed_stream\<close> is what the
  codecs need of libp2p's frames; it is interpreted on frames with an unsigned varint in front, the
  format libp2p uses.
\<close>

section \<open>Frames\<close>

locale framed_stream =
  fixes fr :: framing
  assumes laws: "framing_laws fr"
begin

lemma read_frame: "length p \<le> mx \<Longrightarrow>
    read_length_prefixed fr mx (write_length_prefixed fr p @ rest) = Ok (p, rest)"
  using laws by (simp add: framing_laws_def)

lemma read_big_frame:
  assumes "mx < length p"
  obtains err where "read_length_prefixed fr mx (write_length_prefixed fr p @ rest) = Err err"
  using laws assms unfolding framing_laws_def by metis

lemma read_size: "read_varint fr (write_length_prefixed fr p @ rest) = Ok (length p, p @ rest)"
  using laws by (simp add: framing_laws_def)

lemma read_bytes_frame:
  assumes "length p \<le> mx"
  shows "read_bytes fr mx (write_length_prefixed fr p @ rest) = (if p = [] then Err UnexpectedEof else Ok (p, rest))"
  using read_frame[OF assms] by (simp add: read_bytes_def)

lemma read_bytes_cases:
  "case read_bytes fr mx (write_length_prefixed fr p @ rest) of
     Ok (u, _) \<Rightarrow> u = p \<and> 1 \<le> length p \<and> length p \<le> mx
   | Err _ \<Rightarrow> \<not> (1 \<le> length p \<and> length p \<le> mx)
   | Panic _ \<Rightarrow> False"
proof (cases "length p \<le> mx")
  case True
  then show ?thesis using read_bytes_frame[OF True, of rest] by (cases p) auto
next
  case False
  then obtain err where "read_length_prefixed fr mx (write_length_prefixed fr p @ rest) = Err err"
    using read_big_frame[of mx p rest] by auto
  then show ?thesis using False by (simp add: read_bytes_def)
qed

lemma read_bytes_refused:
  assumes "p = [] \<or> mx < length p"
  shows "\<exists>err. read_bytes fr mx (write_length_prefixed fr p @ rest) = Err err"
  using read_bytes_cases[where mx = mx and p = p and rest = rest] assms by (auto split: outcome.splits)

lemma read_text_refused:
  assumes "t = [] \<or> mx < length t"
  shows "\<exists>err. read_text fr mx (write_length_prefixed fr (as_bytes t) @ rest) = Err err"
  using read_bytes_refused[of "as_bytes t" mx rest] assms by (auto simp: read_text_def as_bytes_def)

lemma read_text_frame:
  assumes "is_text t" and "0 < length t" and "length t \<le> mx"
  shows "read_text fr mx (write_length_prefixed fr (as_bytes t) @ rest) = Ok (t, rest)"
proof -
  have "length (as_bytes t) \<le> mx" "as_bytes t \<noteq> []" using assms by (auto simp: as_bytes_def)
  then show ?thesis using assms(1) by (simp add: read_text_def read_bytes_frame from_utf8_as_bytes unwrap_def)
qed

end

lemma framed: "framing_laws fr \<Longrightarrow> framed_stream fr"
  by (rule framed_stream.intro)

section \<open>Frames with a varint\<close>

function varint_encode :: "nat \<Rightarrow> bytes" where
  "varint_encode n = (if n < 128 then [of_nat n] else of_nat (n mod 128 + 128) # varint_encode (n div 128))"
  by auto

termination
  by (relation "measure id") auto

declare varint_encode.simps [simp del]

fun varint_decode :: "bytes \<Rightarrow> (nat \<times> bytes) option" where
  "varint_decode [] = None"
| "varint_decode (b # bs) =
     (if unat b < 128 then Some (unat b, bs)
      else (case varint_decode bs of None \<Rightarrow> None | Some (n, rest) \<Rightarrow> Some (n * 128 + (unat b - 128), rest)))"

lemma varint_decode_encode: "varint_decode (varint_encode n @ rest) = Some (n, rest)"
proof (induction n rule: varint_encode.induct)
  case (1 n)
  show ?case
  proof (cases "n < 128")
    case True
    then have "unat (of_nat n :: u8) = n" by (simp add: unat_of_nat take_bit_eq_mod)
    then show ?thesis using True by (subst varint_encode.simps) simp
  next
    case False
    have "unat (of_nat (n mod 128 + 128) :: u8) = n mod 128 + 128"
      using mod_less_divisor[of 128 n] by (simp add: unat_of_nat take_bit_eq_mod del: of_nat_add)
    then show ?thesis using False 1 by (subst varint_encode.simps) simp
  qed
qed

definition varint_framing :: framing where
  "varint_framing =
     \<lparr>write_length_prefixed = (\<lambda>p. varint_encode (length p) @ p),
      read_length_prefixed = (\<lambda>mx s. case varint_decode s of
          None \<Rightarrow> Err UnexpectedEof
        | Some (n, rest) \<Rightarrow> if mx < n then Err InvalidData
                           else if length rest < n then Err UnexpectedEof else Ok (take n rest, drop n rest)),
      read_varint = (\<lambda>s. case varint_decode s of None \<Rightarrow> Err UnexpectedEof | Some r \<Rightarrow> Ok r)\<rparr>"

interpretation varint: framed_stream varint_framing
  by unfold_locales (simp add: framing_laws_def varint_framing_def varint_decode_encode)

section \<open>Messages\<close>

text \<open>What the types of the code allow a message to be: texts are UTF-8 and a metric has eight bytes.\<close>

fun wire_value :: "wire \<Rightarrow> bool" where
  "wire_value (ArtifactRequest i) = is_text i"
| "wire_value (BuildRequest pt psid) = is_text psid"
| "wire_value (BuildResponse b) = is_text b"
| "wire_value (BuildStatusRequest b) = is_text b"
| "wire_value (IdleMetricResponse m) = (length m = 8)"
| "wire_value _ = True"

text \<open>The size limits of the readers.\<close>

definition fits :: "nat \<Rightarrow> nat \<Rightarrow> bool" where
  "fits mx n \<longleftrightarrow> 0 < n \<and> n \<le> mx"

fun within_limits :: "status_codec \<Rightarrow> stream \<Rightarrow> wire \<Rightarrow> bool" where
  "within_limits sc st (ArtifactRequest i) = fits 1000000 (length i)"
| "within_limits sc st (ArtifactResponse v) = fits 100000000 (length v)"
| "within_limits sc st (BuildRequest pt psid) = fits 1000000 (length psid)"
| "within_limits sc st (BuildResponse b) = fits 1000000 (length b)"
| "within_limits sc st IdleMetricRequest = True"
| "within_limits sc st (IdleMetricResponse m) = (8 \<le> st_chunk st)"
| "within_limits sc st (BlockchainRequest v) = fits 10485760 (length v)"
| "within_limits sc st (BlockchainResponse v) = fits 10485760 (length v)"
| "within_limits sc st (BuildStatusRequest b) = fits 1000000 (length b)"
| "within_limits sc st (BuildStatusResponse x) =
     (case ser_status sc x of Some v \<Rightarrow> de_status sc v = Some x \<and> fits 1000000 (length v) | None \<Rightarrow> False)"

lemma max_message: "BLOCKCHAIN_MAX_SIZE_PER_MESSAGE = 10485760"
  by (simp add: BLOCKCHAIN_MAX_SIZE_PER_MESSAGE_def)

lemma not_fits: "\<not> fits mx (length p) \<longleftrightarrow> p = [] \<or> mx < length p"
  by (auto simp: fits_def)

lemma write_frames_reliable:
  "reliable st \<Longrightarrow> write_frames fr st n ps out = (Ok (), out @ concat (map (write_length_prefixed fr) ps))"
  by (induction ps arbitrary: n out) (simp_all add: reliable_def)

declare write_frames.simps [simp del]

lemma close_reliable: "reliable st \<Longrightarrow> close_stream st (Ok (), out) = (Ok (), out)"
  by (simp add: close_stream_def reliable_def)

lemmas write_defs = artifact_write_request_def artifact_write_response_def build_write_request_def
  build_write_response_def metric_write_request_def metric_write_response_def blockchain_write_request_def
  blockchain_write_response_def status_write_request_def status_write_response_def

lemmas read_defs = artifact_read_request_def artifact_read_response_def build_read_request_def
  build_read_response_def metric_read_request_def metric_read_response_def blockchain_read_request_def
  blockchain_read_response_def status_read_request_def status_read_response_def

lemma PackageType_text:
  "is_text (PackageType_to_string pt)" "PackageType_from_str (PackageType_to_string pt) = Some pt"
  "0 < length (PackageType_to_string pt)" "length (PackageType_to_string pt) \<le> 1000000"
  by (cases pt; auto intro!: ascii_is_text simp: PackageType_from_str_def)+

lemma wire_arrives:
  assumes "framing_laws fr" and "reliable st" and "wire_value w" and "within_limits sc st w"
  shows "\<exists>out. write_wire fr sc st w = (Ok (), out) \<and>
    read_wire fr sc st (fst (route_of w)) (snd (route_of w)) out = Ok w"
proof -
  note frames = write_frames_reliable[OF assms(2)] close_reliable[OF assms(2)]
  note text_frame = framed_stream.read_text_frame[OF framed[OF assms(1)], where rest = "[]", simplified]
  note byte_frame = framed_stream.read_bytes_frame[OF framed[OF assms(1)], where rest = "[]", simplified]
  show ?thesis
  proof (cases w)
    case (BuildRequest pt psid)
    let ?p = "write_length_prefixed fr (as_bytes (PackageType_to_string pt))"
    have "read_text fr 1000000 (?p @ write_length_prefixed fr (as_bytes psid))
        = Ok (PackageType_to_string pt, write_length_prefixed fr (as_bytes psid))"
      by (rule framed_stream.read_text_frame[OF framed[OF assms(1)]]) (rule PackageType_text)+
    then show ?thesis using BuildRequest assms(3,4) text_frame[of psid]
      by (simp add: write_wire_def write_defs read_defs frames unwrap_def PackageType_text(2) fits_def)
  next
    case (IdleMetricResponse m)
    then show ?thesis
      using assms(3,4) framed_stream.read_size[OF framed[OF assms(1)], of m "[]"]
      by (simp add: write_wire_def write_defs read_defs frames)
  next
    case (BuildStatusResponse x)
    then obtain v where "ser_status sc x = Some v" "de_status sc v = Some x" "fits 1000000 (length v)"
      using assms(4) by (auto split: option.splits)
    then show ?thesis using BuildStatusResponse byte_frame[of v]
      by (auto simp: write_wire_def write_defs read_defs frames unwrap_def fits_def)
  qed (use assms(3,4) text_frame byte_frame in \<open>auto simp: write_wire_def write_defs read_defs frames fits_def max_message\<close>)
qed


definition demo_stream :: stream where
  "demo_stream = \<lparr>st_write_fault = (\<lambda>_. None), st_close_fault = None, st_chunk = 8\<rparr>"

definition demo_status_codec :: status_codec where
  "demo_status_codec = \<lparr>ser_status = (\<lambda>x. case x of Running \<Rightarrow> Some [1] | _ \<Rightarrow> None),
     de_status = (\<lambda>v. if v = [1] then Some Running else None)\<rparr>"

lemma demo_stream_reliable: "reliable demo_stream"
  by (simp add: demo_stream_def reliable_def)


section \<open>Limits\<close>

lemma wire_refused:
  assumes "framing_laws fr" and "reliable st" and "wire_value w" and "\<not> within_limits sc st w"
    and "\<And>x. w = BuildStatusResponse x \<Longrightarrow> \<exists>v. ser_status sc x = Some v \<and> de_status sc v = Some x"
  shows "\<exists>out err. write_wire fr sc st w = (Ok (), out) \<and>
    read_wire fr sc st (fst (route_of w)) (snd (route_of w)) out = Err err"
proof -
  note frames = write_frames_reliable[OF assms(2)] close_reliable[OF assms(2)]
  note texts = framed_stream.read_text_refused[OF framed[OF assms(1)], where rest = "[]", simplified]
  note bytes = framed_stream.read_bytes_refused[OF framed[OF assms(1)], where rest = "[]", simplified]
  show ?thesis
  proof (cases w)
    case (BuildRequest pt psid)
    let ?p = "write_length_prefixed fr (as_bytes (PackageType_to_string pt))"
    have "read_text fr 1000000 (?p @ write_length_prefixed fr (as_bytes psid))
        = Ok (PackageType_to_string pt, write_length_prefixed fr (as_bytes psid))"
      by (rule framed_stream.read_text_frame[OF framed[OF assms(1)]]) (rule PackageType_text)+
    moreover obtain err where "read_text fr 1000000 (write_length_prefixed fr (as_bytes psid)) = Err err"
      using texts[of psid 1000000] BuildRequest assms(4) by (auto simp: not_fits)
    ultimately show ?thesis using BuildRequest
      by (simp add: write_wire_def write_defs read_defs frames unwrap_def PackageType_text(2))
  next
    case (IdleMetricResponse m)
    then show ?thesis
      using assms(3,4) framed_stream.read_size[OF framed[OF assms(1)], of m "[]"]
      by (simp add: write_wire_def write_defs read_defs frames)
  next
    case (BuildStatusResponse x)
    then obtain v where v: "ser_status sc x = Some v" "de_status sc v = Some x" using assms(5) by blast
    then obtain err where "read_bytes fr 1000000 (write_length_prefixed fr v) = Err err"
      using bytes[of v 1000000] BuildStatusResponse assms(4) by (auto simp: not_fits)
    then show ?thesis using BuildStatusResponse v(1) by (simp add: write_wire_def write_defs read_defs frames unwrap_def)
  next
    case (ArtifactResponse v)
    then obtain err where "read_bytes fr 100000000 (write_length_prefixed fr v) = Err err"
      using bytes[of v 100000000] assms(4) by (auto simp: not_fits)
    then show ?thesis using ArtifactResponse by (simp add: write_wire_def write_defs read_defs frames)
  next
    case (BlockchainRequest v)
    then obtain err where "read_bytes fr 10485760 (write_length_prefixed fr v) = Err err"
      using bytes[of v 10485760] assms(4) by (auto simp: not_fits)
    then show ?thesis using BlockchainRequest by (simp add: write_wire_def write_defs read_defs frames max_message)
  next
    case (BlockchainResponse v)
    then obtain err where "read_bytes fr 10485760 (write_length_prefixed fr v) = Err err"
      using bytes[of v 10485760] assms(4) by (auto simp: not_fits)
    then show ?thesis using BlockchainResponse by (simp add: write_wire_def write_defs read_defs frames max_message)
  next
    case (ArtifactRequest i)
    then obtain err where "read_text fr 1000000 (write_length_prefixed fr (as_bytes i)) = Err err"
      using texts[of i 1000000] assms(4) by (auto simp: not_fits)
    then show ?thesis using ArtifactRequest by (simp add: write_wire_def write_defs read_defs frames)
  next
    case (BuildResponse i)
    then obtain err where "read_text fr 1000000 (write_length_prefixed fr (as_bytes i)) = Err err"
      using texts[of i 1000000] assms(4) by (auto simp: not_fits)
    then show ?thesis using BuildResponse by (simp add: write_wire_def write_defs read_defs frames)
  next
    case (BuildStatusRequest i)
    then obtain err where "read_text fr 1000000 (write_length_prefixed fr (as_bytes i)) = Err err"
      using texts[of i 1000000] assms(4) by (auto simp: not_fits)
    then show ?thesis using BuildStatusRequest by (simp add: write_wire_def write_defs read_defs frames)
  qed (use assms(4) in simp)
qed

text \<open>
  C35: the size limits of the wire are sharp, for every message of the five protocols. What is written is
  read back as it is exactly if it is within the limits, and otherwise its reader returns an error, never a part of
  it and never a panic: an artifact may have one to a hundred million bytes, a message of the blockchain protocol, such as all
  the blocks a new node asks for, one byte to ten megabytes, an id or a build status one byte to a
  million, and the eight bytes of a metric have to arrive in one read.
\<close>

theorem wire_limits_are_sharp:
  assumes "framing_laws fr" and "reliable st" and "wire_value w"
    and "\<And>x. w = BuildStatusResponse x \<Longrightarrow> \<exists>v. ser_status sc x = Some v \<and> de_status sc v = Some x"
  shows "\<exists>out. write_wire fr sc st w = (Ok (), out) \<and>
    (if within_limits sc st w then read_wire fr sc st (fst (route_of w)) (snd (route_of w)) out = Ok w
     else \<exists>err. read_wire fr sc st (fst (route_of w)) (snd (route_of w)) out = Err err)"
  using wire_arrives[OF assms(1-3)] wire_refused[OF assms(1-3) _ assms(4)] by (cases "within_limits sc st w") auto

theorem wire_limits_are_sharp_witness:
  "\<exists>out err. write_wire varint_framing demo_status_codec demo_stream (BuildRequest Docker []) = (Ok (), out) \<and>
     read_wire varint_framing demo_status_codec demo_stream BuildExchange AsRequest out = Err err"
proof -
  have "is_text []" by (rule ascii_is_text) simp
  then show ?thesis
    using wire_limits_are_sharp[OF varint.laws demo_stream_reliable, of "BuildRequest Docker []" demo_status_codec]
    by (auto simp: fits_def)
qed

section \<open>Frames that are not text\<close>

text \<open>
  C33: a peer can panic the reader of a request. Of the frames within the limit, a request for an
  artifact or a build status panics exactly on those that are not empty and not UTF-8, and a build
  request besides on any text that does not name a package type.
\<close>

theorem requests_that_panic_the_reader:
  assumes "framing_laws fr" and "length p \<le> 1000000"
  shows "(is_panic (artifact_read_request fr (write_length_prefixed fr p @ rest)) \<longleftrightarrow> p \<noteq> [] \<and> from_utf8 p = None) \<and>
    (is_panic (status_read_request fr (write_length_prefixed fr p @ rest)) \<longleftrightarrow> p \<noteq> [] \<and> from_utf8 p = None) \<and>
    ((p \<noteq> [] \<and> (case from_utf8 p of Some t \<Rightarrow> PackageType_from_str t = None | None \<Rightarrow> True)) \<longrightarrow>
      is_panic (build_read_request fr (write_length_prefixed fr p @ rest)))"
proof -
  have "read_bytes fr 1000000 (write_length_prefixed fr p @ rest) = (if p = [] then Err UnexpectedEof else Ok (p, rest))"
    by (rule framed_stream.read_bytes_frame[OF framed[OF assms(1)] assms(2)])
  then show ?thesis by (auto simp: read_defs read_text_def unwrap_def split: option.splits)
qed

theorem requests_that_panic_the_reader_witness:
  "is_panic (artifact_read_request varint_framing (write_length_prefixed varint_framing [0xFF] @ [])) \<and>
   is_panic (build_read_request varint_framing (write_length_prefixed varint_framing (as_bytes ''Npm'') @ []))"
proof -
  have "from_utf8 [0xFF] = None" by (simp add: from_utf8_def)
  moreover have "from_utf8 (as_bytes ''Npm'') = Some ''Npm''" by (rule from_utf8_as_bytes, rule ascii_is_text) simp
  moreover have "PackageType_from_str ''Npm'' = None" by (simp add: PackageType_from_str_def)
  moreover have "length (as_bytes ''Npm'') \<le> 1000000" "as_bytes ''Npm'' \<noteq> []" by (simp_all add: as_bytes_def)
  ultimately show ?thesis
    using requests_that_panic_the_reader[OF varint.laws, of "[0xFF]" "[]"]
      requests_that_panic_the_reader[OF varint.laws, of "as_bytes ''Npm''" "[]"] by simp
qed

end
