(* ===== verification/Network_Call_Claims.thy ===== *)
theory Network_Call_Claims
  imports Network_Client_Calls Network_Loop_Claims
begin

text \<open>
  What the calls of the client get from the event loop: the result of every command, what a panic of the
  loop does to all callers, and concrete runs of the loop for these properties and those of
  \<open>Network_Loop_Claims\<close>.
\<close>

section \<open>Results of commands\<close>

text \<open>
  What a command comes to in the turn that takes it: an answer, a dropped sender, or a place among the
  senders that wait for the swarm. Commands that panic are left to the next section.
\<close>

datatype fate = AnsweredWith Answer | NotAnswered | WaitsIn slot

fun command_fate :: "loop_env \<Rightarrow> swarm \<Rightarrow> PyrsiaEventLoop \<Rightarrow> Command \<Rightarrow> fate" where
  "command_fate e sw s (AddProbe p addr x) = (if pending_of s (OfDial p) = None then WaitsIn (OfDial p) else NotAnswered)"
| "command_fate e sw s (Dial p addr x) =
     (if pending_of s (OfDial p) \<noteq> None then NotAnswered
      else case sw_dial sw (addr @ [P2p p]) of Err err \<Rightarrow> AnsweredWith (Done (Err err)) | _ \<Rightarrow> WaitsIn (OfDial p))"
| "command_fate e sw s (BootstrapDht x) =
     (if bootstrapped s then NotAnswered
      else case sw_bootstrap sw of Ok q \<Rightarrow> WaitsIn (OfBootstrap q) | Err err \<Rightarrow> AnsweredWith (Done (Err err))
         | _ \<Rightarrow> NotAnswered)"
| "command_fate e sw s (Listen addr x) = AnsweredWith (Done (sw_listen_on sw addr))"
| "command_fate e sw s (ListPeers x) = AnsweredWith (Peers (sw_connected sw))"
| "command_fate e sw s (GetStatus x) =
     (case node_status e sw of Ok st \<Rightarrow> AnsweredWith (NodeStatus st) | _ \<Rightarrow> NotAnswered)"
| "command_fate e sw s (Provide i x) =
     (case sw_start_providing sw (as_bytes i) of Ok q \<Rightarrow> WaitsIn (OfProvide q) | _ \<Rightarrow> NotAnswered)"
| "command_fate e sw s (ListProviders i x) = WaitsIn (OfProviders (sw_get_providers sw (as_bytes i)))"
| "command_fate e sw s (RequestBuild p pt psid x) = WaitsIn (OfBuild (sw_send_request sw p (BuildRequest pt psid)))"
| "command_fate e sw s (VerifyBuild pt psid x) =
     AnsweredWith (Done (case ser_verify_build e \<lparr>vb_package_type = pt, vb_package_specific_id = psid\<rparr> of
        Ok data \<Rightarrow> sw_publish sw BuildTopic data | Err err \<Rightarrow> Err err | Panic m \<Rightarrow> Panic m))"
| "command_fate e sw s (RequestArtifact i p x) = WaitsIn (OfArtifact (sw_send_request sw p (ArtifactRequest i)))"
| "command_fate e sw s (RequestIdleMetric p x) = WaitsIn (OfMetric (sw_send_request sw p IdleMetricRequest))"
| "command_fate e sw s (RequestBlockchain d p x) = WaitsIn (OfBlockchain (sw_send_request sw p (BlockchainRequest d)))"
| "command_fate e sw s (BroadcastBlock b x) = AnsweredWith (Done (sw_publish sw BlockchainTopic b))"
| "command_fate e sw s (RequestBuildStatus p b x) =
     WaitsIn (OfBuildStatus (sw_send_request sw p (BuildStatusRequest b)))"
| "command_fate e sw s _ = NotAnswered"

text \<open>What the caller has received after the turns \<open>ts\<close> that follow.\<close>

fun call_comes_to :: "fate \<Rightarrow> turn list \<Rightarrow> Answer call_result" where
  "call_comes_to (AnsweredWith a) ts = Some (Ok a)"
| "call_comes_to NotAnswered ts = Some (Err channel_closed)"
| "call_comes_to (WaitsIn k) ts =
     (case answer_from k {} (served_events ts) of
        Some a \<Rightarrow> Some (Ok a)
      | None \<Rightarrow> if CommandsClosed \<in> set ts then Some (Err channel_closed) else None)"

definition fate_after :: "fate \<Rightarrow> sender \<Rightarrow> PyrsiaEventLoop \<Rightarrow> bool" where
  "fate_after ft x s \<longleftrightarrow>
     (case ft of
        AnsweredWith a \<Rightarrow> (x, a) \<in> set (answers_sent s)
      | NotAnswered \<Rightarrow> x \<in> set (senders_dropped s)
      | WaitsIn k \<Rightarrow> pending_of s k = Some x \<and> providers_found s k = {})"

lemma await_fate:
  assumes "pending_table tab upd who mk" and "pending_of s (mk k) = None"
    and "providers_found (await_answer tab upd who k v s) (mk k) = {}"
  shows "fate_after (WaitsIn (mk k)) (who v) (await_answer tab upd who k v s)"
  using assms(3) pending_table.await_pending[OF assms(1,2)] by (simp add: fate_after_def)

lemma request_fate:
  assumes "pending_table tab upd id mk" and "send_request sw tab upd p w x s = (Ok (), s')"
    and "pending_of s (mk (sw_send_request sw p w)) = None"
    and "\<And>s. providers_found s (mk (sw_send_request sw p w)) = {}"
  shows "fate_after (WaitsIn (mk (sw_send_request sw p w))) x s'"
  using await_fate[OF assms(1), of "call_swarm (SendRequest p w) s" _ x] assms(2-4) by (auto simp: send_request_def)

lemma command_comes_to_its_fate:
  assumes "handle_command e sw c s = (Ok (), s')" and "ids_unused (CommandTurn sw c) s" and "command_sender c = Some x"
  shows "fate_after (command_fate e sw s c) x s'"
proof (cases c)
  case (ListProviders i y)
  let ?s1 = "call_swarm (GetProviders (as_bytes i)) s" and ?q = "sw_get_providers sw (as_bytes i)"
  have free: "pending_of ?s1 (OfProviders ?q) = None" using assms(2) ListProviders by simp
  have "providers_found s' (OfProviders ?q) = {}"
    using command_list_providers[OF assms(1)] ListProviders by (simp add: update_conv)
  moreover have "s' = await_answer pending_list_providers pending_list_providers_update plp_sender ?q
      \<lparr>plp_sender = x, plp_providers = {}\<rparr> ?s1"
    using assms(1,3) ListProviders by simp
  ultimately show ?thesis
    using await_fate[OF providers_table.pending_table_axioms free, of "\<lparr>plp_sender = x, plp_providers = {}\<rparr>"] ListProviders
    by simp
next
  case (Provide i y)
  then show ?thesis
    using assms await_fate[OF provide_table.pending_table_axioms, of "call_swarm (StartProviding (as_bytes i)) s" _ x]
    by (auto simp: Let_def split: outcome.splits)
next
  case (BootstrapDht y)
  then show ?thesis
    using assms await_fate[OF bootstrap_table.pending_table_axioms, of "(call_swarm KadBootstrap s)\<lparr>bootstrapped := True\<rparr>" _ x]
    by (auto simp: Let_def fate_after_def simp del: pending_of.simps split: outcome.splits if_splits)
qed (use assms in \<open>auto simp: fate_after_def update_conv Let_def split: option.splits outcome.splits if_splits
      dest: request_fate[OF build_table.pending_table_axioms] request_fate[OF artifact_table.pending_table_axioms]
        request_fate[OF metric_table.pending_table_axioms] request_fate[OF blockchain_table.pending_table_axioms]
        request_fate[OF build_status_table.pending_table_axioms]\<close>)

lemma senders_received_served: "senders_received (served ts) = senders_received ts"
  by (simp add: senders_received_def served_open closed_not_served)

lemma receive_answered:
  assumes "accounted xs (promises_of s)" and "(x, a) \<in> set (answers_sent s)" and "answers_sent s' = answers_sent s"
  shows "receive x s' = Some (Ok a)"
proof -
  have "distinct (map fst (answers_sent s))" using assms(1) by (simp add: accounted_def promises_of_def)
  then show ?thesis using assms(2,3) by (simp add: receive_def)
qed

lemma receive_unanswered:
  assumes "accounted xs (promises_of s)" and "x \<in> set (senders_dropped s) \<or> pending_of s k = Some x"
    and "answers_sent s' = answers_sent s"
  shows "receive x s' = (if x \<in> set (senders_dropped s') then Some (Err channel_closed) else None)"
proof -
  have "x \<notin> fst ` set (answers_sent s)" using assms(1,2) by (auto simp: accounted_def promises_of_def)
  then have "map_of (answers_sent s') x = None" using assms(3) by (simp add: map_of_eq_None_iff)
  then show ?thesis by (simp add: receive_def)
qed

lemma fate_comes_true:
  assumes "fate_after ft x s1" and "run_event_loop e us s1 = (Ok (), s')" and "ids_unused_run e us s1"
    and "accounted xs (promises_of s1)" and "distinct (xs @ senders_received us)"
  shows "receive x s' = call_comes_to ft us"
proof -
  from run_served[OF assms(2,3)] obtain s2 where
    s2: "run_event_loop e (served us) s1 = (Ok (), s2)" "ids_unused_run e (served us) s1"
    and s': "s' = (if CommandsClosed \<in> set us then end_loop s2 else s2)" by blast
  have acc: "accounted (xs @ senders_received us) (promises_of s2)"
    using run_accounted[OF s2 closed_not_served assms(4)] assms(5) by (simp add: senders_received_served)
  have ans: "answers_sent s' = answers_sent s2" by (simp add: s' end_loop_sel)
  show ?thesis
  proof (cases ft)
    case (AnsweredWith a)
    then have "(x, a) \<in> set (answers_sent s2)" using assms(1) run_grows(1)[OF s2] by (auto simp: fate_after_def)
    from receive_answered[OF acc this ans] show ?thesis using AnsweredWith by simp
  next
    case NotAnswered
    then have "x \<in> set (senders_dropped s2)" using assms(1) run_grows(2)[OF s2] by (auto simp: fate_after_def)
    then show ?thesis using receive_unanswered[OF acc _ ans, of x] NotAnswered by (simp add: s' end_loop_sel)
  next
    case (WaitsIn k)
    then have w: "pending_of s1 k = Some x" "providers_found s1 k = {}" using assms(1) by (simp_all add: fate_after_def)
    have out: "case answer_from k {} (served_events us) of
        Some a \<Rightarrow> (x, a) \<in> set (answers_sent s2) | None \<Rightarrow> pending_of s2 k = Some x"
      using await_outcome_open[OF s2 closed_not_served w(1)] w(2) by (simp add: served_events_served)
    have "x \<notin> set (senders_dropped s2)" if "pending_of s2 k = Some x"
      using that acc by (auto simp: accounted_def promises_of_def)
    then show ?thesis
      using out receive_answered[OF acc _ ans] receive_unanswered[OF acc _ ans, of x k] pending_is_waiting[of s2 k x] WaitsIn
      by (auto simp: s' end_loop_sel split: option.splits)
  qed
qed

text \<open>
  C5: every call of the client gets its own result. In any run of a new loop, with senders that are used
  once and ids that libp2p does not have in use: what the caller of a command has received after the turns
  that follow is the answer the command has at once (listening, peers, status, broadcasting), a closed channel
  where the loop gives up the sender (a second bootstrap, a dial or probe of a peer that is being dialled),
  and otherwise the answer of the first event about its own query, request or dial; before that event it
  waits, and the end of the loop closes its channel. No other command and no other event makes a difference.
\<close>

theorem every_call_gets_its_result:
  assumes "run_event_loop e ts PyrsiaEventLoop_new = (Ok (), s)" and "ids_unused_run e ts PyrsiaEventLoop_new"
    and "CommandsClosed \<notin> set ts"
    and "run_event_loop e (CommandTurn sw c # us) s = (Ok (), s')" and "ids_unused_run e (CommandTurn sw c # us) s"
    and "command_sender c = Some x" and "distinct (senders_received ts @ x # senders_received us)"
  shows "receive x s' = call_comes_to (command_fate e sw s c) us"
proof -
  have acc: "accounted (senders_received ts) (promises_of s)"
    using run_accounted[OF assms(1-3) new_loop_accounted] assms(7) by simp
  from run_turnE[OF assms(4) _ assms(5)] obtain s1 where
    s1: "handle_command e sw c s = (Ok (), s1)" "run_event_loop e us s1 = (Ok (), s')" "ids_unused (CommandTurn sw c) s"
      "ids_unused_run e us s1"
    by (auto simp: take_turn_def)
  have "accounted (senders_received ts @ [x]) (promises_of s1)"
    using promise_step_accounted[OF command_turn_step[OF s1(1,3)] acc] assms(6,7) by auto
  then show ?thesis
    using fate_comes_true[OF command_comes_to_its_fate[OF s1(1,3) assms(6)] s1(2,4)] assms(7) by simp
qed

section \<open>Panics\<close>

fun response_channel :: "Command \<Rightarrow> channel option" where
  "response_channel (RespondBuild b ch) = Some ch"
| "response_channel (RespondArtifact b ch) = Some ch"
| "response_channel (RespondIdleMetric m ch) = Some ch"
| "response_channel (RespondBlockchain b ch) = Some ch"
| "response_channel (RespondBuildStatus st ch) = Some ch"
| "response_channel _ = None"

text \<open>Whoever waits sees a closed channel, and so does every later call.\<close>

definition network_lost :: "client_side \<Rightarrow> client_side \<Rightarrow> bool" where
  "network_lost cl cl' \<longleftrightarrow>
     (\<forall>k x. pending_of (cl_loop cl) k = Some x \<and> x \<notin> fst ` set (answers_sent (cl_loop cl)) \<longrightarrow>
        receive x (cl_loop cl') = Some (Err channel_closed)) \<and>
     (\<forall>e sw c x ts. call_loop e sw c x ts cl' = (Some (Err channel_closed), cl')) \<and>
     (\<forall>e sw c. tell_loop e sw c cl' = (Err channel_closed, cl'))"

lemma network_lostI:
  assumes "promises_of s = promises_of (cl_loop cl) \<or> (\<exists>y. promises_of s = promises_of (drop_sender y (cl_loop cl)))"
  shows "network_lost cl \<lparr>cl_loop = end_loop s, cl_running = False\<rparr>"
proof -
  have "pending_of s = pending_of (cl_loop cl)" "answers_sent s = answers_sent (cl_loop cl)"
    using assms by (auto simp: promises_of_def)
  then show ?thesis
    using pending_is_waiting[of s]
    by (auto simp: network_lost_def call_loop_def tell_loop_def receive_def end_loop_sel map_of_eq_None_iff[symmetric])
qed

lemma closed_response_panics:
  assumes "response_channel c = Some ch" and "\<not> sw_channel_open sw ch"
  shows "\<exists>why. handle_command e sw c s = (Panic why, s)"
  using assms by (cases c) (auto simp: send_response_def)

text \<open>
  C31: two things that libp2p may always report end the network of the node for good. When the peer that asked
  has hung up before the answer is sent, the loop panics: the one who answers is told that all is well,
  everybody who waits for anything from the network sees a closed channel, and so does every later call.
  The same happens when the store of provided keys has no room for an artifact.
\<close>

theorem hung_up_peer_ends_the_network:
  assumes "cl_running cl"
  shows "(response_channel c = Some ch \<and> \<not> sw_channel_open sw ch \<longrightarrow>
      (\<exists>cl'. tell_loop e sw c cl = (Ok (), cl') \<and> network_lost cl cl')) \<and>
    (sw_start_providing sw (as_bytes i) = Err err \<and> x \<notin> fst ` set (answers_sent (cl_loop cl)) \<longrightarrow>
      (\<exists>cl'. Client_provide e sw i x ts cl = (Some (Err channel_closed), cl') \<and> network_lost cl cl'))"
proof (intro conjI impI)
  assume "response_channel c = Some ch \<and> \<not> sw_channel_open sw ch"
  then obtain why where "handle_command e sw c (cl_loop cl) = (Panic why, cl_loop cl)"
    using closed_response_panics[of c ch sw e "cl_loop cl"] by blast
  then show "\<exists>cl'. tell_loop e sw c cl = (Ok (), cl') \<and> network_lost cl cl'"
    using assms network_lostI[of "cl_loop cl" cl] by (simp add: tell_loop_def)
next
  assume h: "sw_start_providing sw (as_bytes i) = Err err \<and> x \<notin> fst ` set (answers_sent (cl_loop cl))"
  let ?s = "drop_sender x (call_swarm (StartProviding (as_bytes i)) (cl_loop cl))"
  have "run_event_loop e (CommandTurn sw (Provide i x) # ts) (cl_loop cl) = (Panic ''No store error.'', end_loop ?s)"
    using h by (simp add: Let_def)
  moreover have "receive x (end_loop ?s) = Some (Err channel_closed)"
    using h by (simp add: receive_def end_loop_sel map_of_eq_None_iff[symmetric])
  moreover have "network_lost cl \<lparr>cl_loop = end_loop ?s, cl_running = False\<rparr>"
    by (rule network_lostI) (auto simp: promises_of_def)
  ultimately show "\<exists>cl'. Client_provide e sw i x ts cl = (Some (Err channel_closed), cl') \<and> network_lost cl cl'"
    using assms by (simp add: Client_provide_def call_as_def call_loop_def as_answer_def)
qed

section \<open>Dialling\<close>

lemma swarm_turn_bootstrapped: "bootstrapped s \<Longrightarrow> bootstrapped (snd (dispatch_swarm_event e sw ev s))"
proof -
  have fold: "bootstrapped (fold call_swarm cs t) = bootstrapped t" for cs t
    by (induction cs arbitrary: t) simp_all
  assume "bootstrapped s"
  then show ?thesis
    by (simp add: dispatch_swarm_event_def handle_autonat_event_def handle_gossipsub_event_def handle_swarm_event_def
        handle_kademlia_event_def resolve_def send_answer_def settle_dial_def fold handle_rr_event_def
        send_pyrsia_event_def handle_request_response_event_def handle_build_request_response_event_def
        handle_idle_metric_request_response_event_def handle_blockchain_request_response_event_def
        handle_build_status_request_response_event_def
        split: swarm_event.splits autonat_event.splits gossip_event.splits topic.splits option.splits
          other_swarm_event.splits kademlia_event.splits rr_event.splits)
qed

lemma command_bootstrapped: "bootstrapped s \<Longrightarrow> bootstrapped (snd (handle_command e sw c s))"
  by (cases c) (auto simp: send_request_def send_response_def send_answer_def drop_sender_def await_answer_def
      Let_def split: option.splits outcome.splits)

lemma run_bootstrapped:
  "run_event_loop e ts s = (r, s') \<Longrightarrow> bootstrapped s \<Longrightarrow> bootstrapped s'"
proof (induction ts arbitrary: s)
  case (Cons t ts)
  have step: "bootstrapped s'" if "or_unwind rs (run_event_loop e ts) = (r, s')" "bootstrapped (snd rs)" for rs
    using that Cons.IH by (cases rs; cases "fst rs") (auto simp: or_unwind_def end_loop_sel split: outcome.splits)
  show ?case
  proof (cases t)
    case (SwarmTurn sw ev)
    then show ?thesis using step Cons.prems swarm_turn_bootstrapped[OF Cons.prems(2), of e sw ev] by simp
  next
    case (CommandTurn sw c)
    then show ?thesis using step Cons.prems command_bootstrapped[OF Cons.prems(2), of e sw c] by simp
  qed (use Cons.prems in \<open>auto simp: end_loop_sel\<close>)
qed simp

lemma then_bootstrap_again:
  assumes "call_as the_done e sw c x ts cl = (Some (Ok ()), cl1)" and "bootstrapped (cl_loop cl)" and "cl_running cl1"
    and "y \<notin> fst ` set (answers_sent (cl_loop cl1))"
  shows "fst (then_bootstrap e (call_as the_done e sw c x ts cl) sw2 y []) = Some (Err channel_closed)"
proof -
  have "cl1 = cl \<or> (\<exists>r s. run_event_loop e (CommandTurn sw (c x) # ts) (cl_loop cl) = (r, s) \<and> cl_loop cl1 = s)"
    using assms(1) by (auto simp: call_as_def call_loop_def Let_def split: if_splits prod.splits outcome.splits)
  then have "bootstrapped (cl_loop cl1)" using run_bootstrapped assms(2) by blast
  moreover have "map_of (answers_sent (cl_loop cl1)) y = None" using assms(4) by (simp add: map_of_eq_None_iff)
  ultimately show ?thesis
    using assms(1,3) by (simp add: then_bootstrap_def call_as_def call_loop_def Let_def receive_def as_answer_def)
qed

text \<open>
  C32: only the first dial or probe of a node can succeed. Once the DHT has been bootstrapped, a dial or a
  probe of another peer that connects is still reported to the caller as a failure: the loop drops the
  sender of the second bootstrap, and the caller sees a closed channel.
\<close>

theorem later_dials_report_failure:
  assumes "bootstrapped (cl_loop cl)" and "cl_running cl1" and "y \<notin> fst ` set (answers_sent (cl_loop cl1))"
  shows "(call_as the_done e sw (Dial peer addr) x ts cl = (Some (Ok ()), cl1) \<longrightarrow>
      fst (Client_dial e sw peer addr x ts sw2 y [] cl) = Some (Err channel_closed)) \<and>
    (call_as the_done e sw (AddProbe peer addr) x ts cl = (Some (Ok ()), cl1) \<longrightarrow>
      fst (Client_add_probe_address e sw peer addr x ts sw2 y [] cl) = Some (Err channel_closed))"
  unfolding Client_dial_def Client_add_probe_address_def
  by (intro conjI impI then_bootstrap_again[OF _ assms])

section \<open>Concrete runs\<close>

definition demo_swarm :: swarm where
  "demo_swarm =
     \<lparr>sw_local_peer = [1], sw_bootstrap = Ok 0, sw_listen_on = (\<lambda>_. Ok ()), sw_dial = (\<lambda>_. Ok ()),
      sw_connected = {}, sw_listeners = [], sw_start_providing = (\<lambda>_. Ok 0), sw_get_providers = (\<lambda>_. 0),
      sw_send_request = (\<lambda>_ _. 0), sw_channel_open = (\<lambda>_. True), sw_subscribe = (\<lambda>_. Ok ()),
      sw_publish = (\<lambda>_ _. Ok ())\<rparr>"

definition demo_loop_env :: loop_env where
  "demo_loop_env =
     \<lparr>ser_verify_build = (\<lambda>_. Ok []), de_verify_build = (\<lambda>_. None), env_var = (\<lambda>_. None), addr_text = (\<lambda>_. []),
      ip4_protocol = (\<lambda>_. OtherProtocol []), lp_peer_text = (\<lambda>_. []), event_receiver_alive = True,
      status_awaited = True\<rparr>"

definition demo_turns :: "turn list" where
  "demo_turns = [CommandTurn demo_swarm (RequestArtifact ''a'' [2] 7),
     SwarmTurn demo_swarm (ArtifactRR (Response 0 [5]))]"

lemmas demo_loop_defs = demo_swarm_def demo_loop_env_def demo_turns_def PyrsiaEventLoop_new_def take_turn_def
  send_request_def await_answer_def call_swarm_def dispatch_swarm_event_def handle_request_response_event_def
  handle_rr_event_def resolve_def send_answer_def

definition demo_asked :: PyrsiaEventLoop where
  "demo_asked = PyrsiaEventLoop_new\<lparr>pending_request_artifact := [(0, 7)],
     swarm_calls := [SendRequest [2] (ArtifactRequest ''a'')]\<rparr>"

definition demo_answered :: PyrsiaEventLoop where
  "demo_answered = demo_asked\<lparr>pending_request_artifact := [], answers_sent := [(7, Bytes (Ok [5]))]\<rparr>"

lemma demo_turn_1: "take_turn demo_loop_env (CommandTurn demo_swarm (RequestArtifact ''a'' [2] 7)) PyrsiaEventLoop_new
    = (Ok (), demo_asked)"
  by (simp add: demo_loop_defs demo_asked_def)

lemma demo_turn_2: "take_turn demo_loop_env (SwarmTurn demo_swarm (ArtifactRR (Response 0 [5]))) demo_asked
    = (Ok (), demo_answered)"
  by (simp add: demo_loop_defs demo_asked_def demo_answered_def)

lemma demo_run: "run_event_loop demo_loop_env demo_turns PyrsiaEventLoop_new = (Ok (), demo_answered)"
  using demo_turn_1 demo_turn_2 by (simp add: demo_turns_def take_turn_def)

lemma demo_ids: "ids_unused_run demo_loop_env demo_turns PyrsiaEventLoop_new"
  by (simp add: demo_turns_def demo_turn_1) (simp add: PyrsiaEventLoop_new_def)

lemma demo_received: "served demo_turns = demo_turns" "senders_received demo_turns = [7]"
  by (simp_all add: senders_received_def demo_turns_def List.map_filter_simps)


theorem every_call_gets_its_result_witness: "receive 7 demo_answered = Some (Ok (Bytes (Ok [5])))"
proof -
  let ?us = "[SwarmTurn demo_swarm (ArtifactRR (Response 0 [5]))]"
  have none: "senders_received [] = []" "senders_received ?us = []"
    by (simp_all add: senders_received_def List.map_filter_simps)
  have "receive 7 demo_answered =
      call_comes_to (command_fate demo_loop_env demo_swarm PyrsiaEventLoop_new (RequestArtifact ''a'' [2] 7)) ?us"
    by (rule every_call_gets_its_result[of _ "[]"])
       (use demo_run demo_ids none in \<open>simp_all add: demo_turns_def\<close>)
  then show ?thesis by (simp add: demo_swarm_def served_events_def List.map_filter_simps)
qed

theorem awaited_answer_comes_with_its_event_witness: "(7, Bytes (Ok [5])) \<in> set (answers_sent demo_answered)"
proof -
  let ?ts = "[SwarmTurn demo_swarm (ArtifactRR (Response 0 [5]))]"
  have "run_event_loop demo_loop_env ?ts demo_asked = (Ok (), demo_answered)"
    using demo_turn_2 by (simp add: take_turn_def)
  moreover have "ids_unused_run demo_loop_env ?ts demo_asked" by simp
  moreover have "pending_of demo_asked (OfArtifact 0) = Some 7" by (simp add: demo_asked_def)
  ultimately show ?thesis
    using awaited_answer_comes_with_its_event[of demo_loop_env ?ts demo_asked demo_answered "OfArtifact 0" 7]
    by (simp add: served_events_def List.map_filter_simps)
qed

text \<open>The peer that asked over channel 3 has gone, while a request for an artifact waits.\<close>

theorem hung_up_peer_ends_the_network_witness:
  "\<exists>cl. tell_loop demo_loop_env (demo_swarm\<lparr>sw_channel_open := (\<lambda>_. False)\<rparr>) (RespondArtifact [1] 3)
      \<lparr>cl_loop = demo_asked, cl_running = True\<rparr> = (Ok (), cl) \<and> receive 7 (cl_loop cl) = Some (Err channel_closed)"
proof -
  let ?cl = "\<lparr>cl_loop = demo_asked, cl_running = True\<rparr>" and ?sw = "demo_swarm\<lparr>sw_channel_open := (\<lambda>_. False)\<rparr>"
  obtain cl where cl: "tell_loop demo_loop_env ?sw (RespondArtifact [1] 3) ?cl = (Ok (), cl)" and lost: "network_lost ?cl cl"
    using hung_up_peer_ends_the_network[of ?cl "RespondArtifact [1] 3" 3 ?sw demo_loop_env, THEN conjunct1] by auto
  have "pending_of (cl_loop ?cl) (OfArtifact 0) = Some 7 \<and> 7 \<notin> fst ` set (answers_sent (cl_loop ?cl))"
    by (simp add: demo_asked_def PyrsiaEventLoop_new_def)
  then have "receive 7 (cl_loop cl) = Some (Err channel_closed)" using lost unfolding network_lost_def by blast
  then show ?thesis using cl by blast
qed

definition demo_bootstrapped :: client_side where
  "demo_bootstrapped = \<lparr>cl_loop = PyrsiaEventLoop_new\<lparr>bootstrapped := True\<rparr>, cl_running = True\<rparr>"

definition demo_connects :: "turn list" where
  "demo_connects = [SwarmTurn demo_swarm (OtherSwarm (ConnectionEstablished [2] True []))]"

definition demo_connected :: "swarm_call \<Rightarrow> client_side" where
  "demo_connected c = \<lparr>cl_loop = PyrsiaEventLoop_new\<lparr>bootstrapped := True, answers_sent := [(1, Done (Ok ()))],
     swarm_calls := [c, AddAddress [2] []]\<rparr>, cl_running = True\<rparr>"

lemma demo_connections:
  "call_as the_done demo_loop_env demo_swarm (Dial [2] []) 1 demo_connects demo_bootstrapped
     = (Some (Ok ()), demo_connected (DialAddr [P2p [2]]))"
  "call_as the_done demo_loop_env demo_swarm (AddProbe [2] []) 1 demo_connects demo_bootstrapped
     = (Some (Ok ()), demo_connected (AddServer [2] []))"
  by (simp_all add: demo_bootstrapped_def demo_connects_def demo_connected_def call_as_def call_loop_def demo_loop_defs
      handle_swarm_event_def settle_dial_def receive_def as_answer_def)

theorem later_dials_report_failure_witness:
  "fst (Client_dial demo_loop_env demo_swarm [2] [] 1 demo_connects demo_swarm 2 [] demo_bootstrapped)
      = Some (Err channel_closed) \<and>
   fst (Client_add_probe_address demo_loop_env demo_swarm [2] [] 1 demo_connects demo_swarm 2 [] demo_bootstrapped)
      = Some (Err channel_closed)"
proof -
  have "bootstrapped (cl_loop demo_bootstrapped)" "cl_running (demo_connected c)"
      "2 \<notin> fst ` set (answers_sent (cl_loop (demo_connected c)))" for c
    by (simp_all add: demo_bootstrapped_def demo_connected_def)
  note h = later_dials_report_failure[OF this]
  show ?thesis using h demo_connections by blast
qed

end
