(* ===== verification/Peer_Metrics_Claims.thy ===== *)
theory Peer_Metrics_Claims
  imports Peer_Metrics
begin

text \<open>
  What the metrics of hosts mean for the choice of a peer: metrics of non-negative loads are never
  \<^verbatim>\<open>NaN\<close>, so the choice of the client does not panic on them, and a host whose processes have used the
  disk is never below the threshold.
\<close>

section \<open>Doubles that are not negative\<close>

definition f64_nonneg :: "f64 \<Rightarrow> bool" where
  "f64_nonneg x \<longleftrightarrow> unat x \<le> f64_inf"

lemma nonneg_magnitude: "f64_nonneg x \<Longrightarrow> f64_magnitude x = unat x"
  by (simp add: f64_nonneg_def f64_magnitude_def f64_inf_def)

lemma nonneg_not_nan: "f64_nonneg x \<Longrightarrow> \<not> f64_is_nan x"
  by (simp add: f64_is_nan_def nonneg_magnitude) (simp add: f64_nonneg_def f64_inf_def)

lemma nonneg_not_negative: "f64_nonneg x \<Longrightarrow> \<not> f64_negative x"
  by (simp add: f64_nonneg_def f64_negative_def f64_inf_def)

lemma f64_signed_bits: "bits \<le> f64_inf \<Longrightarrow> unat (f64_signed False bits) = bits"
  by (simp add: f64_signed_def f64_inf_def unat_of_nat)

lemma f64_nearest_le_inf: "f64_nearest m e \<le> f64_inf"
  by (simp add: f64_nearest_def Let_def)

lemma unat_nearest [simp]: "unat (f64_signed False (f64_nearest m e)) = f64_nearest m e"
  by (simp add: f64_signed_bits f64_nearest_le_inf)

lemma nonneg_nearest [simp]: "f64_nonneg (f64_signed False (f64_nearest m e))"
  by (simp add: f64_nonneg_def f64_nearest_le_inf)

lemma nonneg_infinite: "f64_nonneg x \<Longrightarrow> f64_infinite x \<longleftrightarrow> unat x = f64_inf"
  by (simp add: f64_infinite_def nonneg_magnitude)

lemma f64_add_nonneg_eq:
  assumes "f64_nonneg x" and "f64_nonneg y"
  shows "f64_add x y =
    (if f64_infinite x then x else if f64_infinite y then y
     else f64_signed False (f64_nearest (f64_sig x * 2 ^ f64_exp x + f64_sig y * 2 ^ f64_exp y) 0))"
proof -
  let ?v = "f64_sig x * 2 ^ f64_exp x + f64_sig y * 2 ^ f64_exp y"
  have signs: "\<not> f64_is_nan x" "\<not> f64_is_nan y" "\<not> f64_negative x" "\<not> f64_negative y"
    using assms nonneg_not_nan nonneg_not_negative by blast+
  have "f64_exact x + f64_exact y = int ?v" by (simp add: f64_exact_def signs)
  moreover have "f64_nearest ?v 0 = 0" if "?v = 0" using that by (simp add: f64_nearest_def)
  ultimately show ?thesis by (simp add: f64_add_def signs Let_def del: of_nat_add)
qed

lemma f64_add_nonneg: "f64_nonneg x \<Longrightarrow> f64_nonneg y \<Longrightarrow> f64_nonneg (f64_add x y)"
  by (simp add: f64_add_nonneg_eq)

lemma f64_mul_nonneg_eq:
  assumes "f64_nonneg x" and "f64_nonneg c" and "\<not> f64_infinite c" and "f64_sig c \<noteq> 0"
  shows "f64_mul x c =
    (if f64_infinite x then f64_signed False f64_inf
     else f64_signed False (f64_nearest (f64_sig x * f64_sig c) (int (f64_exp x) + int (f64_exp c) - 1074)))"
proof -
  have "f64_sig x \<noteq> 0" if "f64_infinite x"
    using that by (simp add: f64_infinite_def f64_sig_def f64_exponent_def f64_inf_def)
  then show ?thesis using assms nonneg_not_nan nonneg_not_negative by (auto simp: f64_mul_def)
qed

lemma f64_mul_nonneg:
  assumes "f64_nonneg x" and "f64_nonneg c" and "\<not> f64_infinite c" and "f64_sig c \<noteq> 0"
  shows "f64_nonneg (f64_mul x c)"
proof -
  have "f64_nonneg (f64_signed False f64_inf)" by (simp add: f64_nonneg_def f64_signed_bits)
  then show ?thesis using f64_mul_nonneg_eq[OF assms] by simp
qed

section \<open>Powers of two below a double\<close>

text \<open>\<open>f64_from k x\<close>: the exponent field of \<open>x\<close> is at least \<open>k\<close>, that is, \<open>x\<close> is at least two to the power \<open>k - 1023\<close>.\<close>

definition f64_from :: "nat \<Rightarrow> f64 \<Rightarrow> bool" where
  "f64_from k x \<longleftrightarrow> f64_nonneg x \<and> k * 2 ^ 52 \<le> unat x"

lemma from_exponent:
  assumes "f64_from k x" and "1 \<le> k"
  shows "k \<le> f64_exponent x" and "2 ^ 52 \<le> f64_sig x" and "f64_exp x + 1 = f64_exponent x"
proof -
  show k: "k \<le> f64_exponent x"
    using assms div_le_mono[of "k * 2 ^ 52" "unat x" "2 ^ 52"] by (simp add: f64_from_def f64_exponent_def nonneg_magnitude)
  show "2 ^ 52 \<le> f64_sig x" "f64_exp x + 1 = f64_exponent x"
    using k assms(2) by (simp_all add: f64_sig_def f64_exp_def)
qed

lemma floorlog_lower: "2 ^ n \<le> m \<Longrightarrow> n + 1 \<le> floorlog 2 m"
proof -
  assume a: "2 ^ n \<le> m"
  then have "0 < m" by (meson less_le_trans zero_less_numeral zero_less_power)
  then have "m < 2 ^ floorlog 2 m" using floorlog_bounds[of m 2] by simp
  then have "(2::nat) ^ n < 2 ^ floorlog 2 m" using a by linarith
  then show ?thesis by simp
qed

lemma nearest_from:
  assumes "0 < m" and "1 \<le> k" and "k \<le> 2047" and "int k + 52 \<le> int (floorlog 2 m) + e"
  shows "k * 2 ^ 52 \<le> f64_nearest m e"
proof -
  have pos: "m \<noteq> 0" using assms(1) by simp
  let ?l = "floorlog 2 m"
  let ?x = "e + int ?l - 53"
  have x: "max 0 ?x = ?x" "k - 1 \<le> nat ?x" using assms by auto
  have m: "2 ^ (?l - 1) \<le> m" using floorlog_bounds[of m 2] pos by simp
  have l: "1 \<le> ?l" using pos floorlog_lower[of 0 m] by simp
  let ?sig = "if ?x \<le> e then m * 2 ^ nat (e - ?x) else round_even m (nat (?x - e))"
  have "2 ^ 52 \<le> ?sig"
  proof (cases "?x \<le> e")
    case True
    then have "?l - 1 + nat (e - ?x) = 52" using l by auto
    then have "(2::nat) ^ 52 = 2 ^ (?l - 1) * 2 ^ nat (e - ?x)" by (metis power_add)
    also have "\<dots> \<le> m * 2 ^ nat (e - ?x)" using m by (rule mult_le_mono1)
    finally show ?thesis using True by simp
  next
    case False
    then have n: "nat (?x - e) = ?l - 53" "?l - 1 = 52 + (?l - 53)" by auto
    have "(2::nat) ^ 52 = 2 ^ (?l - 1) div 2 ^ (?l - 53)" unfolding n(2) by (simp add: power_add)
    also have "\<dots> \<le> m div 2 ^ (?l - 53)" using m by (rule div_le_mono)
    also have "\<dots> \<le> round_even m (?l - 53)" by (simp add: round_even_def Let_def)
    finally show ?thesis using False n by simp
  qed
  moreover have "k * 2 ^ 52 = (k - 1) * 2 ^ 52 + 2 ^ 52" using assms(2) by (cases k) auto
  moreover have "(k - 1) * 2 ^ 52 \<le> nat ?x * 2 ^ 52" using x(2) by (rule mult_le_mono1)
  ultimately have "k * 2 ^ 52 \<le> nat ?x * 2 ^ 52 + ?sig" by linarith
  moreover have "k * 2 ^ 52 \<le> f64_inf" using assms(3) by (simp add: f64_inf_def)
  ultimately show ?thesis using pos x(1) by (simp add: f64_nearest_def Let_def)
qed

lemma add_from_right:
  assumes "f64_nonneg x" and "f64_from k y" and "1 \<le> k" and "k \<le> 2047"
  shows "f64_from k (f64_add x y)"
proof -
  have y: "f64_nonneg y" "k \<le> f64_exponent y" "2 ^ 52 \<le> f64_sig y" "f64_exp y + 1 = f64_exponent y"
    using assms(2) from_exponent[OF assms(2,3)] by (auto simp: f64_from_def)
  let ?v = "f64_sig x * 2 ^ f64_exp x + f64_sig y * 2 ^ f64_exp y"
  have "(2::nat) ^ (k + 51) = 2 ^ 52 * 2 ^ (k - 1)" using assms(3) by (cases k) (simp_all add: power_add)
  also have "\<dots> \<le> f64_sig y * 2 ^ f64_exp y" using y by (intro mult_le_mono power_increasing) auto
  also have "\<dots> \<le> ?v" by simp
  finally have v: "2 ^ (k + 51) \<le> ?v" .
  then have "0 < ?v" by (meson less_le_trans zero_less_numeral zero_less_power)
  moreover have "int k + 52 \<le> int (floorlog 2 ?v) + 0" using floorlog_lower[OF v] by simp
  ultimately have near: "k * 2 ^ 52 \<le> f64_nearest ?v 0" by (rule nearest_from[OF _ assms(3,4)])
  have "k * 2 ^ 52 \<le> f64_inf" using assms(4) by (simp add: f64_inf_def)
  then show ?thesis using near assms(1,2) y(1)
    by (auto simp: f64_from_def f64_add_nonneg_eq nonneg_infinite)
qed

lemma mul_from:
  assumes "f64_from i x" and "f64_from j c" and "\<not> f64_infinite c" and "1 \<le> i" and "1 \<le> j"
    and "k + 1023 = i + j" and "1 \<le> k" and "k \<le> 2047"
  shows "f64_from k (f64_mul x c)"
proof -
  have x: "f64_nonneg x" "i \<le> f64_exponent x" "2 ^ 52 \<le> f64_sig x" "f64_exp x + 1 = f64_exponent x"
    and c: "f64_nonneg c" "j \<le> f64_exponent c" "2 ^ 52 \<le> f64_sig c" "f64_exp c + 1 = f64_exponent c"
    using assms(1,2) from_exponent[OF assms(1,4)] from_exponent[OF assms(2,5)] by (auto simp: f64_from_def)
  have "(2::nat) ^ 52 * 2 ^ 52 \<le> f64_sig x * f64_sig c" using x(3) c(3) by (rule mult_le_mono)
  then have v: "(2::nat) ^ 104 \<le> f64_sig x * f64_sig c" by (simp flip: power_add)
  have "int k + 52 \<le> int (floorlog 2 (f64_sig x * f64_sig c)) + (int (f64_exp x) + int (f64_exp c) - 1074)"
    using floorlog_lower[OF v] x(2,4) c(2,4) assms(6) by linarith
  moreover have "0 < f64_sig x * f64_sig c" using v by (metis less_le_trans zero_less_numeral zero_less_power)
  ultimately have near: "k * 2 ^ 52
      \<le> f64_nearest (f64_sig x * f64_sig c) (int (f64_exp x) + int (f64_exp c) - 1074)"
    using nearest_from[OF _ assms(7,8), of "f64_sig x * f64_sig c"] by simp
  have inf: "k * 2 ^ 52 \<le> f64_inf" using assms(8) by (simp add: f64_inf_def)
  have "f64_sig c \<noteq> 0" using c(3) by auto
  then show ?thesis using near inf f64_mul_nonneg_eq[OF x(1) c(1) assms(3)] f64_mul_nonneg[OF x(1) c(1) assms(3)]
    by (simp add: f64_from_def f64_signed_bits split: if_splits)
qed

section \<open>The metrics of hosts\<close>

lemma weights:
  "f64_from 1024 CPU_STRESS_WEIGHT" "\<not> f64_infinite CPU_STRESS_WEIGHT" "f64_sig CPU_STRESS_WEIGHT \<noteq> 0"
  "f64_from 1013 NETWORK_STRESS_WEIGHT" "\<not> f64_infinite NETWORK_STRESS_WEIGHT" "f64_sig NETWORK_STRESS_WEIGHT \<noteq> 0"
  "DISK_STRESS_WEIGHT = NETWORK_STRESS_WEIGHT"
  by (simp_all add: CPU_STRESS_WEIGHT_def NETWORK_STRESS_WEIGHT_def DISK_STRESS_WEIGHT_def f64_from_def
      f64_nonneg_def f64_infinite_def f64_magnitude_def f64_inf_def f64_sig_def f64_exponent_def)

lemma nonneg_of_u64 [simp]: "f64_nonneg (f64_of_u64 n)"
  by (simp add: f64_of_u64_def)

lemma network_stress_nonneg: "f64_nonneg (get_network_stress h)"
  by (simp add: get_network_stress_def f64_add_nonneg split: prod.split)

lemma weighted_nonneg:
  "f64_nonneg x \<Longrightarrow> f64_nonneg (f64_mul x CPU_STRESS_WEIGHT)"
  "f64_nonneg x \<Longrightarrow> f64_nonneg (f64_mul x NETWORK_STRESS_WEIGHT)"
  using f64_mul_nonneg weights by (auto simp: f64_from_def)

lemma quality_metric_nonneg:
  "f64_nonneg (load_average_one h1) \<Longrightarrow> f64_nonneg (get_quality_metric h1 h2 h3)"
  by (simp add: get_quality_metric_def Let_def get_cpu_stress_def get_disk_stress_def weights(7)
      f64_add_nonneg weighted_nonneg network_stress_nonneg)

text \<open>All bytes that the processes of a host have written or read.\<close>

definition disk_total :: "host \<Rightarrow> nat" where
  "disk_total h = (\<Sum>(w, r) \<leftarrow> disk_usages h. unat w + unat r)"

lemma unat_disk_fold:
  assumes "unat acc + (\<Sum>(w, r) \<leftarrow> us. unat w + unat r) < 2 ^ 64"
  shows "unat (foldl (\<lambda>total (written, read). total + written + read) acc us)
    = unat acc + (\<Sum>(w, r) \<leftarrow> us. unat w + unat (r :: 64 word))"
  using assms
proof (induction us arbitrary: acc)
  case (Cons u us)
  obtain w r where u: "u = (w, r)" by force
  have "unat (acc + w + r) = unat acc + unat w + unat r"
    using Cons.prems by (simp add: u unat_word_ariths)
  then show ?case using Cons.IH[of "acc + w + r"] Cons.prems by (simp add: u add.assoc)
qed simp

lemma of_u64_from:
  assumes "2 ^ 10 \<le> unat n"
  shows "f64_from 1033 (f64_of_u64 n)"
proof -
  have "1033 * 2 ^ 52 \<le> f64_nearest (unat n) 1074"
    using assms floorlog_lower[OF assms] by (intro nearest_from) auto
  then show ?thesis by (simp add: f64_from_def f64_of_u64_def)
qed

lemma byte_of_nat: "(ucast (word_of_nat k :: u8) :: f64) = word_of_nat (k mod 256)"
proof -
  have "unat (ucast (word_of_nat k :: u8) :: f64) = k mod 256"
    by (simp add: unsigned_ucast_eq unat_of_nat take_bit_eq_mod)
  then show ?thesis by (simp add: word_unat_eq_iff unat_of_nat)
qed

lemma le_bytes_from:
  fixes x :: f64
  assumes "i \<le> 8"
  shows "f64_from_le_bytes (map (\<lambda>i. word_of_nat (unat x div 256 ^ i)) [i..<8]) = word_of_nat (unat x div 256 ^ i)"
  using assms
proof (induction rule: inc_induct)
  case base
  have "unat x < 256 ^ 8" using unsigned_less[of x, where 'a = nat] by simp
  then have "unat x div 256 ^ 8 = 0" by (rule div_less)
  then show ?case by (simp add: f64_from_le_bytes_def)
next
  case (step i)
  let ?n = "unat x div 256 ^ i"
  have "unat x div 256 ^ Suc i = ?n div 256" by (metis div_mult2_eq power_Suc2)
  moreover have "word_of_nat (?n div 256) * 256 + word_of_nat (?n mod 256) = (word_of_nat ?n :: f64)"
    using arg_cong[OF div_mult_mod_eq[of ?n 256], where f = "word_of_nat :: nat \<Rightarrow> f64"]
    by (simp only: of_nat_add of_nat_mult of_nat_numeral)
  ultimately show ?case using step by (simp add: f64_from_le_bytes_def upt_conv_Cons byte_of_nat)
qed

lemma to_le_bytes_roundtrip: "f64_from_le_bytes (f64_to_le_bytes x) = x"
  using le_bytes_from[of 0 x] by (simp add: f64_to_le_bytes_def)

lemma collect_takes_first:
  assumes "\<forall>p \<in> set ps. ask p = Some (Ok (f64_to_le_bytes (metric p)))"
    and "List.find (\<lambda>p. f64_less (metric p) PEER_METRIC_THRESHOLD) ps = Some p"
  shows "collect_idle_metrics ask ps ms = Ok (Some p)"
  using assms by (induction ps arbitrary: ms) (auto simp: Let_def to_le_bytes_roundtrip split: if_splits)

text \<open>
  C39: the load that a node advertises is always a number its peers can compare. When the load average
  of the host is not negative, the metric is neither \<^verbatim>\<open>NaN\<close> nor negative, whatever the network and disk
  counters are. So a client whose providers all answer with such metrics always gets a peer and its sort does not
  panic: the first provider it asks whose metric is below the threshold, which need not be the least loaded
  one, and otherwise one with the least metric of all.
\<close>

theorem advertised_metrics_are_comparable:
  assumes "\<forall>p \<in> set providers. ask p = Some (Ok (f64_to_le_bytes (metric p)))"
    and "\<forall>p \<in> set providers. \<exists>h1 h2 h3. metric p = get_quality_metric h1 h2 h3 \<and> f64_nonneg (load_average_one h1)"
    and "providers \<noteq> []"
  shows "(\<forall>p \<in> set providers. \<not> f64_is_nan (metric p) \<and> \<not> f64_negative (metric p)) \<and>
    (case List.find (\<lambda>p. f64_less (metric p) PEER_METRIC_THRESHOLD) providers of
       Some p \<Rightarrow> get_idle_peer ask providers = Ok (Some p)
     | None \<Rightarrow> \<exists>p \<in> set providers. get_idle_peer ask providers = Ok (Some p) \<and>
         (\<forall>q \<in> set providers. f64_key (metric p) \<le> f64_key (metric q)))"
proof
  have nonneg: "f64_nonneg (metric p)" if "p \<in> set providers" for p
    using assms(2) that quality_metric_nonneg by fastforce
  then show "\<forall>p \<in> set providers. \<not> f64_is_nan (metric p) \<and> \<not> f64_negative (metric p)"
    using nonneg_not_nan nonneg_not_negative by blast
  have answer: "answered ask q = Some (metric q)" if "q \<in> set providers" for q
    using assms(1) that by (simp add: answered_def to_le_bytes_roundtrip)
  have "metrics_sane ask providers"
    using assms(1) nonneg nonneg_not_nan by (simp add: metrics_sane_def to_le_bytes_roundtrip)
  then obtain r where r: "get_idle_peer ask providers = Ok r" "good_choice ask (set providers) r"
    using collect_idle_metrics_good[of ask providers "[]" "{}"] by (auto simp: get_idle_peer_def collected_def)
  have "r \<noteq> None"
    using r(2) answer assms(3) by (cases providers; cases r) (auto simp: good_choice_def)
  then obtain p where p: "r = Some p" "p \<in> set providers"
    using r(2) by (auto simp: good_choice_def)
  show "case List.find (\<lambda>p. f64_less (metric p) PEER_METRIC_THRESHOLD) providers of
      Some p \<Rightarrow> get_idle_peer ask providers = Ok (Some p)
    | None \<Rightarrow> \<exists>p \<in> set providers. get_idle_peer ask providers = Ok (Some p) \<and>
        (\<forall>q \<in> set providers. f64_key (metric p) \<le> f64_key (metric q))"
  proof (cases "List.find (\<lambda>p. f64_less (metric p) PEER_METRIC_THRESHOLD) providers")
    case None
    then have "\<not> f64_less (metric p) PEER_METRIC_THRESHOLD" using p(2) by (simp add: find_None_iff)
    then have "\<forall>q \<in> set providers. f64_key (metric p) \<le> f64_key (metric q)"
      using r(2) p answer by (auto simp: good_choice_def)
    then show ?thesis using None r(1) p by auto
  next
    case (Some q)
    then show ?thesis using collect_takes_first[OF assms(1)] by (simp add: get_idle_peer_def)
  qed
qed

text \<open>
  The threshold below which the client takes a peer at once is out of reach of a host that has
  used its disk. The disk counters are those of the whole life of each process, and as soon as they
  come to 1024 bytes (and have not overflowed 64 bits) the metric is at least 1, so it is not below
  the threshold of one half, whatever the load is.
\<close>

theorem disk_use_keeps_metric_above_threshold:
  assumes "f64_nonneg (load_average_one h1)" and "1024 \<le> disk_total h3" and "disk_total h3 < 2 ^ 64"
  shows "f64_key (get_quality_metric h1 h2 h3) \<ge> f64_key 0x3FF0000000000000 \<and>
    \<not> f64_less (get_quality_metric h1 h2 h3) PEER_METRIC_THRESHOLD"
proof -
  let ?disk = "f64_mul (get_disk_stress h3) NETWORK_STRESS_WEIGHT"
  have "f64_from 1033 (get_disk_stress h3)"
    using assms(2,3) unat_disk_fold[of 0 "disk_usages h3"]
    by (simp add: get_disk_stress_def disk_total_def of_u64_from)
  then have "f64_from 1023 ?disk" by (rule mul_from[OF _ weights(4,5)]) simp_all
  then have "f64_from 1023 (get_quality_metric h1 h2 h3)"
    using assms(1) by (simp add: get_quality_metric_def Let_def get_cpu_stress_def weights(7) add_from_right
        f64_add_nonneg weighted_nonneg network_stress_nonneg)
  then have big: "1023 * 2 ^ 52 \<le> f64_key (get_quality_metric h1 h2 h3)"
    using nonneg_not_negative
    by (auto simp: f64_from_def f64_key_def nonneg_magnitude f64_negative_def simp flip: zle_int)
  moreover have "f64_key PEER_METRIC_THRESHOLD = 1022 * 2 ^ 52" "f64_key 0x3FF0000000000000 = 1023 * 2 ^ 52"
    by (simp_all add: f64_key_def f64_magnitude_def PEER_METRIC_THRESHOLD_def f64_half_def)
  ultimately show ?thesis by (simp add: f64_less_def)
qed

section \<open>Witnesses\<close>

text \<open>A host without load, with one network and one process that has written 2048 bytes.\<close>

definition demo_host :: host where
  "demo_host = \<lparr>load_average_one = 0, network_counters = [(3, 4)], disk_usages = [(2048, 0)]\<rparr>"

lemma demo_host_nonneg: "f64_nonneg (load_average_one demo_host)"
  by (simp add: demo_host_def f64_nonneg_def)

theorem advertised_metrics_are_comparable_witness:
  "(\<exists>p. get_idle_peer (\<lambda>_. Some (Ok (f64_to_le_bytes (get_quality_metric demo_host demo_host demo_host)))) [[1], [2]]
     = Ok (Some p)) \<and> \<not> f64_is_nan (get_quality_metric demo_host demo_host demo_host)"
proof -
  let ?m = "get_quality_metric demo_host demo_host demo_host" and ?ps = "[[1], [2]] :: PeerId list"
  let ?ask = "\<lambda>_ :: PeerId. Some (Ok (f64_to_le_bytes ?m))"
  have "\<forall>p \<in> set ?ps. ?ask p = Some (Ok (f64_to_le_bytes ?m))" by simp
  moreover have "\<forall>p \<in> set ?ps. \<exists>h1 h2 h3. ?m = get_quality_metric h1 h2 h3 \<and> f64_nonneg (load_average_one h1)"
    using demo_host_nonneg by blast
  ultimately show ?thesis
    using advertised_metrics_are_comparable[of ?ps ?ask "\<lambda>_. ?m"]
    by (cases "f64_less ?m PEER_METRIC_THRESHOLD") auto
qed

theorem disk_use_keeps_metric_above_threshold_witness:
  "\<not> f64_less (get_quality_metric demo_host demo_host demo_host) PEER_METRIC_THRESHOLD"
  using disk_use_keeps_metric_above_threshold[OF demo_host_nonneg, of demo_host demo_host]
  by (simp add: disk_total_def demo_host_def)

end
