(* ===== verification/Node_Exchange.thy ===== *)
theory Node_Exchange
  imports Node_Process Network_Protocol_Claims Network_Call_Claims Artifact_Claims Peer_Metrics_Claims
begin

text \<open>
  Two nodes and the network between them. A request goes from the client of one node through its
  event loop and the codec onto the wire, through the event loop of the other node to its \<^verbatim>\<open>main\<close>, and
  the response comes back the same way. Nothing here is code of its own: the definitions compose the
  models of the client, the loops, the codecs and the handlers. Routing messages to the right node is
  the work of libp2p.
\<close>

section \<open>The network between two nodes\<close>

definition carry :: "framing \<Rightarrow> status_codec \<Rightarrow> stream \<Rightarrow> wire \<Rightarrow> (wire, io_error) outcome" where
  "carry fr sc st w =
     (case write_wire fr sc st w of
        (Ok _, out) \<Rightarrow> read_wire fr sc st (fst (route_of w)) (snd (route_of w)) out
      | (Err x, _) \<Rightarrow> Err x
      | (Panic m, _) \<Rightarrow> Panic m)"

lemma carry_ok:
  assumes "framing_laws fr" and "reliable st" and "wire_value w" and "within_limits sc st w"
  shows "carry fr sc st w = Ok w"
  using wire_arrives[OF assms] by (auto simp: carry_def)

text \<open>The events libp2p makes of a message that has arrived, and the command that asks for it.\<close>

fun request_event :: "wire \<Rightarrow> channel \<Rightarrow> swarm_event option" where
  "request_event (ArtifactRequest i) ch = Some (ArtifactRR (Request i ch))"
| "request_event (BuildRequest pt psid) ch = Some (BuildRR (Request (pt, psid) ch))"
| "request_event IdleMetricRequest ch = Some (IdleMetricRR (Request () ch))"
| "request_event (BlockchainRequest v) ch = Some (BlockchainRR (Request v ch))"
| "request_event (BuildStatusRequest b) ch = Some (BuildStatusRR (Request b ch))"
| "request_event _ ch = None"

fun response_event :: "RequestId \<Rightarrow> wire \<Rightarrow> swarm_event option" where
  "response_event r (ArtifactResponse v) = Some (ArtifactRR (Response r v))"
| "response_event r (BuildResponse b) = Some (BuildRR (Response r b))"
| "response_event r (IdleMetricResponse m) = Some (IdleMetricRR (Response r m))"
| "response_event r (BlockchainResponse v) = Some (BlockchainRR (Response r v))"
| "response_event r (BuildStatusResponse x) = Some (BuildStatusRR (Response r x))"
| "response_event r _ = None"

fun request_command :: "wire \<Rightarrow> PeerId \<Rightarrow> sender \<Rightarrow> Command option" where
  "request_command (ArtifactRequest i) peer x = Some (RequestArtifact i peer x)"
| "request_command (BuildRequest pt psid) peer x = Some (RequestBuild peer pt psid x)"
| "request_command IdleMetricRequest peer x = Some (RequestIdleMetric peer x)"
| "request_command (BlockchainRequest v) peer x = Some (RequestBlockchain v peer x)"
| "request_command (BuildStatusRequest b) peer x = Some (RequestBuildStatus peer b x)"
| "request_command _ peer x = None"

fun answer_of :: "wire \<Rightarrow> Answer option" where
  "answer_of (ArtifactResponse v) = Some (Bytes (Ok v))"
| "answer_of (BuildResponse b) = Some (BuildId (Ok b))"
| "answer_of (IdleMetricResponse m) = Some (Metrics (Ok m))"
| "answer_of (BlockchainResponse v) = Some (Bytes (Ok v))"
| "answer_of (BuildStatusResponse x) = Some (StatusOf (Ok x))"
| "answer_of _ = None"

text \<open>The peer: one turn of its event loop, then its \<^verbatim>\<open>main\<close> on the events of this turn.\<close>

definition serve ::
    "node_env \<Rightarrow> swarm \<Rightarrow> swarm \<Rightarrow> host \<times> host \<times> host \<Rightarrow> swarm_event \<Rightarrow> node_state
      \<Rightarrow> (unit, anyhow) outcome \<times> node_state" where
  "serve e sw sw2 hs ev s =
     (let l = cl_loop (nd_client s); (r, l1) = dispatch_swarm_event (ne_loop e) sw ev l in
      sbind (map_err AnyMsg r, s\<lparr>nd_client := (nd_client s)\<lparr>cl_loop := l1\<rparr>\<rparr>) (\<lambda>_ s.
        run_node e (map (\<lambda>ev. (sw2, hs, ev)) (drop (length (events_sent l)) (events_sent l1))) s))"

fun response_on :: "channel \<Rightarrow> swarm_call list \<Rightarrow> wire option" where
  "response_on ch [] = None"
| "response_on ch (SendResponse c w # cs) = (if c = ch then Some w else response_on ch cs)"
| "response_on ch (_ # cs) = response_on ch cs"

definition ask_peer ::
    "framing \<Rightarrow> status_codec \<Rightarrow> stream \<Rightarrow> node_env \<Rightarrow> swarm \<Rightarrow> swarm \<Rightarrow> host \<times> host \<times> host \<Rightarrow> channel \<Rightarrow> wire \<Rightarrow> node_state
      \<Rightarrow> wire option \<times> node_state" where
  "ask_peer fr sc st e sw sw2 hs ch w s =
     (case carry fr sc st w of
        Ok arrived \<Rightarrow>
          (case request_event arrived ch of
             None \<Rightarrow> (None, s)
           | Some ev \<Rightarrow>
             (let (_, s1) = serve e sw sw2 hs ev s in
              (case response_on ch (drop (length (swarm_calls (cl_loop (nd_client s))))
                      (swarm_calls (cl_loop (nd_client s1)))) of
                 None \<Rightarrow> None
               | Some w1 \<Rightarrow> (case carry fr sc st w1 of Ok w2 \<Rightarrow> Some w2 | _ \<Rightarrow> None), s1)))
      | _ \<Rightarrow> (None, s))"

section \<open>The same as a direct call\<close>

text \<open>What the services of a node answer to a request, without any network.\<close>

fun node_answer ::
    "node_env \<Rightarrow> host \<times> host \<times> host \<Rightarrow> wire \<Rightarrow> art_state \<Rightarrow> (wire, anyhow) outcome \<times> art_state" where
  "node_answer e hs (ArtifactRequest i) a = (map_ok ArtifactResponse (get_artifact_locally (ne_art e) i a), a)"
| "node_answer e hs (BuildRequest pt psid) a =
     (map_ok BuildResponse (map_err AnyBuild (ev_start_build (ne_art e) pt psid)), a)"
| "node_answer e hs IdleMetricRequest a =
     (case hs of (h1, h2, h3) \<Rightarrow> (Ok (IdleMetricResponse (f64_to_le_bytes (get_quality_metric h1 h2 h3))), a))"
| "node_answer e hs (BlockchainRequest v) a =
     (let (r, a1) = handle_incoming_blockchain_command (ne_art e) v a in (map_ok BlockchainResponse r, a1))"
| "node_answer e hs (BuildStatusRequest b) a =
     (map_ok BuildStatusResponse (map_err AnyBuild (ev_build_status (ne_art e) b)), a)"
| "node_answer e hs _ a = (Err (AnyMsg ''not a request''), a)"

definition peer_ready :: "node_env \<Rightarrow> swarm \<Rightarrow> channel \<Rightarrow> node_state \<Rightarrow> bool" where
  "peer_ready e sw2 ch s \<longleftrightarrow>
     cl_running (nd_client s) \<and> event_receiver_alive (ne_loop e) \<and> sw_channel_open sw2 ch"

lemmas rr_defs = dispatch_swarm_event_def handle_request_response_event_def
  handle_build_request_response_event_def handle_idle_metric_request_response_event_def
  handle_blockchain_request_response_event_def handle_build_status_request_response_event_def
  handle_rr_event_def send_pyrsia_event_def

lemmas handler_defs = handle_pyrsia_event_def handle_request_artifact_def handle_request_build_def
  handle_request_idle_metric_def handle_blockchain_request_def handle_request_build_status_def respond_def
  Client_respond_artifact_def Client_respond_build_def Client_respond_idle_metric_def
  Client_respond_blockchain_def Client_respond_build_status_def tell_loop_def send_response_def call_swarm_def

lemma served:
  assumes "node_answer e hs w (nd_art s) = (Ok w', a)" and "peer_ready e sw2 ch s"
    and "request_event w ch = Some ev"
  shows "\<exists>s1. serve e sw sw2 hs ev s = (Ok (), s1) \<and> nd_art s1 = a \<and>
    swarm_calls (cl_loop (nd_client s1)) = swarm_calls (cl_loop (nd_client s)) @ [SendResponse ch w']"
  using assms
  by (cases w)
     (auto simp: serve_def rr_defs handler_defs peer_ready_def map_ok_Ok_iff map_err_Ok_iff Let_def
       split: prod.splits)

lemma asked:
  assumes "request_command w peer x = Some c" and "response_event (sw_send_request sw peer w) w' = Some ev"
    and "fst (route_of w) = fst (route_of w')" and "answer_of w' = Some ans"
    and "cl_running cl" and "map_of (answers_sent (cl_loop cl)) x = None"
  shows "\<exists>cl1. call_loop e sw c x [SwarmTurn sw1 ev] cl = (Some (Ok ans), cl1)"
  using assms
  by (cases w; cases w')
     (auto simp: call_loop_def receive_def rr_defs send_request_def await_answer_def call_swarm_def
       drop_sender_def resolve_def send_answer_def update_conv' map_add_Some_iff split: option.splits)

text \<open>
  C6: a call over the network is the same as a direct call. When the services of a node answer a
  request, the loops and the channel are alive, and both messages are within the limits of the codecs,
  then the peer sends exactly that answer and changes its state exactly as the services do; and the
  caller, whose sender is new, gets exactly the content of the answer. This holds for all five kinds of
  request: artifacts, builds, build states, blocks and metrics.
\<close>

theorem peer_call_refines_direct_call:
  assumes "framing_laws fr" and "reliable st"
    and "wire_value w" and "within_limits sc st w" and "wire_value w'" and "within_limits sc st w'"
    and "node_answer e hs w (nd_art s) = (Ok w', a)" and "peer_ready e sw2 ch s"
    and "request_command w peer x = Some c"
    and "cl_running cl" and "map_of (answers_sent (cl_loop cl)) x = None"
  shows "\<exists>s1 ev ans cl1. ask_peer fr sc st e sw sw2 hs ch w s = (Some w', s1) \<and> nd_art s1 = a \<and>
    response_event (sw_send_request swa peer w) w' = Some ev \<and> answer_of w' = Some ans \<and>
    call_loop ea swa c x [SwarmTurn swb ev] cl = (Some (Ok ans), cl1)"
proof -
  obtain req where req: "request_event w ch = Some req" using assms(9) by (cases w) auto
  obtain s1 where s1: "serve e sw sw2 hs req s = (Ok (), s1)" "nd_art s1 = a"
      "swarm_calls (cl_loop (nd_client s1)) = swarm_calls (cl_loop (nd_client s)) @ [SendResponse ch w']"
    using served[OF assms(7,8) req] by blast
  have "ask_peer fr sc st e sw sw2 hs ch w s = (Some w', s1)"
    using s1(1) by (simp add: ask_peer_def carry_ok[OF assms(1-4)] carry_ok[OF assms(1,2,5,6)] req s1(3))
  moreover have route: "fst (route_of w) = fst (route_of w')"
      "\<exists>ev ans. response_event (sw_send_request swa peer w) w' = Some ev \<and> answer_of w' = Some ans"
    using assms(7,9) by (cases w; auto simp: map_ok_Ok_iff split: prod.splits)+
  ultimately show ?thesis using asked[OF assms(9) _ route(1) _ assms(10,11)] s1(2) by blast
qed

section \<open>Witness\<close>

definition demo_node_env :: node_env where
  "demo_node_env = \<lparr>ne_art = demo_art_env, ne_loop = demo_loop_env, ne_verify_build = (\<lambda>_ _ _. Ok [])\<rparr>"

definition demo_node :: node_state where
  "demo_node = \<lparr>nd_art = demo_art_state [] [([''store'', ''x.file''], [1])],
     nd_client = \<lparr>cl_loop = PyrsiaEventLoop_new, cl_running = True\<rparr>\<rparr>"

theorem peer_call_refines_direct_call_witness:
  "\<exists>s1 cl1. ask_peer varint_framing demo_status_codec demo_stream demo_node_env demo_swarm demo_swarm
        (demo_host, demo_host, demo_host) 3 (ArtifactRequest ''x'') demo_node = (Some (ArtifactResponse [1]), s1) \<and>
     call_loop demo_loop_env demo_swarm (RequestArtifact ''x'' [2] 7) 7
       [SwarmTurn demo_swarm (ArtifactRR (Response 0 [1]))] \<lparr>cl_loop = PyrsiaEventLoop_new, cl_running = True\<rparr>
       = (Some (Ok (Bytes (Ok [1]))), cl1)"
proof -
  let ?hs = "(demo_host, demo_host, demo_host)"
  have "node_answer demo_node_env ?hs (ArtifactRequest ''x'') (nd_art demo_node)
      = (Ok (ArtifactResponse [1]), nd_art demo_node)"
    by (simp add: demo_node_env_def demo_node_def get_artifact_locally_def pull_artifact_def demo_art_path
        demo_art_state_def no_faults_def)
  moreover have "peer_ready demo_node_env demo_swarm 3 demo_node"
    by (simp add: peer_ready_def demo_node_def demo_node_env_def demo_loop_env_def demo_swarm_def)
  moreover have "is_text ''x''" by (rule ascii_is_text) simp
  ultimately show ?thesis
    using peer_call_refines_direct_call[OF varint.laws demo_stream_reliable, of "ArtifactRequest ''x''" demo_status_codec
        "ArtifactResponse [1]" demo_node_env ?hs demo_node "nd_art demo_node" demo_swarm 3 "[2]" 7
        "RequestArtifact ''x'' [2] 7" "\<lparr>cl_loop = PyrsiaEventLoop_new, cl_running = True\<rparr>" demo_swarm demo_swarm
        demo_loop_env demo_swarm]
    by (auto simp: fits_def demo_swarm_def[THEN arg_cong[where f = sw_send_request]] PyrsiaEventLoop_new_def)
qed

end
