(* ===== verification/Node_Channels_Claims.thy ===== *)
theory Node_Channels_Claims
  imports Node_Channels Node_Exchange Node_Claims
begin

text \<open>
  What the tasks of a node do to each other: left alone the loops come to rest after boundedly many steps,
  with everything done that does not wait for the network; and the two loops can come to wait for each other.
\<close>

section \<open>Nothing is lost between the loops\<close>

lemma run_event_loop_snoc:
  assumes "run_event_loop e ts s = (Ok (), s1)" and "CommandsClosed \<notin> set ts" and "take_turn e t s1 = (Ok (), s2)"
    and "t \<noteq> CommandsClosed"
  shows "run_event_loop e (ts @ [t]) s = (Ok (), s2)"
  using assms
proof (induction ts arbitrary: s)
  case Nil
  then show ?case by (cases t) (simp_all add: take_turn_def)
next
  case (Cons u us)
  then show ?case by (cases u) (auto simp: or_unwind_Ok_iff)
qed

fun commands_of :: "turn list \<Rightarrow> Command list" where
  "commands_of [] = []"
| "commands_of (CommandTurn sw c # ts) = c # commands_of ts"
| "commands_of (_ # ts) = commands_of ts"

lemma commands_of_append [simp]: "commands_of (ts @ us) = commands_of ts @ commands_of us"
  by (induction ts rule: commands_of.induct) simp_all

text \<open>What a step does to the two channels, and to the record of the loops.\<close>

lemma node_step_commands:
  assumes "node_step e r r'"
  shows "nr_commands r' = nr_commands r \<and> commands_of (nr_turns r') = commands_of (nr_turns r) \<and>
      nr_accepted r' = nr_accepted r \<or>
    (\<exists>c. length (nr_commands r) < CHANNEL_SIZE \<and> nr_commands r' = nr_commands r @ [c] \<and>
       commands_of (nr_turns r') = commands_of (nr_turns r) \<and> nr_accepted r' = nr_accepted r @ [c]) \<or>
    (\<exists>c. nr_commands r = c # nr_commands r' \<and> commands_of (nr_turns r') = commands_of (nr_turns r) @ [c] \<and>
       nr_accepted r' = nr_accepted r)"
  using assms
  by (rule node_step.cases)
     (auto simp: loops_step_iff turn_taken_def event_taken_def event_served_def command_sent_def room_for_command_def)

lemma node_step_events:
  assumes "node_step e r r'"
  shows "nr_events r' = nr_events r \<and> nr_received r' = nr_received r \<and>
      nr_received r' @ nr_events r' = nr_received r @ nr_events r \<or>
    (\<exists>ev. length (nr_events r) < CHANNEL_SIZE \<and> nr_events r' = nr_events r @ [ev] \<and> nr_received r' = nr_received r \<and>
       nr_received r' @ nr_events r' = (nr_received r @ nr_events r) @ [ev]) \<or>
    (\<exists>ev. nr_events r = ev # nr_events r' \<and> nr_received r' = nr_received r @ [ev] \<and>
       nr_received r' @ nr_events r' = nr_received r @ nr_events r)"
  using assms
  by (rule node_step.cases) (auto simp: loops_step_iff turn_taken_def event_taken_def event_served_def command_sent_def)

interpretation commands: bounded_channel nr_commands "\<lambda>r. commands_of (nr_turns r)" nr_accepted CHANNEL_SIZE "node_step e" for e
  by unfold_locales (rule node_step_commands)

interpretation events: bounded_channel nr_events nr_received "\<lambda>r. nr_received r @ nr_events r" CHANNEL_SIZE "node_step e" for e
  by unfold_locales (rule node_step_events)

definition record_ok :: "node_env \<Rightarrow> PyrsiaEventLoop \<Rightarrow> node_run \<Rightarrow> bool" where
  "record_ok e l0 r \<longleftrightarrow> run_event_loop (ne_loop e) (nr_turns r) l0 = (Ok (), nr_loop r) \<and>
     CommandsClosed \<notin> set (nr_turns r) \<and>
     events_sent (nr_loop r) = events_sent l0 @ nr_received r @ nr_events r @ nr_outbox r \<and> length (nr_outbox r) \<le> 1"

lemma turn_record_ok:
  assumes "record_ok e l0 r" and "nr_outbox r = []" and "take_turn (ne_loop e) t (nr_loop r) = (Ok (), l)"
    and "t \<noteq> CommandsClosed" and "events_sent l = events_sent (nr_loop r) @ es" and "length es \<le> 1"
  shows "record_ok e l0 (turn_taken t l (r\<lparr>nr_commands := cs\<rparr>))"
proof -
  have "run_event_loop (ne_loop e) (nr_turns r @ [t]) l0 = (Ok (), l)"
    using assms(1,3,4) run_event_loop_snoc by (auto simp: record_ok_def)
  then show ?thesis using assms(1,2,4-6) by (simp add: record_ok_def turn_taken_def)
qed

lemma loops_step_record_ok:
  assumes "loops_step e r r'" and "record_ok e l0 r"
  shows "record_ok e l0 r'"
  using assms
proof cases
  case (net_command c cs sw l)
  have "events_sent l = events_sent (nr_loop r) @ []" using handle_command_sends_nothing[OF net_command(5)] by simp
  then show ?thesis
    unfolding net_command(1)
    by (rule turn_record_ok[OF assms(2) net_command(3), rotated 2]) (use net_command in \<open>auto simp: take_turn_def\<close>)
qed (use assms in \<open>auto simp: record_ok_def event_taken_def event_served_def command_sent_def\<close>)

lemma node_step_record_ok:
  assumes "node_step e r r'" and "record_ok e l0 r"
  shows "record_ok e l0 r'"
  using assms
proof cases
  case loops
  then show ?thesis using loops_step_record_ok assms(2) by blast
next
  case (swarm sw ev l)
  obtain es where es: "events_sent l = events_sent (nr_loop r) @ es" "length es \<le> 1"
    using dispatch_swarm_event_sends_one[OF swarm(4)] by auto
  have "record_ok e l0 (turn_taken (SwarmTurn sw ev) l (r\<lparr>nr_commands := nr_commands r\<rparr>))"
    by (rule turn_record_ok[OF assms(2) swarm(3) _ _ es]) (use swarm in \<open>auto simp: take_turn_def\<close>)
  then show ?thesis using swarm(1) by simp
qed (use assms in \<open>auto simp: record_ok_def command_sent_def\<close>)

lemma node_start_ok:
  "record_ok e l0 (node_start e x l0 a)" "commands.in_order (node_start e x l0 a)" "events.in_order (node_start e x l0 a)"
  by (simp_all add: node_start_def record_ok_def commands.in_order_def events.in_order_def Let_def split: outcome.split)

lemma node_steps_ok:
  assumes "node_steps e (node_start e x l0 a) r"
  shows "record_ok e l0 r" and "commands.in_order r" and "events.in_order r"
proof -
  show "record_ok e l0 r"
    using assms node_start_ok(1) by (induction rule: rtranclp_induct) (blast intro: node_step_record_ok)+
qed (use assms node_start_ok(2,3) commands.run_in_order events.run_in_order in blast)+

section \<open>The loops can wait for each other\<close>

definition main_waits :: "node_env \<Rightarrow> node_run \<Rightarrow> bool" where
  "main_waits e r \<longleftrightarrow>
     (case nr_main r of
        Announcing as \<Rightarrow> as \<noteq> [] \<and> \<not> room_for_command r
      | Awaiting x _ \<Rightarrow> receive x (nr_loop r) = None
      | Listening \<Rightarrow> nr_events r = []
      | Serving ev \<Rightarrow> \<not> can_serve e r ev
      | Responding _ \<Rightarrow> \<not> room_for_command r)"

definition node_blocked :: "node_env \<Rightarrow> node_run \<Rightarrow> bool" where
  "node_blocked e r \<longleftrightarrow> nr_alive r \<and> nr_outbox r \<noteq> [] \<and> length (nr_events r) = CHANNEL_SIZE \<and> main_waits e r"

definition waits_for_network :: "node_env \<Rightarrow> node_run \<Rightarrow> bool" where
  "waits_for_network e r \<longleftrightarrow> nr_alive r \<and> nr_outbox r = [] \<and> nr_commands r = [] \<and> main_waits e r"

lemma main_acts:
  assumes "nr_alive r" and "\<not> main_waits e r"
  shows "\<exists>r'. loops_step e r r'"
proof (cases "nr_main r")
  case (Announcing as)
  then show ?thesis
    using assms loops_step.main_listen loops_step.main_announce by (cases as) (fastforce simp: main_waits_def)+
next
  case (Awaiting x as)
  then obtain v where "receive x (nr_loop r) = Some v" using assms(2) by (auto simp: main_waits_def)
  moreover have "v \<noteq> Panic m" for m
    using calculation by (auto simp: receive_def split: option.splits if_splits)
  ultimately show ?thesis
    using loops_step.main_answered[OF assms(1) Awaiting] loops_step.main_returns[OF assms(1) Awaiting]
    by (cases v) blast+
next
  case Listening
  then obtain ev rest where "nr_events r = ev # rest" using assms(2) by (cases "nr_events r") (auto simp: main_waits_def)
  then show ?thesis using loops_step.main_take[OF assms(1) Listening] by blast
next
  case (Serving ev)
  then have ev: "can_serve e r ev" using assms(2) by (simp add: main_waits_def)
  obtain res a where h: "event_reply e undefined ev (nr_art r) = (res, a)" by force
  show ?thesis
  proof (cases "is_panic res")
    case True
    then obtain m where "res = Panic m" by (cases res) auto
    then show ?thesis using loops_step.main_panic[OF assms(1) Serving ev] h by blast
  qed (use loops_step.main_serve[OF assms(1) Serving ev h] in blast)
next
  case (Responding c)
  then show ?thesis using assms loops_step.main_respond by (fastforce simp: main_waits_def)
qed

lemma command_is_taken:
  assumes "nr_alive r" and "nr_outbox r = []" and "nr_commands r \<noteq> []"
  shows "\<exists>r'. loops_step e r r'"
proof -
  obtain c cs where c: "nr_commands r = c # cs" using assms(3) by (cases "nr_commands r") auto
  obtain out l where h: "handle_command (ne_loop e) undefined c (nr_loop r) = (out, l)" by force
  show ?thesis
  proof (cases out)
    case (Ok u)
    then show ?thesis using loops_step.net_command[OF assms(1,2) c] h by auto
  next
    case (Err x)
    then show ?thesis using h handle_command_no_Err by metis
  next
    case (Panic m)
    then show ?thesis using loops_step.net_panic[OF assms(1,2) c] h by blast
  qed
qed

lemma waiting_main_stops:
  assumes "loops_step e r r'" and "main_waits e r"
  shows "nr_outbox r = [] \<and> nr_commands r \<noteq> [] \<or> nr_outbox r \<noteq> [] \<and> length (nr_events r) < CHANNEL_SIZE"
  using assms by (auto simp: loops_step_iff main_waits_def)

lemma loops_act:
  assumes "nr_alive r" and "events.in_order r"
  shows "(\<nexists>r'. loops_step e r r') \<longleftrightarrow> node_blocked e r \<or> waits_for_network e r"
proof
  assume stop: "\<nexists>r'. loops_step e r r'"
  have "main_waits e r" using main_acts[OF assms(1)] stop by blast
  moreover have "nr_commands r = []" if "nr_outbox r = []" using command_is_taken[OF assms(1) that] stop by blast
  moreover have "length (nr_events r) = CHANNEL_SIZE" if "nr_outbox r \<noteq> []"
    using that stop loops_step.net_send[OF assms(1)] assms(2)
    by (metis events.in_order_def le_neq_implies_less neq_Nil_conv)
  ultimately show "node_blocked e r \<or> waits_for_network e r"
    using assms(1) by (auto simp: node_blocked_def waits_for_network_def)
next
  assume "node_blocked e r \<or> waits_for_network e r"
  then show "\<nexists>r'. loops_step e r r'"
    using waiting_main_stops by (fastforce simp: node_blocked_def waits_for_network_def)
qed

definition loops_stand :: "node_run \<Rightarrow> node_run \<Rightarrow> bool" where
  "loops_stand r r' \<longleftrightarrow> nr_loop r' = nr_loop r \<and> nr_received r' = nr_received r \<and> nr_main r' = nr_main r"

lemma main_waits_on:
  assumes "main_waits e r" and "nr_main r \<noteq> Listening" and "nr_main r' = nr_main r"
    and "\<And>x. receive x (nr_loop r') = receive x (nr_loop r)"
    and "\<And>sv. \<not> loop_free r sv \<Longrightarrow> \<not> loop_free r' sv" and "length (nr_commands r) \<le> length (nr_commands r')"
  shows "main_waits e r'"
  using assms
  by (auto simp: main_waits_def can_serve_def room_for_command_def split: main_task.splits option.splits)

lemma blocked_not_listening: "node_blocked e r \<Longrightarrow> nr_main r \<noteq> Listening"
  by (auto simp: node_blocked_def main_waits_def CHANNEL_SIZE_def)

lemma blocked_stays:
  assumes "node_blocked e r" and "nr_alive r'" and "nr_outbox r' = nr_outbox r" and "nr_events r' = nr_events r"
    and "loops_stand r r'" and "\<And>sv. \<not> loop_free r sv \<Longrightarrow> \<not> loop_free r' sv"
    and "length (nr_commands r) \<le> length (nr_commands r')"
  shows "node_blocked e r' \<and> loops_stand r r'"
  using assms main_waits_on[of e r r'] blocked_not_listening[OF assms(1)] by (auto simp: node_blocked_def loops_stand_def)

lemma blocked_step:
  assumes "node_step e r r'" and "node_blocked e r"
  shows "node_blocked e r' \<and> loops_stand r r'"
  using assms(1)
proof cases
  case loops
  then show ?thesis using waiting_main_stops assms(2) by (fastforce simp: node_blocked_def)
next
  case (caller c)
  then show ?thesis
    by (intro blocked_stays[OF assms(2)])
       (simp_all add: command_sent_def loops_stand_def loop_free_def split: option.splits)
next
  case (service_calls sv c x)
  have "\<not> loop_free r' sv'" if "\<not> loop_free r sv'" for sv'
    using that service_calls by (cases "sv' = sv") (simp_all add: command_sent_def loop_free_def split: option.splits)
  then show ?thesis
    using service_calls by (intro blocked_stays[OF assms(2)]) (simp_all add: command_sent_def loops_stand_def)
next
  case (services a)
  then show ?thesis by (intro blocked_stays[OF assms(2)]) (simp_all add: loops_stand_def loop_free_def split: option.splits)
qed (use assms(2) in \<open>auto simp: node_blocked_def\<close>)

lemma blocked_for_ever:
  assumes "node_steps e r r'" and "node_blocked e r"
  shows "node_blocked e r' \<and> loops_stand r r'"
  using assms
proof (induction rule: rtranclp_induct)
  case (step r1 r2)
  then show ?case using blocked_step[OF step.hyps(2)] by (simp add: loops_stand_def)
qed (simp add: loops_stand_def)

text \<open>Requests for the idle metric of the node, as they reach \<^verbatim>\<open>main\<close>.\<close>

definition only_asked :: "node_run \<Rightarrow> node_run \<Rightarrow> bool" where
  "only_asked r r' \<longleftrightarrow> nr_alive r' \<and> nr_main r' = nr_main r \<and> nr_busy r' = nr_busy r \<and> nr_commands r' = nr_commands r \<and>
     nr_accepted r' = nr_accepted r \<and> (\<exists>es. nr_loop r' = (nr_loop r)\<lparr>events_sent := es\<rparr>)"

lemma only_asked_trans: "only_asked r r1 \<Longrightarrow> only_asked r1 r2 \<Longrightarrow> only_asked r r2"
  by (auto simp: only_asked_def)

lemma metric_request_arrives:
  assumes "nr_alive r" and "nr_outbox r = []" and "event_receiver_alive (ne_loop e)"
  shows "\<exists>r'. node_step e r r' \<and> only_asked r r' \<and> nr_outbox r' = [EvIdleMetricRequest 0] \<and> nr_events r' = nr_events r"
proof -
  have "dispatch_swarm_event (ne_loop e) sw (IdleMetricRR (Request () 0)) (nr_loop r) =
      (Ok (), (nr_loop r)\<lparr>events_sent := events_sent (nr_loop r) @ [EvIdleMetricRequest 0]\<rparr>)" for sw
    using assms(3) by (simp add: dispatch_swarm_event_def handle_idle_metric_request_response_event_def
        handle_rr_event_def send_pyrsia_event_def)
  from node_step.swarm[OF assms(1,2) this] show ?thesis
    using assms(1) by (fastforce simp: turn_taken_def only_asked_def)
qed

lemma metric_requests_wait:
  assumes "nr_alive r" and "nr_outbox r = []" and "event_receiver_alive (ne_loop e)"
    and "length (nr_events r) + n \<le> CHANNEL_SIZE"
  shows "\<exists>r'. node_steps e r r' \<and> only_asked r r' \<and> nr_outbox r' = [] \<and>
    nr_events r' = nr_events r @ replicate n (EvIdleMetricRequest 0)"
  using assms
proof (induction n arbitrary: r)
  case 0
  then show ?case by (auto simp: only_asked_def intro!: exI[of _ r] exI[of _ "events_sent (nr_loop r)"])
next
  case (Suc n)
  obtain r1 where r1: "node_step e r r1" "only_asked r r1" "nr_outbox r1 = [EvIdleMetricRequest 0]"
      "nr_events r1 = nr_events r"
    using metric_request_arrives[OF Suc.prems(1-3)] by blast
  let ?r2 = "r1\<lparr>nr_outbox := [], nr_events := nr_events r1 @ [EvIdleMetricRequest 0]\<rparr>"
  have "loops_step e r1 ?r2"
    using Suc.prems r1 by (intro loops_step.net_send) (auto simp: only_asked_def)
  then have r2: "node_step e r1 ?r2" "only_asked r ?r2"
    using r1(2) by (auto intro: node_step.loops simp: only_asked_def)
  obtain r' where r': "node_steps e ?r2 r'" "only_asked ?r2 r'" "nr_outbox r' = []"
      "nr_events r' = nr_events ?r2 @ replicate n (EvIdleMetricRequest 0)"
    using Suc.IH[of ?r2] Suc.prems r1(4) r2(2) by (auto simp: only_asked_def)
  have "node_steps e r r'" using r1(1) r2(1) r'(1) by (meson converse_rtranclp_into_rtranclp)
  then show ?case using r1(4) r'(3,4) only_asked_trans[OF r2(2) r'(2)] by auto
qed

lemma flooded:
  assumes "nr_alive r" and "nr_outbox r = []" and "event_receiver_alive (ne_loop e)"
    and "length (nr_events r) \<le> CHANNEL_SIZE"
  shows "\<exists>r'. node_steps e r r' \<and> only_asked r r' \<and> nr_outbox r' \<noteq> [] \<and> length (nr_events r') = CHANNEL_SIZE"
proof -
  let ?n = "CHANNEL_SIZE - length (nr_events r)"
  obtain r1 where r1: "node_steps e r r1" "only_asked r r1" "nr_outbox r1 = []"
      "nr_events r1 = nr_events r @ replicate ?n (EvIdleMetricRequest 0)"
    using metric_requests_wait[OF assms(1-3), of ?n] assms(4) by auto
  obtain r2 where "node_step e r1 r2" "only_asked r1 r2" "nr_outbox r2 = [EvIdleMetricRequest 0]"
      "nr_events r2 = nr_events r1"
    using metric_request_arrives[OF _ r1(3) assms(3)] r1(2) by (auto simp: only_asked_def)
  then show ?thesis
    using r1 only_asked_trans[OF r1(2)] assms(4) by (intro exI[of _ r2]) auto
qed

lemma receive_events [simp]: "receive x (l\<lparr>events_sent := es\<rparr>) = receive x l"
  by (simp add: receive_def)

text \<open>While \<^verbatim>\<open>main\<close> waits for the network loop, requests of peers are all it takes.\<close>

lemma waiting_main_can_block:
  assumes "nr_alive r" and "nr_outbox r = []" and "main_waits e r" and "nr_main r \<noteq> Listening"
    and "event_receiver_alive (ne_loop e)" and "length (nr_events r) \<le> CHANNEL_SIZE"
  shows "\<exists>r'. node_steps e r r' \<and> node_blocked e r' \<and> nr_accepted r' = nr_accepted r"
proof -
  obtain r' where r': "node_steps e r r'" "only_asked r r'" "nr_outbox r' \<noteq> []" "length (nr_events r') = CHANNEL_SIZE"
    using flooded[OF assms(1,2,5,6)] by blast
  have "main_waits e r'"
    using r'(2) by (intro main_waits_on[OF assms(3,4)]) (auto simp: only_asked_def loop_free_def split: option.splits)
  then show ?thesis using r' by (auto simp: node_blocked_def only_asked_def)
qed

text \<open>A service loop makes a call that has no answer yet.\<close>

lemma fresh_sender: "\<exists>x. receive x l = None"
proof -
  have "finite (fst ` set (answers_sent l) \<union> set (senders_dropped l))" by simp
  then obtain x where "x \<notin> fst ` set (answers_sent l) \<union> set (senders_dropped l)"
    using ex_new_if_finite[OF infinite_UNIV_nat] by blast
  then have "map_of (answers_sent l) x = None" "x \<notin> set (senders_dropped l)" by (simp_all add: map_of_eq_None_iff)
  then show ?thesis by (intro exI[of _ x]) (simp add: receive_def)
qed

lemma chain_loop_calls:
  assumes "nr_alive r" and "nr_commands r = []"
  shows "\<exists>r' cs. node_steps e r r' \<and> \<not> loop_free r' ChainLoop \<and> length cs \<le> 1 \<and> nr_accepted r' = nr_accepted r @ cs \<and>
    nr_alive r' \<and> nr_outbox r' = nr_outbox r \<and> nr_events r' = nr_events r \<and> nr_main r' = nr_main r"
proof (cases "loop_free r ChainLoop")
  case True
  obtain x where x: "receive x (nr_loop r) = None" using fresh_sender by blast
  let ?r = "command_sent (BroadcastBlock [] x) (r\<lparr>nr_busy := (nr_busy r)(ChainLoop \<mapsto> x)\<rparr>)"
  have "node_step e r ?r"
    using assms True by (intro node_step.service_calls) (simp_all add: room_for_command_def CHANNEL_SIZE_def)
  then show ?thesis
    using assms(1) x by (intro exI[of _ ?r] exI[of _ "[BroadcastBlock [] x]"]) (auto simp: command_sent_def loop_free_def)
next
  case False
  then show ?thesis using assms(1) by (intro exI[of _ r] exI[of _ "[]"]) simp
qed

text \<open>A peer asks for the height of the chain.\<close>

lemma query_waits:
  assumes "nr_alive r" and "nr_outbox r = []" and "nr_events r = []" and "nr_main r = Listening"
    and "\<not> loop_free r ChainLoop" and "event_receiver_alive (ne_loop e)"
  shows "\<exists>r'. node_steps e r r' \<and> nr_alive r' \<and> nr_outbox r' = [] \<and> nr_events r' = [] \<and> nr_main r' \<noteq> Listening \<and>
    main_waits e r' \<and> nr_accepted r' = nr_accepted r"
proof -
  let ?data = "[BlockchainCommand_as_u8 QueryHighestBlockOrdinal]"
  let ?ev = "EvBlockchainRequest ?data (Some 0)"
  let ?l = "(nr_loop r)\<lparr>events_sent := events_sent (nr_loop r) @ [?ev]\<rparr>"
  have "dispatch_swarm_event (ne_loop e) sw (BlockchainRR (Request ?data 0)) (nr_loop r) = (Ok (), ?l)" for sw
    using assms(6) by (simp add: dispatch_swarm_event_def handle_blockchain_request_response_event_def
        handle_rr_event_def send_pyrsia_event_def)
  then have s1: "node_step e r (turn_taken (SwarmTurn sw (BlockchainRR (Request ?data 0))) ?l r)" for sw
    by (rule node_step.swarm[OF assms(1,2)])
  then obtain r1 where r1: "node_step e r r1" "nr_alive r1" "nr_outbox r1 = [?ev]" "nr_events r1 = []" "nr_main r1 = Listening"
      "nr_loop r1 = ?l" "nr_busy r1 = nr_busy r" "nr_accepted r1 = nr_accepted r"
    using assms by (force simp: turn_taken_def)
  let ?r2 = "r1\<lparr>nr_outbox := [], nr_events := [?ev]\<rparr>"
  have "loops_step e r1 ?r2"
    using loops_step.net_send[OF r1(2,3)] r1(4) by (simp add: CHANNEL_SIZE_def)
  moreover have "loops_step e ?r2 (event_taken ?ev [] ?r2)"
    using r1(2,5) by (intro loops_step.main_take) simp_all
  ultimately have "node_steps e r (event_taken ?ev [] ?r2)"
    using r1(1) by (meson converse_rtranclp_into_rtranclp node_step.loops r_into_rtranclp)
  moreover have "\<not> can_serve e (event_taken ?ev [] ?r2) ?ev"
    using assms(5) r1(6,7) by (simp add: can_serve_def asks_chain_def try_from_as_u8 loop_free_def event_taken_def
        del: BlockchainCommand_as_u8.simps split: option.splits)
  ultimately show ?thesis
    using r1(2,8) by (intro exI[of _ "event_taken ?ev [] ?r2"]) (simp add: main_waits_def event_taken_def)
qed

lemma listening_node_can_block:
  assumes "waits_for_network e r" and "nr_main r = Listening" and "event_receiver_alive (ne_loop e)"
  shows "\<exists>r' cs. node_steps e r r' \<and> node_blocked e r' \<and> nr_accepted r' = nr_accepted r @ cs \<and> length cs \<le> 1"
proof -
  have r: "nr_alive r" "nr_outbox r = []" "nr_commands r = []" "nr_events r = []"
    using assms(1,2) by (auto simp: waits_for_network_def main_waits_def)
  obtain r1 cs where r1: "node_steps e r r1" "\<not> loop_free r1 ChainLoop" "length cs \<le> 1" "nr_accepted r1 = nr_accepted r @ cs"
      "nr_alive r1" "nr_outbox r1 = []" "nr_events r1 = []" "nr_main r1 = Listening"
    using chain_loop_calls[OF r(1,3), of e] r(2,4) assms(2) by auto
  obtain r2 where r2: "node_steps e r1 r2" "nr_alive r2" "nr_outbox r2 = []" "nr_events r2 = []" "nr_main r2 \<noteq> Listening"
      "main_waits e r2" "nr_accepted r2 = nr_accepted r1"
    using query_waits[OF r1(5-8) r1(2) assms(3)] by blast
  obtain r3 where r3: "node_steps e r2 r3" "node_blocked e r3" "nr_accepted r3 = nr_accepted r2"
    using waiting_main_can_block[OF r2(2,3,6,5) assms(3)] r2(4) by auto
  have "node_steps e r r3" using r1(1) r2(1) r3(1) by (meson rtranclp_trans)
  then show ?thesis using r1(3,4) r2(7) r3(2,3) by auto
qed

text \<open>
  C8: the two loops of a node stop only in two kinds of state. In the first nothing is left to do until
  the network brings something. In the second the network loop waits to send an event into the full
  channel that \<^verbatim>\<open>main\<close> reads, while \<^verbatim>\<open>main\<close> does not read it: it waits for the answer to an announcement, for the
  blockchain or build event loop, which waits for an answer of the network loop itself, or for room in the
  channel that the network loop reads. From there on neither takes a step, whatever the other tasks do.
  Such a state can follow every state of the first kind, after at most one more call of the client;
  while \<^verbatim>\<open>main\<close> waits for an answer, requests of peers are enough.
\<close>

theorem node_loops_wait_for_each_other:
  assumes "node_steps e (node_start e x l0 a) r" and "nr_alive r"
  shows "((\<nexists>r'. loops_step e r r') \<longleftrightarrow> node_blocked e r \<or> waits_for_network e r) \<and>
    (node_blocked e r \<longrightarrow> (\<forall>r'. node_steps e r r' \<longrightarrow> node_blocked e r' \<and> loops_stand r r')) \<and>
    (event_receiver_alive (ne_loop e) \<and> waits_for_network e r \<longrightarrow>
       (\<exists>r' cs. node_steps e r r' \<and> node_blocked e r' \<and> nr_accepted r' = nr_accepted r @ cs \<and> length cs \<le> 1)) \<and>
    (event_receiver_alive (ne_loop e) \<and> waits_for_network e r \<and> nr_main r \<noteq> Listening \<longrightarrow>
       (\<exists>r'. node_steps e r r' \<and> node_blocked e r' \<and> nr_accepted r' = nr_accepted r))"
proof (intro conjI impI allI; (elim conjE)?)
  note ok = node_steps_ok(3)[OF assms(1)]
  then have len: "length (nr_events r) \<le> CHANNEL_SIZE" by (simp add: events.in_order_def)
  show "(\<nexists>r'. loops_step e r r') \<longleftrightarrow> node_blocked e r \<or> waits_for_network e r" by (rule loops_act[OF assms(2) ok])
  show "node_blocked e r'" "loops_stand r r'" if "node_blocked e r" "node_steps e r r'" for r'
    using blocked_for_ever[OF that(2,1)] by auto
  assume h: "event_receiver_alive (ne_loop e)" "waits_for_network e r"
  show asked: "\<exists>r'. node_steps e r r' \<and> node_blocked e r' \<and> nr_accepted r' = nr_accepted r" if "nr_main r \<noteq> Listening"
    using waiting_main_can_block[OF assms(2) _ _ that h(1) len] h(2) by (simp add: waits_for_network_def)
  show "\<exists>r' cs. node_steps e r r' \<and> node_blocked e r' \<and> nr_accepted r' = nr_accepted r @ cs \<and> length cs \<le> 1"
  proof (cases "nr_main r = Listening")
    case True
    then show ?thesis using listening_node_can_block[OF h(2) _ h(1)] by blast
  next
    case False
    then obtain r' where "node_steps e r r' \<and> node_blocked e r' \<and> nr_accepted r' = nr_accepted r" using asked by blast
    then show ?thesis by (intro exI[of _ r'] exI[of _ "[]"]) simp
  qed
qed

section \<open>The loops come to rest\<close>

text \<open>
  Every step of the loops brings something further: from the network loop into the channel, out of it, through
  the handler, into the other channel and out of that.
\<close>

fun main_work :: "main_task \<Rightarrow> nat" where
  "main_work (Announcing as) = 1 + 3 * length as"
| "main_work (Awaiting x as) = 2 + 3 * length as"
| "main_work Listening = 0"
| "main_work (Serving ev) = 3"
| "main_work (Responding c) = 2"

definition node_work :: "node_run \<Rightarrow> nat" where
  "node_work r = (if nr_alive r then 1 else 0) + 5 * length (nr_outbox r) + 4 * length (nr_events r) +
     length (nr_commands r) + main_work (nr_main r)"

lemma loops_step_works: "loops_step e r r' \<Longrightarrow> node_work r' < node_work r"
  by (erule loops_step.cases)
     (auto simp: node_work_def turn_taken_def event_taken_def event_served_def command_sent_def
       dest: handle_command_sends_nothing split: outcome.splits option.splits)

lemma loops_steps_bounded: "(loops_step e ^^ n) r r' \<Longrightarrow> n + node_work r' \<le> node_work r"
proof (induction n arbitrary: r')
  case (Suc n)
  then obtain r1 where "(loops_step e ^^ n) r r1" "loops_step e r1 r'" by auto
  then show ?case using Suc.IH loops_step_works by fastforce
qed simp

text \<open>
  C7: left alone, the loops of a node always come to rest, and nothing stays undone that they can do. From
  every state the node can be in, whatever the order of their steps, the network loop and the loop of \<^verbatim>\<open>main\<close>
  take at most \<open>node_work\<close> steps. When a node that has not stopped takes no more, the two wait for each other
  (\<open>node_blocked\<close>), or every command that was ever sent has been served by the network loop and \<^verbatim>\<open>main\<close> has received every event
  the network loop raised, in the order in which it raised them; the only exceptions are an announcement or a
  handler that waits for an answer of the network. Neither channel ever holds more than 32.
\<close>

theorem loops_come_to_rest:
  assumes "node_steps e (node_start e x l0 a) r"
  shows "(\<forall>n r'. (loops_step e ^^ n) r r' \<longrightarrow> n \<le> node_work r) \<and>
    (\<forall>r'. (loops_step e)\<^sup>*\<^sup>* r r' \<and> nr_alive r' \<and> (\<nexists>r''. loops_step e r' r'') \<longrightarrow>
       node_blocked e r' \<or>
       nr_accepted r' = commands_of (nr_turns r') \<and> run_event_loop (ne_loop e) (nr_turns r') l0 = (Ok (), nr_loop r') \<and>
       (case nr_main r' of
          Listening \<Rightarrow> nr_received r' = drop (length (events_sent l0)) (events_sent (nr_loop r'))
        | Awaiting y _ \<Rightarrow> receive y (nr_loop r') = None
        | Serving ev \<Rightarrow> \<not> can_serve e r' ev
        | _ \<Rightarrow> False)) \<and>
    length (nr_events r) \<le> 32 \<and> length (nr_commands r) \<le> 32"
proof (intro conjI allI impI)
  show "n \<le> node_work r" if "(loops_step e ^^ n) r r'" for n r' using loops_steps_bounded[OF that] by simp
  show "length (nr_events r) \<le> 32" "length (nr_commands r) \<le> 32"
    using node_steps_ok(2,3)[OF assms] unfolding commands.in_order_def events.in_order_def by (simp_all add: CHANNEL_SIZE_def)
next
  fix r' assume h: "(loops_step e)\<^sup>*\<^sup>* r r' \<and> nr_alive r' \<and> (\<nexists>r''. loops_step e r' r'')"
  have "node_steps e r r'"
    using mono_rtranclp[of "loops_step e" "node_step e"] h node_step.loops by blast
  then have ok: "record_ok e l0 r'" "commands.in_order r'" "events.in_order r'"
    using node_steps_ok[of e x l0 a r'] assms by (meson rtranclp_trans)+
  consider "node_blocked e r'" | "waits_for_network e r'" using loops_act[OF _ ok(3)] h by blast
  then show "node_blocked e r' \<or>
      nr_accepted r' = commands_of (nr_turns r') \<and> run_event_loop (ne_loop e) (nr_turns r') l0 = (Ok (), nr_loop r') \<and>
      (case nr_main r' of
         Listening \<Rightarrow> nr_received r' = drop (length (events_sent l0)) (events_sent (nr_loop r'))
       | Awaiting y _ \<Rightarrow> receive y (nr_loop r') = None
       | Serving ev \<Rightarrow> \<not> can_serve e r' ev
       | _ \<Rightarrow> False)"
    by cases (use ok(1) ok(2)[unfolded commands.in_order_def] in \<open>auto simp: waits_for_network_def main_waits_def record_ok_def
        room_for_command_def CHANNEL_SIZE_def split: main_task.splits\<close>)
qed

section \<open>Witnesses\<close>

text \<open>A node that stores one artifact: its start, its announcement sent, and taken by the network loop.\<close>

definition demo_start :: node_run where
  "demo_start = node_start demo_node_env 0 PyrsiaEventLoop_new (nd_art demo_node)"

definition demo_announced :: node_run where
  "demo_announced = command_sent (Provide ''x'' 0) (demo_start\<lparr>nr_main := Awaiting 0 []\<rparr>)"

definition demo_awaiting :: node_run where
  "demo_awaiting = turn_taken (CommandTurn demo_swarm (Provide ''x'' 0))
     (snd (handle_command demo_loop_env demo_swarm (Provide ''x'' 0) PyrsiaEventLoop_new)) (demo_announced\<lparr>nr_commands := []\<rparr>)"

lemma demo_start_eq:
  "demo_start = \<lparr>nr_loop = PyrsiaEventLoop_new, nr_outbox = [], nr_events = [], nr_commands = [],
     nr_art = nd_art demo_node, nr_main = Announcing [(''x'', 0)], nr_busy = (\<lambda>_. None), nr_alive = True, nr_turns = [], nr_received = [],
     nr_accepted = []\<rparr>"
proof -
  have "list_artifacts (ae_io demo_art_env) (ae_storage demo_art_env) (as_files (nd_art demo_node))
      = Ok [[''store'', ''x.file'']]"
    by (simp add: demo_node_def demo_art_state_def list_artifacts_def demo_art_env_def no_faults_def name_extension_def
        name_stem_def FILE_EXTENSION_def)
  moreover have "to_announce 0 [[''store'', ''x.file'']] = [(''x'', 0)]"
    by (simp add: file_name_def name_stem_def)
  ultimately show ?thesis by (simp add: demo_start_def node_start_def demo_node_env_def)
qed

lemma demo_node_steps: "node_steps demo_node_env demo_start demo_awaiting"
proof -
  have "loops_step demo_node_env demo_start demo_announced"
    unfolding demo_announced_def
    by (rule loops_step.main_announce) (simp_all add: demo_start_eq room_for_command_def CHANNEL_SIZE_def)
  moreover have "loops_step demo_node_env demo_announced demo_awaiting"
    unfolding demo_awaiting_def
    by (rule loops_step.net_command)
       (simp_all add: demo_announced_def demo_start_eq command_sent_def demo_node_env_def demo_swarm_def Let_def)
  ultimately show ?thesis by (meson node_step.loops r_into_rtranclp rtranclp_trans)
qed

lemma demo_awaiting_eq:
  "nr_turns demo_awaiting = [CommandTurn demo_swarm (Provide ''x'' 0)]" "nr_commands demo_awaiting = []"
  "nr_accepted demo_awaiting = [Provide ''x'' 0]" "nr_alive demo_awaiting" "nr_main demo_awaiting = Awaiting 0 []"
  by (simp_all add: demo_awaiting_def turn_taken_def demo_announced_def command_sent_def demo_start_eq)

lemma demo_awaiting_waits: "waits_for_network demo_node_env demo_awaiting"
proof -
  have "events_sent (nr_loop demo_awaiting) = []" "nr_outbox demo_awaiting = []" "receive 0 (nr_loop demo_awaiting) = None"
    by (simp_all add: demo_awaiting_def turn_taken_def demo_announced_def command_sent_def demo_start_eq demo_swarm_def
        Let_def PyrsiaEventLoop_new_def await_answer_def call_swarm_def receive_def)
  then show ?thesis by (simp add: waits_for_network_def main_waits_def demo_awaiting_eq)
qed

theorem loops_come_to_rest_witness:
  "length (nr_events demo_awaiting) \<le> 32 \<and> nr_accepted demo_awaiting = commands_of (nr_turns demo_awaiting) \<and>
   receive 0 (nr_loop demo_awaiting) = None"
proof -
  have rest: "\<nexists>r. loops_step demo_node_env demo_awaiting r"
    using waiting_main_stops[of demo_node_env demo_awaiting] demo_awaiting_waits by (auto simp: waits_for_network_def)
  have "\<not> node_blocked demo_node_env demo_awaiting"
    using demo_awaiting_waits by (simp add: waits_for_network_def node_blocked_def)
  then show ?thesis
    using loops_come_to_rest[OF demo_node_steps[unfolded demo_start_def]] demo_awaiting_eq(4,5) rest by force
qed

theorem node_loops_wait_for_each_other_witness:
  "\<exists>r'. node_steps demo_node_env demo_start r' \<and> node_blocked demo_node_env r' \<and> nr_accepted r' = [Provide ''x'' 0]"
proof -
  have "event_receiver_alive (ne_loop demo_node_env)" by (simp add: demo_node_env_def demo_loop_env_def)
  then have "\<exists>r'. node_steps demo_node_env demo_awaiting r' \<and> node_blocked demo_node_env r' \<and> nr_accepted r' = nr_accepted demo_awaiting"
    using node_loops_wait_for_each_other[OF demo_node_steps[unfolded demo_start_def] demo_awaiting_eq(4)]
      demo_awaiting_waits demo_awaiting_eq(5) by simp
  then show ?thesis using demo_node_steps demo_awaiting_eq(3) by (metis rtranclp_trans)
qed

end
