(* ===== verification/Verification_Claims.thy ===== *)
theory Verification_Claims
  imports Verification_Service Artifact_Claims
begin

text \<open>
  Properties of the verification service: a build of a package is requested exactly when all its artifacts
  have arrived, the answers compare the hashes of the build, and a transaction that waits for a build is
  answered once, with what is reported of it.
\<close>

section \<open>Accounting of senders\<close>

lemma all_senders_drop: "all_senders (drop_senders xs vs) = all_senders vs + mset xs"
  by (simp add: all_senders_def drop_senders_def)

lemma distinct_keys_update: "distinct (map fst t) \<Longrightarrow> distinct (map fst (AList.update k v t))"
  by (rule distinct_update)

lemma distinct_keys_delete: "distinct (map fst t) \<Longrightarrow> distinct (map fst (AList.delete k t))"
  by (rule distinct_delete)

text \<open>Adding one info to the pending list of a package.\<close>

lemma pending_collected:
  assumes "tables_ok vs"
  shows "table_senders (AList.update p (case map_of (pending_info vs) p of Some vis \<Rightarrow> vis @ [info] | None \<Rightarrow> [info])
      (pending_info vs)) = add_mset (vi_sender info) (table_senders (pending_info vs))"
proof -
  note u = table_senders_update[of "pending_info vs" p]
  show ?thesis
  proof (cases "map_of (pending_info vs) p")
    case None
    then show ?thesis using u[of "[info]"] assms by (simp add: tables_ok_def senders_def)
  next
    case (Some vis)
    then have "table_senders (AList.update p (vis @ [info]) (pending_info vs)) + mset (senders vis)
        = add_mset (vi_sender info) (table_senders (pending_info vs)) + mset (senders vis)"
      using u[of "vis @ [info]"] assms by (simp add: tables_ok_def senders_def)
    then show ?thesis using Some by simp
  qed
qed

lemma verify_add_artifact_senders:
  assumes "tables_ok vs" and "verify_add_artifact e l x vs = (r, vs1)"
  shows "tables_ok vs1 \<and> all_senders vs1 = add_mset x (all_senders vs)"
proof (cases "package_type l")
  case None
  then show ?thesis
    using assms by (auto simp: verify_add_artifact_def all_senders_drop) (auto simp: tables_ok_def drop_senders_def)
next
  case (Some pt)
  define package where "package = \<lparr>pk_type = pt, pk_specific_id = package_specific_id l\<rparr>"
  define info where "info = \<lparr>vi_sender = x, vi_artifact_specific_id = package_specific_artifact_id l,
      vi_artifact_hash = artifact_hash l\<rparr>"
  define collected where "collected = (case map_of (pending_info vs) package of
      Some vis \<Rightarrow> vis @ [info] | None \<Rightarrow> [info])"
  define vs1' where "vs1' = vs\<lparr>pending_info := AList.update package collected (pending_info vs)\<rparr>"
  define vs2 where "vs2 = vs1'\<lparr>pending_info := AList.delete package (pending_info vs1')\<rparr>"
  have ok1: "tables_ok vs1'" and all1: "all_senders vs1' = add_mset x (all_senders vs)"
    using assms(1) pending_collected[OF assms(1), of package info]
    by (simp_all add: vs1'_def tables_ok_def distinct_keys_update all_senders_def collected_def info_def)
  have ok2: "tables_ok vs2" using ok1 by (simp add: vs2_def tables_ok_def distinct_keys_delete)
  have "map_of (pending_info vs1') package = Some collected" by (simp add: vs1'_def update_conv')
  then have all2: "all_senders vs2 + mset (senders collected) = all_senders vs1'"
    using table_senders_delete[of "pending_info vs1'" package] ok1
    by (auto simp: vs2_def all_senders_def tables_ok_def ac_simps)
  have run: "verify_add_artifact e l x vs =
     (if of_nat (length collected) = num_artifacts l then
        (case ve_verify_build e (ve_random_peer e) pt (package_specific_id l) of
           Ok build_id \<Rightarrow> (Ok (Some build_id), drop_senders
              (case map_of (verifying_info vs2) build_id of Some vis \<Rightarrow> senders vis | None \<Rightarrow> [])
              (vs2\<lparr>verifying_info := AList.update build_id collected (verifying_info vs2)\<rparr>))
         | Err y \<Rightarrow> (Err (VerifyBuildError y), drop_senders (senders collected) vs2)
         | Panic m \<Rightarrow> (Panic m, drop_senders (senders collected) vs2))
      else (Ok None, vs1'))"
    unfolding verify_add_artifact_def Some option.case Let_def
      package_def[symmetric] info_def[symmetric] collected_def[symmetric] vs1'_def[symmetric] vs2_def[symmetric] ..
  have moved: "all_senders (drop_senders
          (case map_of (verifying_info vs2) b of Some vis \<Rightarrow> senders vis | None \<Rightarrow> [])
          (vs2\<lparr>verifying_info := AList.update b collected (verifying_info vs2)\<rparr>))
        = all_senders vs2 + mset (senders collected)" for b
  proof -
    let ?old = "mset (case map_of (verifying_info vs2) b of Some vis \<Rightarrow> senders vis | None \<Rightarrow> [])"
    have "table_senders (AList.update b collected (verifying_info vs2)) + ?old
        = table_senders (verifying_info vs2) + mset (senders collected)"
      using table_senders_update[of "verifying_info vs2" b collected] ok2
      by (cases "map_of (verifying_info vs2) b") (simp_all add: tables_ok_def)
    then show ?thesis
      unfolding all_senders_drop
      by (simp add: all_senders_def)
  qed
  show ?thesis
    using assms(2) ok1 ok2 all1 all2 moved unfolding run
    by (auto simp: all_senders_drop split: if_splits outcome.splits)
       (auto simp: tables_ok_def drop_senders_def distinct_keys_update)
qed

lemma answered_senders:
  assumes "tables_ok vs" and "map_of (verifying_info vs) b = Some vis"
  shows "tables_ok (answer_all f vis (vs\<lparr>verifying_info := AList.delete b (verifying_info vs)\<rparr>)) \<and>
    all_senders (answer_all f vis (vs\<lparr>verifying_info := AList.delete b (verifying_info vs)\<rparr>)) = all_senders vs"
proof -
  have "table_senders (AList.delete b (verifying_info vs)) + mset (senders vis) = table_senders (verifying_info vs)"
    using table_senders_delete[of "verifying_info vs" b] assms by (simp add: tables_ok_def)
  moreover have "map (fst \<circ> (\<lambda>vi. (vi_sender vi, f vi))) vis = senders vis"
    by (simp add: senders_def)
  ultimately show ?thesis
    using assms(1) by (auto simp: all_senders_def tables_ok_def distinct_keys_delete ac_simps)
qed

lemma verify_transaction_senders:
  assumes "tables_ok vs" and "verify_transaction e payload x vs = (r, vs1)"
  shows "tables_ok vs1 \<and> all_senders vs1 = add_mset x (all_senders vs)"
proof (cases "json_from_slice (ve_json e) payload")
  case (Some l)
  then show ?thesis
    using assms verify_add_artifact_senders[of vs e l x r vs1]
    by (auto simp: verify_transaction_def all_senders_drop split: if_splits) (auto simp: tables_ok_def drop_senders_def)
qed (use assms in \<open>auto simp: verify_transaction_def all_senders_def tables_ok_def drop_senders_def\<close>)

lemma handlers_senders:
  assumes "tables_ok vs"
  shows "tables_ok (handle_build_failed b err vs)" "all_senders (handle_build_failed b err vs) = all_senders vs"
    "tables_ok (handle_verification_result b br vs)" "all_senders (handle_verification_result b br vs) = all_senders vs"
  using assms answered_senders
  by (auto simp: handle_build_failed_def handle_verification_result_def split: option.splits)

fun submitted :: "ver_event list \<Rightarrow> nat list" where
  "submitted [] = []"
| "submitted (Transaction e payload x # evs) = x # submitted evs"
| "submitted (_ # evs) = submitted evs"

lemma ver_run_senders:
  assumes "tables_ok vs" and "ver_run evs vs = (rs, vs')"
  shows "tables_ok vs' \<and> all_senders vs' = all_senders vs + mset (submitted evs)"
  using assms
proof (induction evs vs arbitrary: rs rule: ver_run.induct)
  case (2 e payload x evs vs)
  obtain r vs1 where t: "verify_transaction e payload x vs = (r, vs1)" by force
  obtain rs1 where rest: "ver_run evs vs1 = (rs1, vs')" using 2(3) t by (auto split: prod.splits)
  show ?case using verify_transaction_senders[OF 2(2) t] 2(1)[OF t[symmetric] refl _ rest] by simp
qed (auto simp: handlers_senders)

lemma new_service: "tables_ok VerificationService_new" "all_senders VerificationService_new = {#}"
  by (simp_all add: tables_ok_def all_senders_def table_senders_def VerificationService_new_def)

section \<open>Waiting for a build\<close>

text \<open>What the first report about a build says of the transactions that wait for it.\<close>

fun first_report :: "string \<Rightarrow> ver_event list \<Rightarrow> (VerificationInfo \<Rightarrow> (unit, VerificationError) outcome) option" where
  "first_report b [] = None"
| "first_report b (Transaction e payload x # evs) = first_report b evs"
| "first_report b (BuildFailed b' err # evs) =
     (if b' = b then Some (\<lambda>_. Err (VerifyBuildError err)) else first_report b evs)"
| "first_report b (BuildDone b' br # evs) = (if b' = b then Some (verdict b br) else first_report b evs)"

definition answers_to :: "nat \<Rightarrow> VerificationService \<Rightarrow> (unit, VerificationError) outcome list" where
  "answers_to x vs = map snd (filter (\<lambda>(y, r). y = x) (vs_answers vs))"

lemma transaction_leaves_build:
  assumes "verify_transaction e payload x vs = (r, vs1)" and "r \<noteq> Ok (Some b)"
  shows "map_of (verifying_info vs1) b = map_of (verifying_info vs) b" and "vs_answers vs1 = vs_answers vs"
  using assms
  by (auto simp: verify_transaction_def verify_add_artifact_def Let_def drop_senders_def update_conv'
      split: option.splits if_splits outcome.splits)

lemma ver_run_answers_grow:
  "ver_run evs vs = (rs, vs') \<Longrightarrow> set (vs_answers vs) \<subseteq> set (vs_answers vs')"
proof (induction evs vs arbitrary: rs rule: ver_run.induct)
  case (2 e payload x evs vs)
  obtain r vs1 where t: "verify_transaction e payload x vs = (r, vs1)" by force
  then have "vs_answers vs1 = vs_answers vs"
    by (auto simp: verify_transaction_def verify_add_artifact_def Let_def drop_senders_def
        split: option.splits if_splits outcome.splits)
  then show ?case using 2 t by (force split: prod.splits)
qed (force simp: handle_build_failed_def handle_verification_result_def split: option.splits)+

lemma build_reported:
  assumes "ver_run evs vs = (rs, vs')" and "map_of (verifying_info vs) b = Some vis" and "Ok (Some b) \<notin> set rs"
  shows "case first_report b evs of
           None \<Rightarrow> map_of (verifying_info vs') b = Some vis
         | Some f \<Rightarrow> (\<lambda>vi. (vi_sender vi, f vi)) ` set vis \<subseteq> set (vs_answers vs')"
  using assms
proof (induction evs vs arbitrary: rs rule: ver_run.induct)
  case (2 e payload x evs vs)
  obtain r vs1 where t: "verify_transaction e payload x vs = (r, vs1)" by force
  obtain rs1 where rest: "ver_run evs vs1 = (rs1, vs')" "rs = r # rs1" using 2(2) t by (auto split: prod.splits)
  have "map_of (verifying_info vs1) b = Some vis" using transaction_leaves_build(1)[OF t, of b] 2(3,4) rest(2) by auto
  then show ?case using 2(1)[OF t[symmetric] refl rest(1)] 2(4) rest(2) by simp
next
  case (3 b' err evs vs)
  show ?case
  proof (cases "b' = b")
    case True
    then show ?thesis using ver_run_answers_grow[of evs "handle_build_failed b err vs"] 3(2,3)
      by (auto simp: handle_build_failed_def)
  next
    case False
    then have "map_of (verifying_info (handle_build_failed b' err vs)) b = Some vis"
      using 3(3) by (simp add: handle_build_failed_def delete_conv' split: option.split)
    then show ?thesis using 3 False by simp
  qed
next
  case (4 b' br evs vs)
  show ?case
  proof (cases "b' = b")
    case True
    then show ?thesis using ver_run_answers_grow[of evs "handle_verification_result b br vs"] 4(2,3)
      by (auto simp: handle_verification_result_def)
  next
    case False
    then have "map_of (verifying_info (handle_verification_result b' br vs)) b = Some vis"
      using 4(3) by (simp add: handle_verification_result_def delete_conv' split: option.split)
    then show ?thesis using 4 False by simp
  qed
qed simp

text \<open>Each sender is in one place, so a sender that waits has no answer, and no sender has two.\<close>

lemma table_senders_member: "map_of t k = Some vis \<Longrightarrow> vi \<in> set vis \<Longrightarrow> vi_sender vi \<in># table_senders t"
  by (induction t) (auto simp: table_senders_def senders_def split: if_splits)

lemma filter_key:
  "distinct (map fst xs) \<Longrightarrow> (x, r) \<in> set xs \<Longrightarrow> filter (\<lambda>(y, r). y = x) xs = [(x, r)]"
proof (induction xs)
  case (Cons p xs)
  have "filter (\<lambda>(y, r). y = x) xs = []" if "fst p = x"
    using that Cons.prems(1) by (auto simp: filter_empty_conv intro: rev_image_eqI)
  then show ?case using Cons by (cases p) force
qed simp

lemma answers_to_unique:
  "distinct (map fst (vs_answers vs)) \<Longrightarrow> (x, r) \<in> set (vs_answers vs) \<Longrightarrow> answers_to x vs = [r]"
  by (simp add: answers_to_def filter_key)

text \<open>
  C11: a transaction that waits for a build is answered once, with what is reported of that build. Take
  any history of the service in which no transaction number is used twice, and a transaction in it that waits
  for the build \<open>b\<close>. After any further history in which no other build gets the id \<open>b\<close>: if a failure of \<open>b\<close> is the first
  report, the transaction has got one answer, this error; if a result is, one answer, the verdict on its own
  hash; before that it has got none and waits. Transactions, and reports of other builds, make no difference.
\<close>

theorem waiting_transaction_is_answered_once:
  assumes "ver_run evs VerificationService_new = (rs, vs)" and "ver_run evs' vs = (rs', vs')"
    and "distinct (submitted evs @ submitted evs')"
    and "map_of (verifying_info vs) b = Some vis" and "vi \<in> set vis" and "Ok (Some b) \<notin> set rs'"
  shows "answers_to (vi_sender vi) vs' = (case first_report b evs' of None \<Rightarrow> [] | Some f \<Rightarrow> [f vi])"
proof -
  have vs: "tables_ok vs" "all_senders vs = mset (submitted evs)"
    using ver_run_senders[OF new_service(1) assms(1)] new_service(2) by auto
  then have all: "all_senders vs' = mset (submitted evs @ submitted evs')"
    using ver_run_senders[OF vs(1) assms(2)] by simp
  then have one: "count (all_senders vs') x \<le> 1" for x using assms(3) by (metis distinct_count_atmost_1 count_mset_0_iff le_cases not_one_le_zero order_refl zero_le)
  have dist: "distinct (map fst (vs_answers vs'))"
  proof -
    have "count (mset (map fst (vs_answers vs'))) x \<le> 1" for x using one[of x] unfolding all_senders_def by simp
    then show ?thesis by (metis distinct_count_atmost_1 count_mset_0_iff le_SucE le_zero_eq One_nat_def)
  qed
  show ?thesis
  proof (cases "first_report b evs'")
    case None
    then have "vi_sender vi \<in># table_senders (verifying_info vs')"
      using build_reported[OF assms(2,4,6)] assms(5) table_senders_member by simp
    then have "vi_sender vi \<notin> fst ` set (vs_answers vs')"
      using one[of "vi_sender vi"] unfolding all_senders_def by (auto simp: count_eq_zero_iff[symmetric] count_mset_0_iff[symmetric]
        simp flip: set_map count_greater_zero_iff)
    then show ?thesis using None by (force simp: answers_to_def filter_empty_conv)
  next
    case (Some f)
    then have "(vi_sender vi, f vi) \<in> set (vs_answers vs')" using build_reported[OF assms(2,4,6)] assms(5) by auto
    then show ?thesis using answers_to_unique[OF dist] Some by simp
  qed
qed

section \<open>Collecting a package\<close>

lemma u32_of_nat_eq_iff:
  assumes "m < 2 ^ 32" and "n < 2 ^ 32"
  shows "(of_nat m :: u32) = of_nat n \<longleftrightarrow> m = n"
proof -
  have "unat (of_nat k :: u32) = k" if "k < 2 ^ 32" for k
    using that by (simp add: unsigned_of_nat take_bit_nat_eq_self)
  then show ?thesis using assms by metis
qed

definition package_of :: "TransparencyLog \<Rightarrow> Package option" where
  "package_of l = map_option (\<lambda>pt. \<lparr>pk_type = pt, pk_specific_id = package_specific_id l\<rparr>) (package_type l)"

definition info_of :: "TransparencyLog \<Rightarrow> nat \<Rightarrow> VerificationInfo" where
  "info_of l x = \<lparr>vi_sender = x, vi_artifact_specific_id = package_specific_artifact_id l,
     vi_artifact_hash = artifact_hash l\<rparr>"

text \<open>The transactions about a package in a history, each with the number of artifacts it claims for the package.\<close>

fun submitted_for :: "Package \<Rightarrow> ver_event list \<Rightarrow> (VerificationInfo \<times> u32) list" where
  "submitted_for p [] = []"
| "submitted_for p (Transaction e payload x # evs) =
     (case json_from_slice (ve_json e) payload of
        Some l \<Rightarrow> if operation l = AddArtifact \<and> package_of l = Some p
                  then (info_of l x, num_artifacts l) # submitted_for p evs else submitted_for p evs
      | None \<Rightarrow> submitted_for p evs)"
| "submitted_for p (_ # evs) = submitted_for p evs"

text \<open>The transactions that are left when every \<open>n\<close> of them are taken away together.\<close>

definition left_over :: "nat \<Rightarrow> 'a list \<Rightarrow> 'a list" where
  "left_over n txs = drop (length txs - length txs mod n) txs"

definition entry_of :: "'a list \<Rightarrow> 'a list option" where
  "entry_of vis = (if vis = [] then None else Some vis)"

lemma length_left_over: "length (left_over n txs) = length txs mod n"
  by (simp add: left_over_def)

lemma left_over_snoc:
  assumes "0 < n"
  shows "Suc (length (left_over n txs)) = n \<longleftrightarrow> Suc (length txs) mod n = 0"
    and "Suc (length txs) mod n = 0 \<Longrightarrow> left_over n (txs @ [t]) = []"
    and "Suc (length txs) mod n \<noteq> 0 \<Longrightarrow> left_over n (txs @ [t]) = left_over n txs @ [t]"
    and "Suc (length txs) mod n = 0 \<Longrightarrow> left_over n txs @ [t] = drop (length (txs @ [t]) - n) (txs @ [t])"
proof -
  have r: "length txs mod n < n" using assms by simp
  show i: "Suc (length (left_over n txs)) = n \<longleftrightarrow> Suc (length txs) mod n = 0"
    using r by (simp add: length_left_over mod_Suc)
  show "Suc (length txs) mod n = 0 \<Longrightarrow> left_over n (txs @ [t]) = []" by (simp add: left_over_def)
  show "left_over n (txs @ [t]) = left_over n txs @ [t]" if "Suc (length txs) mod n \<noteq> 0"
    using that mod_less_eq_dividend[of "length txs" n] by (auto simp: left_over_def mod_Suc split: if_splits)
  show "left_over n txs @ [t] = drop (length (txs @ [t]) - n) (txs @ [t])" if "Suc (length txs) mod n = 0"
  proof -
    have "Suc (length txs mod n) = n" using that i by (simp add: length_left_over)
    moreover have "length txs mod n \<le> length txs" by simp
    ultimately have "length (txs @ [t]) - n = length txs - length txs mod n" "length txs - length txs mod n \<le> length txs"
      by auto
    then show ?thesis by (simp only: left_over_def) simp
  qed
qed

text \<open>One transaction, seen from a package.\<close>

lemma other_transaction:
  assumes "verify_transaction e payload x vs = (r, vs1)" and "submitted_for p [Transaction e payload x] = []"
  shows "map_of (pending_info vs1) p = map_of (pending_info vs) p"
proof (cases "json_from_slice (ve_json e) payload")
  case (Some l)
  then show ?thesis
    using assms
    by (auto simp: verify_transaction_def verify_add_artifact_def package_of_def Let_def drop_senders_def
        update_conv' delete_conv' split: option.splits if_splits outcome.splits)
qed (use assms in \<open>auto simp: verify_transaction_def drop_senders_def\<close>)

lemma own_transaction:
  assumes "json_from_slice (ve_json e) payload = Some l" and "operation l = AddArtifact" and "package_of l = Some p"
    and "map_of (pending_info vs) p = entry_of got" and "verify_transaction e payload x vs = (r, vs1)"
  shows "if of_nat (Suc (length got)) = num_artifacts l then
      map_of (pending_info vs1) p = None \<and>
      (case ve_verify_build e (ve_random_peer e) (pk_type p) (pk_specific_id p) of
         Ok b \<Rightarrow> r = Ok (Some b) \<and> map_of (verifying_info vs1) b = Some (got @ [info_of l x])
       | Err err \<Rightarrow> r = Err (VerifyBuildError err) \<and> verifying_info vs1 = verifying_info vs \<and>
           vs_dropped vs1 = vs_dropped vs @ senders (got @ [info_of l x])
       | Panic m \<Rightarrow> r = Panic m)
    else r = Ok None \<and> verifying_info vs1 = verifying_info vs \<and>
      map_of (pending_info vs1) p = Some (got @ [info_of l x])"
proof -
  obtain pt where l: "package_type l = Some pt" "p = \<lparr>pk_type = pt, pk_specific_id = package_specific_id l\<rparr>"
    using assms(3) by (auto simp: package_of_def)
  have got: "(case map_of (pending_info vs) p of Some vis \<Rightarrow> vis @ [i] | None \<Rightarrow> [i]) = got @ [i]" for i
    using assms(4) by (simp add: entry_of_def)
  show ?thesis
    using assms(5) unfolding verify_transaction_def assms(1) option.case verify_add_artifact_def l(1) Let_def
      l(2)[symmetric] info_of_def[symmetric] got
    by (auto simp: assms(2) l drop_senders_def update_conv' delete_conv' split: if_splits outcome.splits)
qed

lemma handlers_pending:
  "pending_info (handle_build_failed b err vs) = pending_info vs"
  "pending_info (handle_verification_result b br vs) = pending_info vs"
  by (simp_all add: handle_build_failed_def handle_verification_result_def split: option.split)

lemma collected_since:
  assumes "ver_run evs vs = (rs, vs')" and "0 < n" and "n < 2 ^ 32"
    and "\<forall>(i, m) \<in> set (submitted_for p evs). m = of_nat n" and "map_of (pending_info vs) p = entry_of (left_over n txs)"
  shows "map_of (pending_info vs') p = entry_of (left_over n (txs @ map fst (submitted_for p evs)))"
  using assms(1,4,5)
proof (induction evs vs arbitrary: rs txs rule: ver_run.induct)
  case (2 e payload x evs vs)
  obtain r vs1 where t: "verify_transaction e payload x vs = (r, vs1)" by force
  obtain rs1 where rest: "ver_run evs vs1 = (rs1, vs')" using 2(2) t by (auto split: prod.splits)
  note IH = 2(1)[OF t[symmetric] refl rest]
  show ?case
  proof (cases "submitted_for p [Transaction e payload x] = []")
    case True
    then have "submitted_for p (Transaction e payload x # evs) = submitted_for p evs"
      by (auto split: option.splits if_splits)
    then show ?thesis using IH[of txs] other_transaction[OF t True] 2(3,4) by simp
  next
    case False
    then obtain l where l: "json_from_slice (ve_json e) payload = Some l" "operation l = AddArtifact" "package_of l = Some p"
      by (auto split: option.splits if_splits)
    have m: "num_artifacts l = of_nat n" and sub: "\<forall>(i, m) \<in> set (submitted_for p evs). m = of_nat n"
      using 2(3) l by simp_all
    have "length (left_over n txs) < n" using assms(2) by (simp add: length_left_over)
    then have eq: "(of_nat (Suc (length (left_over n txs))) :: u32) = of_nat n \<longleftrightarrow> Suc (length txs) mod n = 0"
      using u32_of_nat_eq_iff[of "Suc (length (left_over n txs))" n] assms(3) left_over_snoc(1)[OF assms(2), of txs] by simp
    have "map_of (pending_info vs1) p = entry_of (left_over n (txs @ [info_of l x]))"
      using own_transaction[OF l 2(4) t] left_over_snoc(2,3)[OF assms(2), of txs "info_of l x"] unfolding m eq
      by (auto simp: entry_of_def split: if_splits)
    then show ?thesis using IH[OF sub] l by simp
  qed
qed (simp_all add: handlers_pending)

text \<open>
  C17: a build of a package is requested exactly by every \<open>n\<close>-th transaction about it. Take any history of the
  service, with transactions about any packages and reports of builds in any order, in which the transactions
  about one package all say that it has \<open>n\<close> artifacts. The next transaction about it asks for a build if and only if
  the number of transactions about the package is then a multiple of \<open>n\<close>. If the build starts, the last \<open>n\<close>
  of them, in order, wait for it; if it is refused, the error is returned and these \<open>n\<close> are dropped
  without an answer. Otherwise nothing starts, and the transactions since the last multiple of \<open>n\<close> stay pending.
\<close>

theorem package_built_when_complete:
  assumes "ver_run evs VerificationService_new = (rs, vs)" and "0 < n" and "n < 2 ^ 32"
    and "\<forall>(i, m) \<in> set (submitted_for p evs). m = of_nat n"
    and "json_from_slice (ve_json e) payload = Some l" and "operation l = AddArtifact" and "package_of l = Some p"
    and "num_artifacts l = of_nat n" and "verify_transaction e payload x vs = (r, vs1)"
    and "txs = map fst (submitted_for p evs) @ [info_of l x]"
  shows "if length txs mod n = 0 then
      map_of (pending_info vs1) p = None \<and>
      (case ve_verify_build e (ve_random_peer e) (pk_type p) (pk_specific_id p) of
         Ok b \<Rightarrow> r = Ok (Some b) \<and> map_of (verifying_info vs1) b = Some (drop (length txs - n) txs)
       | Err err \<Rightarrow> r = Err (VerifyBuildError err) \<and> verifying_info vs1 = verifying_info vs \<and>
           vs_dropped vs1 = vs_dropped vs @ senders (drop (length txs - n) txs)
       | Panic m \<Rightarrow> r = Panic m)
    else r = Ok None \<and> verifying_info vs1 = verifying_info vs \<and>
      map_of (pending_info vs1) p = Some (drop (length txs - length txs mod n) txs)"
proof -
  let ?old = "map fst (submitted_for p evs)" and ?i = "info_of l x"
  have "map_of (pending_info VerificationService_new) p = entry_of (left_over n [])"
    by (simp add: VerificationService_new_def entry_of_def left_over_def)
  from collected_since[OF assms(1-4) this] have got: "map_of (pending_info vs) p = entry_of (left_over n ?old)" by simp
  have "length (left_over n ?old) < n" using assms(2) by (simp add: length_left_over)
  then have eq: "(of_nat (Suc (length (left_over n ?old))) :: u32) = num_artifacts l \<longleftrightarrow> length txs mod n = 0"
    using u32_of_nat_eq_iff[of "Suc (length (left_over n ?old))" n] assms(3,8,10) left_over_snoc(1)[OF assms(2), of ?old]
    by simp
  show ?thesis
  proof (cases "length txs mod n = 0")
    case True
    then have last: "left_over n ?old @ [?i] = drop (length txs - n) txs"
      using left_over_snoc(4)[OF assms(2), of ?old ?i] assms(10) by simp
    show ?thesis using own_transaction[OF assms(5-7) got assms(9)] unfolding eq last by (simp add: True)
  next
    case False
    then have last: "left_over n ?old @ [?i] = drop (length txs - length txs mod n) txs"
      using left_over_snoc(3)[OF assms(2), of ?old ?i] assms(10) by (simp add: left_over_def)
    show ?thesis using own_transaction[OF assms(5-7) got assms(9)] unfolding eq last by (simp add: False)
  qed
qed

section \<open>Verdicts\<close>

text \<open>
  C18: the result of a build answers exactly the transactions that wait for it, in their order, each
  with success exactly if the first artifact of the build with its id has the hash the transaction
  claims; the build is then forgotten, so a second result or a late failure answers nothing.
\<close>

theorem build_result_answers_waiting:
  assumes "map_of (verifying_info vs) build_id = Some vis"
  shows "vs_answers (handle_verification_result build_id br vs)
      = vs_answers vs @ map (\<lambda>vi. (vi_sender vi, verdict build_id br vi)) vis \<and>
    (\<forall>vi. verdict build_id br vi = Ok () \<longleftrightarrow>
       (\<exists>a. List.find (\<lambda>a. artifact_specific_id a = vi_artifact_specific_id vi) (br_artifacts br) = Some a \<and>
            ra_artifact_hash a = vi_artifact_hash vi)) \<and>
    handle_verification_result build_id br' (handle_verification_result build_id br vs)
      = handle_verification_result build_id br vs \<and>
    handle_build_failed build_id err (handle_verification_result build_id br vs)
      = handle_verification_result build_id br vs"
proof -
  have "map_of (verifying_info (handle_verification_result build_id br vs)) build_id = None"
    using assms by (simp add: handle_verification_result_def delete_conv')
  then have gone: "handle_verification_result build_id br' (handle_verification_result build_id br vs)
      = handle_verification_result build_id br vs"
    "handle_build_failed build_id err (handle_verification_result build_id br vs)
      = handle_verification_result build_id br vs"
    unfolding handle_build_failed_def[of _ _ "handle_verification_result build_id br vs"]
      handle_verification_result_def[of _ br' "handle_verification_result build_id br vs"] by simp_all
  have "\<forall>vi. verdict build_id br vi = Ok () \<longleftrightarrow>
       (\<exists>a. List.find (\<lambda>a. artifact_specific_id a = vi_artifact_specific_id vi) (br_artifacts br) = Some a \<and>
            ra_artifact_hash a = vi_artifact_hash vi)"
    by (auto simp: verdict_def split: option.splits)
  with gone show ?thesis using assms by (simp add: handle_verification_result_def[of _ br vs])
qed

section \<open>A concrete service\<close>

definition demo_ver_env :: ver_env where
  "demo_ver_env = \<lparr>ve_json = \<lparr>json_to_string = (\<lambda>_. None), json_from_slice = (\<lambda>_. Some (demo_log ''x'' AddArtifact 5))\<rparr>,
     ve_verify_build = (\<lambda>_ _ _. Ok ''b1''), ve_random_peer = [3]\<rparr>"

definition demo_transaction :: ver_event where
  "demo_transaction = Transaction demo_ver_env [1] 0"

definition demo_info :: VerificationInfo where
  "demo_info = info_of (demo_log ''x'' AddArtifact 5) 0"

definition demo_waiting :: VerificationService where
  "demo_waiting = VerificationService_new\<lparr>verifying_info := [(''b1'', [demo_info])]\<rparr>"

lemma demo_verified: "verify_transaction demo_ver_env [1] 0 VerificationService_new = (Ok (Some ''b1''), demo_waiting)"
  by (simp add: verify_transaction_def verify_add_artifact_def demo_ver_env_def demo_waiting_def demo_info_def info_of_def
      VerificationService_new_def drop_senders_def)

lemma demo_ver_run: "ver_run [demo_transaction] VerificationService_new = ([Ok (Some ''b1'')], demo_waiting)"
  by (simp add: demo_transaction_def demo_verified)

text \<open>The build of the package fails after its transaction, and is then reported a second time.\<close>

theorem waiting_transaction_is_answered_once_witness:
  "answers_to 0 (snd (ver_run [BuildFailed ''b1'' (PipelineServiceEndpointFailure 500), BuildDone ''b1'' demo_build] demo_waiting))
    = [Err (VerifyBuildError (PipelineServiceEndpointFailure 500))]"
proof -
  let ?evs = "[BuildFailed ''b1'' (PipelineServiceEndpointFailure 500), BuildDone ''b1'' demo_build]"
  obtain vs where run: "ver_run ?evs demo_waiting = ([], vs)" by simp
  have "answers_to (vi_sender demo_info) vs =
      (case first_report ''b1'' ?evs of None \<Rightarrow> [] | Some f \<Rightarrow> [f demo_info])"
    by (rule waiting_transaction_is_answered_once[where vis = "[demo_info]", OF demo_ver_run run])
       (simp_all add: demo_transaction_def demo_waiting_def)
  then show ?thesis using run by (simp add: demo_info_def info_of_def)
qed

theorem package_built_when_complete_witness:
  "map_of (pending_info demo_waiting) \<lparr>pk_type = Maven2, pk_specific_id = ''g:a:1''\<rparr> = None \<and>
   map_of (verifying_info demo_waiting) ''b1'' = Some [demo_info]"
proof -
  let ?p = "\<lparr>pk_type = Maven2, pk_specific_id = ''g:a:1''\<rparr>" and ?l = "demo_log ''x'' AddArtifact 5"
  have "json_from_slice (ve_json demo_ver_env) [1] = Some ?l" "package_of ?l = Some ?p" "num_artifacts ?l = of_nat 1"
    by (simp_all add: demo_ver_env_def package_of_def)
  from package_built_when_complete[of "[]" "[]" VerificationService_new 1 ?p, OF _ _ _ _ this(1) _ this(2,3) demo_verified refl]
  show ?thesis by (simp add: demo_ver_env_def demo_info_def)
qed

theorem build_result_answers_waiting_witness:
  "vs_answers (handle_verification_result ''b1'' demo_build
      (VerificationService_new\<lparr>verifying_info := [(''b1'',
         [\<lparr>vi_sender = 4, vi_artifact_specific_id = ''g/a/1/a-1.jar'', vi_artifact_hash = ''h''\<rparr>])]\<rparr>))
    = [(4, Ok ())]"
  using build_result_answers_waiting[of "VerificationService_new\<lparr>verifying_info := [(''b1'',
         [\<lparr>vi_sender = 4, vi_artifact_specific_id = ''g/a/1/a-1.jar'', vi_artifact_hash = ''h''\<rparr>])]\<rparr>" "''b1''"
      "[\<lparr>vi_sender = 4, vi_artifact_specific_id = ''g/a/1/a-1.jar'', vi_artifact_hash = ''h''\<rparr>]" demo_build]
  by (simp add: VerificationService_new_def verdict_def demo_artifact_def)

end
