(* ===== verification/Build_Claims.thy ===== *)
theory Build_Claims
  imports Build_Service Verification_Claims
begin

text \<open>
  Properties of the build service: what its polling task reports, that built artifacts are stored
  under their digest, and what becomes of a verification build.
\<close>

section \<open>Polling\<close>

definition still_running :: "(BuildInfo, BuildError) outcome \<Rightarrow> bool" where
  "still_running r \<longleftrightarrow> (case r of Ok info \<Rightarrow> bi_status info = Running | _ \<Rightarrow> False)"

lemma poll_build_step:
  "still_running (status k) \<Longrightarrow>
     poll_build status build_id pt psid trigger k = poll_build status build_id pt psid trigger (Suc k)"
  by (subst poll_build.simps) (simp add: still_running_def split: outcome.splits)

lemma poll_build_from:
  assumes "\<forall>i. j \<le> i \<and> i < k \<longrightarrow> still_running (status i)" and "j \<le> k"
  shows "poll_build status build_id pt psid trigger j = poll_build status build_id pt psid trigger k"
  using assms(2,1)
proof (induction rule: inc_induct)
  case (step j)
  then show ?case by (simp add: poll_build_step)
qed simp

lemma poll_build_first:
  assumes "\<forall>i < k. still_running (status i)" and "\<not> still_running (status k)"
  shows "poll_build status build_id pt psid trigger 0 = Some
    (case status k of
       Ok info \<Rightarrow>
         (case bi_status info of
            Success urls \<Rightarrow> Ok (Succeeded build_id pt psid trigger urls)
          | FailureStatus m \<Rightarrow> Ok (Failed build_id (Failure (bi_id info) m))
          | Running \<Rightarrow> Panic ''unreachable'')
     | Err err \<Rightarrow> Ok (Failed build_id err)
     | Panic m \<Rightarrow> Panic m)"
proof -
  have "poll_build status build_id pt psid trigger 0 = poll_build status build_id pt psid trigger k"
    using assms(1) by (intro poll_build_from) auto
  then show ?thesis
    using assms(2) by (simp add: poll_build.simps[of status build_id pt psid trigger k] still_running_def
        split: outcome.splits BuildStatus.splits)
qed

text \<open>
  The polling task sends exactly one event, for the first answer of the pipeline that is not
  \<^verbatim>\<open>Running\<close>: a success carries the artifact URLs of that answer and the package and trigger of the
  build, a reported failure and a failing request become a failure event of that build.
\<close>

theorem polling_reports_first_final_status:
  assumes "\<forall>i < k. still_running (status i)" and "\<not> still_running (status k)"
  shows "poll_build status build_id pt psid trigger 0 = Some
    (case status k of
       Ok info \<Rightarrow>
         (case bi_status info of
            Success urls \<Rightarrow> Ok (Succeeded build_id pt psid trigger urls)
          | FailureStatus m \<Rightarrow> Ok (Failed build_id (Failure (bi_id info) m))
          | Running \<Rightarrow> Panic ''unreachable'')
     | Err err \<Rightarrow> Ok (Failed build_id err)
     | Panic m \<Rightarrow> Panic m)"
  by (rule poll_build_first[OF assms])

theorem polling_reports_first_final_status_witness:
  "poll_build (\<lambda>k. Ok \<lparr>bi_id = ''b'', bi_status = (if k < 2 then Running else Success [''/u''])\<rparr>) ''b'' Docker ''p'' FromSource 0
    = Some (Ok (Succeeded ''b'' Docker ''p'' FromSource [''/u'']))"
  using polling_reports_first_final_status[of 2 "\<lambda>k. Ok \<lparr>bi_id = ''b'', bi_status = (if k < 2 then Running else Success [''/u''])\<rparr>"]
  by (simp add: still_running_def)

section \<open>Built artifacts\<close>

definition stored_under_digest :: "build_env \<Rightarrow> disk \<Rightarrow> BuildResultArtifact \<Rightarrow> bool" where
  "stored_under_digest e d a \<longleftrightarrow>
     (\<exists>bs. map_of d (artifact_location a) = Some bs \<and> ra_artifact_hash a = ae_sha256_hex (be_art e) bs)"

definition digests_plain :: "build_env \<Rightarrow> bool" where
  "digests_plain e \<longleftrightarrow> (\<forall>bs. plain_id (ae_sha256_hex (be_art e) bs))"

lemma PathBuf_push_plain: "plain_id h \<Longrightarrow> PathBuf_push base h = base @ [h]"
  by (cases h) (auto simp: PathBuf_push_def plain_id_def components_def split_at_none)

lemma hash_and_store_keeps:
  assumes "hash_and_store_data e bp bs d = (Ok (p, h), d1)" and "digests_plain e"
    and "\<exists>h'. plain_id h' \<and> artifact_location a = bp @ [h'] \<and> ra_artifact_hash a = h'" and "stored_under_digest e d a"
  shows "stored_under_digest e d1 a"
proof -
  have p: "p = bp @ [ae_sha256_hex (be_art e) bs]" "d1 = AList.update p bs d"
    using assms(1,2) by (auto simp: hash_and_store_data_def Let_def digests_plain_def PathBuf_push_plain
        split: option.splits write_fault.splits)
  then show ?thesis
    using assms(3,4) by (auto simp: stored_under_digest_def update_conv')
qed

lemma process_ConsE:
  assumes "process_artifact_urls e build_id pt psid bp (url # urls) d = (Ok as, d1)"
  obtains artifact p h d2 rest where "hash_and_store_data e bp artifact d = (Ok (p, h), d2)"
    "process_artifact_urls e build_id pt psid bp urls d2 = (Ok rest, d1)"
    "as = map (\<lambda>i. \<lparr>artifact_specific_id = i, artifact_location = p, ra_artifact_hash = h\<rparr>)
       (artifact_specific_ids pt psid url h) @ rest"
proof -
  obtain x where x: "download_artifact (be_http e) (be_pipeline e) url = Ok x"
    using assms by (cases "download_artifact (be_http e) (be_pipeline e) url") auto
  obtain r d2 where st: "hash_and_store_data e bp x d = (r, d2)" by force
  obtain p h where r: "r = Ok (p, h)"
    using assms by (cases r) (auto simp: x st)
  show thesis
    using assms that[OF st[unfolded r]] by (auto simp: x st r sbind_Ok_iff)
qed

lemma process_keeps:
  assumes "process_artifact_urls e build_id pt psid bp urls d = (Ok as, d1)" and "digests_plain e"
    and "\<exists>h. plain_id h \<and> artifact_location a = bp @ [h] \<and> ra_artifact_hash a = h" and "stored_under_digest e d a"
  shows "stored_under_digest e d1 a"
  using assms(1,4)
proof (induction urls arbitrary: d as)
  case (Cons url urls)
  obtain artifact p h d2 rest where
      st: "hash_and_store_data e bp artifact d = (Ok (p, h), d2)"
    and rec: "process_artifact_urls e build_id pt psid bp urls d2 = (Ok rest, d1)"
    by (rule process_ConsE[OF Cons.prems(1)])
  show ?case
    by (rule Cons.IH[OF rec]) (rule hash_and_store_keeps[OF st assms(2,3) Cons.prems(2)])
qed simp

lemma process_stores:
  assumes "process_artifact_urls e build_id pt psid bp urls d = (Ok as, d1)" and "digests_plain e"
  shows "\<forall>a \<in> set as. stored_under_digest e d1 a"
  using assms(1)
proof (induction urls arbitrary: d as)
  case (Cons url urls)
  obtain artifact p h d2 rest where
      st: "hash_and_store_data e bp artifact d = (Ok (p, h), d2)"
    and rec: "process_artifact_urls e build_id pt psid bp urls d2 = (Ok rest, d1)"
    and as: "as = map (\<lambda>i. \<lparr>artifact_specific_id = i, artifact_location = p, ra_artifact_hash = h\<rparr>)
              (artifact_specific_ids pt psid url h) @ rest"
    by (rule process_ConsE[OF Cons.prems(1)])
  have new: "h = ae_sha256_hex (be_art e) artifact" "p = bp @ [h]" "plain_id h" "d2 = AList.update p artifact d"
    using st assms(2) by (auto simp: hash_and_store_data_def Let_def digests_plain_def PathBuf_push_plain
        split: option.splits write_fault.splits)
  have "stored_under_digest e d1 \<lparr>artifact_specific_id = i, artifact_location = p, ra_artifact_hash = h\<rparr>" for i
    by (rule process_keeps[OF rec assms(2)]) (use new in \<open>auto simp: stored_under_digest_def update_conv'\<close>)
  then show ?case using Cons.IH[OF rec] as by auto
qed simp

text \<open>
  When processing the URLs of a successful build succeeds, every artifact of the result lies in
  its file with content whose digest is the hash in the result; these are the hypotheses under which
  the artifact service can deliver it.
\<close>

theorem built_artifacts_stored_under_digest:
  assumes "process_artifact_urls e build_id pt psid (get_build_path e build_id) urls d = (Ok as, d1)"
    and "digests_plain e"
  shows "\<forall>a \<in> set as. \<exists>bs. map_of d1 (artifact_location a) = Some bs \<and>
    ra_artifact_hash a = ae_sha256_hex (be_art e) bs"
  using process_stores[OF assms] by (simp add: stored_under_digest_def)

section \<open>Verification builds\<close>

text \<open>
  C28: the verification service asks for its builds in the name of a random peer, and the build service
  refuses a verification build of a peer that is not authorised. Unless the random peer happens to be
  authorised, the last transaction of a package is answered with an error, no build is started, and
  all transactions collected for the package are dropped without an answer.
\<close>

theorem verification_build_refused:
  assumes "get_authorized_nodes (ae_log (be_art e)) (as_log (bs_art s)) = Ok nodes"
    and "ve_random_peer v \<notin> set nodes"
    and "ve_verify_build v = (\<lambda>p pt psid. fst (client_verify_build e p pt psid s))"
    and "package_type l = Some pt" and "num_artifacts l = of_nat (Suc (length got))"
    and "map_of (pending_info vs) \<lparr>pk_type = pt, pk_specific_id = package_specific_id l\<rparr> = Some got"
  shows "\<exists>vs1. verify_add_artifact v l x vs = (Err (VerifyBuildError (UnauthorizedPeerId (ve_random_peer v))), vs1) \<and>
    verifying_info vs1 = verifying_info vs \<and> vs_answers vs1 = vs_answers vs \<and>
    map_of (pending_info vs1) \<lparr>pk_type = pt, pk_specific_id = package_specific_id l\<rparr> = None \<and>
    vs_dropped vs1 = vs_dropped vs @ senders got @ [x] \<and>
    snd (client_verify_build e (ve_random_peer v) pt (package_specific_id l) s) = s"
proof -
  have refuse: "client_verify_build e (ve_random_peer v) pt (package_specific_id l) s
      = (Err (UnauthorizedPeerId (ve_random_peer v)), s)"
    using assms(1,2) by (simp add: client_verify_build_def handle_build_event_def start_build_def check_trigger_def)
  show ?thesis
    by (simp add: verify_add_artifact_def assms(3-6) refuse Let_def drop_senders_def senders_def delete_conv')
qed

section \<open>A concrete build service\<close>

definition demo_build_env :: build_env where
  "demo_build_env =
     \<lparr>be_art = demo_art_env,
      be_http = \<lparr>http_get = (\<lambda>_. Ok \<lparr>hr_status = 200, hr_body = [1]\<rparr>),
                 http_put_mapping = (\<lambda>_ _. Ok \<lparr>hr_status = 200, hr_body = [1]\<rparr>),
                 body_mapping = (\<lambda>_. Err ''json''), body_string = (\<lambda>_. Ok ''b''), body_build_info = (\<lambda>_. Err ''json'')\<rparr>,
      be_ver = demo_ver_env, be_mapping = MappingService_new ''http://m/'', be_pipeline = PipelineService_new ''http://p'',
      be_repository = [''repo''], be_mkdir = (\<lambda>_. None), be_rmdir = (\<lambda>_. None), be_io_text = (\<lambda>_. ''io''),
      net_verify_build = (\<lambda>_ _. Ok ())\<rparr>"

lemma demo_digests_plain: "digests_plain demo_build_env"
  by (simp add: digests_plain_def demo_build_env_def demo_art_env_def plain_id_def)

theorem built_artifacts_stored_under_digest_witness:
  "\<exists>as d1. process_artifact_urls demo_build_env ''b'' Maven2 ''g:a:1'' (get_build_path demo_build_env ''b'') [''/x/a-1.jar''] []
      = (Ok as, d1) \<and> map artifact_specific_id as = [''g/a/1/a-1.jar''] \<and>
     (\<forall>a \<in> set as. \<exists>bs. map_of d1 (artifact_location a) = Some bs \<and> ra_artifact_hash a = ae_sha256_hex (be_art demo_build_env) bs)"
proof -
  obtain as d1 where run: "process_artifact_urls demo_build_env ''b'' Maven2 ''g:a:1'' (get_build_path demo_build_env ''b'') [''/x/a-1.jar''] []
      = (Ok as, d1)" "map artifact_specific_id as = [''g/a/1/a-1.jar'']"
    by (simp add: demo_build_env_def demo_art_env_def no_faults_def download_artifact_def pipeline_body_def is_success_def
        hash_and_store_data_def artifact_specific_ids_def url_filename_def rfind_split_def replace_char_def Let_def)
  show ?thesis
    by (intro exI[of _ as] exI[of _ d1] conjI run built_artifacts_stored_under_digest[OF run(1) demo_digests_plain])
qed

theorem verification_build_refused_witness:
  "\<exists>vs1. verify_add_artifact
       (demo_ver_env\<lparr>ve_verify_build := \<lambda>p pt psid. fst (client_verify_build demo_build_env p pt psid
          \<lparr>bs_art = demo_art_state [] [], bs_ver = VerificationService_new, polling = [], queue = []\<rparr>)\<rparr>)
       ((demo_log ''y'' AddArtifact 6)\<lparr>num_artifacts := 2\<rparr>) 1
       (VerificationService_new\<lparr>pending_info := [(\<lparr>pk_type = Maven2, pk_specific_id = ''g:a:1''\<rparr>,
          [\<lparr>vi_sender = 0, vi_artifact_specific_id = ''g/a/1/a-1.pom'', vi_artifact_hash = ''h''\<rparr>])]\<rparr>)
     = (Err (VerifyBuildError (UnauthorizedPeerId [3])), vs1) \<and> vs_dropped vs1 = [0, 1]"
proof -
  let ?s = "\<lparr>bs_art = demo_art_state [] [], bs_ver = VerificationService_new, polling = [], queue = []\<rparr>"
  let ?v = "demo_ver_env\<lparr>ve_verify_build := \<lambda>p pt psid. fst (client_verify_build demo_build_env p pt psid ?s)\<rparr>"
  have st: "stores [] (ls_table (as_log (demo_art_state [] [])))" by (rule demo_art_stores) simp_all
  then have "get_authorized_nodes (ae_log demo_art_env) (as_log (demo_art_state [] [])) = Ok []"
    using authorized_nodes_spec[OF demo_art_log_ok st] by (metis empty_iff empty_set last_in_set)
  then have nodes: "get_authorized_nodes (ae_log (be_art demo_build_env)) (as_log (bs_art ?s)) = Ok []"
    by (simp add: demo_build_env_def)
  show ?thesis
    using verification_build_refused[OF nodes, of ?v "(demo_log ''y'' AddArtifact 6)\<lparr>num_artifacts := 2\<rparr>" Maven2
        "[\<lparr>vi_sender = 0, vi_artifact_specific_id = ''g/a/1/a-1.pom'', vi_artifact_hash = ''h''\<rparr>]"
        "VerificationService_new\<lparr>pending_info := [(\<lparr>pk_type = Maven2, pk_specific_id = ''g:a:1''\<rparr>,
          [\<lparr>vi_sender = 0, vi_artifact_specific_id = ''g/a/1/a-1.pom'', vi_artifact_hash = ''h''\<rparr>])]\<rparr>" 1]
    by (auto simp: demo_ver_env_def VerificationService_new_def senders_def)
qed

end
