(* ===== verification/Build_Event_Run.thy ===== *)
theory Build_Event_Run
  imports Build_Claims Bounded_Channel
begin

text \<open>
  The build event loop at work (\<^verbatim>\<open>BuildEventLoop::run\<close> in \<^verbatim>\<open>src/src/build_service/event.rs\<close>, the channel of
  \<^verbatim>\<open>setup_pyrsia_services\<close> in \<^verbatim>\<open>src/pyrsia_node/src/main.rs\<close>): one loop that takes events from a channel with room for 32,
  the clients and polling tasks that send into it, and the events that the loop sends to itself while it
  handles another. An event that finds the channel full has to wait, whoever sends it; the field
  \<open>queue\<close> of the state of the services holds what the loop itself still has to send.
\<close>

section \<open>Steps\<close>

definition CHANNEL_CAPACITY :: nat where
  "CHANNEL_CAPACITY = 32"

text \<open>\<open>bl_taken\<close> are the events handled so far, \<open>bl_accepted\<close> all that ever entered the channel.\<close>

record build_loop =
  bl_services :: build_state
  bl_channel :: "BuildEvent list"
  bl_running :: bool
  bl_taken :: "BuildEvent list"
  bl_accepted :: "BuildEvent list"

definition BuildEventLoop_new :: "build_state \<Rightarrow> build_loop" where
  "BuildEventLoop_new s =
     \<lparr>bl_services = s, bl_channel = [], bl_running = True, bl_taken = [], bl_accepted = []\<rparr>"

definition has_room :: "build_loop \<Rightarrow> bool" where
  "has_room b \<longleftrightarrow> length (bl_channel b) < CHANNEL_CAPACITY"

definition channel_send :: "BuildEvent \<Rightarrow> build_loop \<Rightarrow> build_loop" where
  "channel_send ev b = b\<lparr>bl_channel := bl_channel b @ [ev], bl_accepted := bl_accepted b @ [ev]\<rparr>"

text \<open>What clients of the loop send: requests to start a build and for the status of one.\<close>

fun from_client :: "BuildEvent \<Rightarrow> bool" where
  "from_client (Start pt psid trigger) = True"
| "from_client (Status build_id) = True"
| "from_client _ = False"

text \<open>A polling task ends when its event has been sent.\<close>

definition polling_done :: "string \<times> PackageType \<times> string \<times> BuildTrigger \<Rightarrow> build_loop \<Rightarrow> build_loop" where
  "polling_done p b = b\<lparr>bl_services := (bl_services b)\<lparr>polling := remove1 p (polling (bl_services b))\<rparr>\<rparr>"

definition take_event :: "BuildEvent \<Rightarrow> BuildEvent list \<Rightarrow> build_state \<Rightarrow> build_loop \<Rightarrow> build_loop" where
  "take_event ev rest s b = b\<lparr>bl_channel := rest, bl_services := s, bl_taken := bl_taken b @ [ev]\<rparr>"

text \<open>
  The steps of the loop itself, and of everything around it. \<open>ps\<close> holds what the pipeline answers to each
  polling task, tick by tick. A panic ends the loop.
\<close>

inductive loop_step :: "build_env \<Rightarrow> build_loop \<Rightarrow> build_loop \<Rightarrow> bool" for e where
  handle: "bl_running b \<Longrightarrow> queue (bl_services b) = [] \<Longrightarrow> bl_channel b = ev # rest \<Longrightarrow>
     handle_build_event e ev (bl_services b) = (Ok reply, s) \<Longrightarrow> loop_step e b (take_event ev rest s b)"
| panic: "bl_running b \<Longrightarrow> queue (bl_services b) = [] \<Longrightarrow> bl_channel b = ev # rest \<Longrightarrow>
     handle_build_event e ev (bl_services b) = (Panic m, s) \<Longrightarrow>
     loop_step e b (take_event ev rest s (b\<lparr>bl_running := False\<rparr>))"
| send: "bl_running b \<Longrightarrow> queue (bl_services b) = ev # evs \<Longrightarrow> has_room b \<Longrightarrow>
     loop_step e b (channel_send ev (b\<lparr>bl_services := (bl_services b)\<lparr>queue := evs\<rparr>\<rparr>))"

inductive build_step ::
    "build_env \<Rightarrow> (string \<Rightarrow> nat \<Rightarrow> (BuildInfo, BuildError) outcome) \<Rightarrow> build_loop \<Rightarrow> build_loop \<Rightarrow> bool" for e ps where
  client: "bl_running b \<Longrightarrow> from_client ev \<Longrightarrow> has_room b \<Longrightarrow> build_step e ps b (channel_send ev b)"
| poller: "bl_running b \<Longrightarrow> (i, pt, psid, trigger) \<in> set (polling (bl_services b)) \<Longrightarrow>
     poll_build (ps i) i pt psid trigger 0 = Some (Ok ev) \<Longrightarrow> has_room b \<Longrightarrow>
     build_step e ps b (channel_send ev (polling_done (i, pt, psid, trigger) b))"
| loop: "loop_step e b b' \<Longrightarrow> build_step e ps b b'"

inductive_simps loop_step_iff: "loop_step e b b'"

abbreviation build_steps ::
    "build_env \<Rightarrow> (string \<Rightarrow> nat \<Rightarrow> (BuildInfo, BuildError) outcome) \<Rightarrow> build_loop \<Rightarrow> build_loop \<Rightarrow> bool" where
  "build_steps e ps \<equiv> (build_step e ps)\<^sup>*\<^sup>*"

section \<open>The channel keeps the events in order\<close>

lemma build_channel_step:
  assumes "build_step e ps b b'"
  shows "bl_channel b' = bl_channel b \<and> bl_taken b' = bl_taken b \<and> bl_accepted b' = bl_accepted b \<or>
    (\<exists>m. length (bl_channel b) < CHANNEL_CAPACITY \<and> bl_channel b' = bl_channel b @ [m] \<and> bl_taken b' = bl_taken b \<and>
       bl_accepted b' = bl_accepted b @ [m]) \<or>
    (\<exists>m. bl_channel b = m # bl_channel b' \<and> bl_taken b' = bl_taken b @ [m] \<and> bl_accepted b' = bl_accepted b)"
  using assms
  by (rule build_step.cases) (auto simp: channel_send_def polling_done_def take_event_def has_room_def loop_step_iff)

interpretation build_channel: bounded_channel bl_channel bl_taken bl_accepted CHANNEL_CAPACITY "build_step e ps" for e ps
  by unfold_locales (rule build_channel_step)

definition channel_ok :: "build_loop \<Rightarrow> bool" where
  "channel_ok b \<longleftrightarrow> build_channel.in_order b"

lemma channel_ok_iff:
  "channel_ok b \<longleftrightarrow> bl_accepted b = bl_taken b @ bl_channel b \<and> length (bl_channel b) \<le> CHANNEL_CAPACITY"
  by (simp add: channel_ok_def build_channel.in_order_def)

lemma build_step_channel_ok: "build_step e ps b b' \<Longrightarrow> channel_ok b \<Longrightarrow> channel_ok b'"
  unfolding channel_ok_def by (rule build_channel.step_in_order)

lemma build_steps_channel_ok: "build_steps e ps b b' \<Longrightarrow> channel_ok b \<Longrightarrow> channel_ok b'"
  unfolding channel_ok_def by (rule build_channel.run_in_order)

lemma channel_ok_new [simp]: "channel_ok (BuildEventLoop_new s)"
  by (simp add: channel_ok_iff BuildEventLoop_new_def)

section \<open>The loop can wait for itself\<close>

definition stuck :: "build_loop \<Rightarrow> bool" where
  "stuck b \<longleftrightarrow> bl_running b \<and> queue (bl_services b) \<noteq> [] \<and> length (bl_channel b) = CHANNEL_CAPACITY"

definition work_left :: "build_loop \<Rightarrow> bool" where
  "work_left b \<longleftrightarrow> queue (bl_services b) \<noteq> [] \<or> bl_channel b \<noteq> []"

lemma handle_build_event_no_Err: "handle_build_event e ev s \<noteq> (Err x, s')"
  by (cases ev)
     (auto simp: handle_build_event_def handle_successful_build_def Let_def split: prod.splits outcome.splits
       option.splits BuildTrigger.splits)

lemma stuck_no_step: "stuck b \<Longrightarrow> \<not> build_step e ps b b'"
  by (auto simp: stuck_def has_room_def loop_step_iff elim: build_step.cases)

lemma loop_acts:
  assumes "bl_running b" and "channel_ok b" and "work_left b"
  shows "(\<exists>b'. loop_step e b b') \<longleftrightarrow> \<not> stuck b"
proof (cases "queue (bl_services b)")
  case Nil
  then obtain ev rest where ch: "bl_channel b = ev # rest" using assms(3) by (auto simp: work_left_def neq_Nil_conv)
  obtain r s where "handle_build_event e ev (bl_services b) = (r, s)" by force
  then have "\<exists>b'. loop_step e b b'"
    using loop_step.handle[OF assms(1) Nil ch] loop_step.panic[OF assms(1) Nil ch] handle_build_event_no_Err
    by (cases r) blast+
  then show ?thesis using Nil by (simp add: stuck_def)
next
  case (Cons ev evs)
  then show ?thesis
    using assms loop_step.send[OF assms(1) Cons] by (auto simp: stuck_def loop_step_iff has_room_def channel_ok_iff)
qed

end
