(* ===== verification/Build_Run_Claims.thy ===== *)
theory Build_Run_Claims
  imports Build_Event_Run
begin

text \<open>
  What the build event loop does with builds from beginning to end: a requested build whose pipeline
  succeeds ends with all its artifacts served by this node, unless the loop stops; and the loop stops for good
  exactly when it has to send an event to itself and the channel is full.
\<close>

section \<open>The loop stops when the channel is full\<close>

lemma fill_channel:
  assumes "bl_running b" and "length (bl_channel b) + n = CHANNEL_CAPACITY"
  shows "\<exists>b'. build_steps e ps b b' \<and> bl_running b' \<and> bl_services b' = bl_services b \<and>
    length (bl_channel b') = CHANNEL_CAPACITY"
  using assms
proof (induction n arbitrary: b)
  case 0
  then show ?case by auto
next
  case (Suc n)
  let ?b = "channel_send (Status []) b"
  have "build_step e ps b ?b"
    using Suc.prems by (intro build_step.client) (simp_all add: has_room_def)
  moreover have "bl_running ?b" "length (bl_channel ?b) + n = CHANNEL_CAPACITY" "bl_services ?b = bl_services b"
    using Suc.prems by (simp_all add: channel_send_def)
  ultimately show ?case using Suc.IH[of ?b] by (metis converse_rtranclp_into_rtranclp)
qed

lemma successful_build_sends:
  assumes "handle_build_event e (Succeeded i pt psid trigger urls) s = (Ok r, s1)"
  shows "queue s1 \<noteq> []"
  using assms
  by (auto simp: handle_build_event_def handle_successful_build_def send_event_def clean_up_build_def Let_def
      split: option.splits prod.splits outcome.splits)

lemma sending_loop_can_stop:
  assumes "bl_running b" and "channel_ok b" and "queue (bl_services b) \<noteq> []"
  shows "\<exists>b'. build_steps e ps b b' \<and> stuck b'"
proof -
  obtain n where "length (bl_channel b) + n = CHANNEL_CAPACITY"
    using assms(2) le_Suc_ex unfolding channel_ok_iff by metis
  then show ?thesis using fill_channel[OF assms(1)] assms(3) unfolding stuck_def by metis
qed

text \<open>
  C19: the build event loop takes the events in the order in which the channel accepted them, and never
  more than 32 wait. As long as there is something to do the loop goes on, unless it has to send an event
  to itself while the channel is full: then neither it nor any client or polling task can ever take a step
  again. Every successful build puts the loop at this risk: it sends the result to itself, and 32 requests
  that arrive while it downloads the artifacts are enough.
\<close>

theorem build_loop_waits_for_itself:
  assumes "build_steps e ps (BuildEventLoop_new s) b" and "bl_running b"
  shows "bl_accepted b = bl_taken b @ bl_channel b \<and> length (bl_channel b) \<le> 32 \<and>
    (work_left b \<longrightarrow> ((\<exists>b'. loop_step e b b') \<longleftrightarrow> \<not> stuck b)) \<and>
    (stuck b \<longrightarrow> (\<forall>b'. build_steps e ps b b' \<longrightarrow> b' = b)) \<and>
    (\<forall>i pt psid trigger urls rest r s1. queue (bl_services b) = [] \<and>
       bl_channel b = Succeeded i pt psid trigger urls # rest \<and>
       handle_build_event e (Succeeded i pt psid trigger urls) (bl_services b) = (Ok r, s1) \<longrightarrow>
       (\<exists>b'. build_steps e ps b b' \<and> stuck b'))"
proof (intro conjI allI impI)
  have ok: "channel_ok b" using build_steps_channel_ok[OF assms(1)] by simp
  then show "bl_accepted b = bl_taken b @ bl_channel b" "length (bl_channel b) \<le> 32"
    by (simp_all add: channel_ok_iff CHANNEL_CAPACITY_def)
  show "(\<exists>b'. loop_step e b b') \<longleftrightarrow> \<not> stuck b" if "work_left b" by (rule loop_acts[OF assms(2) ok that])
  show "b' = b" if "stuck b" "build_steps e ps b b'" for b'
    using that(2) stuck_no_step[OF that(1)] by (cases rule: converse_rtranclpE) auto
  fix i pt psid trigger urls rest r s1
  assume h: "queue (bl_services b) = [] \<and> bl_channel b = Succeeded i pt psid trigger urls # rest \<and>
      handle_build_event e (Succeeded i pt psid trigger urls) (bl_services b) = (Ok r, s1)"
  let ?b = "take_event (Succeeded i pt psid trigger urls) rest s1 b"
  have step: "build_step e ps b ?b"
    using h assms(2) by (intro build_step.loop loop_step.handle) auto
  have "queue (bl_services ?b) \<noteq> []" "bl_running ?b"
    using h assms(2) successful_build_sends by (auto simp: take_event_def)
  then show "\<exists>b'. build_steps e ps b b' \<and> stuck b'"
    using sending_loop_can_stop[of ?b e ps] build_step_channel_ok[OF step ok] step
    by (meson converse_rtranclp_into_rtranclp)
qed

section \<open>Results of builds are stored\<close>

definition storage_path :: "art_env \<Rightarrow> nat \<Rightarrow> path" where
  "storage_path e k = artifact_file_path (ae_storage e) (uuid_artifact (ae_fresh e k))"

text \<open>The files for the next \<open>n\<close> artifacts do not exist yet.\<close>

definition storage_free :: "art_env \<Rightarrow> nat \<Rightarrow> nat \<Rightarrow> disk \<Rightarrow> bool" where
  "storage_free e k n d \<longleftrightarrow> inj_on (storage_path e) {k ..< k + n} \<and>
     (\<forall>j \<in> {k ..< k + n}. map_of d (storage_path e j) = None)"

lemma later_differs:
  assumes "inj_on f {k ..< k + Suc n}" and "j \<in> {Suc k ..< Suc k + n}"
  shows "f j \<noteq> f k"
  using inj_onD[OF assms(1), of j k] assms(2) by auto

definition records_can_be_written :: "art_env \<Rightarrow> bool" where
  "records_can_be_written e \<longleftrightarrow> log_env_ok (ae_log e) \<and> ae_io e = no_faults \<and>
     (\<forall>l. json_to_string (le_json (ae_log e)) l \<noteq> None) \<and> (\<forall>i. net_provide e i = Ok ())"

lemma add_build_artifact_succeeds:
  assumes "records_can_be_written e" and "stores ls (ls_table (as_log s))"
    and "uuid_id (ae_fresh e k) \<notin> log_id ` set ls" and "uint (now_secs (ae_fresh e k)) < 2 ^ 63"
    and "map_of (as_files s) (artifact_location a) = Some bs" and "map_of (as_files s) (storage_path e k) = None"
  shows "\<exists>payload s1. add_build_artifact e br k a s = (Ok payload, s1) \<and>
    map_of (as_files s1) = (map_of (as_files s))(storage_path e k \<mapsto> bs)"
proof -
  let ?l = "build_log e br k a"
  have env: "log_env_ok (ae_log e)" "ae_io e = no_faults" "net_provide e i = Ok ()" for i
    using assms(1) by (simp_all add: records_can_be_written_def)
  obtain payload where j: "json_to_string (le_json (ae_log e)) ?l = Some payload"
    using assms(1) by (auto simp: records_can_be_written_def)
  have l: "TransparencyLog_from (ae_fresh e k)
     \<lparr>req_package_type = br_package_type br, req_package_specific_id = br_package_specific_id br,
      req_num_artifacts = of_nat (length (br_artifacts br)),
      req_package_specific_artifact_id = artifact_specific_id a,
      req_artifact_hash = ra_artifact_hash a\<rparr> = ?l"
    by (simp add: build_log_def)
  have ok: "log_ok ?l" "log_id ?l \<notin> log_id ` set ls" using assms(3,4) by (simp_all add: log_ok_def)
  note w = write_transparency_log_new(1)[OF env(1) assms(2) ok]
  show ?thesis
    using assms(5,6) unfolding add_build_artifact_def l Let_def log_add_artifact_def
    by (simp add: j w put_artifact_from_build_result_def put_artifact_def env push_no_faults provide_def
        storage_path_def no_read_fault update_conv')
qed

lemma add_build_artifacts_succeeds:
  assumes "records_can_be_written e" and "stores ls (ls_table (as_log s))" and "draws_fresh e br k as ls"
    and "list_all (\<lambda>a. map_of (as_files s) (artifact_location a) \<noteq> None) as"
    and "storage_free e k (length as) (as_files s)"
  shows "\<exists>ps s1. add_build_artifacts e br k as s = (Ok ps, s1)"
  using assms(2-5)
proof (induction as arbitrary: k s ls)
  case (Cons a as)
  obtain bs where bs: "map_of (as_files s) (artifact_location a) = Some bs" using Cons.prems(3) by auto
  have free: "map_of (as_files s) (storage_path e k) = None"
    using Cons.prems(4) by (simp add: storage_free_def)
  obtain payload s1 where step: "add_build_artifact e br k a s = (Ok payload, s1)"
    and files: "map_of (as_files s1) = (map_of (as_files s))(storage_path e k \<mapsto> bs)"
    using add_build_artifact_succeeds[OF assms(1) Cons.prems(1) _ _ bs free, of br] Cons.prems(2) by auto
  have "stores (ls @ [build_log e br k a]) (ls_table (as_log s1))"
    using add_build_artifact_ok[OF step] assms(1) Cons.prems(1,2) by (auto simp: records_can_be_written_def)
  moreover have "list_all (\<lambda>a. map_of (as_files s1) (artifact_location a) \<noteq> None) as"
    using Cons.prems(3) by (auto simp: files list_all_iff)
  moreover have "storage_free e (Suc k) (length as) (as_files s1)"
    using Cons.prems(4) later_differs[of "storage_path e" k "length as"]
    by (auto simp: storage_free_def files elim: inj_on_subset)
  ultimately obtain ps s2 where "add_build_artifacts e br (Suc k) as s1 = (Ok ps, s2)"
    using Cons.IH[of "ls @ [build_log e br k a]" s1 "Suc k"] Cons.prems(2) by auto
  then show ?case by (simp add: step)
qed simp

text \<open>The ids drawn for \<open>n\<close> records are new, and the clock fits the database.\<close>

definition ids_fresh :: "art_env \<Rightarrow> nat \<Rightarrow> nat \<Rightarrow> TransparencyLog list \<Rightarrow> bool" where
  "ids_fresh e k n ls \<longleftrightarrow> inj_on (\<lambda>j. uuid_id (ae_fresh e j)) {k ..< k + n} \<and>
     (\<forall>j \<in> {k ..< k + n}. uuid_id (ae_fresh e j) \<notin> log_id ` set ls \<and> uint (now_secs (ae_fresh e j)) < 2 ^ 63)"

lemma ids_fresh_draws: "ids_fresh e k (length as) ls \<Longrightarrow> draws_fresh e br k as ls"
proof (induction as arbitrary: k ls)
  case (Cons a as)
  have "ids_fresh e (Suc k) (length as) (ls @ [build_log e br k a])"
    using Cons.prems later_differs[of "\<lambda>j. uuid_id (ae_fresh e j)" k "length as"]
    by (auto simp: ids_fresh_def elim: inj_on_subset)
  then show ?case using Cons.IH Cons.prems by (auto simp: ids_fresh_def)
qed simp

section \<open>Processing the URLs of a finished build\<close>

definition built_artifacts ::
    "build_env \<Rightarrow> PackageType \<Rightarrow> string \<Rightarrow> path \<Rightarrow> (string \<Rightarrow> bytes) \<Rightarrow> string list \<Rightarrow> BuildResultArtifact list" where
  "built_artifacts e pt psid bp content urls =
     concat (map (\<lambda>url. let h = ae_sha256_hex (be_art e) (content url) in
       map (\<lambda>i. \<lparr>artifact_specific_id = i, artifact_location = bp @ [h], ra_artifact_hash = h\<rparr>)
         (artifact_specific_ids pt psid url h)) urls)"

text \<open>What processing leaves on the disk: one file per digest.\<close>

fun built_files :: "build_env \<Rightarrow> path \<Rightarrow> (string \<Rightarrow> bytes) \<Rightarrow> string list \<Rightarrow> (path \<Rightarrow> bytes option) \<Rightarrow> path \<Rightarrow> bytes option" where
  "built_files e bp content [] f = f"
| "built_files e bp content (url # urls) f =
     built_files e bp content urls (f(bp @ [ae_sha256_hex (be_art e) (content url)] \<mapsto> content url))"

lemma process_artifact_urls_succeeds:
  assumes "list_all (\<lambda>url. download_artifact (be_http e) (be_pipeline e) url = Ok (content url)) urls"
    and "ae_io (be_art e) = no_faults" and "digests_plain e"
  shows "\<exists>d1. process_artifact_urls e build_id pt psid bp urls d = (Ok (built_artifacts e pt psid bp content urls), d1) \<and>
    map_of d1 = built_files e bp content urls (map_of d)"
  using assms(1)
proof (induction urls arbitrary: d)
  case Nil
  then show ?case by (simp add: built_artifacts_def)
next
  case (Cons url urls)
  let ?h = "ae_sha256_hex (be_art e) (content url)"
  let ?d = "AList.update (bp @ [?h]) (content url) d"
  have store: "hash_and_store_data e bp (content url) d = (Ok (bp @ [?h], ?h), ?d)"
    using assms(2,3) by (simp add: hash_and_store_data_def no_faults_def digests_plain_def PathBuf_push_plain Let_def)
  obtain d1 where d1: "process_artifact_urls e build_id pt psid bp urls ?d = (Ok (built_artifacts e pt psid bp content urls), d1)"
    "map_of d1 = built_files e bp content urls (map_of ?d)"
    using Cons by auto
  show ?case
    using Cons.prems d1 by (simp add: store built_artifacts_def Let_def update_conv')
qed

lemma built_files_elsewhere:
  "\<forall>h. p \<noteq> bp @ [h] \<Longrightarrow> built_files e bp content urls f p = f p"
  by (induction urls arbitrary: f) auto

lemma built_files_at:
  assumes "url \<in> set urls \<or> f (bp @ [ae_sha256_hex (be_art e) (content url)]) = Some (content url)"
    and "\<forall>u \<in> set urls. ae_sha256_hex (be_art e) (content u) = ae_sha256_hex (be_art e) (content url) \<longrightarrow> content u = content url"
  shows "built_files e bp content urls f (bp @ [ae_sha256_hex (be_art e) (content url)]) = Some (content url)"
  using assms
proof (induction urls arbitrary: f)
  case (Cons u urls)
  let ?h = "\<lambda>u. ae_sha256_hex (be_art e) (content u)"
  have "url \<in> set urls \<or> (f(bp @ [?h u] \<mapsto> content u)) (bp @ [?h url]) = Some (content url)"
    using Cons.prems by (cases "?h u = ?h url") auto
  then show ?case using Cons.IH Cons.prems(2) by simp
qed simp

section \<open>A build from its request to its downloads\<close>

text \<open>The pipeline runs the build \<open>i\<close> of the package: \<open>k\<close> times running, then done, with these files.\<close>

definition pipeline_builds ::
    "build_env \<Rightarrow> (string \<Rightarrow> nat \<Rightarrow> (BuildInfo, BuildError) outcome) \<Rightarrow> PackageType \<Rightarrow> string \<Rightarrow> string \<Rightarrow> nat
      \<Rightarrow> string list \<Rightarrow> (string \<Rightarrow> bytes) \<Rightarrow> bool" where
  "pipeline_builds e ps pt psid i k urls content \<longleftrightarrow>
     net_verify_build e pt psid = Ok () \<and>
     (\<exists>mi. get_mapping (be_http e) (be_mapping e) pt psid = Ok mi \<and>
        pipeline_start_build (be_http e) (be_pipeline e) mi = Ok i) \<and>
     (\<forall>j < k. still_running (ps i j)) \<and> (\<exists>info. ps i k = Ok info \<and> bi_status info = Success urls) \<and>
     list_all (\<lambda>url. download_artifact (be_http e) (be_pipeline e) url = Ok (content url)) urls \<and>
     inj_on (ae_sha256_hex (be_art e)) (content ` set urls)"

text \<open>The disk of the node: builds and artifacts in one repository, ids without dots and slashes.\<close>

definition repository_ok :: "build_env \<Rightarrow> string \<Rightarrow> bool" where
  "repository_ok e i \<longleftrightarrow> records_can_be_written (be_art e) \<and> digests_plain e \<and> plain_id i \<and>
     be_repository e = repository_path (ae_storage (be_art e)) \<and> be_mkdir e (get_build_path e i) = None \<and>
     (\<forall>j. plain_id (uuid_artifact (ae_fresh (be_art e) j)))"

lemma build_path_is: "plain_id i \<Longrightarrow> get_build_path e i = be_repository e @ [''builds'', i]"
  by (simp add: get_build_path_def PathBuf_push_plain)

lemma storage_path_is: "repository_ok e i \<Longrightarrow>
    storage_path (be_art e) j = be_repository e @ [uuid_artifact (ae_fresh (be_art e) j) @ ''.file'']"
  by (simp add: storage_path_def repository_ok_def artifact_file_path_plain)

lemma build_finishes:
  assumes "pipeline_builds e ps pt psid i k urls content" and "repository_ok e i" and "queue s = []"
  shows "\<exists>s1. handle_build_event e (Succeeded i pt psid FromSource urls) s = (Ok NoReply, s1) \<and>
    queue s1 = [Result i FromSource \<lparr>br_package_type = pt, br_package_specific_id = psid,
       br_artifacts = built_artifacts e pt psid (get_build_path e i) content urls\<rparr>] \<and>
    as_log (bs_art s1) = as_log (bs_art s) \<and> polling s1 = polling s \<and>
    map_of (as_files (bs_art s1)) = built_files e (get_build_path e i) content urls (map_of (as_files (bs_art s)))"
proof -
  obtain d1 where "process_artifact_urls e i pt psid (get_build_path e i) urls (as_files (bs_art s))
      = (Ok (built_artifacts e pt psid (get_build_path e i) content urls), d1)"
    "map_of d1 = built_files e (get_build_path e i) content urls (map_of (as_files (bs_art s)))"
    using process_artifact_urls_succeeds[of e content urls i pt psid "get_build_path e i" "as_files (bs_art s)"] assms(1,2)
    by (auto simp: pipeline_builds_def repository_ok_def records_can_be_written_def)
  then show ?thesis
    using assms(2,3) by (simp add: handle_build_event_def handle_successful_build_def repository_ok_def send_event_def Let_def)
qed

lemma clean_up_keeps_storage:
  assumes "repository_ok e i"
  shows "map_of (as_files (bs_art (clean_up_build e i s))) (storage_path (be_art e) j)
      = map_of (as_files (bs_art s)) (storage_path (be_art e) j)"
    and "as_log (bs_art (clean_up_build e i s)) = as_log (bs_art s)"
    and "queue (clean_up_build e i s) = queue s" "polling (clean_up_build e i s) = polling s"
proof -
  have bp: "get_build_path e i = be_repository e @ [''builds'', i]"
    using assms by (simp add: build_path_is repository_ok_def)
  have "map_of (filter (\<lambda>(p, _). take (length (get_build_path e i)) p \<noteq> get_build_path e i) d) (storage_path (be_art e) j)
      = map_of d (storage_path (be_art e) j)" for d :: disk
    by (induction d) (auto simp: bp storage_path_is[OF assms])
  then show "map_of (as_files (bs_art (clean_up_build e i s))) (storage_path (be_art e) j)
      = map_of (as_files (bs_art s)) (storage_path (be_art e) j)"
    by (simp add: clean_up_build_def Let_def split: option.split)
qed (simp_all add: clean_up_build_def Let_def split: option.split)

lemma broadcast_artifacts_quiet: "\<not> is_panic (fst (broadcast_artifacts le ps l))"
proof (induction ps arbitrary: l)
  case (Cons p ps)
  obtain r l1 where b: "BlockchainEventClient_add_block le (as_bytes p) l = (r, l1)" by force
  then have "\<not> is_panic r"
    by (auto simp: BlockchainEventClient_add_block_def split: if_splits prod.splits)
  then show ?case using Cons.IH[of l1] by (cases r) (simp_all add: b)
qed simp

lemma result_handled:
  assumes "repository_ok e i" and "add_build_artifacts (be_art e) br 0 (br_artifacts br) (bs_art s) = (Ok ps, a0)"
  shows "\<exists>s1. handle_build_event e (Result i FromSource br) s = (Ok NoReply, s1) \<and>
    ls_table (as_log (bs_art s1)) = ls_table (as_log a0) \<and> queue s1 = queue s \<and> polling s1 = polling s \<and>
    (\<forall>j. map_of (as_files (bs_art s1)) (storage_path (be_art e) j) = map_of (as_files a0) (storage_path (be_art e) j))"
proof -
  obtain r a1 where r: "handle_build_result (be_art e) i br (bs_art s) = (r, a1)" by force
  have "\<not> is_panic r"
    using r broadcast_artifacts_quiet[of "ae_log (be_art e)" ps "as_log a0"]
    by (auto simp: handle_build_result_def assms(2) split: prod.splits)
  then have "handle_build_event e (Result i FromSource br) s = (Ok NoReply, clean_up_build e i (s\<lparr>bs_art := a1\<rparr>))"
    by (cases r) (simp_all add: handle_build_event_def r)
  then show ?thesis
    using handle_build_result_keeps[OF assms(2) r] by (simp add: clean_up_keeps_storage[OF assms(1)])
qed

text \<open>What the log and the disk must be like for \<open>n\<close> new artifacts of a package with these ids.\<close>

definition room_for :: "build_env \<Rightarrow> build_state \<Rightarrow> PackageType \<Rightarrow> string list \<Rightarrow> bool" where
  "room_for e s pt ids \<longleftrightarrow> (\<exists>ls. stores ls (ls_table (as_log (bs_art s))) \<and>
     ids_fresh (be_art e) 0 (length ids) ls \<and> storage_free (be_art e) 0 (length ids) (as_files (bs_art s)) \<and>
     distinct ids \<and> list_all lit_safe ids \<and> list_all (\<lambda>i. artifact_records pt i ls = []) ids)"

definition built_ids :: "build_env \<Rightarrow> PackageType \<Rightarrow> string \<Rightarrow> (string \<Rightarrow> bytes) \<Rightarrow> string list \<Rightarrow> string list" where
  "built_ids e pt psid content urls =
     concat (map (\<lambda>url. artifact_specific_ids pt psid url (ae_sha256_hex (be_art e) (content url))) urls)"

lemma built_artifacts_ids: "map artifact_specific_id (built_artifacts e pt psid bp content urls) = built_ids e pt psid content urls"
  by (induction urls) (simp_all add: built_artifacts_def built_ids_def Let_def o_def)

lemma built_artifacts_mem:
  "a \<in> set (built_artifacts e pt psid bp content urls) \<longleftrightarrow> (\<exists>url \<in> set urls.
     let h = ae_sha256_hex (be_art e) (content url) in artifact_specific_id a \<in> set (artifact_specific_ids pt psid url h) \<and>
       a = \<lparr>artifact_specific_id = artifact_specific_id a, artifact_location = bp @ [h], ra_artifact_hash = h\<rparr>)"
  by (auto simp: built_artifacts_def Let_def)

lemma built_artifacts_served:
  assumes "pipeline_builds e ps pt psid i k urls content" and "repository_ok e i"
    and "room_for e s pt (built_ids e pt psid content urls)"
    and "br = \<lparr>br_package_type = pt, br_package_specific_id = psid,
      br_artifacts = built_artifacts e pt psid (get_build_path e i) content urls\<rparr>"
    and "as_log (bs_art s2) = as_log (bs_art s)"
    and "map_of (as_files (bs_art s2)) = built_files e (get_build_path e i) content urls (map_of (as_files (bs_art s)))"
  shows "\<exists>s3. handle_build_event e (Result i FromSource br) s2 = (Ok NoReply, s3) \<and> queue s3 = queue s2 \<and>
    polling s3 = polling s2 \<and> (\<forall>url \<in> set urls. \<forall>art \<in> set (artifact_specific_ids pt psid url (ae_sha256_hex (be_art e) (content url))).
      get_artifact (be_art e) pt art (bs_art s3) = (Ok (content url), bs_art s3))"
proof -
  let ?a = "be_art e" and ?bp = "get_build_path e i" and ?as = "br_artifacts br"
  have env: "records_can_be_written ?a" "log_env_ok (ae_log ?a)" "ae_io ?a = no_faults"
    using assms(2) by (simp_all add: repository_ok_def records_can_be_written_def)
  have as: "?as = built_artifacts e pt psid ?bp content urls" "map artifact_specific_id ?as = built_ids e pt psid content urls"
    by (simp_all add: assms(4) built_artifacts_ids)
  have len: "length ?as = length (built_ids e pt psid content urls)" using as(2) by (metis length_map)
  obtain ls where ls: "stores ls (ls_table (as_log (bs_art s)))" "ids_fresh ?a 0 (length ?as) ls"
      "storage_free ?a 0 (length ?as) (as_files (bs_art s))" "distinct (map artifact_specific_id ?as)"
      "list_all lit_safe (map artifact_specific_id ?as)"
      "list_all (\<lambda>i. artifact_records pt i ls = []) (map artifact_specific_id ?as)"
    using assms(3) unfolding room_for_def as(2) len by blast
  have bp: "?bp = be_repository e @ [''builds'', i]" using assms(2) by (simp add: build_path_is repository_ok_def)
  have at: "map_of (as_files (bs_art s2)) (?bp @ [ae_sha256_hex ?a (content url)]) = Some (content url)" if "url \<in> set urls" for url
    unfolding assms(6) using that assms(1) by (intro built_files_at) (auto simp: pipeline_builds_def inj_on_def)
  have free: "storage_free ?a 0 (length ?as) (as_files (bs_art s2))"
    using ls(3) by (simp add: storage_free_def assms(6) built_files_elsewhere bp storage_path_is[OF assms(2)])
  have draws: "draws_fresh ?a br 0 ?as ls" by (rule ids_fresh_draws[OF ls(2)])
  have src: "list_all (\<lambda>a. map_of (as_files (bs_art s2)) (artifact_location a) \<noteq> None) ?as"
  proof -
    have "\<exists>url \<in> set urls. artifact_location a = ?bp @ [ae_sha256_hex ?a (content url)]" if "a \<in> set ?as" for a
      using that unfolding as(1) built_artifacts_mem Let_def by (metis BuildResultArtifact.select_convs(2))
    then show ?thesis using at by (fastforce simp: list_all_iff)
  qed
  have st: "stores ls (ls_table (as_log (bs_art s2)))" using ls(1) by (simp add: assms(5))
  obtain qs a0 where add: "add_build_artifacts ?a br 0 ?as (bs_art s2) = (Ok qs, a0)"
    using add_build_artifacts_succeeds[OF env(1) st draws src free] by blast
  obtain s3 where s3: "handle_build_event e (Result i FromSource br) s2 = (Ok NoReply, s3)"
    "ls_table (as_log (bs_art s3)) = ls_table (as_log a0)" "queue s3 = queue s2" "polling s3 = polling s2"
    "\<And>j. map_of (as_files (bs_art s3)) (storage_path ?a j) = map_of (as_files a0) (storage_path ?a j)"
    using result_handled[OF assms(2) add] by blast
  have "get_artifact ?a pt art (bs_art s3) = (Ok (content url), bs_art s3)"
    if "url \<in> set urls" "art \<in> set (artifact_specific_ids pt psid url (ae_sha256_hex ?a (content url)))" for url art
  proof -
    let ?h = "ae_sha256_hex ?a (content url)"
    let ?b = "\<lparr>artifact_specific_id = art, artifact_location = ?bp @ [?h], ra_artifact_hash = ?h\<rparr>"
    have mem: "?b \<in> set ?as" using that unfolding as(1) built_artifacts_mem Let_def by force
    then have "lit_safe art" "artifact_records pt art ls = []" using ls(5,6) by (auto simp: list_all_iff)
    then show ?thesis
      using built_artifact_downloadable[OF add env(2,3) st draws ls(4) mem, of "content url" "bs_art s3"] s3(2,5) at[OF that(1)]
      by (simp add: assms(4) storage_path_def)
  qed
  then show ?thesis using s3(1,3,4) by blast
qed

definition idle :: "build_loop \<Rightarrow> bool" where
  "idle b \<longleftrightarrow> bl_running b \<and> bl_channel b = [] \<and> queue (bl_services b) = []"

lemma pipeline_started:
  assumes "pipeline_builds e ps pt psid i k urls content"
  shows "handle_build_event e (Start pt psid FromSource) s =
      (Ok (StartReply (Ok i)), s\<lparr>polling := polling s @ [(i, pt, psid, FromSource)]\<rparr>)"
    and "poll_build (ps i) i pt psid FromSource 0 = Some (Ok (Succeeded i pt psid FromSource urls))"
proof -
  show "handle_build_event e (Start pt psid FromSource) s =
      (Ok (StartReply (Ok i)), s\<lparr>polling := polling s @ [(i, pt, psid, FromSource)]\<rparr>)"
    using assms by (auto simp: pipeline_builds_def handle_build_event_def start_build_def check_trigger_def)
  obtain info where "\<forall>j < k. still_running (ps i j)" "ps i k = Ok info" "bi_status info = Success urls"
    using assms by (auto simp: pipeline_builds_def)
  then show "poll_build (ps i) i pt psid FromSource 0 = Some (Ok (Succeeded i pt psid FromSource urls))"
    using poll_build_first[of k "ps i" i pt psid FromSource] by (simp add: still_running_def)
qed

definition artifacts_served :: "build_env \<Rightarrow> PackageType \<Rightarrow> string \<Rightarrow> string list \<Rightarrow> (string \<Rightarrow> bytes) \<Rightarrow> art_state \<Rightarrow> bool" where
  "artifacts_served e pt psid urls content a \<longleftrightarrow>
     (\<forall>url \<in> set urls. \<forall>art \<in> set (artifact_specific_ids pt psid url (ae_sha256_hex (be_art e) (content url))).
        get_artifact (be_art e) pt art a = (Ok (content url), a))"

text \<open>
  The steps of the loop and of the polling tasks; and the same with clients that ask for the status of
  builds in between, as often as they like.
\<close>

definition own_step ::
    "build_env \<Rightarrow> (string \<Rightarrow> nat \<Rightarrow> (BuildInfo, BuildError) outcome) \<Rightarrow> build_loop \<Rightarrow> build_loop \<Rightarrow> bool" where
  "own_step e ps b b' \<longleftrightarrow> loop_step e b b' \<or>
     (\<exists>i pt psid trigger ev. bl_running b \<and> (i, pt, psid, trigger) \<in> set (polling (bl_services b)) \<and>
        poll_build (ps i) i pt psid trigger 0 = Some (Ok ev) \<and> has_room b \<and>
        b' = channel_send ev (polling_done (i, pt, psid, trigger) b))"

definition asked_step ::
    "build_env \<Rightarrow> (string \<Rightarrow> nat \<Rightarrow> (BuildInfo, BuildError) outcome) \<Rightarrow> build_loop \<Rightarrow> build_loop \<Rightarrow> bool" where
  "asked_step e ps b b' \<longleftrightarrow> own_step e ps b b' \<or>
     (\<exists>j. bl_running b \<and> has_room b \<and> b' = channel_send (Status j) b)"

lemma asked_step_is_step: "asked_step e ps b b' \<Longrightarrow> build_step e ps b b'"
  by (auto simp: asked_step_def own_step_def intro: build_step.intros)

text \<open>
  The course of a build: the states of the services and the events on the way, besides requests for a status. The
  request is sent, the pipeline is at work, it is done, the result is to be sent, it is sent, all is stored.
\<close>

fun not_status :: "BuildEvent \<Rightarrow> bool" where
  "not_status (Status j) = False"
| "not_status _ = True"

definition course_of ::
    "build_env \<Rightarrow> (string \<Rightarrow> nat \<Rightarrow> (BuildInfo, BuildError) outcome) \<Rightarrow> string \<times> PackageType \<times> string \<times> BuildTrigger
      \<Rightarrow> BuildEvent \<Rightarrow> BuildEvent \<Rightarrow> BuildEvent \<Rightarrow> build_state \<Rightarrow> build_state \<Rightarrow> build_state \<Rightarrow> bool" where
  "course_of e ps p start done res s0 s2 s3 \<longleftrightarrow>
     not_status start \<and> not_status done \<and> not_status res \<and>
     (\<forall>s j. \<exists>r. handle_build_event e (Status j) s = (Ok r, s)) \<and>
     queue s0 = [] \<and> polling s0 = [] \<and> (\<exists>r. handle_build_event e start s0 = (Ok r, s0\<lparr>polling := [p]\<rparr>)) \<and>
     (case p of (i, pt, psid, trigger) \<Rightarrow> poll_build (ps i) i pt psid trigger 0 = Some (Ok done)) \<and>
     (\<exists>r. handle_build_event e done s0 = (Ok r, s2)) \<and> queue s2 = [res] \<and> polling s2 = [] \<and>
     (\<exists>r. handle_build_event e res (s2\<lparr>queue := []\<rparr>) = (Ok r, s3)) \<and> queue s3 = [] \<and> polling s3 = []"

definition course ::
    "string \<times> PackageType \<times> string \<times> BuildTrigger \<Rightarrow> BuildEvent \<Rightarrow> BuildEvent \<Rightarrow> BuildEvent
      \<Rightarrow> build_state \<Rightarrow> build_state \<Rightarrow> build_state \<Rightarrow> nat \<Rightarrow> build_loop \<Rightarrow> bool" where
  "course p start done res s0 s2 s3 n b \<longleftrightarrow> bl_running b \<and>
     (n, bl_services b, filter not_status (bl_channel b)) \<in>
       {(0, s0, [start]), (1, s0\<lparr>polling := [p]\<rparr>, []), (2, s0, [done]), (3, s2, []), (4, s2\<lparr>queue := []\<rparr>, [res]), (5, s3, [])}"

lemma courseE:
  assumes "course p start done res s0 s2 s3 n b"
  obtains
    (requested) "n = 0" "bl_services b = s0" "filter not_status (bl_channel b) = [start]"
  | (building) "n = 1" "bl_services b = s0\<lparr>polling := [p]\<rparr>" "filter not_status (bl_channel b) = []"
  | (built) "n = 2" "bl_services b = s0" "filter not_status (bl_channel b) = [done]"
  | (sending) "n = 3" "bl_services b = s2" "filter not_status (bl_channel b) = []"
  | (sent) "n = 4" "bl_services b = s2\<lparr>queue := []\<rparr>" "filter not_status (bl_channel b) = [res]"
  | (stored) "n = 5" "bl_services b = s3" "filter not_status (bl_channel b) = []"
  using assms unfolding course_def by blast

lemma courseI:
  assumes "bl_running b"
  shows "bl_services b = s0\<lparr>polling := [p]\<rparr> \<Longrightarrow> filter not_status (bl_channel b) = [] \<Longrightarrow> course p start done res s0 s2 s3 (Suc 0) b"
    "bl_services b = s0 \<Longrightarrow> filter not_status (bl_channel b) = [done] \<Longrightarrow> course p start done res s0 s2 s3 (Suc 1) b"
    "bl_services b = s2 \<Longrightarrow> filter not_status (bl_channel b) = [] \<Longrightarrow> course p start done res s0 s2 s3 (Suc 2) b"
    "bl_services b = s2\<lparr>queue := []\<rparr> \<Longrightarrow> filter not_status (bl_channel b) = [res] \<Longrightarrow> course p start done res s0 s2 s3 (Suc 3) b"
    "bl_services b = s3 \<Longrightarrow> filter not_status (bl_channel b) = [] \<Longrightarrow> course p start done res s0 s2 s3 (Suc 4) b"
  using assms by (simp_all add: course_def)

lemma loop_step_on_course:
  assumes "course_of e ps p start done res s0 s2 s3" and "course p start done res s0 s2 s3 n b" and "loop_step e b b'"
  shows "course p start done res s0 s2 s3 n b' \<and> length (bl_channel b') < length (bl_channel b) \<or>
    course p start done res s0 s2 s3 (Suc n) b' \<and> length (bl_channel b') \<le> Suc (length (bl_channel b))"
  using assms(3)
proof cases
  case (handle ev rest reply s)
  show ?thesis
  proof (cases "not_status ev")
    case True
    then have ev: "filter not_status (bl_channel b) = ev # filter not_status rest" using handle(4) by simp
    note c = assms(1)[unfolded course_of_def]
    have b': "bl_running b'" "bl_services b' = s" "bl_channel b' = rest" using handle(1,2) by (simp_all add: take_event_def)
    have "course p start done res s0 s2 s3 (Suc n) b'"
      using assms(2)
    proof (cases rule: courseE)
      case requested
      then show ?thesis using c handle(5) ev b' courseI(1)[OF b'(1)] by auto
    next
      case built
      then show ?thesis using c handle(5) ev b' courseI(3)[OF b'(1)] by auto
    next
      case sent
      then show ?thesis using c handle(5) ev b' courseI(5)[OF b'(1)] by auto
    qed (use ev in auto)
    then show ?thesis using b'(3) handle(4) by simp
  next
    case False
    then obtain j where "ev = Status j" by (cases ev) auto
    moreover obtain r where "handle_build_event e (Status j) (bl_services b) = (Ok r, bl_services b)"
      using assms(1) by (auto simp: course_of_def)
    ultimately show ?thesis using assms(2) handle by (auto simp: course_def take_event_def)
  qed
next
  case (panic ev rest m s)
  show ?thesis
  proof (cases "not_status ev")
    case True
    then have ev: "filter not_status (bl_channel b) = ev # filter not_status rest" using panic(4) by simp
    show ?thesis
      using assms(2) by (cases rule: courseE) (use ev panic(5) assms(1)[unfolded course_of_def] in auto)
  next
    case False
    then obtain j where "ev = Status j" by (cases ev) auto
    moreover obtain r where "handle_build_event e (Status j) (bl_services b) = (Ok r, bl_services b)"
      using assms(1) by (auto simp: course_of_def)
    ultimately show ?thesis using panic by auto
  qed
next
  case (send ev evs)
  note c = assms(1)[unfolded course_of_def]
  have "course p start done res s0 s2 s3 (Suc n) b'"
    using assms(2)
  proof (cases rule: courseE)
    case sending
    then have "ev = res" "evs = []" using c send(3) by auto
    then show ?thesis using c sending send by (intro courseI(4)[of b', folded sending(1)] ) (auto simp: channel_send_def)
  qed (use c send(3) in auto)
  then show ?thesis using send(1) by (simp add: channel_send_def)
qed

lemma poller_on_course:
  assumes "course_of e ps p start done res s0 s2 s3" and "course p start done res s0 s2 s3 n b"
    and "(i, pt, psid, trigger) \<in> set (polling (bl_services b))"
    and "poll_build (ps i) i pt psid trigger 0 = Some (Ok ev)"
  shows "course p start done res s0 s2 s3 (Suc n) (channel_send ev (polling_done (i, pt, psid, trigger) b))"
  using assms(2)
proof (cases rule: courseE)
  case building
  then have "(i, pt, psid, trigger) = p" "ev = done" "bl_running b" "not_status done" "polling s0 = []"
    using assms unfolding course_of_def course_def by auto
  moreover from this have "s0\<lparr>polling := []\<rparr> = s0" by (cases s0) simp
  ultimately show ?thesis using building by (simp add: course_def channel_send_def polling_done_def)
qed (use assms(1,3) in \<open>auto simp: course_of_def\<close>)

lemma course_bound: "course p start done res s0 s2 s3 n b \<Longrightarrow> n \<le> 5"
  by (auto simp: course_def)

lemma own_step_on_course:
  assumes "course_of e ps p start done res s0 s2 s3" and "course p start done res s0 s2 s3 n b" and "own_step e ps b b'"
  shows "\<exists>m. course p start done res s0 s2 s3 m b' \<and>
    2 * (6 - m) + length (bl_channel b') < 2 * (6 - n) + length (bl_channel b)"
  using assms(3) unfolding own_step_def
proof
  assume "loop_step e b b'"
  from loop_step_on_course[OF assms(1,2) this] show ?thesis
  proof
    assume h: "course p start done res s0 s2 s3 (Suc n) b' \<and> length (bl_channel b') \<le> Suc (length (bl_channel b))"
    then have "Suc n \<le> 5" using course_bound by blast
    then show ?thesis using h by (intro exI[of _ "Suc n"]) auto
  qed (intro exI[of _ n], simp)
next
  assume "\<exists>i pt psid trigger ev. bl_running b \<and> (i, pt, psid, trigger) \<in> set (polling (bl_services b)) \<and>
        poll_build (ps i) i pt psid trigger 0 = Some (Ok ev) \<and> has_room b \<and>
        b' = channel_send ev (polling_done (i, pt, psid, trigger) b)"
  then obtain i pt psid trigger ev where h: "(i, pt, psid, trigger) \<in> set (polling (bl_services b))"
      "poll_build (ps i) i pt psid trigger 0 = Some (Ok ev)" "b' = channel_send ev (polling_done (i, pt, psid, trigger) b)"
    by blast
  have c: "course p start done res s0 s2 s3 (Suc n) b'" using poller_on_course[OF assms(1,2) h(1,2)] h(3) by simp
  then have "Suc n \<le> 5" using course_bound by blast
  then show ?thesis using c h(3) by (intro exI[of _ "Suc n"]) (auto simp: channel_send_def polling_done_def)
qed

lemma asked_steps_on_course:
  assumes "course_of e ps p start done res s0 s2 s3" and "(asked_step e ps)\<^sup>*\<^sup>* b b'"
    and "course p start done res s0 s2 s3 n b"
  shows "\<exists>m. course p start done res s0 s2 s3 m b'"
  using assms(2,3)
proof (induction rule: rtranclp_induct)
  case (step b1 b2)
  then obtain m where m: "course p start done res s0 s2 s3 m b1" by blast
  have "course p start done res s0 s2 s3 m (channel_send (Status j) b1)" for j
    using m by (simp add: course_def channel_send_def)
  then show ?case using step.hyps(2) own_step_on_course[OF assms(1) m] unfolding asked_step_def by blast
qed blast

lemma own_steps_bounded:
  assumes "course_of e ps p start done res s0 s2 s3"
  shows "(own_step e ps ^^ k) b b' \<Longrightarrow> course p start done res s0 s2 s3 n b \<Longrightarrow>
    \<exists>m. course p start done res s0 s2 s3 m b' \<and>
      k + 2 * (6 - m) + length (bl_channel b') \<le> 2 * (6 - n) + length (bl_channel b)"
proof (induction k arbitrary: b')
  case (Suc k)
  then obtain b1 where b1: "(own_step e ps ^^ k) b b1" "own_step e ps b1 b'" by auto
  from Suc.IH[OF b1(1) Suc.prems(2)] obtain m where m: "course p start done res s0 s2 s3 m b1"
      "k + 2 * (6 - m) + length (bl_channel b1) \<le> 2 * (6 - n) + length (bl_channel b)" by blast
  from own_step_on_course[OF assms m(1) b1(2)] m(2) show ?case by fastforce
qed auto

text \<open>Where nothing moves any more, the build is at its end, or the loop waits for itself.\<close>

lemma course_ends:
  assumes "course_of e ps p start done res s0 s2 s3" and "course p start done res s0 s2 s3 n b" and "channel_ok b"
    and "\<nexists>b'. own_step e ps b b'"
  shows "stuck b \<or> bl_services b = s3 \<and> idle b"
proof (cases "stuck b")
  case False
  have run: "bl_running b" using assms(2) by (simp add: course_def)
  have rest: "queue (bl_services b) = []" "bl_channel b = []"
    using loop_acts[OF run assms(3)] False assms(4) by (auto simp: own_step_def work_left_def)
  then have room: "has_room b" by (simp add: has_room_def CHANNEL_CAPACITY_def)
  obtain i pt psid trigger where p: "p = (i, pt, psid, trigger)" by (cases p)
  have np: "p \<notin> set (polling (bl_services b))"
    using assms(4) run room assms(1)[unfolded course_of_def] unfolding own_step_def p by blast
  have "bl_services b = s3"
    using assms(2) by (cases rule: courseE) (use assms(1)[unfolded course_of_def] rest np in auto)
  then show ?thesis using rest run by (simp add: idle_def)
qed simp

lemma build_on_course:
  assumes "idle b" and "polling (bl_services b) = []" and "pipeline_builds e ps pt psid i k urls content"
    and "repository_ok e i" and "room_for e (bl_services b) pt (built_ids e pt psid content urls)"
    and "\<forall>j. \<not> is_panic (pipeline_get_build_status (be_http e) (be_pipeline e) j)"
  shows "\<exists>res s2 s3. course_of e ps (i, pt, psid, FromSource) (Start pt psid FromSource) (Succeeded i pt psid FromSource urls)
      res (bl_services b) s2 s3 \<and> artifacts_served e pt psid urls content (bs_art s3)"
proof -
  let ?s = "bl_services b" and ?ev = "Succeeded i pt psid FromSource urls"
  let ?res = "Result i FromSource \<lparr>br_package_type = pt, br_package_specific_id = psid,
       br_artifacts = built_artifacts e pt psid (get_build_path e i) content urls\<rparr>"
  have q: "queue ?s = []" using assms(1) by (simp add: idle_def)
  obtain s2 where s2: "handle_build_event e ?ev ?s = (Ok NoReply, s2)" "queue s2 = [?res]" "polling s2 = []"
    "as_log (bs_art s2) = as_log (bs_art ?s)"
    "map_of (as_files (bs_art s2)) = built_files e (get_build_path e i) content urls (map_of (as_files (bs_art ?s)))"
    using build_finishes[OF assms(3,4) q] assms(2) by auto
  obtain s3 where s3: "handle_build_event e ?res (s2\<lparr>queue := []\<rparr>) = (Ok NoReply, s3)" "queue s3 = []" "polling s3 = []"
    "artifacts_served e pt psid urls content (bs_art s3)"
    using built_artifacts_served[OF assms(3-5) refl, of "s2\<lparr>queue := []\<rparr>"] s2(3-5) by (auto simp: artifacts_served_def)
  have status: "\<exists>r. handle_build_event e (Status j) s = (Ok r, s)" for s j
    using assms(6)[rule_format, of j]
    by (cases "pipeline_get_build_status (be_http e) (be_pipeline e) j") (simp_all add: handle_build_event_def)
  have "course_of e ps (i, pt, psid, FromSource) (Start pt psid FromSource) ?ev ?res ?s s2 s3"
    using s2(1-3) s3(1-3) assms(2) q status pipeline_started[OF assms(3)] by (simp add: course_of_def)
  then show ?thesis using s3(4) by blast
qed

text \<open>
  C15: a build that is requested from an idle build service, and that the pipeline carries out, comes to an end
  in every run in which clients ask for nothing but the status of builds: whatever the order of the steps, the loop
  keeps running; after at most 12 steps more than there are events in the channel it and the polling task have nothing left
  to do; and then either its artifacts are on this node - a download under each id that the build gives to a file
  returns exactly the bytes the pipeline served for it, whether or not the blocks with the records could be
  broadcast, and the loop is idle again - or the loop waits for itself with a full channel (\<open>stuck\<close>).
  The request itself is answered with the id that the pipeline gave.
\<close>

theorem requested_build_is_served:
  assumes "idle b" and "polling (bl_services b) = []" and "pipeline_builds e ps pt psid i k urls content"
    and "repository_ok e i" and "room_for e (bl_services b) pt (built_ids e pt psid content urls)"
    and "\<forall>j. \<not> is_panic (pipeline_get_build_status (be_http e) (be_pipeline e) j)"
    and "channel_ok b" and "(asked_step e ps)\<^sup>*\<^sup>* (channel_send (Start pt psid FromSource) b) b'"
  shows "fst (client_start_build e pt psid (bl_services b)) = Ok i \<and> bl_running b' \<and>
    (\<forall>n b''. (own_step e ps ^^ n) b' b'' \<longrightarrow> n \<le> 12 + length (bl_channel b')) \<and>
    ((\<nexists>b''. own_step e ps b' b'') \<longrightarrow> stuck b' \<or> idle b' \<and>
      (\<forall>url \<in> set urls. \<forall>art \<in> set (artifact_specific_ids pt psid url (ae_sha256_hex (be_art e) (content url))).
         get_artifact (be_art e) pt art (bs_art (bl_services b')) = (Ok (content url), bs_art (bl_services b'))))"
proof -
  let ?p = "(i, pt, psid, FromSource)" and ?start = "Start pt psid FromSource" and ?done = "Succeeded i pt psid FromSource urls"
  obtain res s2 s3 where c: "course_of e ps ?p ?start ?done res (bl_services b) s2 s3"
      and served: "artifacts_served e pt psid urls content (bs_art s3)"
    using build_on_course[OF assms(1-6)] by blast
  let ?ss = "course ?p ?start ?done res (bl_services b) s2 s3"
  have "?ss 0 (channel_send ?start b)"
    using assms(1) by (simp add: course_def channel_send_def idle_def)
  then obtain m where m: "?ss m b'" using asked_steps_on_course[OF c assms(8)] by blast
  have "build_step e ps b (channel_send ?start b)"
    using assms(1) by (intro build_step.client) (simp_all add: idle_def has_room_def CHANNEL_CAPACITY_def)
  moreover have "build_steps e ps (channel_send ?start b) b'"
    using mono_rtranclp[of "asked_step e ps" "build_step e ps"] asked_step_is_step assms(8) by blast
  ultimately have ok: "channel_ok b'"
    using build_steps_channel_ok build_step_channel_ok assms(7) by blast
  have "fst (client_start_build e pt psid (bl_services b)) = Ok i"
    by (simp add: client_start_build_def pipeline_started(1)[OF assms(3)])
  moreover have "bl_running b'" using m by (simp add: course_def)
  moreover have "n \<le> 12 + length (bl_channel b')" if "(own_step e ps ^^ n) b' b''" for n b''
    using own_steps_bounded[OF c that m] by auto
  moreover have "stuck b' \<or> idle b' \<and> artifacts_served e pt psid urls content (bs_art (bl_services b'))"
    if "\<nexists>b''. own_step e ps b' b''"
    using course_ends[OF c m ok that] served by blast
  ultimately show ?thesis unfolding artifacts_served_def by blast
qed

section \<open>Witnesses\<close>

definition demo_run_env :: build_env where
  "demo_run_env = demo_build_env\<lparr>be_repository := [''store'']\<rparr>"

definition demo_ticks :: "string \<Rightarrow> nat \<Rightarrow> (BuildInfo, BuildError) outcome" where
  "demo_ticks i j = Ok \<lparr>bi_id = i, bi_status = (if j < 1 then Running else Success [''/x/manifest''])\<rparr>"

definition demo_services :: build_state where
  "demo_services = \<lparr>bs_art = demo_art_state [] [], bs_ver = VerificationService_new, polling = [], queue = []\<rparr>"

lemma demo_run_sel:
  "be_art demo_run_env = demo_art_env" "be_repository demo_run_env = [''store'']" "be_mkdir demo_run_env p = None"
  "net_verify_build demo_run_env pt psid = Ok ()" "ae_sha256_hex demo_art_env [1] = ''h''"
  by (simp_all add: demo_run_env_def demo_build_env_def demo_art_env_def)

lemma demo_run_downloads: "download_artifact (be_http demo_run_env) (be_pipeline demo_run_env) url = Ok [1]"
  by (simp add: demo_run_env_def demo_build_env_def download_artifact_def pipeline_body_def is_success_def)

lemma demo_pipeline_builds: "pipeline_builds demo_run_env demo_ticks Docker ''a@b'' ''b'' 1 [''/x/manifest''] (\<lambda>_. [1])"
  unfolding pipeline_builds_def
  by (simp add: demo_run_sel demo_run_downloads demo_ticks_def still_running_def)
     (simp add: demo_run_env_def demo_build_env_def get_mapping_def pipeline_start_build_def pipeline_body_def is_success_def)

lemma demo_repository_ok: "repository_ok demo_run_env ''b''"
  using demo_digests_plain
  by (simp add: repository_ok_def demo_run_sel records_can_be_written_def digests_plain_def plain_id_def)
     (simp add: demo_build_env_def demo_art_env_def demo_fresh_def)

lemma demo_room: "room_for demo_run_env demo_services Docker [''a@b'']"
proof -
  have "stores [] (ls_table (as_log (demo_art_state [] [])))" by (rule demo_art_stores) simp_all
  then show ?thesis
    unfolding room_for_def demo_services_def
    by (intro exI[of _ "[]"])
       (simp add: demo_run_sel ids_fresh_def storage_free_def artifact_records_def lit_safe_def,
        simp add: demo_art_env_def demo_art_state_def demo_fresh_def)
qed

lemma demo_built_ids: "built_ids demo_run_env Docker ''a@b'' (\<lambda>_. [1]) [''/x/manifest''] = [''a@b'']"
  by (simp add: built_ids_def artifact_specific_ids_def ends_with_def)

text \<open>The build is on its way: the request has just been sent.\<close>

theorem requested_build_is_served_witness:
  "bl_running (channel_send (Start Docker ''a@b'' FromSource) (BuildEventLoop_new demo_services)) \<and>
   fst (client_start_build demo_run_env Docker ''a@b'' demo_services) = Ok ''b''"
proof -
  have b: "idle (BuildEventLoop_new demo_services)" "bl_services (BuildEventLoop_new demo_services) = demo_services"
    "polling demo_services = []"
    by (simp_all add: idle_def BuildEventLoop_new_def demo_services_def)
  have status: "\<not> is_panic (pipeline_get_build_status (be_http demo_run_env) (be_pipeline demo_run_env) j)" for j
    by (simp add: demo_run_env_def demo_build_env_def pipeline_get_build_status_def pipeline_body_def is_success_def)
  show ?thesis
    using requested_build_is_served[OF b(1) _ demo_pipeline_builds demo_repository_ok _ _ channel_ok_new rtranclp.rtrancl_refl]
      b status demo_room by (simp add: demo_built_ids)
qed

theorem build_loop_waits_for_itself_witness:
  "\<exists>b. build_steps demo_run_env demo_ticks (BuildEventLoop_new demo_services) b \<and> stuck b \<and>
     bl_accepted b = bl_taken b @ bl_channel b"
proof -
  let ?s = "demo_services\<lparr>polling := [(''b'', Docker, ''a@b'', FromSource)]\<rparr>"
  let ?ev = "Succeeded ''b'' Docker ''a@b'' FromSource [''/x/manifest'']"
  let ?b0 = "BuildEventLoop_new demo_services"
  let ?b1 = "take_event (Start Docker ''a@b'' FromSource) [] ?s (channel_send (Start Docker ''a@b'' FromSource) ?b0)"
  let ?b2 = "channel_send ?ev (polling_done (''b'', Docker, ''a@b'', FromSource) ?b1)"
  have "build_step demo_run_env demo_ticks ?b0 (channel_send (Start Docker ''a@b'' FromSource) ?b0)"
    by (rule build_step.client) (simp_all add: BuildEventLoop_new_def has_room_def CHANNEL_CAPACITY_def)
  moreover have "build_step demo_run_env demo_ticks (channel_send (Start Docker ''a@b'' FromSource) ?b0) ?b1"
    using pipeline_started(1)[OF demo_pipeline_builds, of demo_services]
    by (intro build_step.loop loop_step.handle) (simp_all add: BuildEventLoop_new_def channel_send_def demo_services_def)
  moreover have "build_step demo_run_env demo_ticks ?b1 ?b2"
    by (intro build_step.poller[where ps = demo_ticks] pipeline_started(2)[OF demo_pipeline_builds])
       (simp_all add: BuildEventLoop_new_def take_event_def channel_send_def has_room_def CHANNEL_CAPACITY_def)
  ultimately have reach: "build_steps demo_run_env demo_ticks ?b0 ?b2" by simp
  have b2: "bl_running ?b2" "queue (bl_services ?b2) = []" "bl_channel ?b2 = [?ev]"
    by (simp_all add: BuildEventLoop_new_def take_event_def channel_send_def polling_done_def demo_services_def)
  obtain s2 where "handle_build_event demo_run_env ?ev (bl_services ?b2) = (Ok NoReply, s2)"
    using build_finishes[OF demo_pipeline_builds demo_repository_ok b2(2)] by blast
  then obtain b where b: "build_steps demo_run_env demo_ticks ?b2 b" "stuck b"
    using build_loop_waits_for_itself[OF reach b2(1)] b2(2,3) by blast
  have all: "build_steps demo_run_env demo_ticks ?b0 b" by (rule rtranclp_trans[OF reach b(1)])
  have "bl_running b" using b(2) by (simp add: stuck_def)
  from build_loop_waits_for_itself[OF all this] have "bl_accepted b = bl_taken b @ bl_channel b" by (rule conjunct1)
  with all b(2) show ?thesis by blast
qed

end
