(* ===== verification/Network_Setup.thy ===== *)
theory Network_Setup
  imports Node_Process Network_Call_Claims Node_Claims
begin

text \<open>
  Starting a node: the swarm of libp2p with its configuration (\<^verbatim>\<open>src/src/network/p2p.rs\<close>) and the first half of
  \<^verbatim>\<open>main\<close> (\<^verbatim>\<open>src/pyrsia_node/src/main.rs\<close>), up to the point where the tasks of the node run. What the pieces of
  libp2p do is a parameter: whether the noise keys can be signed, the resolver of the system read, the
  behaviours be built, and which swarm comes out of a configuration.
\<close>

section \<open>Protocols and configuration\<close>

definition ArtifactExchangeProtocol :: string where
  "ArtifactExchangeProtocol = ''/artifact-exchange/1''"

definition BuildExchangeProtocol :: string where
  "BuildExchangeProtocol = ''/build-exchange/1''"

definition IdleMetricExchangeProtocol :: string where
  "IdleMetricExchangeProtocol = ''/metric-exchange/1''"

definition BlockchainExchangeProtocol :: string where
  "BlockchainExchangeProtocol = ''/pyrsia-blockchain-update-exchange/1''"

definition BuildStatusExchangeProtocol :: string where
  "BuildStatusExchangeProtocol = ''/build-status-exchange/1''"

datatype ProtocolSupport = Inbound | Outbound | Full

text \<open>The values that the code sets; everything else is the default of libp2p. Times are in seconds.\<close>

record swarm_config =
  sc_keypair :: Keypair
  sc_peer_id :: PeerId
  sc_identify_version :: string
  sc_max_provided_keys :: nat
  sc_gossip_heartbeat :: nat
  sc_gossip_strict :: bool
  sc_nat_retry :: nat
  sc_nat_refresh :: nat
  sc_nat_boot_delay :: nat
  sc_nat_throttle :: nat
  sc_tcp_nodelay :: bool
  sc_transport_timeout :: nat
  sc_protocols :: "(string \<times> ProtocolSupport) list"

record libp2p =
  lp_peer_id :: "Keypair \<Rightarrow> PeerId"
  lp_noise_signs :: "Keypair \<Rightarrow> bool"
  lp_system_dns :: "(unit, string) outcome"
  lp_gossip_config :: "(unit, string) outcome"
  lp_gossip_new :: "Keypair \<Rightarrow> (unit, string) outcome"
  lp_swarm :: "swarm_config \<Rightarrow> swarm"
  lp_hash :: "bytes \<Rightarrow> u64"

text \<open>Gossip is identified by its content alone, whoever sends it under whatever topic.\<close>

definition message_id_fn :: "libp2p \<Rightarrow> bytes \<Rightarrow> string" where
  "message_id_fn lp data = show_nat (unat (lp_hash lp data))"

definition create_transport :: "libp2p \<Rightarrow> Keypair \<Rightarrow> (unit, string) outcome" where
  "create_transport lp k =
     (if lp_noise_signs lp k then lp_system_dns lp
      else Panic ''Signing libp2p-noise static DH keypair failed.'')"

definition config_of :: "Keypair \<Rightarrow> PeerId \<Rightarrow> nat \<Rightarrow> swarm_config" where
  "config_of k peer_id max_provided_keys =
     \<lparr>sc_keypair = k, sc_peer_id = peer_id, sc_identify_version = ''ipfs/1.0.0'',
      sc_max_provided_keys = max_provided_keys, sc_gossip_heartbeat = 10, sc_gossip_strict = True,
      sc_nat_retry = 10, sc_nat_refresh = 30, sc_nat_boot_delay = 5, sc_nat_throttle = 0,
      sc_tcp_nodelay = True, sc_transport_timeout = 20,
      sc_protocols = [(ArtifactExchangeProtocol, Full), (BuildExchangeProtocol, Full),
        (IdleMetricExchangeProtocol, Full), (BlockchainExchangeProtocol, Full),
        (BuildStatusExchangeProtocol, Full)]\<rparr>"

definition create_swarm :: "libp2p \<Rightarrow> Keypair \<Rightarrow> nat \<Rightarrow> (swarm \<times> PeerId, string) outcome" where
  "create_swarm lp k max_provided_keys =
     (let peer_id = lp_peer_id lp k in
      rbind (lp_gossip_config lp) (\<lambda>_.
      rbind (create_transport lp k) (\<lambda>_.
      rbind (lp_gossip_new lp k) (\<lambda>_.
        Ok (lp_swarm lp (config_of k peer_id max_provided_keys), peer_id)))))"

text \<open>The name under which a request is negotiated belongs to one codec only.\<close>

lemma protocols_distinct: "distinct (map fst (sc_protocols (config_of k peer n)))"
  by (simp add: config_of_def ArtifactExchangeProtocol_def BuildExchangeProtocol_def IdleMetricExchangeProtocol_def
      BlockchainExchangeProtocol_def BuildStatusExchangeProtocol_def)

section \<open>Set-up\<close>

record p2p_parts =
  pp_client_peer :: PeerId
  pp_keypair :: Keypair
  pp_swarm :: swarm
  pp_loop :: PyrsiaEventLoop

definition setup_libp2p_swarm ::
    "libp2p \<Rightarrow> setup_env \<Rightarrow> Keypair \<Rightarrow> nat \<Rightarrow> disk \<Rightarrow> (p2p_parts, anyhow) outcome \<times> disk" where
  "setup_libp2p_swarm lp e fresh max_provided_keys d =
     sbind (map_err AnyIo (KEYPAIR_FILENAME (se_env_var e) (mkdir_fault (se_chain e))), d) (\<lambda>key_path d.
     let (r, d) = load_or_generate_ed25519 (se_ed25519 e) (env_io (se_chain e)) (mkdir_fault (se_chain e)) fresh
                    key_path d in
     sbind (map_err AnyIo r, d) (\<lambda>local_keypair d.
     sbind (map_err AnyMsg (create_swarm lp local_keypair max_provided_keys), d) (\<lambda>(sw, local_peer_id) d.
     let (r, l) = PyrsiaEventLoop_initialize sw PyrsiaEventLoop_new in
     sbind (map_err AnyMsg r, d) (\<lambda>_ d.
       (Ok \<lparr>pp_client_peer = local_peer_id, pp_keypair = local_keypair, pp_swarm = sw, pp_loop = l\<rparr>, d)))))"

text \<open>
  \<^verbatim>\<open>main\<close> before it starts to listen: the network, the services, the address of the HTTP server. \<open>fresh\<close> is the
  key pair that the first use of the key file would generate, \<open>se_fresh_keypair\<close> that of the second.
\<close>

definition start_node ::
    "libp2p \<Rightarrow> setup_env \<Rightarrow> Keypair \<Rightarrow> PyrsiaNodeArgs \<Rightarrow> path \<Rightarrow> disk
      \<Rightarrow> (p2p_parts \<times> services \<times> (nat \<times> nat \<times> nat \<times> nat) \<times> nat, anyhow) outcome \<times> disk" where
  "start_node lp e fresh args artifact_path d =
     sbind (setup_libp2p_swarm lp e fresh (arg_max_provided_keys args) d) (\<lambda>p d.
     sbind (setup_pyrsia_services e args artifact_path (pp_keypair p) d) (\<lambda>sv d.
     sbind (map_err AnyMsg (bind_address args), d) (\<lambda>address d. (Ok (p, sv, address), d))))"

section \<open>The identity of the node\<close>

lemma initialize_subscribes:
  "fst (PyrsiaEventLoop_initialize sw l) = Ok () \<Longrightarrow>
     swarm_calls (snd (PyrsiaEventLoop_initialize sw l)) = swarm_calls l @ [Subscribe BlockchainTopic, Subscribe BuildTopic]"
  by (cases "sw_subscribe sw BlockchainTopic") (simp_all add: PyrsiaEventLoop_initialize_def call_swarm_def)

definition network_part :: "libp2p \<Rightarrow> nat \<Rightarrow> Keypair \<Rightarrow> (p2p_parts, anyhow) outcome" where
  "network_part lp n k =
     rbind (map_err AnyMsg (create_swarm lp k n)) (\<lambda>(sw, peer).
       map_ok (\<lambda>_. \<lparr>pp_client_peer = peer, pp_keypair = k, pp_swarm = sw,
                    pp_loop = snd (PyrsiaEventLoop_initialize sw PyrsiaEventLoop_new)\<rparr>)
         (map_err AnyMsg (fst (PyrsiaEventLoop_initialize sw PyrsiaEventLoop_new))))"

lemma setup_libp2p_swarm_eq:
  assumes "KEYPAIR_FILENAME (se_env_var e) (mkdir_fault (se_chain e)) = Ok key_path"
    and "load_or_generate_ed25519 (se_ed25519 e) (env_io (se_chain e)) (mkdir_fault (se_chain e)) fresh key_path d = (Ok k, d1)"
  shows "setup_libp2p_swarm lp e fresh n d = (network_part lp n k, d1)"
proof (cases "create_swarm lp k n")
  case (Ok x)
  obtain sw peer where x: "x = (sw, peer)" by force
  obtain r l where init: "PyrsiaEventLoop_initialize sw PyrsiaEventLoop_new = (r, l)" by force
  show ?thesis using assms Ok x init by (cases r) (simp_all add: setup_libp2p_swarm_def network_part_def)
qed (use assms in \<open>simp_all add: setup_libp2p_swarm_def network_part_def\<close>)

lemma setup_libp2p_swarm_keypair:
  assumes "KEYPAIR_FILENAME (se_env_var e) (mkdir_fault (se_chain e)) = Ok key_path"
    and "setup_libp2p_swarm lp e fresh n d = (Ok p, d1)"
  shows "load_or_generate_ed25519 (se_ed25519 e) (env_io (se_chain e)) (mkdir_fault (se_chain e)) fresh key_path d
      = (Ok (pp_keypair p), d1)" and "network_part lp n (pp_keypair p) = Ok p"
proof -
  obtain r d0 where load: "load_or_generate_ed25519 (se_ed25519 e) (env_io (se_chain e)) (mkdir_fault (se_chain e)) fresh
      key_path d = (r, d0)" by force
  obtain k where r: "r = Ok k" using assms load by (cases r) (auto simp: setup_libp2p_swarm_def)
  have "network_part lp n k = Ok p" "d0 = d1"
    using assms(2) setup_libp2p_swarm_eq[OF assms(1) load[unfolded r]] by auto
  moreover have "pp_keypair p = k" using calculation(1) by (auto simp: network_part_def rbind_Ok_iff map_ok_Ok_iff)
  ultimately show "load_or_generate_ed25519 (se_ed25519 e) (env_io (se_chain e)) (mkdir_fault (se_chain e)) fresh key_path d
      = (Ok (pp_keypair p), d1)" "network_part lp n (pp_keypair p) = Ok p" using load r by simp_all
qed

lemma network_part_Ok:
  assumes "network_part lp n k = Ok p"
  shows "pp_client_peer p = lp_peer_id lp k" and "pp_swarm p = lp_swarm lp (config_of k (lp_peer_id lp k) n)"
    and "swarm_calls (pp_loop p) = [Subscribe BlockchainTopic, Subscribe BuildTopic]"
  using assms
  by (auto simp: network_part_def create_swarm_def Let_def rbind_Ok_iff map_ok_Ok_iff map_err_Ok_iff
      initialize_subscribes)
     (simp add: PyrsiaEventLoop_new_def)

lemma load_ed25519_cong: "map_of d p = map_of d2 p \<Longrightarrow> load_ed25519 kc io p d = load_ed25519 kc io p d2"
  by (simp add: load_ed25519_def)

text \<open>The directory and genesis key of the first node of a blockchain.\<close>

definition first_chain ::
    "setup_env \<Rightarrow> Keypair \<Rightarrow> Keypair \<Rightarrow> disk \<Rightarrow> (BlockchainService, anyhow) outcome \<times> disk" where
  "first_chain e local_keypair genesis_keypair d =
     (let (r, d1) = init_first_blockchain_node (se_chain e) (se_entropy e) local_keypair genesis_keypair
        (PathBuf_push [] (read_var (se_env_var e) ''PYRSIA_BLOCKCHAIN_PATH'' ''pyrsia/blockchain'')) d
      in (map_err AnyChain r, d1))"

lemma setup_blockchain_service_first:
  assumes "KEYPAIR_FILENAME (se_env_var e) (mkdir_fault (se_chain e)) = Ok key_path" and "arg_init_blockchain args"
    and "load_or_generate_ed25519 (se_ed25519 e) (env_io (se_chain e)) (mkdir_fault (se_chain e)) (se_fresh_keypair e)
      key_path d = (Ok k, d1)"
  shows "setup_blockchain_service e args local_keypair d = first_chain e local_keypair k d1"
  using assms by (simp add: setup_blockchain_service_def first_chain_def)

text \<open>
  C38: the identity of a node from its key file to its peers and its blockchain. A node that sets up its
  network has the peer id of its key pair, at the client as in the swarm, and has subscribed to both
  topics. On a key file that can be read and written, every later start with the file as it was left
  comes to the same node, whatever it would generate; and the first node of a blockchain signs the
  genesis block with its own identity. When the file cannot be opened for writing, the node has the
  generated key pair, and the genesis block of the blockchain it starts is signed with a second one that no
  node has.
\<close>

theorem node_identity_is_kept:
  assumes "key_codec_laws (se_ed25519 e)" and "generated (se_ed25519 e) fresh"
    and "KEYPAIR_FILENAME (se_env_var e) (mkdir_fault (se_chain e)) = Ok key_path"
    and "setup_libp2p_swarm lp e fresh n d = (Ok p, d1)" and "map_of d2 key_path = map_of d1 key_path"
  shows "pp_client_peer p = lp_peer_id lp (pp_keypair p) \<and>
    pp_swarm p = lp_swarm lp (config_of (pp_keypair p) (pp_client_peer p) n) \<and>
    swarm_calls (pp_loop p) = [Subscribe BlockchainTopic, Subscribe BuildTopic] \<and>
    (key_file_usable (env_io (se_chain e)) (mkdir_fault (se_chain e)) key_path \<longrightarrow>
       setup_libp2p_swarm lp e fresh2 n d2 = (Ok p, d2) \<and>
       (arg_init_blockchain args \<longrightarrow>
          setup_blockchain_service e args (pp_keypair p) d2 = first_chain e (pp_keypair p) (pp_keypair p) d2)) \<and>
    (write_fault_at (env_io (se_chain e)) key_path = Some (OpenFault err) \<and> map_of d key_path = None \<longrightarrow>
       pp_keypair p = fresh \<and> d1 = d \<and>
       (arg_init_blockchain args \<longrightarrow>
          setup_blockchain_service e args fresh d2 = first_chain e fresh (se_fresh_keypair e) d2))"
proof (intro conjI impI; (elim conjE)?)
  note load = setup_libp2p_swarm_keypair[OF assms(3,4)]
  show "pp_client_peer p = lp_peer_id lp (pp_keypair p)"
    "pp_swarm p = lp_swarm lp (config_of (pp_keypair p) (pp_client_peer p) n)"
    "swarm_calls (pp_loop p) = [Subscribe BlockchainTopic, Subscribe BuildTopic]"
    using network_part_Ok[OF load(2)] by simp_all
  {
    assume usable: "key_file_usable (env_io (se_chain e)) (mkdir_fault (se_chain e)) key_path"
    have "load_ed25519 (se_ed25519 e) (env_io (se_chain e)) key_path d2 = Ok (pp_keypair p)"
      using load_or_generate_persists[OF assms(1,2) usable load(1)] load_ed25519_cong[OF assms(5)] by simp
    then have again: "load_or_generate_ed25519 (se_ed25519 e) (env_io (se_chain e)) (mkdir_fault (se_chain e)) f key_path d2
        = (Ok (pp_keypair p), d2)" for f
      by (simp add: load_or_generate_ed25519_def)
    show "setup_libp2p_swarm lp e fresh2 n d2 = (Ok p, d2)"
      using setup_libp2p_swarm_eq[OF assms(3) again] load(2) by simp
    show "setup_blockchain_service e args (pp_keypair p) d2 = first_chain e (pp_keypair p) (pp_keypair p) d2"
      if "arg_init_blockchain args" by (rule setup_blockchain_service_first[OF assms(3) that again])
  }
  assume fault: "write_fault_at (env_io (se_chain e)) key_path = Some (OpenFault err)" "map_of d key_path = None"
  have "key_path \<noteq> []" using assms(3) by (auto simp: KEYPAIR_FILENAME_def Let_def split: if_splits option.splits)
  then have gen: "load_or_generate_ed25519 (se_ed25519 e) (env_io (se_chain e)) (mkdir_fault (se_chain e)) f key_path d'
      = (Ok f, d')" if "map_of d' key_path = None" for f d'
    using fault that
    by (auto simp: load_or_generate_ed25519_def save_ed25519_def load_ed25519_def split: option.splits)
  show "pp_keypair p = fresh" and d1: "d1 = d" using gen[OF fault(2), of fresh] load(1) by simp_all
  show "setup_blockchain_service e args fresh d2 = first_chain e fresh (se_fresh_keypair e) d2" if "arg_init_blockchain args"
    using gen[of d2] assms(5) d1 fault(2) by (intro setup_blockchain_service_first[OF assms(3) that]) simp
qed

section \<open>Witness\<close>

definition demo_setup :: setup_env where
  "demo_setup = \<lparr>se_env_var = (\<lambda>_. None), se_chain = demo_env, se_entropy = demo_entropy, se_ed25519 = demo_ed25519,
     se_fresh_keypair = replicate 64 9, se_canonicalize = (\<lambda>p. Ok p), se_is_dir = (\<lambda>_. True)\<rparr>"

definition demo_libp2p :: libp2p where
  "demo_libp2p = \<lparr>lp_peer_id = take 3, lp_noise_signs = (\<lambda>_. True), lp_system_dns = Ok (), lp_gossip_config = Ok (),
     lp_gossip_new = (\<lambda>_. Ok ()), lp_swarm = (\<lambda>_. demo_swarm), lp_hash = (\<lambda>bs. of_nat (length bs))\<rparr>"

lemma demo_key_path: "KEYPAIR_FILENAME (\<lambda>_. None) (\<lambda>_. None) = Ok [''pyrsia'', ''p2p_keypair.ser'']"
  by (simp add: KEYPAIR_FILENAME_def read_var_def PathBuf_push_def components_def)

theorem node_identity_is_kept_witness:
  "\<exists>p d1. setup_libp2p_swarm demo_libp2p demo_setup (replicate 64 7) 10 [] = (Ok p, d1) \<and>
     pp_client_peer p = [7, 7, 7] \<and> setup_libp2p_swarm demo_libp2p demo_setup (replicate 64 5) 10 d1 = (Ok p, d1)"
proof -
  have mkdir: "mkdir_fault demo_env = (\<lambda>_. None)"
    by (simp add: demo_art_env_def demo_log_env_def fun_eq_iff)
  have path: "KEYPAIR_FILENAME (se_env_var demo_setup) (mkdir_fault (se_chain demo_setup)) = Ok [''pyrsia'', ''p2p_keypair.ser'']"
    using demo_key_path by (simp add: demo_setup_def mkdir)
  have laws: "key_codec_laws (se_ed25519 demo_setup)" "generated (se_ed25519 demo_setup) (replicate 64 7)"
    by (simp_all add: demo_setup_def demo_key_codec_laws demo_generated)
  have usable: "key_file_usable (env_io (se_chain demo_setup)) (mkdir_fault (se_chain demo_setup)) [''pyrsia'', ''p2p_keypair.ser'']"
    by (simp add: demo_setup_def mkdir key_file_usable_def no_faults_def)
  have "load_or_generate_ed25519 demo_ed25519 no_faults (\<lambda>_. None) (replicate 64 7) [''pyrsia'', ''p2p_keypair.ser''] []
      = (Ok (replicate 64 7), [([''pyrsia'', ''p2p_keypair.ser''], replicate 64 7)])"
    by (simp add: load_or_generate_ed25519_def load_ed25519_def save_ed25519_def no_faults_def demo_ed25519_def)
  moreover have "network_part demo_libp2p 10 (replicate 64 7) = Ok \<lparr>pp_client_peer = take 3 (replicate 64 7),
      pp_keypair = replicate 64 7, pp_swarm = demo_swarm, pp_loop = snd (PyrsiaEventLoop_initialize demo_swarm PyrsiaEventLoop_new)\<rparr>"
    by (simp add: network_part_def create_swarm_def create_transport_def demo_libp2p_def)
       (simp add: PyrsiaEventLoop_initialize_def demo_swarm_def)
  ultimately obtain p d1 where up: "setup_libp2p_swarm demo_libp2p demo_setup (replicate 64 7) 10 [] = (Ok p, d1)"
      and k: "pp_keypair p = replicate 64 7"
    using setup_libp2p_swarm_eq[OF path] by (simp add: demo_setup_def mkdir)
  have "take 3 (replicate 64 7) = [7, 7, 7 :: u8]" by (simp add: numeral_eq_Suc)
  then show ?thesis
    using node_identity_is_kept[OF laws path up refl] usable up k by (auto simp: demo_libp2p_def)
qed

end
