(* ===== verification/Http_Api.thy ===== *)
theory Http_Api
  imports Build_Service
begin

text \<open>
  The HTTP side of a node: the errors of the registry (\<^verbatim>\<open>docker/error_util.rs\<close>), the Maven and Docker
  download handlers (\<^verbatim>\<open>java/maven2/handlers/maven_artifacts.rs\<close>, \<^verbatim>\<open>docker/v2/handlers/\<close>), the request
  and response models (\<^verbatim>\<open>node_api/model/\<close>) and the handlers of the node API
  (\<^verbatim>\<open>node_api/handlers/swarm.rs\<close>). A handler answers a reply or rejects with a registry error. The JSON
  and CSV writers are arguments; the routes are in \<open>Http_Routes\<close>.
\<close>

section \<open>Errors\<close>

text \<open>An error message is a text or the \<^verbatim>\<open>to_string\<close> of the error it stands for.\<close>

datatype reg_message = RegText string | RegOf anyhow

datatype RegistryErrorCode = BlobUnknown | ManifestUnknown | BadRequest reg_message | Unknown reg_message

record RegistryError =
  reg_code :: RegistryErrorCode

definition reject :: "RegistryErrorCode \<Rightarrow> ('a, RegistryError) outcome" where
  "reject c = Err \<lparr>reg_code = c\<rparr>"

definition RegistryError_from_anyhow :: "anyhow \<Rightarrow> RegistryError" where
  "RegistryError_from_anyhow x = \<lparr>reg_code = Unknown (RegOf x)\<rparr>"

definition RegistryError_from_build :: "BuildError \<Rightarrow> RegistryError" where
  "RegistryError_from_build x =
     (case x of
        BuildArtifactAlreadyExists _ \<Rightarrow> \<lparr>reg_code = BadRequest (RegOf (AnyBuild x))\<rparr>
      | _ \<Rightarrow> \<lparr>reg_code = Unknown (RegOf (AnyBuild x))\<rparr>)"

definition RegistryError_from_log :: "TransparencyLogError \<Rightarrow> RegistryError" where
  "RegistryError_from_log x =
     (case x of
        NodeAlreadyExists _ \<Rightarrow> \<lparr>reg_code = BadRequest (RegOf (AnyLog x))\<rparr>
      | _ \<Rightarrow> \<lparr>reg_code = Unknown (RegOf (AnyLog x))\<rparr>)"

text \<open>What a rejection carries: one of our errors, warp's invalid header, or something else.\<close>

datatype Rejection = RejRegistry RegistryError | RejInvalidHeader string | RejOther

record ErrorMessage =
  em_code :: RegistryErrorCode
  em_message :: reg_message

definition custom_recover :: "Rejection \<Rightarrow> nat \<times> ErrorMessage" where
  "custom_recover rej =
     (case rej of
        RejRegistry e \<Rightarrow>
          (case reg_code e of
             BlobUnknown \<Rightarrow> (404, \<lparr>em_code = BlobUnknown, em_message = RegText []\<rparr>)
           | ManifestUnknown \<Rightarrow> (404, \<lparr>em_code = ManifestUnknown, em_message = RegText []\<rparr>)
           | BadRequest m \<Rightarrow> (400, \<lparr>em_code = BadRequest m, em_message = m\<rparr>)
           | Unknown m \<Rightarrow> (500, \<lparr>em_code = Unknown (RegText []), em_message = m\<rparr>))
      | RejInvalidHeader m \<Rightarrow> (400, \<lparr>em_code = Unknown (RegText []), em_message = RegText m\<rparr>)
      | RejOther \<Rightarrow> (500, \<lparr>em_code = Unknown (RegText []), em_message = RegText []\<rparr>))"

section \<open>Replies\<close>

record 'b reply =
  rp_status :: nat
  rp_content_type :: "string option"
  rp_content_length :: "nat option"
  rp_body :: 'b

section \<open>Maven downloads\<close>

definition parse_artifact_from_full_path ::
    "string \<Rightarrow> (string \<times> string \<times> string \<times> string, string) outcome" where
  "parse_artifact_from_full_path full_path =
     (let pieces = drop 2 (split_at (CHR ''/'') full_path) in
      if length pieces < 4 then Err (''Error, invalid full path: '' @ full_path)
      else
        (let file_name = last pieces; p1 = butlast pieces;
             version = last p1; p2 = butlast p1;
             artifact_id = last p2; p3 = butlast p2
         in Ok (join_with ''.'' p3, version, artifact_id, file_name)))"

definition maven_package_specific_id :: "string \<Rightarrow> (string, string) outcome" where
  "maven_package_specific_id full_path =
     map_ok (\<lambda>(group_id, version, artifact_id, _). group_id @ '':'' @ artifact_id @ '':'' @ version)
       (parse_artifact_from_full_path full_path)"

definition maven_package_specific_artifact_id :: "string \<Rightarrow> (string, string) outcome" where
  "maven_package_specific_artifact_id full_path =
     map_ok (\<lambda>(group_id, version, artifact_id, file_name).
         group_id @ ''/'' @ artifact_id @ ''/'' @ version @ ''/'' @ file_name)
       (parse_artifact_from_full_path full_path)"

definition handle_get_maven_artifact ::
    "art_env \<Rightarrow> string \<Rightarrow> art_state \<Rightarrow> (bytes reply, RegistryError) outcome \<times> art_state" where
  "handle_get_maven_artifact e full_path s =
     sbind (map_err (\<lambda>m. \<lparr>reg_code = Unknown (RegText m)\<rparr>) (maven_package_specific_id full_path), s) (\<lambda>psid s.
     sbind (map_err (\<lambda>m. \<lparr>reg_code = Unknown (RegText m)\<rparr>) (maven_package_specific_artifact_id full_path), s) (\<lambda>art s.
     sbind (let (r, s1) = get_artifact_or_build e Maven2 psid art s
            in (map_err (\<lambda>x. \<lparr>reg_code = Unknown (RegOf x)\<rparr>) r, s1)) (\<lambda>content s.
       (Ok \<lparr>rp_status = 200, rp_content_type = Some ''application/octet-stream'', rp_content_length = None,
            rp_body = content\<rparr>, s))))"

section \<open>Docker downloads\<close>

definition official_image :: "string \<Rightarrow> string" where
  "official_image combined = (if CHR ''/'' \<in> set combined then combined else ''library/'' @ combined)"

definition manifest_artifact_id :: "string \<Rightarrow> string \<Rightarrow> string" where
  "manifest_artifact_id name tag =
     official_image (if starts_with ''sha256:'' tag then name @ ''@'' @ tag else name @ '':'' @ tag)"

definition manifest_reply :: "bytes \<Rightarrow> bytes reply" where
  "manifest_reply content =
     \<lparr>rp_status = 200, rp_content_type = Some ''application/vnd.docker.distribution.manifest.v2+json'',
      rp_content_length = Some (length content), rp_body = content\<rparr>"

definition fetch_manifest ::
    "art_env \<Rightarrow> string \<Rightarrow> string \<Rightarrow> art_state \<Rightarrow> (bytes reply, RegistryError) outcome \<times> art_state" where
  "fetch_manifest e name tag s =
     sbind (let (r, s1) = get_artifact e Docker (manifest_artifact_id name tag) s
            in (map_err (\<lambda>_. \<lparr>reg_code = ManifestUnknown\<rparr>) r, s1)) (\<lambda>content s.
       (Ok (manifest_reply content), s))"

definition fetch_manifest_or_build ::
    "art_env \<Rightarrow> string \<Rightarrow> string \<Rightarrow> art_state \<Rightarrow> (bytes reply, RegistryError) outcome \<times> art_state" where
  "fetch_manifest_or_build e name tag s =
     sbind (let (r, s1) = get_artifact_or_build e Docker (manifest_artifact_id name tag) (manifest_artifact_id name tag) s
            in (map_err (\<lambda>_. \<lparr>reg_code = ManifestUnknown\<rparr>) r, s1)) (\<lambda>content s.
       (Ok (manifest_reply content), s))"

definition blob_artifact_id :: "string \<Rightarrow> string \<Rightarrow> string" where
  "blob_artifact_id name digest = official_image (name @ ''@'' @ digest)"

definition handle_get_blobs ::
    "art_env \<Rightarrow> string \<Rightarrow> string \<Rightarrow> art_state \<Rightarrow> (bytes reply, RegistryError) outcome \<times> art_state" where
  "handle_get_blobs e name digest s =
     sbind (let (r, s1) = get_artifact_or_build e Docker (blob_artifact_id name digest) (blob_artifact_id name digest) s
            in (map_err (\<lambda>_. \<lparr>reg_code = BlobUnknown\<rparr>) r, s1)) (\<lambda>content s.
       (Ok \<lparr>rp_status = 200, rp_content_type = Some ''application/octet-stream'', rp_content_length = None,
            rp_body = content\<rparr>, s))"

section \<open>Request models\<close>

datatype ContentType = JSON | CSV

definition ContentType_from_str :: "string \<Rightarrow> (ContentType, string) outcome" where
  "ContentType_from_str s = (if s = ''json'' then Ok JSON else if s = ''csv'' then Ok CSV else Err s)"

definition ContentType_from :: "string option \<Rightarrow> (ContentType, string) outcome" where
  "ContentType_from f = (case f of Some v \<Rightarrow> ContentType_from_str v | None \<Rightarrow> Ok JSON)"

fun response_content_type :: "ContentType \<Rightarrow> string" where
  "response_content_type JSON = ''application/json''"
| "response_content_type CSV = ''text/csv''"

datatype TransparencyLogField = FId | FPackageType | FPackageSpecificId | FNumArtifacts
  | FPackageSpecificArtifactId | FArtifactHash | FSourceHash | FArtifactId | FSourceId
  | FTimestamp | FOperation | FNodeId | FNodePublicKey

fun field_aaa :: "TransparencyLogField \<Rightarrow> string \<times> string" where
  "field_aaa FId = (''id'', ''TransparencyLog record identity'')"
| "field_aaa FPackageType = (''package_type'', ''Package type (maven, docker and so on)'')"
| "field_aaa FPackageSpecificId = (''package_specific_id'', ''Package specific identity'')"
| "field_aaa FNumArtifacts = (''num_artifacts'', ''Number of artifacts'')"
| "field_aaa FPackageSpecificArtifactId = (''package_specific_artifact_id'', ''Package specific artifact identity'')"
| "field_aaa FArtifactHash = (''artifact_hash'', ''Artifact hash'')"
| "field_aaa FSourceHash = (''source_hash'', ''Source hash'')"
| "field_aaa FArtifactId = (''artifact_id'', ''Artifact identity'')"
| "field_aaa FSourceId = (''source_id'', ''Source identity'')"
| "field_aaa FTimestamp = (''timestamp'', ''Timestamp'')"
| "field_aaa FOperation = (''operation'', ''Operation (AddArtifact, RemoveArtifact, AddNode, RemoveNode)'')"
| "field_aaa FNodeId = (''node_id'', ''Peer node identity'')"
| "field_aaa FNodePublicKey = (''node_public_key'', ''Node public key'')"

text \<open>\<^verbatim>\<open>to_lowercase\<close> on the ASCII letters.\<close>

definition to_lowercase :: "string \<Rightarrow> string" where
  "to_lowercase s = map (\<lambda>c. if 65 \<le> (of_char c :: nat) \<and> (of_char c :: nat) \<le> 90
                            then char_of ((of_char c :: nat) + 32) else c) s"

definition TransparencyLogField_from_str :: "string \<Rightarrow> (TransparencyLogField, string) outcome" where
  "TransparencyLogField_from_str s =
     (let t = to_lowercase s in
      if t = ''id'' then Ok FId
      else if t = ''package_type'' then Ok FPackageType
      else if t = ''package_specific_id'' then Ok FPackageSpecificId
      else if t = ''num_artifacts'' then Ok FNumArtifacts
      else if t = ''package_specific_artifact_id'' then Ok FPackageSpecificArtifactId
      else if t = ''artifact_hash'' then Ok FArtifactHash
      else if t = ''source_hash'' then Ok FSourceHash
      else if t = ''artifact_id'' then Ok FArtifactId
      else if t = ''source_id'' then Ok FSourceId
      else if t = ''timestamp'' then Ok FTimestamp
      else if t = ''operation'' then Ok FOperation
      else if t = ''node_id'' then Ok FNodeId
      else if t = ''node_public_key'' then Ok FNodePublicKey
      else Err s)"

record Content =
  content_fields :: "TransparencyLogField list"

definition Content_default :: Content where
  "Content_default = \<lparr>content_fields = [FId, FPackageType, FPackageSpecificId, FNumArtifacts,
     FPackageSpecificArtifactId, FArtifactHash, FSourceHash, FArtifactId, FSourceId, FTimestamp,
     FOperation, FNodeId, FNodePublicKey]\<rparr>"

fun parse_fields :: "string list \<Rightarrow> (TransparencyLogField list, string) outcome" where
  "parse_fields [] = Ok []"
| "parse_fields (s # ss) =
     rbind (TransparencyLogField_from_str s) (\<lambda>f. rbind (parse_fields ss) (\<lambda>fs. Ok (f # fs)))"

definition Content_from :: "string list option \<Rightarrow> (Content, string) outcome" where
  "Content_from names =
     (case names of
        Some val \<Rightarrow> map_ok (\<lambda>fs. \<lparr>content_fields = fs\<rparr>) (parse_fields val)
      | None \<Rightarrow> Ok Content_default)"

record TransparencyLogOutputParams =
  op_format :: "ContentType option"
  op_content :: "Content option"

section \<open>Output of logs\<close>

datatype field_value = VText string | VNum nat | VPackageType "PackageType option" | VOperation Operation

fun field_value_of :: "TransparencyLog \<Rightarrow> TransparencyLogField \<Rightarrow> field_value" where
  "field_value_of l FId = VText (log_id l)"
| "field_value_of l FPackageType = VPackageType (package_type l)"
| "field_value_of l FPackageSpecificId = VText (package_specific_id l)"
| "field_value_of l FNumArtifacts = VNum (unat (num_artifacts l))"
| "field_value_of l FPackageSpecificArtifactId = VText (package_specific_artifact_id l)"
| "field_value_of l FArtifactHash = VText (artifact_hash l)"
| "field_value_of l FSourceHash = VText (source_hash l)"
| "field_value_of l FArtifactId = VText (artifact_id l)"
| "field_value_of l FSourceId = VText (source_id l)"
| "field_value_of l FTimestamp = VNum (unat (timestamp l))"
| "field_value_of l FOperation = VOperation (operation l)"
| "field_value_of l FNodeId = VText (node_id l)"
| "field_value_of l FNodePublicKey = VText (node_public_key l)"

type_synonym output_record = "(string \<times> field_value) list"

definition serialize_output :: "Content \<Rightarrow> TransparencyLog \<Rightarrow> output_record" where
  "serialize_output c l = map (\<lambda>f. (fst (field_aaa f), field_value_of l f)) (content_fields c)"

record ResponseBuilder =
  rb_format :: ContentType
  rb_output_fields :: Content

definition ResponseBuilder_from :: "TransparencyLogOutputParams option \<Rightarrow> ResponseBuilder" where
  "ResponseBuilder_from p =
     (case p of
        Some ps \<Rightarrow>
          \<lparr>rb_format = (case op_format ps of Some f \<Rightarrow> f | None \<Rightarrow> JSON),
           rb_output_fields = (case op_content ps of Some c \<Rightarrow> c | None \<Rightarrow> Content_default)\<rparr>
      | None \<Rightarrow> \<lparr>rb_format = JSON, rb_output_fields = Content_default\<rparr>)"

text \<open>The writers of \<^verbatim>\<open>serde_json\<close> and \<^verbatim>\<open>csv\<close> with the text of their errors, and what the p2p client answers.\<close>

record api_env =
  api_art :: art_env
  api_fresh :: fresh
  write_json_logs :: "output_record list \<Rightarrow> (string, string) outcome"
  write_csv_logs :: "output_record list \<Rightarrow> (string, string) outcome"
  write_json_strings :: "string list \<Rightarrow> string"
  write_build_response :: "string option \<Rightarrow> reg_message option \<Rightarrow> (string, string) outcome"
  write_build_status :: "BuildStatus \<Rightarrow> (string, string) outcome"
  api_list_peers :: "(PeerId list, string) outcome"
  api_status :: "(string, string) outcome"

definition as_string :: "api_env \<Rightarrow> ContentType \<Rightarrow> output_record list \<Rightarrow> (string, RegistryError) outcome" where
  "as_string e ct recs =
     map_err (\<lambda>m. \<lparr>reg_code = Unknown (RegText m)\<rparr>)
       (case ct of JSON \<Rightarrow> write_json_logs e recs | CSV \<Rightarrow> write_csv_logs e recs)"

definition create_response ::
    "api_env \<Rightarrow> ResponseBuilder \<Rightarrow> TransparencyLog list \<Rightarrow> (string reply, RegistryError) outcome" where
  "create_response e rb logs =
     map_ok (\<lambda>body. \<lparr>rp_status = 200, rp_content_type = Some (response_content_type (rb_format rb)),
                     rp_content_length = Some (length body), rp_body = body\<rparr>)
       (as_string e (rb_format rb) (map (serialize_output (rb_output_fields rb)) logs))"

section \<open>Node API handlers\<close>

definition handle_add_authorized_node ::
    "api_env \<Rightarrow> string \<Rightarrow> art_state \<Rightarrow> (string reply, RegistryError) outcome \<times> art_state" where
  "handle_add_authorized_node e peer s =
     (case peer_from_str (le_peer (ae_log (api_art e))) peer of
        None \<Rightarrow> (reject (BadRequest (RegText (''PeerId has invalid format: '' @ peer))), s)
      | Some p \<Rightarrow>
        (let (r, l1) = add_authorized_node (ae_log (api_art e)) (api_fresh e) p (as_log s)
         in sbind (map_err RegistryError_from_log r, s\<lparr>as_log := l1\<rparr>) (\<lambda>_ s.
              (Ok \<lparr>rp_status = 201, rp_content_type = None, rp_content_length = None, rp_body = []\<rparr>, s))))"

record BuildSuccessResponse =
  bsr_build_id :: "string option"
  bsr_message :: "reg_message option"
  bsr_success_status_code :: nat

definition handle_err_artifact_already_exists ::
    "(string, BuildError) outcome \<Rightarrow> (BuildSuccessResponse, RegistryError) outcome" where
  "handle_err_artifact_already_exists result =
     (case result of
        Ok build_id \<Rightarrow> Ok \<lparr>bsr_build_id = Some build_id, bsr_message = None, bsr_success_status_code = 200\<rparr>
      | Err (BuildArtifactAlreadyExists m) \<Rightarrow>
          Ok \<lparr>bsr_build_id = None, bsr_message = Some (RegOf (AnyBuild (BuildArtifactAlreadyExists m))),
              bsr_success_status_code = 302\<rparr>
      | Err x \<Rightarrow> Err (RegistryError_from_build x)
      | Panic m \<Rightarrow> Panic m)"

definition json_reply :: "nat \<Rightarrow> (string, string) outcome \<Rightarrow> (string reply, RegistryError) outcome" where
  "json_reply st body =
     map_ok (\<lambda>b. \<lparr>rp_status = st, rp_content_type = Some ''application/json'', rp_content_length = None, rp_body = b\<rparr>)
       (map_err (\<lambda>m. \<lparr>reg_code = Unknown (RegText m)\<rparr>) body)"

definition build_reply :: "api_env \<Rightarrow> (string, BuildError) outcome \<Rightarrow> (string reply, RegistryError) outcome" where
  "build_reply e result =
     rbind (handle_err_artifact_already_exists result) (\<lambda>b.
       json_reply (bsr_success_status_code b) (write_build_response e (bsr_build_id b) (bsr_message b)))"

definition swarm_package_specific_id :: "string \<Rightarrow> string" where
  "swarm_package_specific_id img = (if CHR ''/'' \<in> set img then img else ''library/'' @ img)"

definition handle_build_docker :: "api_env \<Rightarrow> string \<Rightarrow> art_state \<Rightarrow> (string reply, RegistryError) outcome" where
  "handle_build_docker e img s =
     build_reply e (request_build (api_art e) Docker (swarm_package_specific_id img) s)"

definition handle_build_maven :: "api_env \<Rightarrow> string \<Rightarrow> art_state \<Rightarrow> (string reply, RegistryError) outcome" where
  "handle_build_maven e gav s = build_reply e (request_build (api_art e) Maven2 gav s)"

definition handle_build_status :: "api_env \<Rightarrow> string \<Rightarrow> art_state \<Rightarrow> (string reply, RegistryError) outcome" where
  "handle_build_status e build_id s =
     rbind (map_err RegistryError_from_build (get_build_status (api_art e) build_id s)) (\<lambda>st.
       json_reply 200 (write_build_status e st))"

definition handle_get_peers :: "api_env \<Rightarrow> (string reply, RegistryError) outcome" where
  "handle_get_peers e =
     map_ok (\<lambda>ps. \<lparr>rp_status = 200, rp_content_type = Some ''application/octet-stream'', rp_content_length = None,
                   rp_body = write_json_strings e (map (peer_to_string (le_peer (ae_log (api_art e)))) ps)\<rparr>)
       (map_err (\<lambda>m. RegistryError_from_anyhow (AnyMsg m)) (api_list_peers e))"

definition handle_get_status :: "api_env \<Rightarrow> (string reply, RegistryError) outcome" where
  "handle_get_status e =
     map_ok (\<lambda>b. \<lparr>rp_status = 200, rp_content_type = Some ''application/json'', rp_content_length = None, rp_body = b\<rparr>)
       (map_err (\<lambda>m. RegistryError_from_anyhow (AnyMsg m)) (api_status e))"

definition inspect_log ::
    "api_env \<Rightarrow> PackageType \<Rightarrow> string \<Rightarrow> bool option \<Rightarrow> TransparencyLogOutputParams option \<Rightarrow> art_state
      \<Rightarrow> (string reply, RegistryError) outcome" where
  "inspect_log e pt psid latest params s =
     rbind (map_err RegistryError_from_log
              (search_transparency_logs (ae_log (api_art e)) pt psid
                 (case latest of Some b \<Rightarrow> b | None \<Rightarrow> False) (as_log s)))
       (\<lambda>logs. create_response e (ResponseBuilder_from params) logs)"

definition handle_inspect_log_docker ::
    "api_env \<Rightarrow> string \<Rightarrow> bool option \<Rightarrow> TransparencyLogOutputParams option \<Rightarrow> art_state
      \<Rightarrow> (string reply, RegistryError) outcome" where
  "handle_inspect_log_docker e img latest params s =
     inspect_log e Docker (swarm_package_specific_id img) latest params s"

definition handle_inspect_log_maven ::
    "api_env \<Rightarrow> string \<Rightarrow> bool option \<Rightarrow> TransparencyLogOutputParams option \<Rightarrow> art_state
      \<Rightarrow> (string reply, RegistryError) outcome" where
  "handle_inspect_log_maven e gav latest params s = inspect_log e Maven2 gav latest params s"

end
