(* ===== verification/Http_Routes.thy ===== *)
theory Http_Routes
  imports Http_Api
begin

text \<open>
  The routes of the HTTP server (\<^verbatim>\<open>src/src/docker/v2/routes.rs\<close>, \<^verbatim>\<open>java/maven2/routes.rs\<close>, \<^verbatim>\<open>node_api/routes.rs\<close>
  and \<^verbatim>\<open>setup_http\<close> of \<^verbatim>\<open>pyrsia_node/src/main.rs\<close>) over the handlers of \<open>Http_Api\<close>. How warp matches a path is an
  argument; \<open>warp_laws\<close> states what warp documents of \<^verbatim>\<open>path!\<close> and \<^verbatim>\<open>path\<close> for paths without empty segments.
  A JSON body is the list of its members; \<^verbatim>\<open>serde\<close> reads a struct by the names of its fields.
\<close>

section \<open>Requests\<close>

datatype http_method = GET | HEAD | POST | OtherMethod string

datatype body_value = BodyText string | BodyBool bool | BodyParams TransparencyLogOutputParams | BodyNull

text \<open>\<open>None\<close> is a body that is not a JSON object.\<close>

record http_request =
  rq_method :: http_method
  rq_path :: string
  rq_length :: "nat option"
  rq_json :: "(string \<times> body_value) list option"

definition text_member :: "string \<Rightarrow> (string \<times> body_value) list \<Rightarrow> string option" where
  "text_member k b = (case map_of b k of Some (BodyText v) \<Rightarrow> Some v | _ \<Rightarrow> None)"

text \<open>An \<^verbatim>\<open>Option\<close> field may be absent or null; a value of another type is an error.\<close>

definition bool_member :: "string \<Rightarrow> (string \<times> body_value) list \<Rightarrow> bool option option" where
  "bool_member k b =
     (case map_of b k of
        None \<Rightarrow> Some None | Some BodyNull \<Rightarrow> Some None | Some (BodyBool v) \<Rightarrow> Some (Some v) | _ \<Rightarrow> None)"

definition params_member :: "string \<Rightarrow> (string \<times> body_value) list \<Rightarrow> TransparencyLogOutputParams option option" where
  "params_member k b =
     (case map_of b k of
        None \<Rightarrow> Some None | Some BodyNull \<Rightarrow> Some None | Some (BodyParams v) \<Rightarrow> Some (Some v) | _ \<Rightarrow> None)"

type_synonym 'a decoder = "(string \<times> body_value) list \<Rightarrow> 'a option"

definition RequestAddAuthorizedNode :: "string decoder" where
  "RequestAddAuthorizedNode = text_member ''peer_id''"

definition RequestDockerBuild :: "string decoder" where
  "RequestDockerBuild = text_member ''image''"

definition RequestMavenBuild :: "string decoder" where
  "RequestMavenBuild = text_member ''gav''"

definition RequestBuildStatusBody :: "string decoder" where
  "RequestBuildStatusBody = text_member ''build_id''"

definition log_request :: "string \<Rightarrow> (string \<times> TransparencyLogOutputParams option \<times> bool option) decoder" where
  "log_request k b =
     (case (text_member k b, params_member ''output_params'' b, bool_member ''latest'' b) of
        (Some i, Some ps, Some latest) \<Rightarrow> Some (i, ps, latest)
      | _ \<Rightarrow> None)"

definition RequestDockerLog :: "(string \<times> TransparencyLogOutputParams option \<times> bool option) decoder" where
  "RequestDockerLog = log_request ''image''"

definition RequestMavenLog :: "(string \<times> TransparencyLogOutputParams option \<times> bool option) decoder" where
  "RequestMavenLog = log_request ''gav''"

section \<open>Filters\<close>

datatype segment = Lit string | Param

datatype path_filter = Exact "segment list" | Prefix string

type_synonym warp = "path_filter \<Rightarrow> string \<Rightarrow> string list option"

fun segments_match :: "segment list \<Rightarrow> string list \<Rightarrow> string list option" where
  "segments_match [] [] = Some []"
| "segments_match (Lit l # ss) (q # qs) = (if q = l then segments_match ss qs else None)"
| "segments_match (Param # ss) (q # qs) = map_option (\<lambda>ps. q # ps) (segments_match ss qs)"
| "segments_match _ _ = None"

definition path_of :: "string list \<Rightarrow> string" where
  "path_of qs = concat (map (\<lambda>q. ''/'' @ q) qs)"

definition plain_segment :: "string \<Rightarrow> bool" where
  "plain_segment q \<longleftrightarrow> q \<noteq> [] \<and> CHR ''/'' \<notin> set q"

definition warp_laws :: "warp \<Rightarrow> bool" where
  "warp_laws w \<longleftrightarrow>
     (\<forall>ss qs. qs \<noteq> [] \<and> list_all plain_segment qs \<longrightarrow> w (Exact ss) (path_of qs) = segments_match ss qs) \<and>
     (\<forall>l q qs. list_all plain_segment (q # qs) \<longrightarrow>
        w (Prefix l) (path_of (q # qs)) = (if q = l then Some [] else None))"

text \<open>
  A route answers, or rejects; a request that does not match its path, method or body is rejected
  without a registry error. \<^verbatim>\<open>or\<close> tries the second route when the first rejects and keeps both rejections, of
  which \<^verbatim>\<open>custom_recover\<close> finds a registry error first.
\<close>

type_synonym routed = "(bytes reply, Rejection) outcome \<times> art_state"
type_synonym route = "http_request \<Rightarrow> art_state \<Rightarrow> routed"

definition no_match :: "art_state \<Rightarrow> routed" where
  "no_match s = (Err RejOther, s)"

fun combine :: "Rejection \<Rightarrow> Rejection \<Rightarrow> Rejection" where
  "combine (RejRegistry x) r = RejRegistry x"
| "combine l (RejRegistry x) = RejRegistry x"
| "combine (RejInvalidHeader m) r = RejInvalidHeader m"
| "combine RejOther r = r"

definition or_route :: "route \<Rightarrow> route \<Rightarrow> route" where
  "or_route f g rq s =
     (case f rq s of
        (Err l, s1) \<Rightarrow> (case g rq s1 of (Err r, s2) \<Rightarrow> (Err (combine l r), s2) | other \<Rightarrow> other)
      | other \<Rightarrow> other)"

definition bytes_handler :: "(bytes reply, RegistryError) outcome \<times> art_state \<Rightarrow> routed" where
  "bytes_handler r = (map_err RejRegistry (fst r), snd r)"

definition text_handler :: "(string reply, RegistryError) outcome \<times> art_state \<Rightarrow> routed" where
  "text_handler r =
     (map_ok (\<lambda>p. \<lparr>rp_status = rp_status p, rp_content_type = rp_content_type p,
                   rp_content_length = rp_content_length p, rp_body = as_bytes (rp_body p)\<rparr>)
        (map_err RejRegistry (fst r)), snd r)"

text \<open>
  The filters that every route is made of: a path with parameters, a method, and a JSON body with a declared
  length of at most 8192.
\<close>

definition path_route :: "warp \<Rightarrow> http_method \<Rightarrow> segment list \<Rightarrow> (string list \<Rightarrow> art_state \<Rightarrow> routed) \<Rightarrow> route" where
  "path_route w m ss f rq s =
     (case w (Exact ss) (rq_path rq) of
        Some ps \<Rightarrow> if rq_method rq = m then f ps s else no_match s
      | None \<Rightarrow> no_match s)"

definition body_route :: "warp \<Rightarrow> segment list \<Rightarrow> 'a decoder \<Rightarrow> ('a \<Rightarrow> art_state \<Rightarrow> routed) \<Rightarrow> route" where
  "body_route w ss dec f rq =
     path_route w POST ss (\<lambda>_ s.
       if (case rq_length rq of Some n \<Rightarrow> n \<le> 1024 * 8 | None \<Rightarrow> False) then
         (case rq_json rq of
            None \<Rightarrow> no_match s
          | Some b \<Rightarrow> (case dec b of None \<Rightarrow> no_match s | Some v \<Rightarrow> f v s))
       else no_match s) rq"

section \<open>Routes\<close>

definition v2_base_reply :: "bytes reply" where
  "v2_base_reply = \<lparr>rp_status = 200, rp_content_type = Some ''application/json'', rp_content_length = Some 2,
     rp_body = as_bytes ''{}''\<rparr>"

definition two_params :: "(string \<Rightarrow> string \<Rightarrow> art_state \<Rightarrow> routed) \<Rightarrow> string list \<Rightarrow> art_state \<Rightarrow> routed" where
  "two_params f ps s = (case ps of [a, b] \<Rightarrow> f a b s | _ \<Rightarrow> no_match s)"

definition make_docker_routes :: "warp \<Rightarrow> art_env \<Rightarrow> route" where
  "make_docker_routes w e =
     or_route (or_route (or_route
       (path_route w GET [Lit ''v2''] (\<lambda>_ s. (Ok v2_base_reply, s)))
       (path_route w GET [Lit ''v2'', Lit ''library'', Param, Lit ''manifests'', Param]
          (two_params (\<lambda>name tag s. bytes_handler (fetch_manifest_or_build e name tag s)))))
       (path_route w HEAD [Lit ''v2'', Lit ''library'', Param, Lit ''manifests'', Param]
          (two_params (\<lambda>name tag s. bytes_handler (fetch_manifest e name tag s)))))
       (path_route w GET [Lit ''v2'', Lit ''library'', Param, Lit ''blobs'', Param]
          (two_params (\<lambda>name digest s. bytes_handler (handle_get_blobs e name digest s))))"

text \<open>Any method and any path below \<^verbatim>\<open>maven2\<close>.\<close>

definition make_maven_routes :: "warp \<Rightarrow> art_env \<Rightarrow> route" where
  "make_maven_routes w e rq s =
     (case w (Prefix ''maven2'') (rq_path rq) of
        Some _ \<Rightarrow> bytes_handler (handle_get_maven_artifact e (rq_path rq) s)
      | None \<Rightarrow> no_match s)"

definition make_node_routes :: "warp \<Rightarrow> api_env \<Rightarrow> route" where
  "make_node_routes w a =
     or_route (or_route (or_route (or_route (or_route (or_route (or_route
       (body_route w [Lit ''authorized_node''] RequestAddAuthorizedNode
          (\<lambda>peer s. text_handler (handle_add_authorized_node a peer s)))
       (body_route w [Lit ''build'', Lit ''docker''] RequestDockerBuild
          (\<lambda>img s. text_handler (handle_build_docker a img s, s))))
       (body_route w [Lit ''build'', Lit ''maven''] RequestMavenBuild
          (\<lambda>gav s. text_handler (handle_build_maven a gav s, s))))
       (path_route w GET [Lit ''peers''] (\<lambda>_ s. text_handler (handle_get_peers a, s))))
       (path_route w GET [Lit ''status''] (\<lambda>_ s. text_handler (handle_get_status a, s))))
       (body_route w [Lit ''inspect'', Lit ''docker''] RequestDockerLog
          (\<lambda>(img, ps, latest) s. text_handler (handle_inspect_log_docker a img latest ps s, s))))
       (body_route w [Lit ''inspect'', Lit ''maven''] RequestMavenLog
          (\<lambda>(gav, ps, latest) s. text_handler (handle_inspect_log_maven a gav latest ps s, s))))
       (body_route w [Lit ''build'', Lit ''status''] RequestBuildStatusBody
          (\<lambda>build_id s. text_handler (handle_build_status a build_id s, s)))"

text \<open>The answer of the server: a reply, or the error document of \<^verbatim>\<open>custom_recover\<close>. A panic drops the connection.\<close>

datatype http_answer = Replied "bytes reply" | Recovered nat ErrorMessage | Dropped

definition all_routes :: "warp \<Rightarrow> api_env \<Rightarrow> route" where
  "all_routes w a =
     or_route (or_route (make_docker_routes w (api_art a)) (make_maven_routes w (api_art a))) (make_node_routes w a)"

definition serve_http :: "warp \<Rightarrow> api_env \<Rightarrow> http_request \<Rightarrow> art_state \<Rightarrow> http_answer \<times> art_state" where
  "serve_http w a rq s =
     (case all_routes w a rq s of
        (Ok p, s1) \<Rightarrow> (Replied p, s1)
      | (Err rej, s1) \<Rightarrow> (case custom_recover rej of (st, m) \<Rightarrow> (Recovered st m, s1))
      | (Panic _, s1) \<Rightarrow> (Dropped, s1))"

end
