(* ===== verification/Cli_Commands.thy ===== *)
theory Cli_Commands
  imports Http_Routes Rust_Parse
begin

text \<open>
  The command line client: its configuration (\<^verbatim>\<open>src/src/cli_commands/config.rs\<close>), its requests to a node
  (\<^verbatim>\<open>cli_commands/node.rs\<close>) and the dialogue and argument handling of \<^verbatim>\<open>src/pyrsia_cli/src/cli/handlers.rs\<close>. The
  configuration file is read and written by \<^verbatim>\<open>confy\<close> and requests are sent by \<^verbatim>\<open>reqwest\<close>; both are arguments,
  with \<open>confy_laws\<close> for what confy documents.
\<close>

section \<open>Configuration\<close>

record CliConfig =
  cfg_host :: string
  cfg_port :: string
  cfg_disk_allocated :: string

definition CliConfig_default :: CliConfig where
  "CliConfig_default = \<lparr>cfg_host = ''localhost'', cfg_port = ''7888'', cfg_disk_allocated = ''10 GB''\<rparr>"

text \<open>Loading creates the file with the default when there is none, so it may change the disk.\<close>

record confy =
  config_path :: "(path, string) outcome"
  load_path :: "path \<Rightarrow> disk \<Rightarrow> (CliConfig, string) outcome \<times> disk"
  store_path :: "path \<Rightarrow> CliConfig \<Rightarrow> disk \<Rightarrow> (unit, string) outcome \<times> disk"
  remove_file :: "path \<Rightarrow> disk \<Rightarrow> (unit, string) outcome \<times> disk"

definition confy_laws :: "confy \<Rightarrow> bool" where
  "confy_laws c \<longleftrightarrow>
     (\<forall>p cfg d d1. store_path c p cfg d = (Ok (), d1) \<longrightarrow> load_path c p d1 = (Ok cfg, d1)) \<and>
     (\<forall>p cfg d d1. load_path c p d = (Ok cfg, d1) \<longrightarrow> load_path c p d1 = (Ok cfg, d1)) \<and>
     (\<forall>p cfg d d1. load_path c p d = (Ok cfg, d1) \<and> map_of d p = None \<longrightarrow> cfg = CliConfig_default)"

definition get_config :: "confy \<Rightarrow> disk \<Rightarrow> (CliConfig, string) outcome \<times> disk" where
  "get_config c d = sbind (config_path c, d) (\<lambda>p d. load_path c p d)"

definition add_config :: "confy \<Rightarrow> CliConfig \<Rightarrow> disk \<Rightarrow> (unit, string) outcome \<times> disk" where
  "add_config c new_cfg d =
     sbind (config_path c, d) (\<lambda>p d.
     sbind (load_path c p d) (\<lambda>cfg d.
       let cfg1 = (if cfg_host new_cfg \<noteq> [] then cfg\<lparr>cfg_host := cfg_host new_cfg\<rparr> else cfg);
           cfg2 = (if cfg_port new_cfg \<noteq> [] then cfg1\<lparr>cfg_port := cfg_port new_cfg\<rparr> else cfg1);
           cfg3 = (if cfg_disk_allocated new_cfg \<noteq> [] then cfg2\<lparr>cfg_disk_allocated := cfg_disk_allocated new_cfg\<rparr> else cfg2)
       in store_path c p cfg3 d))"

definition config_remove :: "confy \<Rightarrow> disk \<Rightarrow> (unit, string) outcome \<times> disk" where
  "config_remove c d =
     sbind (config_path c, d) (\<lambda>p d. if map_of d p \<noteq> None then remove_file c p d else (Ok (), d))"

section \<open>Validation\<close>

text \<open>
  The two regular expressions as predicates: labels of at most 63 letters, digits and hyphens that do
  not begin with a hyphen, with dots between them; and a number, white space, and GB.
\<close>

definition is_alnum :: "char \<Rightarrow> bool" where
  "is_alnum c \<longleftrightarrow> is_digit c \<or> 65 \<le> (of_char c :: nat) \<and> (of_char c :: nat) \<le> 90 \<or>
     97 \<le> (of_char c :: nat) \<and> (of_char c :: nat) \<le> 122"

definition host_label :: "string \<Rightarrow> bool" where
  "host_label l \<longleftrightarrow> l \<noteq> [] \<and> length l \<le> 63 \<and> is_alnum (hd l) \<and> list_all (\<lambda>c. is_alnum c \<or> c = CHR ''-'') l"

definition valid_hostname :: "string \<Rightarrow> bool" where
  "valid_hostname input \<longleftrightarrow> input \<noteq> [] \<and> length input \<le> 253 \<and> list_all host_label (split_at (CHR ''.'') input)"

definition valid_host_name :: "string \<Rightarrow> (string, string) outcome" where
  "valid_host_name input =
     (if parse_ipv4 input \<noteq> None \<or> valid_hostname input then Ok input else Err ''Invalid value for Hostname'')"

definition valid_port :: "string \<Rightarrow> (string, string) outcome" where
  "valid_port input =
     (case parse_u16 input of Some _ \<Rightarrow> Ok input | None \<Rightarrow> Err ''Invalid value for Port Number'')"

text \<open>\<^verbatim>\<open>captures\<close>: the number and the unit of a text of the right shape.\<close>

definition disk_space_captures :: "string \<Rightarrow> (string \<times> string) option" where
  "disk_space_captures s =
     (let number = takeWhile (\<lambda>c. is_digit c \<or> c = CHR '','' \<or> c = CHR ''.'') s;
          rest = drop (length number) s
      in if number \<noteq> [] \<and> rest \<noteq> [] \<and> is_space (hd rest) \<and> dropWhile is_space rest = ''GB''
         then Some (number, ''GB'') else None)"

definition valid_disk_space :: "string \<Rightarrow> (string, string) outcome" where
  "valid_disk_space input =
     (case disk_space_captures input of
        Some (number, unit_text) \<Rightarrow>
          (case parse_u16 number of
             Some n \<Rightarrow> if 0 < n \<and> n \<le> 4096 then Ok (show_nat n @ '' '' @ unit_text)
                       else Err ''Invalid value for Disk Allocation''
           | None \<Rightarrow> Err ''Invalid value for Disk Allocation'')
      | None \<Rightarrow> Err ''Invalid value for Disk Allocation'')"

text \<open>One edited field: the new value when there is one and it is valid, and the complaint otherwise.\<close>

definition edit_field ::
    "(string \<Rightarrow> (string, string) outcome) \<Rightarrow> string option \<Rightarrow> string \<Rightarrow> string \<times> string list" where
  "edit_field valid new old =
     (case new of
        None \<Rightarrow> (old, [])
      | Some v \<Rightarrow> (case valid v of Ok x \<Rightarrow> (x, []) | Err m \<Rightarrow> (old, [m]) | Panic m \<Rightarrow> (old, [m])))"

definition config_edit ::
    "confy \<Rightarrow> string option \<Rightarrow> string option \<Rightarrow> string option \<Rightarrow> disk \<Rightarrow> (unit, string) outcome \<times> disk" where
  "config_edit c host port disk_space d =
     sbind (get_config c d) (\<lambda>cfg d.
       let (h, e1) = edit_field valid_host_name host (cfg_host cfg);
           (p, e2) = edit_field valid_port port (cfg_port cfg);
           (k, e3) = edit_field valid_disk_space disk_space (cfg_disk_allocated cfg)
       in if e1 @ e2 @ e3 = [] then add_config c \<lparr>cfg_host = h, cfg_port = p, cfg_disk_allocated = k\<rparr> d
          else (Err ''Invalid pyrsia config'', d))"

section \<open>Dialogue\<close>

text \<open>
  What each \<^verbatim>\<open>read_line\<close> gives: a line without its end, or nothing at the end of the input or on an
  error, which the loop treats alike. \<open>None\<close> as a result is a dialogue that never ends.
\<close>

type_synonym stdin = "nat \<Rightarrow> string option"

partial_function (option) read_interactive_input ::
    "string \<Rightarrow> (string \<Rightarrow> (string, string) outcome) \<Rightarrow> stdin \<Rightarrow> nat \<Rightarrow> (string \<times> nat) option" where
  "read_interactive_input default_val valid input i =
     (case input i of
        None \<Rightarrow> read_interactive_input default_val valid input (Suc i)
      | Some line \<Rightarrow>
        (case valid (if line = [] then default_val else line) of
           Ok r \<Rightarrow> Some (r, Suc i)
         | _ \<Rightarrow> read_interactive_input default_val valid input (Suc i)))"

definition config_add :: "confy \<Rightarrow> stdin \<Rightarrow> disk \<Rightarrow> ((unit, string) outcome \<times> disk) option" where
  "config_add c input d =
     Option.bind (read_interactive_input (cfg_host CliConfig_default) valid_host_name input 0) (\<lambda>(h, i).
     Option.bind (read_interactive_input (cfg_port CliConfig_default) valid_port input i) (\<lambda>(p, j).
     Option.bind (read_interactive_input (cfg_disk_allocated CliConfig_default) valid_disk_space input j) (\<lambda>(k, _).
       Some (add_config c \<lparr>cfg_host = h, cfg_port = p, cfg_disk_allocated = k\<rparr> d))))"

fun parse_arg_names :: "string list \<Rightarrow> (TransparencyLogField list, string) outcome" where
  "parse_arg_names [] = Ok []"
| "parse_arg_names (n # ns) =
     rbind (TransparencyLogField_from_str (trim n)) (\<lambda>f. rbind (parse_arg_names ns) (\<lambda>fs. Ok (f # fs)))"

definition parse_arg_fields :: "string option \<Rightarrow> (Content option, string) outcome" where
  "parse_arg_fields arg_fields =
     (case arg_fields of
        Some names \<Rightarrow> map_ok (\<lambda>fs. Some \<lparr>content_fields = fs\<rparr>) (parse_arg_names (split_at (CHR '','') names))
      | None \<Rightarrow> Ok None)"

section \<open>Requests to a node\<close>

text \<open>\<open>cli_send\<close> is \<^verbatim>\<open>reqwest\<close> with a method, a URL and a JSON body.\<close>

record cli_env =
  cli_confy :: confy
  cli_send :: "http_method \<Rightarrow> string \<Rightarrow> (string \<times> body_value) list option \<Rightarrow> (http_answer, string) outcome"
  read_build_result :: "bytes \<Rightarrow> (string option \<times> string option) option"
  read_build_status :: "bytes \<Rightarrow> BuildStatus option"
  read_status :: "http_answer \<Rightarrow> nat option"

datatype cli_error = SendError string | HttpStatusError nat reg_message | BodyError

definition get_url :: "cli_env \<Rightarrow> disk \<Rightarrow> string" where
  "get_url e d =
     (case fst (get_config (cli_confy e) d) of
        Ok cfg \<Rightarrow> cfg_host cfg @ '':'' @ cfg_port cfg
      | _ \<Rightarrow> '':'')"

text \<open>
  A status of the 400s or 500s is an error with the message of the error document; a reply of a
  handler that has such a status is not a document and cannot be parsed.
\<close>

definition is_error_status :: "nat \<Rightarrow> bool" where
  "is_error_status st \<longleftrightarrow> 400 \<le> st \<and> st < 600"

definition error_for_status_with_body :: "http_answer \<Rightarrow> (bytes reply, cli_error) outcome" where
  "error_for_status_with_body ans =
     (case ans of
        Replied p \<Rightarrow> if is_error_status (rp_status p) then Err BodyError else Ok p
      | Recovered st m \<Rightarrow> Err (HttpStatusError st (em_message m))
      | Dropped \<Rightarrow> Err (SendError ''connection closed''))"

definition post_request ::
    "cli_env \<Rightarrow> disk \<Rightarrow> string \<Rightarrow> (string \<times> body_value) list \<Rightarrow> (bytes reply, cli_error) outcome" where
  "post_request e d page body =
     rbind (map_err SendError (cli_send e POST (''http://'' @ get_url e d @ page) (Some body))) error_for_status_with_body"

definition post_and_parse_result_as_text ::
    "cli_env \<Rightarrow> disk \<Rightarrow> string \<Rightarrow> (string \<times> body_value) list \<Rightarrow> (bytes, cli_error) outcome" where
  "post_and_parse_result_as_text e d page body = map_ok rp_body (post_request e d page body)"

definition post_and_parse_json_result ::
    "(bytes \<Rightarrow> 'a option) \<Rightarrow> cli_env \<Rightarrow> disk \<Rightarrow> string \<Rightarrow> (string \<times> body_value) list \<Rightarrow> ('a, cli_error) outcome" where
  "post_and_parse_json_result dec e d page body =
     rbind (post_request e d page body) (\<lambda>p. ok_or BodyError (dec (rp_body p)))"

text \<open>
  Plain requests take the text of the answer whatever its status is; a connection that is dropped without one
  is an error. The status page is parsed, and
  the client shows the number of connected peers.
\<close>

definition get_text :: "cli_env \<Rightarrow> disk \<Rightarrow> string \<Rightarrow> (http_answer, cli_error) outcome" where
  "get_text e d page =
     rbind (map_err SendError (cli_send e GET (''http://'' @ get_url e d @ page) None)) (\<lambda>ans.
       case ans of Dropped \<Rightarrow> Err (SendError ''connection closed'') | _ \<Rightarrow> Ok ans)"

definition cli_ping :: "cli_env \<Rightarrow> disk \<Rightarrow> (http_answer, cli_error) outcome" where
  "cli_ping e d = get_text e d ''/v2''"

definition cli_peers_connected :: "cli_env \<Rightarrow> disk \<Rightarrow> (http_answer, cli_error) outcome" where
  "cli_peers_connected e d = get_text e d ''/peers''"

definition cli_status :: "cli_env \<Rightarrow> disk \<Rightarrow> (nat, cli_error) outcome" where
  "cli_status e d = rbind (get_text e d ''/status'') (\<lambda>ans. ok_or BodyError (read_status e ans))"

definition cli_add_authorized_node :: "cli_env \<Rightarrow> disk \<Rightarrow> string \<Rightarrow> (unit, cli_error) outcome" where
  "cli_add_authorized_node e d peer =
     map_ok (\<lambda>_. ()) (post_and_parse_result_as_text e d ''/authorized_node'' [(''peer_id'', BodyText peer)])"

definition cli_request_docker_build :: "cli_env \<Rightarrow> disk \<Rightarrow> string \<Rightarrow> (string option \<times> string option, cli_error) outcome" where
  "cli_request_docker_build e d img =
     post_and_parse_json_result (read_build_result e) e d ''/build/docker'' [(''image'', BodyText img)]"

definition cli_request_build_status :: "cli_env \<Rightarrow> disk \<Rightarrow> string \<Rightarrow> (BuildStatus, cli_error) outcome" where
  "cli_request_build_status e d build_id =
     post_and_parse_json_result (read_build_status e) e d ''/build/status'' [(''build_id'', BodyText build_id)]"

definition cli_request_maven_build :: "cli_env \<Rightarrow> disk \<Rightarrow> string \<Rightarrow> (string option \<times> string option, cli_error) outcome" where
  "cli_request_maven_build e d gav =
     post_and_parse_json_result (read_build_result e) e d ''/build/docker'' [(''gav'', BodyText gav)]"

definition log_members ::
    "string \<Rightarrow> string \<Rightarrow> TransparencyLogOutputParams option \<Rightarrow> bool option \<Rightarrow> (string \<times> body_value) list" where
  "log_members k i params latest =
     [(k, BodyText i), (''output_params'', case params of Some p \<Rightarrow> BodyParams p | None \<Rightarrow> BodyNull),
      (''latest'', case latest of Some b \<Rightarrow> BodyBool b | None \<Rightarrow> BodyNull)]"

definition cli_inspect_docker_transparency_log ::
    "cli_env \<Rightarrow> disk \<Rightarrow> string \<Rightarrow> TransparencyLogOutputParams option \<Rightarrow> bool option \<Rightarrow> (bytes, cli_error) outcome" where
  "cli_inspect_docker_transparency_log e d img params latest =
     post_and_parse_result_as_text e d ''/inspect/docker'' (log_members ''image'' img params latest)"

definition cli_inspect_maven_transparency_log ::
    "cli_env \<Rightarrow> disk \<Rightarrow> string \<Rightarrow> TransparencyLogOutputParams option \<Rightarrow> bool option \<Rightarrow> (bytes, cli_error) outcome" where
  "cli_inspect_maven_transparency_log e d gav params latest =
     post_and_parse_result_as_text e d ''/inspect/maven'' (log_members ''gav'' gav params latest)"

text \<open>The arguments of \<^verbatim>\<open>inspect-log\<close>: a format that is not known panics, a field that is not known ends the command.\<close>

definition inspect_transparency_log ::
    "string option \<Rightarrow> string option \<Rightarrow> (TransparencyLogOutputParams option \<Rightarrow> (bytes, cli_error) outcome)
      \<Rightarrow> ((bytes, cli_error) outcome option, string) outcome" where
  "inspect_transparency_log arg_format arg_fields request =
     (case ContentType_from arg_format of
        Ok ct \<Rightarrow>
          (case parse_arg_fields arg_fields of
             Ok content \<Rightarrow> Ok (Some (request (Some \<lparr>op_format = Some ct, op_content = content\<rparr>)))
           | _ \<Rightarrow> Ok None)
      | _ \<Rightarrow> Panic ''unwrap'')"

end
