(* ===== verification/Cli_Main.thy ===== *)
theory Cli_Main
  imports Cli_Commands
begin

text \<open>
  The \<^verbatim>\<open>pyrsia\<close> program: what its handlers print (\<^verbatim>\<open>src/pyrsia_cli/src/cli/handlers.rs\<close>), the commands and arguments it
  declares (\<^verbatim>\<open>cli/parser.rs\<close>) and the dispatch of \<^verbatim>\<open>main.rs\<close>. \<^verbatim>\<open>clap\<close> turns the words of the command line into
  \<open>ArgMatches\<close>; \<open>matches_fit\<close> is what it documents of the matches of a declared command. A run is what it prints, how
  it ends and the disk it leaves; \<open>None\<close> is a run that never ends. Help texts, the flags
  \<^verbatim>\<open>--help\<close> and \<^verbatim>\<open>--version\<close> and the prompts of the dialogue are left out.
\<close>

section \<open>Output\<close>

datatype printed = Out string | ErrOut string

type_synonym cli_run = "printed list \<times> (unit, string) outcome \<times> disk"

text \<open>
  What libraries put into the texts: the text of a response, errors in their two forms, TOML, indented
  JSON when the text is JSON, the text of a path when it is UTF-8, and the order in which a \<^verbatim>\<open>HashSet\<close> of the
  inserted strings is walked.
\<close>

record terminal =
  term_text :: "http_answer \<Rightarrow> string"
  term_error :: "cli_error \<Rightarrow> string"
  term_debug :: "cli_error \<Rightarrow> string"
  term_field_error :: "string \<Rightarrow> string"
  term_toml :: "CliConfig \<Rightarrow> string"
  term_json :: "string \<Rightarrow> string option"
  term_path :: "path \<Rightarrow> string option"
  term_order :: "string list \<Rightarrow> string list"

definition CONF_REMINDER_MESSAGE :: string where
  "CONF_REMINDER_MESSAGE =
     ''Please make sure the pyrsia CLI config is up to date and matches the node configuration. '' @
     ''For more information, run '' @ [CHR 0x27] @ ''pyrsia config --show'' @ [CHR 0x27]"

definition quote_text :: "string \<Rightarrow> string" where
  "quote_text s = CHR 0x27 # s @ [CHR 0x27]"

definition and_then :: "cli_run option \<Rightarrow> (disk \<Rightarrow> cli_run option) \<Rightarrow> cli_run option" where
  "and_then r f =
     (case r of
        None \<Rightarrow> None
      | Some (ps, oc, d) \<Rightarrow>
          (case oc of Ok _ \<Rightarrow> map_option (\<lambda>(qs, rest). (ps @ qs, rest)) (f d) | _ \<Rightarrow> Some (ps, oc, d)))"

section \<open>Configuration commands\<close>

definition config_show :: "confy \<Rightarrow> terminal \<Rightarrow> disk \<Rightarrow> cli_run" where
  "config_show c t d =
     (case (case config_path c of
              Ok p \<Rightarrow> map_option (\<lambda>x. ''Config file path: '' @ x) (term_path t p)
            | Err m \<Rightarrow> Some (''Error retrieving config file path: '' @ m)
            | Panic m \<Rightarrow> None) of
        None \<Rightarrow> ([], Panic ''unwrap'', d)
      | Some line \<Rightarrow>
          (case get_config c d of
             (Ok cfg, d1) \<Rightarrow> ([Out line, Out (term_toml t cfg)], Ok (), d1)
           | (Err m, d1) \<Rightarrow> ([Out line, Out (''No Node Configured: '' @ m)], Ok (), d1)
           | (Panic m, d1) \<Rightarrow> ([Out line], Panic m, d1)))"

text \<open>What \<^verbatim>\<open>config_edit\<close> prints before it fails.\<close>

definition edit_complaints ::
    "confy \<Rightarrow> string option \<Rightarrow> string option \<Rightarrow> string option \<Rightarrow> disk \<Rightarrow> string list" where
  "edit_complaints c host port disk_space d =
     (case fst (get_config c d) of
        Ok cfg \<Rightarrow> snd (edit_field valid_host_name host (cfg_host cfg)) @ snd (edit_field valid_port port (cfg_port cfg)) @
          snd (edit_field valid_disk_space disk_space (cfg_disk_allocated cfg))
      | _ \<Rightarrow> [])"

definition report_config :: "string \<Rightarrow> string \<Rightarrow> (unit, string) outcome \<times> disk \<Rightarrow> cli_run" where
  "report_config good bad r =
     (case r of
        (Ok _, d) \<Rightarrow> ([Out good], Ok (), d)
      | (Err m, d) \<Rightarrow> ([ErrOut (bad @ m)], Ok (), d)
      | (Panic m, d) \<Rightarrow> ([], Panic m, d))"

section \<open>Requests\<close>

text \<open>
  \<^verbatim>\<open>get_url\<close> reads the configuration, prints the error when that fails, and leaves the file it may have
  created. A request is then made and its result printed.
\<close>

definition url_lines :: "cli_env \<Rightarrow> disk \<Rightarrow> printed list" where
  "url_lines e d = (case fst (get_config (cli_confy e) d) of Err m \<Rightarrow> [Out (''Error: '' @ m)] | _ \<Rightarrow> [])"

definition report :: "cli_env \<Rightarrow> disk \<Rightarrow> ('a, cli_error) outcome \<Rightarrow> ('a \<Rightarrow> string list) \<Rightarrow> (cli_error \<Rightarrow> string) \<Rightarrow> cli_run" where
  "report e d r good bad =
     (let d1 = snd (get_config (cli_confy e) d) in
      case r of
        Ok x \<Rightarrow> (url_lines e d @ map Out (good x), Ok (), d1)
      | Err x \<Rightarrow> (url_lines e d @ [Out (bad x)], Ok (), d1)
      | Panic m \<Rightarrow> (url_lines e d, Panic m, d1))"

definition authorize :: "cli_env \<Rightarrow> terminal \<Rightarrow> string \<Rightarrow> disk \<Rightarrow> cli_run" where
  "authorize e t peer d =
     report e d (cli_add_authorized_node e d peer) (\<lambda>_. [''Authorize request successfully handled.''])
       (\<lambda>x. ''Authorize request failed with error: '' @ term_error t x)"

definition build_lines :: "string option \<times> string option \<Rightarrow> string list" where
  "build_lines r =
     (case fst r of
        Some build_id \<Rightarrow> [''Build request successfully handled. Build with ID '' @ quote_text build_id @ '' has been started.'']
      | None \<Rightarrow> []) @
     (case snd r of Some message \<Rightarrow> [message] | None \<Rightarrow> [])"

definition handle_request_build_result ::
    "cli_env \<Rightarrow> terminal \<Rightarrow> (string option \<times> string option, cli_error) outcome \<Rightarrow> disk \<Rightarrow> cli_run" where
  "handle_request_build_result e t r d =
     report e d r build_lines (\<lambda>x. ''Build request failed with error: '' @ term_error t x)"

definition request_docker_build :: "cli_env \<Rightarrow> terminal \<Rightarrow> string \<Rightarrow> disk \<Rightarrow> cli_run" where
  "request_docker_build e t img d = handle_request_build_result e t (cli_request_docker_build e d img) d"

definition request_maven_build :: "cli_env \<Rightarrow> terminal \<Rightarrow> string \<Rightarrow> disk \<Rightarrow> cli_run" where
  "request_maven_build e t gav d = handle_request_build_result e t (cli_request_maven_build e d gav) d"

definition build_status_missing :: "terminal \<Rightarrow> string \<Rightarrow> cli_error \<Rightarrow> string" where
  "build_status_missing t build_id x =
     ''Build status for '' @ quote_text build_id @ '' was not found: '' @ term_error t x @ CHR 0x0A #
     ''Additional info related to the build might be available via '' @ quote_text ''pyrsia inspect-log'' @ '' command''"

definition request_build_status :: "cli_env \<Rightarrow> terminal \<Rightarrow> string \<Rightarrow> disk \<Rightarrow> cli_run" where
  "request_build_status e t build_id d =
     report e d (cli_request_build_status e d build_id)
       (\<lambda>st. [''Build status for '' @ quote_text build_id @ '' is '' @ quote_text (BuildStatus_to_string st)])
       (build_status_missing t build_id)"

definition error_reminder :: "terminal \<Rightarrow> cli_error \<Rightarrow> string" where
  "error_reminder t x = ''Error: '' @ term_error t x @ ''. '' @ CONF_REMINDER_MESSAGE"

definition node_ping :: "cli_env \<Rightarrow> terminal \<Rightarrow> disk \<Rightarrow> cli_run" where
  "node_ping e t d = report e d (cli_ping e d) (\<lambda>_. [''Connection Successful !!'']) (error_reminder t)"

definition cli_node_status :: "cli_env \<Rightarrow> terminal \<Rightarrow> disk \<Rightarrow> cli_run" where
  "cli_node_status e t d =
     report e d (cli_status e d) (\<lambda>n. [''Connected Peers Count:       '' @ show_nat n]) (error_reminder t)"

definition node_list :: "cli_env \<Rightarrow> terminal \<Rightarrow> disk \<Rightarrow> cli_run" where
  "node_list e t d =
     report e d (cli_peers_connected e d)
       (\<lambda>ans. ''Connected Peers:'' # term_order t (split_at (CHR '','') (term_text t ans))) (error_reminder t)"

section \<open>Inspecting the log\<close>

definition print_logs :: "terminal \<Rightarrow> ContentType \<Rightarrow> string \<Rightarrow> (string, string) outcome" where
  "print_logs t ct logs =
     (case ct of
        JSON \<Rightarrow> (case term_json t logs of Some s \<Rightarrow> Ok s | None \<Rightarrow> Panic ''unwrap'')
      | CSV \<Rightarrow> Ok logs)"

definition show_logs ::
    "cli_env \<Rightarrow> terminal \<Rightarrow> string option \<Rightarrow> string option
      \<Rightarrow> (TransparencyLogOutputParams option \<Rightarrow> (bytes, cli_error) outcome) \<Rightarrow> disk \<Rightarrow> cli_run" where
  "show_logs e t arg_format arg_fields request d =
     (case inspect_transparency_log arg_format arg_fields request of
        Ok None \<Rightarrow>
          (case parse_arg_fields arg_fields of
             Err m \<Rightarrow> ([Out (''Parsing of arguments failed with error: '' @ term_field_error t m @ CHR 0x0A #
                        ''For more information, try '' @ quote_text ''--help'' @ ''.'')], Ok (), d)
           | _ \<Rightarrow> ([], Panic ''unreachable'', d))
      | Ok (Some r) \<Rightarrow>
          report e d
            (rbind r (\<lambda>logs.
               case ContentType_from arg_format of
                 Ok ct \<Rightarrow> (case print_logs t ct (of_bytes logs) of Ok s \<Rightarrow> Ok s | Err m \<Rightarrow> Panic m | Panic m \<Rightarrow> Panic m)
               | _ \<Rightarrow> Panic ''unwrap''))
            (\<lambda>s. [s]) (\<lambda>x. ''Inspect log request failed with error: '' @ term_debug t x)
      | Err m \<Rightarrow> ([], Panic m, d)
      | Panic m \<Rightarrow> ([], Panic m, d))"

definition show_docker_log ::
    "cli_env \<Rightarrow> terminal \<Rightarrow> string \<Rightarrow> string option \<Rightarrow> string option \<Rightarrow> bool option \<Rightarrow> disk \<Rightarrow> cli_run" where
  "show_docker_log e t img arg_format arg_fields arg_latest d =
     show_logs e t arg_format arg_fields (\<lambda>params. cli_inspect_docker_transparency_log e d img params arg_latest) d"

definition show_maven_log ::
    "cli_env \<Rightarrow> terminal \<Rightarrow> string \<Rightarrow> string option \<Rightarrow> string option \<Rightarrow> bool option \<Rightarrow> disk \<Rightarrow> cli_run" where
  "show_maven_log e t gav arg_format arg_fields arg_latest d =
     show_logs e t arg_format arg_fields (\<lambda>params. cli_inspect_maven_transparency_log e d gav params arg_latest) d"

section \<open>Declared commands\<close>

text \<open>
  An option with a value (its name, whether it is required, the values it may have, its default) or a flag;
  a command with its short flag, arguments and subcommands, and whether \<^verbatim>\<open>subcommand_required\<close> and
  \<^verbatim>\<open>arg_required_else_help\<close> are set.
\<close>

datatype arg_decl =
    TextArg string bool "string list option" "string option"
  | FlagArg string

fun arg_id :: "arg_decl \<Rightarrow> string" where
  "arg_id (TextArg i _ _ _) = i"
| "arg_id (FlagArg i) = i"

datatype command_decl =
  Command (cd_name: string) "char option" "arg_decl list" "command_decl list" bool bool

definition option_arg :: "string \<Rightarrow> arg_decl" where
  "option_arg i = TextArg i False None None"

definition inspect_args :: "string \<Rightarrow> arg_decl list" where
  "inspect_args i =
     [TextArg i True None None, TextArg ''format'' False (Some [''json'', ''csv'']) (Some ''json''),
      option_arg ''fields'', FlagArg ''latest'']"

definition cli_parser :: command_decl where
  "cli_parser =
     Command ''pyrsia'' None []
       [Command ''authorize'' None [option_arg ''peer''] [] False True,
        Command ''build'' (Some CHR ''b'') []
          [Command ''docker'' None [option_arg ''image''] [] False True,
           Command ''maven'' None [option_arg ''gav''] [] False True,
           Command ''status'' None [option_arg ''id''] [] False True] True True,
        Command ''config'' (Some CHR ''c'') [FlagArg ''remove'', FlagArg ''show'']
          [Command ''edit'' (Some CHR ''e'') [option_arg ''host'', option_arg ''port'', option_arg ''diskspace''] [] False False]
          False True,
        Command ''inspect-log'' None []
          [Command ''docker'' None (inspect_args ''image'') [] False True,
           Command ''maven'' None (inspect_args ''gav'') [] False True] True True,
        Command ''list'' (Some CHR ''l'') [] [] False False,
        Command ''ping'' None [] [] False False,
        Command ''status'' (Some CHR ''s'') [] [] False False]
       False True"

definition inspect_log_fields_help_string :: string where
  "inspect_log_fields_help_string =
     ''The list of output fields separated by comma '' @ quote_text '','' @ ''.'' @ CHR 0x0A # ''Available fields:'' @ CHR 0x0A #
     concat (map (\<lambda>f. case field_aaa f of (n, descr) \<Rightarrow>
         CHR 0x09 # ''- field: '' @ quote_text n @ '','' @ CHR 0x09 # ''description: '' @ descr @ [CHR 0x0A])
       (content_fields Content_default))"

text \<open>
  The matches of a command: the values of its options, given or by default, its flags, the names given on
  the command line, and the matched subcommand.
\<close>

datatype ArgMatches =
  ArgMatches (am_texts: "(string \<times> string) list") (am_flags: "(string \<times> bool) list") (am_given: "string list")
    (am_subcommand: "(string \<times> ArgMatches) option")

definition get_one :: "ArgMatches \<Rightarrow> string \<Rightarrow> string option" where
  "get_one m i = map_of (am_texts m) i"

definition get_flag :: "ArgMatches \<Rightarrow> string \<Rightarrow> bool option" where
  "get_flag m i = map_of (am_flags m) i"

text \<open>What clap documents of the matches it returns for a declared argument, and for a declared command.\<close>

fun arg_fits :: "ArgMatches \<Rightarrow> arg_decl \<Rightarrow> bool" where
  "arg_fits m (TextArg i required values dflt) =
     (case get_one m i of
        Some v \<Rightarrow> (case values of Some vs \<Rightarrow> v \<in> set vs | None \<Rightarrow> True) \<and> (i \<in> set (am_given m) \<or> dflt = Some v)
      | None \<Rightarrow> \<not> required \<and> dflt = None \<and> i \<notin> set (am_given m))"
| "arg_fits m (FlagArg i) = (get_flag m i = Some (i \<in> set (am_given m)))"

fun matches_fit :: "command_decl \<Rightarrow> ArgMatches \<Rightarrow> bool" where
  "matches_fit (Command nm short as subs sub_required or_help) m \<longleftrightarrow>
     list_all (arg_fits m) as \<and> list_all (\<lambda>i. i \<in> arg_id ` set as) (am_given m) \<and>
     (case am_subcommand m of
        None \<Rightarrow> \<not> sub_required
      | Some (n, sm) \<Rightarrow> list_ex (\<lambda>c. cd_name c = n \<and> matches_fit c sm) subs) \<and>
     (or_help \<longrightarrow> am_given m \<noteq> [] \<or> am_subcommand m \<noteq> None)"

section \<open>The main function\<close>

definition config_edit_command :: "cli_env \<Rightarrow> stdin \<Rightarrow> ArgMatches \<Rightarrow> disk \<Rightarrow> cli_run option" where
  "config_edit_command e input m d =
     (let save = report_config ''Node configuration saved !!'' ''Error saving node configuration: '' in
      if list_ex (\<lambda>opt. get_one m opt \<noteq> None) [''host'', ''port'', ''diskspace''] then
        (let host = get_one m ''host''; port = get_one m ''port''; diskspace = get_one m ''diskspace'';
             (ps, rest) = save (config_edit (cli_confy e) host port diskspace d)
         in Some (map Out (edit_complaints (cli_confy e) host port diskspace d) @ ps, rest))
      else map_option save (config_add (cli_confy e) input d))"

definition config_command :: "cli_env \<Rightarrow> terminal \<Rightarrow> stdin \<Rightarrow> ArgMatches \<Rightarrow> disk \<Rightarrow> cli_run option" where
  "config_command e t input m d =
     and_then
       (case am_subcommand m of
          Some (n, edit) \<Rightarrow> if n = ''edit'' then config_edit_command e input edit d else Some ([], Ok (), d)
        | None \<Rightarrow> Some ([], Ok (), d)) (\<lambda>d.
     and_then
       (if get_flag m ''remove'' = Some True
        then Some (report_config ''Node configuration removed !!'' ''Error removing node configuration: ''
               (config_remove (cli_confy e) d))
        else Some ([], Ok (), d)) (\<lambda>d.
       if get_flag m ''show'' = Some True then Some (config_show (cli_confy e) t d) else Some ([], Ok (), d)))"

definition with_arg :: "ArgMatches \<Rightarrow> string \<Rightarrow> (string \<Rightarrow> disk \<Rightarrow> cli_run) \<Rightarrow> disk \<Rightarrow> cli_run" where
  "with_arg m i f d = (case get_one m i of Some v \<Rightarrow> f v d | None \<Rightarrow> ([], Panic ''unwrap'', d))"

definition build_command :: "cli_env \<Rightarrow> terminal \<Rightarrow> ArgMatches \<Rightarrow> disk \<Rightarrow> cli_run" where
  "build_command e t m d =
     (case am_subcommand m of
        Some (n, sm) \<Rightarrow>
          if n = ''docker'' then with_arg sm ''image'' (request_docker_build e t) d
          else if n = ''maven'' then with_arg sm ''gav'' (request_maven_build e t) d
          else if n = ''status'' then with_arg sm ''id'' (request_build_status e t) d
          else ([], Ok (), d)
      | None \<Rightarrow> ([], Ok (), d))"

definition inspect_command :: "cli_env \<Rightarrow> terminal \<Rightarrow> ArgMatches \<Rightarrow> disk \<Rightarrow> cli_run" where
  "inspect_command e t m d =
     (case am_subcommand m of
        Some (n, sm) \<Rightarrow>
          if n = ''docker'' then with_arg sm ''image'' (\<lambda>img.
            show_docker_log e t img (get_one sm ''format'') (get_one sm ''fields'') (get_flag sm ''latest'')) d
          else if n = ''maven'' then with_arg sm ''gav'' (\<lambda>gav.
            show_maven_log e t gav (get_one sm ''format'') (get_one sm ''fields'') (get_flag sm ''latest'')) d
          else ([], Ok (), d)
      | None \<Rightarrow> ([], Ok (), d))"

definition cli_main :: "cli_env \<Rightarrow> terminal \<Rightarrow> stdin \<Rightarrow> ArgMatches \<Rightarrow> disk \<Rightarrow> cli_run option" where
  "cli_main e t input m d =
     (case am_subcommand m of
        Some (n, sm) \<Rightarrow>
          if n = ''config'' then config_command e t input sm d
          else if n = ''authorize'' then Some (with_arg sm ''peer'' (authorize e t) d)
          else if n = ''build'' then Some (build_command e t sm d)
          else if n = ''list'' then Some (node_list e t d)
          else if n = ''ping'' then Some (node_ping e t d)
          else if n = ''status'' then Some (cli_node_status e t d)
          else if n = ''inspect-log'' then Some (inspect_command e t sm d)
          else Some ([], Ok (), d)
      | None \<Rightarrow> Some ([], Ok (), d))"

end
