(* ===== verification/Http_Claims.thy ===== *)
theory Http_Claims
  imports Http_Api Build_Claims
begin

text \<open>
  Properties of the HTTP handlers: the ids the download handlers ask for are the ids the build service
  gives its artifacts, field names read back, and the status codes clients see.
\<close>

section \<open>Maven\<close>

lemma set_join_with: "set (join_with sep ps) \<subseteq> set sep \<union> (\<Union>p \<in> set ps. set p)"
  by (induction sep ps rule: join_with.induct) auto

lemma replace_char_none: "a \<notin> set s \<Longrightarrow> replace_char a b s = s"
  by (auto simp: replace_char_def intro: map_idI)

lemma replace_char_append: "replace_char a b (s @ t) = replace_char a b s @ replace_char a b t"
  by (simp add: replace_char_def)

lemma parse_maven_path:
  assumes "grp \<noteq> []" and "\<forall>p \<in> set (grp @ [artifact, version, file]). CHR ''/'' \<notin> set p"
  shows "parse_artifact_from_full_path (''/maven2/'' @ join_with ''/'' (grp @ [artifact, version, file]))
    = Ok (join_with ''.'' grp, version, artifact, file)"
proof -
  let ?ps = "grp @ [artifact, version, file]"
  have "split_at (CHR ''/'') (join_with ''/'' ?ps) = ?ps"
    using assms by (intro split_at_join) auto
  then have "split_at (CHR ''/'') (''/maven2/'' @ join_with ''/'' ?ps) = [] # ''maven2'' # ?ps"
    using split_at_append[of "CHR ''/''" "''maven2''" "join_with ''/'' ?ps"] by simp
  moreover have "length ?ps \<ge> 4" using assms(1) by (cases grp) simp_all
  ultimately show ?thesis
    using assms(1) by (simp add: parse_artifact_from_full_path_def Let_def butlast_append)
qed

lemma replace_char_cons: "replace_char a b (c # s) = (if c = a then b else c) # replace_char a b s"
  by (simp add: replace_char_def)

text \<open>
  C26: the Maven handler asks for exactly what a build of the package produces. For a request path of
  a grp, artifact, version and file name, the package id derived from the path is the one a build
  of those coordinates has, and the artifact id derived from the path is the one the build service
  gives to the file with that name in the result of the build.
\<close>

theorem maven_download_matches_build:
  assumes "grp \<noteq> []"
    and "\<forall>p \<in> set (grp @ [artifact, version, file]). CHR ''/'' \<notin> set p \<and> CHR '':'' \<notin> set p"
  shows "\<exists>psid art.
    maven_package_specific_id (''/maven2/'' @ join_with ''/'' (grp @ [artifact, version, file])) = Ok psid \<and>
    psid = join_with ''.'' grp @ '':'' @ artifact @ '':'' @ version \<and>
    maven_package_specific_artifact_id (''/maven2/'' @ join_with ''/'' (grp @ [artifact, version, file])) = Ok art \<and>
    artifact_specific_ids Maven2 psid (base @ ''/'' @ file) hash = [art]"
proof -
  have parse: "parse_artifact_from_full_path (''/maven2/'' @ join_with ''/'' (grp @ [artifact, version, file]))
    = Ok (join_with ''.'' grp, version, artifact, file)"
    using assms by (intro parse_maven_path) auto
  have "CHR '':'' \<notin> set (join_with ''.'' grp)"
    using set_join_with[of "''.''" grp] assms(2) by auto
  moreover have "CHR '':'' \<notin> set artifact" "CHR '':'' \<notin> set version" using assms(2) by auto
  moreover have "rfind_split (CHR ''/'') (base @ CHR ''/'' # file) = Some (base, file)"
    using assms(2) by (intro rfind_split_append) auto
  ultimately show ?thesis
    using parse
    by (simp add: maven_package_specific_id_def maven_package_specific_artifact_id_def artifact_specific_ids_def
        url_filename_def replace_char_append replace_char_none replace_char_cons)
qed

theorem maven_download_matches_build_witness:
  "\<exists>psid art. maven_package_specific_id ''/maven2/com/company/test/1.0/test-1.0.jar'' = Ok psid \<and>
     psid = ''com.company:test:1.0'' \<and>
     maven_package_specific_artifact_id ''/maven2/com/company/test/1.0/test-1.0.jar'' = Ok art \<and>
     artifact_specific_ids Maven2 psid ''/x/test-1.0.jar'' ''ab'' = [art]"
  using maven_download_matches_build[of "[''com'', ''company'']" "''test''" "''1.0''" "''test-1.0.jar''" "''/x''" "''ab''"]
  by simp

section \<open>Docker\<close>

text \<open>
  C27: the Docker handlers ask for exactly what a build of the image produces. For an image name and a
  tag, the package the node API builds is the one whose manifest a client asks for, the manifest of the build is stored under the id the handler derives from the name and the tag and under the id it derives from the name and the digest of the manifest, and every other file of
  the build, named by a digest and an extension, under the id of the blob with that digest.
\<close>

theorem docker_download_matches_build:
  assumes "CHR ''/'' \<notin> set name" and "CHR ''@'' \<notin> set name"
    and "CHR ''/'' \<notin> set tag" and "CHR ''@'' \<notin> set tag" and "CHR '':'' \<notin> set tag"
    and "CHR ''/'' \<notin> set digest" and "CHR ''/'' \<notin> set ext" and "CHR ''.'' \<notin> set ext"
    and "\<not> ends_with ''/manifest'' (base @ ''/'' @ digest @ ''.'' @ ext)"
    and "CHR ''/'' \<notin> set hash"
  shows "swarm_package_specific_id (name @ '':'' @ tag) = manifest_artifact_id name tag \<and>
    artifact_specific_ids Docker (manifest_artifact_id name tag) (base @ ''/manifest'') hash
      = [manifest_artifact_id name tag, manifest_artifact_id name (''sha256:'' @ hash)] \<and>
    artifact_specific_ids Docker (manifest_artifact_id name tag) (base @ ''/'' @ digest @ ''.'' @ ext) hash
      = [blob_artifact_id name digest]"
proof -
  have no_digest: "\<not> starts_with ''sha256:'' tag"
  proof
    assume "starts_with ''sha256:'' tag"
    then obtain n where "take n tag = ''sha256:''" by (auto simp: starts_with_def)
    then have "CHR '':'' \<in> set (take n tag)" by simp
    then show False using assms(5) by (meson in_set_takeD)
  qed
  have psid: "manifest_artifact_id name tag = ''library/'' @ name @ '':'' @ tag"
    using assms(1,3) no_digest by (simp add: manifest_artifact_id_def official_image_def)
  have no_at: "CHR ''@'' \<notin> set (''library/'' @ name @ '':'' @ tag)" using assms(2,4) by simp
  have "rfind_split (CHR '':'') ((''library/'' @ name) @ CHR '':'' # tag) = Some (''library/'' @ name, tag)"
    using assms(5) by (rule rfind_split_append)
  then have image: "get_docker_image_name (''library/'' @ name @ '':'' @ tag) = ''library/'' @ name"
    using rfind_split_none[OF no_at] by (simp add: get_docker_image_name_def)
  have manifest: "artifact_specific_ids Docker (manifest_artifact_id name tag) (base @ ''/manifest'') hash
      = [manifest_artifact_id name tag, manifest_artifact_id name (''sha256:'' @ hash)]"
    using no_at image ends_with_append[of "''/manifest''" base] assms(1,10)
    by (simp add: artifact_specific_ids_def psid)
       (simp add: manifest_artifact_id_def official_image_def starts_with_def)
  have "rfind_split (CHR ''/'') (base @ CHR ''/'' # (digest @ ''.'' @ ext)) = Some (base, digest @ ''.'' @ ext)"
    using assms(6,7) by (intro rfind_split_append) auto
  then have "url_filename (base @ ''/'' @ digest @ ''.'' @ ext) = digest @ ''.'' @ ext"
    by (simp add: url_filename_def)
  moreover have "rfind_split (CHR ''.'') (digest @ CHR ''.'' # ext) = Some (digest, ext)"
    using assms(8) by (rule rfind_split_append)
  ultimately have "artifact_specific_ids Docker (manifest_artifact_id name tag) (base @ ''/'' @ digest @ ''.'' @ ext) hash
      = [blob_artifact_id name digest]"
    using assms(1,6,9) image
    by (simp add: artifact_specific_ids_def psid blob_artifact_id_def official_image_def Let_def)
  moreover have "swarm_package_specific_id (name @ '':'' @ tag) = manifest_artifact_id name tag"
    using assms(1,3) psid by (simp add: swarm_package_specific_id_def)
  ultimately show ?thesis using manifest by blast
qed

theorem docker_download_matches_build_witness:
  "artifact_specific_ids Docker (manifest_artifact_id ''alpine'' ''3.16'') ''/b/manifest'' ''ab''
     = [''library/alpine:3.16'', ''library/alpine@sha256:ab'']"
  using docker_download_matches_build[of "''alpine''" "''3.16''" "''sha256:cd''" "''blob''" "''/b''" "''ab''"]
  by (simp add: ends_with_def manifest_artifact_id_def official_image_def starts_with_def)

section \<open>Field names\<close>

lemma field_from_str_iff: "TransparencyLogField_from_str s = Ok f \<longleftrightarrow> to_lowercase s = fst (field_aaa f)"
  unfolding TransparencyLogField_from_str_def Let_def
  by (cases f; simp; (intro impI)?; auto)

lemma parse_fields_iff: "parse_fields ss = Ok fs \<longleftrightarrow> map to_lowercase ss = map (\<lambda>f. fst (field_aaa f)) fs"
proof (induction ss arbitrary: fs)
  case Nil
  then show ?case by auto
next
  case (Cons s ss)
  show ?case
    by (cases fs) (auto simp: outcome_simps Cons.IH field_from_str_iff)
qed

text \<open>
  A selection of output fields is read back as the fields it names, in the order it names them, in
  any mixture of upper and lower case and by nothing else (on ASCII text): the request parameter is accepted with
  content c exactly when, in lower case, it is the list of the names of the fields of c.
\<close>

theorem content_selection_reads_names:
  "Content_from (Some ss) = Ok c
    \<longleftrightarrow> map to_lowercase ss = map (\<lambda>f. fst (field_aaa f)) (content_fields c)"
  by (cases c) (auto simp: Content_from_def map_ok_Ok_iff simp flip: parse_fields_iff)

section \<open>Build requests\<close>

lemma json_reply_Ok: "b = Ok x \<Longrightarrow> \<exists>r. json_reply st b = Ok r \<and> rp_status r = st \<and> b = Ok (rp_body r)"
  by (simp add: json_reply_def)

lemma verify_package_newest_added:
  assumes "log_env_ok e" and "stores ls (ls_table s)" and "lit_safe psid" and "lit_safe_ids ls"
    and "l \<in> set (package_records pt psid ls)" and "operation l = AddArtifact"
    and "\<forall>l' \<in> set (package_records pt psid ls). operation l' = RemoveArtifact \<longrightarrow> timestamp l' < timestamp l"
  shows "\<exists>err. verify_package_can_be_added_to_transparency_logs e pt psid s = Err err"
  using verify_package_cases[OF assms(1-4), of pt]
proof (elim disjE conjE bexE)
  fix l0 assume l0: "l0 \<in> set (package_records pt psid ls)"
    "\<forall>l' \<in> set (package_records pt psid ls). timestamp l' \<le> timestamp l0"
    "if operation l0 = AddArtifact
     then \<exists>err. verify_package_can_be_added_to_transparency_logs e pt psid s = Err err
     else verify_package_can_be_added_to_transparency_logs e pt psid s = Ok ()"
  have "operation l0 = AddArtifact \<or> operation l0 = RemoveArtifact"
    using l0(1) by (auto simp: package_records_def)
  then show ?thesis using l0 assms(5,6,7) by (auto dest: leD)
qed (use assms(5) in simp)

text \<open>
  What a client of the node API sees when it asks for a build of an image, on a node that knows
  authorised nodes and is one of them. A package without records is built and the reply is 200 with
  the id of the build; a package whose newest record is an addition is not built and the reply is
  302 without a build id.
\<close>

theorem docker_build_request_replies:
  assumes "log_env_ok (ae_log (api_art e))" and "stores ls (ls_table (as_log s))"
    and "lit_safe (swarm_package_specific_id img)" and "lit_safe_ids ls"
    and "get_authorized_nodes (ae_log (api_art e)) (as_log s) = Ok nodes"
    and "ae_local_peer (api_art e) \<in> set nodes"
    and "ev_start_build (api_art e) Docker (swarm_package_specific_id img) = Ok build_id"
    and "\<forall>i m. \<exists>b. write_build_response e i m = Ok b"
  shows "(package_records Docker (swarm_package_specific_id img) ls = [] \<longrightarrow>
      (\<exists>r. handle_build_docker e img s = Ok r \<and> rp_status r = 200 \<and>
        write_build_response e (Some build_id) None = Ok (rp_body r))) \<and>
    ((\<exists>l \<in> set (package_records Docker (swarm_package_specific_id img) ls). operation l = AddArtifact \<and>
        (\<forall>l' \<in> set (package_records Docker (swarm_package_specific_id img) ls).
          operation l' = RemoveArtifact \<longrightarrow> timestamp l' < timestamp l)) \<longrightarrow>
      (\<exists>r msg. handle_build_docker e img s = Ok r \<and> rp_status r = 302 \<and>
        write_build_response e None (Some msg) = Ok (rp_body r)))"
proof -
  let ?id = "swarm_package_specific_id img"
  have route: "request_build (api_art e) Docker ?id s =
      (case verify_package_can_be_added_to_transparency_logs (ae_log (api_art e)) Docker ?id (as_log s) of
         Err x \<Rightarrow> Err (BuildArtifactAlreadyExists (LogMsg x)) | Panic m \<Rightarrow> Panic m | Ok _ \<Rightarrow> Ok build_id)"
    using assms(5,6,7) find_or_last_spec[of nodes "ae_local_peer (api_art e)"]
    by (auto simp: request_build_def unwrap_def split: outcome.splits)
  have reply: "\<exists>r. json_reply st (write_build_response e i m) = Ok r \<and> rp_status r = st \<and>
      write_build_response e i m = Ok (rp_body r)" for st i m
    using assms(8) by (metis json_reply_Ok)
  show ?thesis
  proof (intro conjI impI)
    assume "package_records Docker ?id ls = []"
    then have "verify_package_can_be_added_to_transparency_logs (ae_log (api_art e)) Docker ?id (as_log s) = Ok ()"
      using verify_package_cases[OF assms(1,2,3,4), of Docker] by auto
    then show "\<exists>r. handle_build_docker e img s = Ok r \<and> rp_status r = 200 \<and>
        write_build_response e (Some build_id) None = Ok (rp_body r)"
      using reply[of 200] by (simp add: handle_build_docker_def route build_reply_def
          handle_err_artifact_already_exists_def)
  next
    assume "\<exists>l \<in> set (package_records Docker ?id ls). operation l = AddArtifact \<and>
        (\<forall>l' \<in> set (package_records Docker ?id ls). operation l' = RemoveArtifact \<longrightarrow> timestamp l' < timestamp l)"
    then obtain x where "verify_package_can_be_added_to_transparency_logs (ae_log (api_art e)) Docker ?id (as_log s) = Err x"
      using verify_package_newest_added[OF assms(1,2,3,4)] by blast
    then show "\<exists>r msg. handle_build_docker e img s = Ok r \<and> rp_status r = 302 \<and>
        write_build_response e None (Some msg) = Ok (rp_body r)"
      using reply[of 302 None "Some (RegOf (AnyBuild (BuildArtifactAlreadyExists (LogMsg x))))"]
      by (auto simp: handle_build_docker_def route build_reply_def handle_err_artifact_already_exists_def)
  qed
qed

definition demo_api_env :: api_env where
  "demo_api_env =
     \<lparr>api_art = demo_art_env, api_fresh = demo_fresh, write_json_logs = (\<lambda>_. Ok ''logs''),
      write_csv_logs = (\<lambda>_. Ok ''csv''), write_json_strings = concat,
      write_build_response = (\<lambda>i _. Ok (case i of Some b \<Rightarrow> b | None \<Rightarrow> ''exists'')),
      write_build_status = (\<lambda>_. Ok ''status''), api_list_peers = Ok [], api_status = Ok []\<rparr>"

definition demo_image_log :: TransparencyLog where
  "demo_image_log = (demo_log ''y'' AddArtifact 5)\<lparr>package_type := Some Docker, package_specific_id := ''library/alpine''\<rparr>"

theorem docker_build_request_replies_witness:
  "\<exists>r1 r2. handle_build_docker demo_api_env ''alpine'' (demo_art_state [demo_node_log ''x'' AddNode 7, demo_image_log] [])
       = Ok r1 \<and> rp_status r1 = 302 \<and>
     handle_build_docker demo_api_env ''busybox'' (demo_art_state [demo_node_log ''x'' AddNode 7, demo_image_log] [])
       = Ok r2 \<and> rp_status r2 = 200 \<and> rp_body r2 = ''local''"
proof -
  let ?ls = "[demo_node_log ''x'' AddNode 7, demo_image_log]"
  let ?s = "demo_art_state ?ls []"
  have sel: "log_id demo_image_log = ''y''" "timestamp demo_image_log = 5" "operation demo_image_log = AddArtifact"
      "package_type demo_image_log = Some Docker" "package_specific_id demo_image_log = ''library/alpine''"
    by (simp_all add: demo_image_log_def demo_log_def)
  have st: "stores ?ls (ls_table (as_log ?s))" by (rule demo_art_stores) (simp_all add: log_ok_def sel)
  have env: "log_env_ok (ae_log (api_art demo_api_env))" "ae_local_peer (api_art demo_api_env) = [9]"
      "\<And>pt i. ev_start_build (api_art demo_api_env) pt i = Ok ''local''"
      "\<And>i m. write_build_response demo_api_env i m = Ok (case i of Some b \<Rightarrow> b | None \<Rightarrow> ''exists'')"
      "le_peer (ae_log (api_art demo_api_env)) = demo_peer_text"
    by (simp_all add: demo_api_env_def) (simp_all add: demo_art_env_def demo_log_env_def)
  have "peer_from_str demo_peer_text (peer_to_string demo_peer_text [9]) = Some [9]"
    using demo_peer_text_laws by (simp add: peer_text_laws_def)
  moreover have "node_records ?ls = [demo_node_log ''x'' AddNode 7]" by (simp add: node_records_def sel)
  ultimately obtain ps where ps: "get_authorized_nodes (ae_log (api_art demo_api_env)) (as_log ?s) = Ok ps" "[9] \<in> set ps"
    using authorized_nodes_spec[OF env(1) st] by (auto simp: env(5))
  have ids: "swarm_package_specific_id ''alpine'' = ''library/alpine''"
      "swarm_package_specific_id ''busybox'' = ''library/busybox''"
    by (simp_all add: swarm_package_specific_id_def)
  have recs: "package_records Docker ''library/alpine'' ?ls = [demo_image_log]"
      "package_records Docker ''library/busybox'' ?ls = []"
    by (simp_all add: package_records_def sel)
  have safe: "lit_safe_ids ?ls" "lit_safe ''library/alpine''" "lit_safe ''library/busybox''"
    by (simp_all add: lit_safe_ids_def lit_safe_def sel)
  show ?thesis
    using docker_build_request_replies[OF env(1) st, of "''alpine''" ps "''local''"]
      docker_build_request_replies[OF env(1) st, of "''busybox''" ps "''local''"]
    by (simp add: ids recs safe ps env sel) metis
qed

end
