(* ===== verification/Http_Route_Claims.thy ===== *)
theory Http_Route_Claims
  imports Http_Routes Http_Claims
begin

text \<open>
  Every documented request of the HTTP interface reaches exactly its handler, and every other request
  ends in the error document with status 500. The documented requests are the type \<open>endpoint\<close>.
\<close>

section \<open>The documented interface\<close>

datatype endpoint =
    DockerBase
  | GetManifest string string
  | HeadManifest string string
  | GetBlob string string
  | MavenFile http_method "string list"
  | AuthorizeNode string
  | BuildDockerImage string
  | BuildMavenPackage string
  | BuildStatusOf string
  | ListPeersOf
  | StatusOfNode
  | InspectDockerLog string "TransparencyLogOutputParams option" "bool option"
  | InspectMavenLog string "TransparencyLogOutputParams option" "bool option"

fun endpoint_method :: "endpoint \<Rightarrow> http_method" where
  "endpoint_method DockerBase = GET"
| "endpoint_method (GetManifest n t) = GET"
| "endpoint_method (HeadManifest n t) = HEAD"
| "endpoint_method (GetBlob n d) = GET"
| "endpoint_method (MavenFile m qs) = m"
| "endpoint_method ListPeersOf = GET"
| "endpoint_method StatusOfNode = GET"
| "endpoint_method _ = POST"

fun endpoint_segments :: "endpoint \<Rightarrow> string list" where
  "endpoint_segments DockerBase = [''v2'']"
| "endpoint_segments (GetManifest n t) = [''v2'', ''library'', n, ''manifests'', t]"
| "endpoint_segments (HeadManifest n t) = [''v2'', ''library'', n, ''manifests'', t]"
| "endpoint_segments (GetBlob n d) = [''v2'', ''library'', n, ''blobs'', d]"
| "endpoint_segments (MavenFile m qs) = ''maven2'' # qs"
| "endpoint_segments (AuthorizeNode p) = [''authorized_node'']"
| "endpoint_segments (BuildDockerImage i) = [''build'', ''docker'']"
| "endpoint_segments (BuildMavenPackage g) = [''build'', ''maven'']"
| "endpoint_segments (BuildStatusOf b) = [''build'', ''status'']"
| "endpoint_segments ListPeersOf = [''peers'']"
| "endpoint_segments StatusOfNode = [''status'']"
| "endpoint_segments (InspectDockerLog i ps l) = [''inspect'', ''docker'']"
| "endpoint_segments (InspectMavenLog g ps l) = [''inspect'', ''maven'']"

definition option_member :: "string \<Rightarrow> ('a \<Rightarrow> body_value) \<Rightarrow> 'a option \<Rightarrow> (string \<times> body_value) list" where
  "option_member k f v = [(k, case v of Some x \<Rightarrow> f x | None \<Rightarrow> BodyNull)]"

definition log_body :: "string \<Rightarrow> string \<Rightarrow> TransparencyLogOutputParams option \<Rightarrow> bool option \<Rightarrow> (string \<times> body_value) list" where
  "log_body k i ps l = (k, BodyText i) # option_member ''output_params'' BodyParams ps @ option_member ''latest'' BodyBool l"

fun endpoint_body :: "endpoint \<Rightarrow> (string \<times> body_value) list option" where
  "endpoint_body (AuthorizeNode p) = Some [(''peer_id'', BodyText p)]"
| "endpoint_body (BuildDockerImage i) = Some [(''image'', BodyText i)]"
| "endpoint_body (BuildMavenPackage g) = Some [(''gav'', BodyText g)]"
| "endpoint_body (BuildStatusOf b) = Some [(''build_id'', BodyText b)]"
| "endpoint_body (InspectDockerLog i ps l) = Some (log_body ''image'' i ps l)"
| "endpoint_body (InspectMavenLog g ps l) = Some (log_body ''gav'' g ps l)"
| "endpoint_body _ = None"

definition endpoint_request :: "endpoint \<Rightarrow> nat \<Rightarrow> http_request" where
  "endpoint_request ep n = \<lparr>rq_method = endpoint_method ep, rq_path = path_of (endpoint_segments ep),
     rq_length = Some n, rq_json = endpoint_body ep\<rparr>"

fun endpoint_handler :: "api_env \<Rightarrow> endpoint \<Rightarrow> art_state \<Rightarrow> routed" where
  "endpoint_handler a DockerBase s = (Ok v2_base_reply, s)"
| "endpoint_handler a (GetManifest n t) s = bytes_handler (fetch_manifest_or_build (api_art a) n t s)"
| "endpoint_handler a (HeadManifest n t) s = bytes_handler (fetch_manifest (api_art a) n t s)"
| "endpoint_handler a (GetBlob n d) s = bytes_handler (handle_get_blobs (api_art a) n d s)"
| "endpoint_handler a (MavenFile m qs) s =
     bytes_handler (handle_get_maven_artifact (api_art a) (path_of (''maven2'' # qs)) s)"
| "endpoint_handler a (AuthorizeNode p) s = text_handler (handle_add_authorized_node a p s)"
| "endpoint_handler a (BuildDockerImage i) s = text_handler (handle_build_docker a i s, s)"
| "endpoint_handler a (BuildMavenPackage g) s = text_handler (handle_build_maven a g s, s)"
| "endpoint_handler a (BuildStatusOf b) s = text_handler (handle_build_status a b s, s)"
| "endpoint_handler a ListPeersOf s = text_handler (handle_get_peers a, s)"
| "endpoint_handler a StatusOfNode s = text_handler (handle_get_status a, s)"
| "endpoint_handler a (InspectDockerLog i ps l) s = text_handler (handle_inspect_log_docker a i l ps s, s)"
| "endpoint_handler a (InspectMavenLog g ps l) s = text_handler (handle_inspect_log_maven a g l ps s, s)"

section \<open>Dispatch\<close>

lemma combine_RejOther [simp]: "combine l RejOther = l" "combine RejOther l = l"
  by (cases l; auto)+

lemma or_route_miss: "f rq s = no_match s \<Longrightarrow> or_route f g rq s = g rq s"
  by (auto simp: or_route_def no_match_def split: prod.splits outcome.splits)

lemma or_route_hit: "(\<And>s. g rq s = no_match s) \<Longrightarrow> or_route f g rq s = f rq s"
  by (auto simp: or_route_def no_match_def split: prod.splits outcome.splits)

text \<open>A request by its segments, under the laws of warp.\<close>

definition at_segments :: "warp \<Rightarrow> string list \<Rightarrow> http_request \<Rightarrow> bool" where
  "at_segments w qs rq \<longleftrightarrow> (\<forall>ss. w (Exact ss) (rq_path rq) = segments_match ss qs) \<and>
     (\<forall>l. w (Prefix l) (rq_path rq) = (if hd qs = l then Some [] else None))"

lemma at_path_of:
  assumes "warp_laws w" and "qs \<noteq> []" and "list_all plain_segment qs" and "rq_path rq = path_of qs"
  shows "at_segments w qs rq"
  using assms unfolding warp_laws_def at_segments_def by (cases qs) auto

lemma path_route_at:
  "at_segments w qs rq \<Longrightarrow> path_route w m ss f rq s =
     (case segments_match ss qs of Some ps \<Rightarrow> if rq_method rq = m then f ps s else no_match s | None \<Rightarrow> no_match s)"
  by (simp add: path_route_def at_segments_def)

lemma body_route_at:
  "at_segments w qs rq \<Longrightarrow> body_route w ss dec f rq s =
     (case segments_match ss qs of
        Some ps \<Rightarrow> if rq_method rq = POST \<and> (case rq_length rq of Some n \<Rightarrow> n \<le> 8192 | None \<Rightarrow> False) then
            (case Option.bind (rq_json rq) dec of Some v \<Rightarrow> f v s | None \<Rightarrow> no_match s)
          else no_match s
      | None \<Rightarrow> no_match s)"
  by (auto simp: body_route_def path_route_at split: option.splits)

lemma maven_route_at:
  "at_segments w qs rq \<Longrightarrow> make_maven_routes w e rq s =
     (if hd qs = ''maven2'' then bytes_handler (handle_get_maven_artifact e (rq_path rq) s) else no_match s)"
  by (simp add: make_maven_routes_def at_segments_def)

lemmas route_at = path_route_at body_route_at maven_route_at

lemmas decoders = RequestAddAuthorizedNode_def RequestDockerBuild_def RequestMavenBuild_def
  RequestBuildStatusBody_def RequestDockerLog_def RequestMavenLog_def log_request_def text_member_def
  params_member_def bool_member_def log_body_def option_member_def

text \<open>The three groups of routes, on requests of another group.\<close>

lemma docker_miss:
  assumes "at_segments w qs rq" and "hd qs \<noteq> ''v2''"
  shows "make_docker_routes w e rq s = no_match s"
proof -
  have none: "segments_match (Lit ''v2'' # ss) qs = None" for ss using assms(2) by (cases qs) auto
  show ?thesis unfolding make_docker_routes_def by (simp add: or_route_miss path_route_at[OF assms(1)] none)
qed

lemma node_miss:
  assumes "at_segments w qs rq"
    and "hd qs \<notin> {''authorized_node'', ''build'', ''peers'', ''status'', ''inspect''}"
  shows "make_node_routes w a rq s = no_match s"
proof -
  have none: "segments_match (Lit l # ss) qs = None"
    if "l \<in> {''authorized_node'', ''build'', ''peers'', ''status'', ''inspect''}" for l ss
    using assms(2) that by (cases qs) auto
  show ?thesis unfolding make_node_routes_def
    by (simp add: or_route_miss path_route_at[OF assms(1)] body_route_at[OF assms(1)] none)
qed

lemma only_docker:
  assumes "at_segments w qs rq" and "hd qs = ''v2''"
  shows "all_routes w a rq s = make_docker_routes w (api_art a) rq s"
  unfolding all_routes_def using assms
  by (simp add: or_route_hit node_miss maven_route_at)

lemma only_maven:
  assumes "at_segments w qs rq" and "hd qs = ''maven2''"
  shows "all_routes w a rq s = make_maven_routes w (api_art a) rq s"
  unfolding all_routes_def using assms
  by (simp add: or_route_hit or_route_miss node_miss docker_miss)

lemma only_node:
  assumes "at_segments w qs rq" and "hd qs \<noteq> ''v2''" and "hd qs \<noteq> ''maven2''"
  shows "all_routes w a rq s = make_node_routes w a rq s"
  unfolding all_routes_def using assms
  by (simp add: or_route_miss docker_miss maven_route_at)

lemma endpoint_dispatch:
  assumes "warp_laws w" and "list_all plain_segment (endpoint_segments ep)" and "n \<le> 8192"
  shows "all_routes w a (endpoint_request ep n) s = endpoint_handler a ep s"
proof -
  let ?rq = "endpoint_request ep n"
  have at: "at_segments w (endpoint_segments ep) ?rq"
    using assms(1,2) by (intro at_path_of) (cases ep; simp add: endpoint_request_def)+
  have exact: "w (Exact ss) (path_of (endpoint_segments ep)) = segments_match ss (endpoint_segments ep)" for ss
    using at by (simp add: at_segments_def endpoint_request_def)
  have prefix: "w (Prefix l) (path_of (endpoint_segments ep)) = (if hd (endpoint_segments ep) = l then Some [] else None)" for l
    using at by (simp add: at_segments_def endpoint_request_def)
  note routes = or_route_hit or_route_miss path_route_def body_route_def two_params_def decoders endpoint_request_def
  consider (docker) "hd (endpoint_segments ep) = ''v2''" | (maven) "hd (endpoint_segments ep) = ''maven2''"
    | (node) "hd (endpoint_segments ep) \<noteq> ''v2''" "hd (endpoint_segments ep) \<noteq> ''maven2''" by blast
  then show ?thesis
  proof cases
    case docker
    have "make_docker_routes w (api_art a) ?rq s = endpoint_handler a ep s"
      using docker exact by (cases ep) (simp_all add: make_docker_routes_def routes)
    then show ?thesis using only_docker[OF at docker] by simp
  next
    case maven
    have "make_maven_routes w (api_art a) ?rq s = endpoint_handler a ep s"
      using maven prefix by (cases ep) (simp_all add: make_maven_routes_def endpoint_request_def)
    then show ?thesis using only_maven[OF at maven] by simp
  next
    case node
    have "make_node_routes w a ?rq s = endpoint_handler a ep s"
      using node exact assms(3) by (cases ep) (simp_all add: make_node_routes_def routes split: option.split)
    then show ?thesis using only_node[OF at node] by simp
  qed
qed

text \<open>
  C10: every documented request reaches its handler. For each endpoint of the HTTP interface, with
  names that are single path segments and a body within the limit of 8192 bytes, the server answers
  with exactly the reply of the handler of that endpoint, and its rejection becomes the error document
  of \<^verbatim>\<open>custom_recover\<close>; no other route of the three groups interferes, whatever the handler returns.
\<close>

theorem http_requests_reach_their_handlers:
  assumes "warp_laws w" and "list_all plain_segment (endpoint_segments ep)" and "n \<le> 8192"
  shows "all_routes w a (endpoint_request ep n) s = endpoint_handler a ep s"
  by (rule endpoint_dispatch[OF assms])

section \<open>Witness\<close>

text \<open>Matching by splitting the path at its slashes.\<close>

definition split_warp :: warp where
  "split_warp f p =
     (let qs = tl (split_at (CHR ''/'') p) in
      case f of
        Exact ss \<Rightarrow> segments_match ss qs
      | Prefix l \<Rightarrow> if qs \<noteq> [] \<and> hd qs = l then Some [] else None)"

lemma split_path_of: "split_at (CHR ''/'') (path_of (q # qs)) = [] # split_at (CHR ''/'') (q @ path_of qs)"
  by (simp add: path_of_def)

lemma split_segments: "list_all plain_segment qs \<Longrightarrow> CHR ''/'' \<notin> set q \<Longrightarrow> split_at (CHR ''/'') (q @ path_of qs) = q # qs"
proof (induction qs arbitrary: q)
  case Nil
  then show ?case by (simp add: path_of_def split_at_none)
next
  case (Cons q' qs)
  then show ?case
    using split_at_append[of "CHR ''/''" q "q' @ path_of qs"] by (simp add: path_of_def plain_segment_def)
qed

lemma split_warp_laws: "warp_laws split_warp"
proof -
  have "tl (split_at (CHR ''/'') (path_of qs)) = qs" if "qs \<noteq> []" "list_all plain_segment qs" for qs
    using that split_path_of split_segments by (cases qs) (auto simp: plain_segment_def)
  then show ?thesis by (simp add: warp_laws_def split_warp_def)
qed

theorem http_requests_reach_their_handlers_witness:
  "all_routes split_warp demo_api_env (endpoint_request (GetManifest ''alpine'' ''3.16'') 0) (demo_art_state [] [])
     = endpoint_handler demo_api_env (GetManifest ''alpine'' ''3.16'') (demo_art_state [] [])"
  by (rule http_requests_reach_their_handlers[OF split_warp_laws]) (simp_all add: plain_segment_def)

end
