(* ===== verification/Cli_Claims.thy ===== *)
theory Cli_Claims
  imports Cli_Commands Http_Route_Claims
begin

text \<open>
  What the command line client does: edits keep the stored configuration valid, the dialogue takes the
  first valid answer and never ends without one, and the requests reach the handlers of the node they
  are meant for, except the one for a Maven build.
\<close>

section \<open>Valid configurations\<close>

definition config_ok :: "CliConfig \<Rightarrow> bool" where
  "config_ok cfg \<longleftrightarrow> valid_host_name (cfg_host cfg) = Ok (cfg_host cfg) \<and>
     valid_port (cfg_port cfg) = Ok (cfg_port cfg) \<and>
     valid_disk_space (cfg_disk_allocated cfg) = Ok (cfg_disk_allocated cfg)"

lemma valid_host_name_same: "valid_host_name v = Ok x \<Longrightarrow> x = v \<and> v \<noteq> []"
  by (auto simp: valid_host_name_def valid_hostname_def parse_ipv4_def parse_octet_def split: if_splits)

lemma valid_port_same: "valid_port v = Ok x \<Longrightarrow> x = v \<and> v \<noteq> []"
  by (auto simp: valid_port_def parse_u16_def parse_unsigned_def split: option.splits)

lemma takeWhile_show_nat:
  "takeWhile (\<lambda>c. is_digit c \<or> c = CHR '','' \<or> c = CHR ''.'') (show_nat n @ '' GB'') = show_nat n"
proof -
  have "\<forall>c \<in> set (show_nat n). is_digit c \<or> c = CHR '','' \<or> c = CHR ''.''" using show_nat_digits by blast
  then show ?thesis by (simp add: takeWhile_append2 is_digit_def)
qed

lemma show_nat_no_plus: "show_nat n \<noteq> CHR ''+'' # cs"
  using show_nat_digits[of "CHR ''+''" n] by (auto simp: is_digit_def)

lemma parse_u16_show_nat: "n \<le> 65535 \<Longrightarrow> parse_u16 (show_nat n) = Some n"
proof -
  assume n: "n \<le> 65535"
  have "(case show_nat n of c # cs \<Rightarrow> if c = CHR ''+'' then cs else show_nat n | [] \<Rightarrow> []) = show_nat n"
    using show_nat_no_plus[of n] by (cases "show_nat n") auto
  moreover have "list_all is_digit (show_nat n)" using show_nat_digits by (auto simp: list_all_iff)
  ultimately show ?thesis using n by (simp add: parse_u16_def parse_unsigned_def)
qed

lemma valid_disk_space_canonical:
  "0 < n \<Longrightarrow> n \<le> 4096 \<Longrightarrow> valid_disk_space (show_nat n @ '' GB'') = Ok (show_nat n @ '' GB'')"
  by (simp add: valid_disk_space_def disk_space_captures_def Let_def takeWhile_show_nat parse_u16_show_nat
      is_space_def)

lemma valid_disk_space_idem:
  assumes "valid_disk_space v = Ok x"
  shows "valid_disk_space x = Ok x \<and> x \<noteq> []"
proof -
  obtain n where "x = show_nat n @ '' GB''" "0 < n" "n \<le> 4096"
    using assms
    by (auto simp: valid_disk_space_def disk_space_captures_def Let_def split: option.splits if_splits)
  then show ?thesis using valid_disk_space_canonical by simp
qed

text \<open>A field after an edit, or nothing when the new value is not valid.\<close>

definition edited :: "(string \<Rightarrow> (string, string) outcome) \<Rightarrow> string option \<Rightarrow> string \<Rightarrow> string option" where
  "edited valid new old = (case new of None \<Rightarrow> Some old | Some v \<Rightarrow> (case valid v of Ok x \<Rightarrow> Some x | _ \<Rightarrow> None))"

lemma edit_field_edited:
  "edit_field valid new old = (case edited valid new old of Some x \<Rightarrow> (x, []) | None \<Rightarrow> (old, snd (edit_field valid new old)))"
  "snd (edit_field valid new old) = [] \<longleftrightarrow> edited valid new old \<noteq> None"
  by (auto simp: edit_field_def edited_def split: option.splits outcome.splits)

lemma edited_ok:
  assumes "edited valid new old = Some x" and "valid old = Ok old" and "old \<noteq> []"
    and "\<And>v x. valid v = Ok x \<Longrightarrow> valid x = Ok x \<and> x \<noteq> []"
  shows "valid x = Ok x \<and> x \<noteq> []"
  using assms by (auto simp: edited_def split: option.splits outcome.splits)

lemma config_edit_valid:
  assumes "confy_laws c" and "config_path c = Ok p" and "load_path c p d = (Ok cfg, d0)" and "config_ok cfg"
    and "edited valid_host_name h (cfg_host cfg) = Some x" and "edited valid_port q (cfg_port cfg) = Some y"
    and "edited valid_disk_space k (cfg_disk_allocated cfg) = Some z"
  shows "config_edit c h q k d = store_path c p \<lparr>cfg_host = x, cfg_port = y, cfg_disk_allocated = z\<rparr> d0"
    and "config_ok \<lparr>cfg_host = x, cfg_port = y, cfg_disk_allocated = z\<rparr>"
proof -
  have again: "load_path c p d0 = (Ok cfg, d0)" using assms(1,3) unfolding confy_laws_def by blast
  have ne: "valid_host_name x = Ok x \<and> x \<noteq> []" "valid_port y = Ok y \<and> y \<noteq> []" "valid_disk_space z = Ok z \<and> z \<noteq> []"
    using assms(4) valid_host_name_same valid_port_same valid_disk_space_idem
      edited_ok[OF assms(5)] edited_ok[OF assms(6)] edited_ok[OF assms(7)]
    unfolding config_ok_def by blast+
  then show "config_ok \<lparr>cfg_host = x, cfg_port = y, cfg_disk_allocated = z\<rparr>" by (simp add: config_ok_def)
  show "config_edit c h q k d = store_path c p \<lparr>cfg_host = x, cfg_port = y, cfg_disk_allocated = z\<rparr> d0"
  proof -
    have upd: "cfg\<lparr>cfg_host := x, cfg_port := y, cfg_disk_allocated := z\<rparr> = \<lparr>cfg_host = x, cfg_port = y, cfg_disk_allocated = z\<rparr>"
      by (cases cfg) simp
    show ?thesis using ne again
      by (simp add: config_edit_def get_config_def assms(2,3) edit_field_edited(1) assms(5-7) add_config_def Let_def)
         (simp only: upd)
  qed
qed

text \<open>
  C37: an edit of the configuration is all or nothing and keeps it valid. Starting from a valid
  configuration, an edit in which every new value is valid and which can be stored leaves exactly the
  edited configuration, which is valid again and is what the next command reads; when some new value
  is not valid the edit fails and the stored configuration is as before.
\<close>

theorem config_edit_keeps_config_valid:
  assumes "confy_laws c" and "config_path c = Ok p" and "load_path c p d = (Ok cfg, d0)" and "config_ok cfg"
  shows "(case (edited valid_host_name h (cfg_host cfg), edited valid_port q (cfg_port cfg),
                edited valid_disk_space k (cfg_disk_allocated cfg)) of
       (Some x, Some y, Some z) \<Rightarrow>
         (\<forall>d1. config_edit c h q k d = (Ok (), d1) \<longrightarrow>
            get_config c d1 = (Ok \<lparr>cfg_host = x, cfg_port = y, cfg_disk_allocated = z\<rparr>, d1) \<and>
            config_ok \<lparr>cfg_host = x, cfg_port = y, cfg_disk_allocated = z\<rparr>)
     | _ \<Rightarrow> config_edit c h q k d = (Err ''Invalid pyrsia config'', d0) \<and> get_config c d0 = (Ok cfg, d0))"
proof -
  have again: "load_path c p d0 = (Ok cfg, d0)" using assms(1,3) unfolding confy_laws_def by blast
  have stored: "get_config c d1 = (Ok v, d1)" if "store_path c p v d0 = (Ok (), d1)" for v d1
    using that assms(1,2) by (auto simp: get_config_def confy_laws_def)
  have rejected: "config_edit c h q k d = (Err ''Invalid pyrsia config'', d0)"
    if "edited valid_host_name h (cfg_host cfg) = None \<or> edited valid_port q (cfg_port cfg) = None \<or>
        edited valid_disk_space k (cfg_disk_allocated cfg) = None"
  proof -
    have "snd (edit_field valid_host_name h (cfg_host cfg)) @ snd (edit_field valid_port q (cfg_port cfg)) @
        snd (edit_field valid_disk_space k (cfg_disk_allocated cfg)) \<noteq> []"
      using that by (auto simp: edit_field_edited(2))
    then show ?thesis by (auto simp: config_edit_def get_config_def assms(2,3) split_beta)
  qed
  show ?thesis
    using config_edit_valid[OF assms] stored rejected again
    by (auto simp: get_config_def assms(2) split: option.split)
qed

section \<open>Dialogue\<close>

definition accepted :: "string \<Rightarrow> (string \<Rightarrow> (string, string) outcome) \<Rightarrow> stdin \<Rightarrow> nat \<Rightarrow> string option" where
  "accepted dv valid input i =
     (case input i of
        Some line \<Rightarrow> (case valid (if line = [] then dv else line) of Ok r \<Rightarrow> Some r | _ \<Rightarrow> None)
      | None \<Rightarrow> None)"

lemma read_interactive_step:
  "read_interactive_input dv valid input i =
     (case accepted dv valid input i of Some r \<Rightarrow> Some (r, Suc i) | None \<Rightarrow> read_interactive_input dv valid input (Suc i))"
  by (subst read_interactive_input.simps) (auto simp: accepted_def split: option.split outcome.split)

lemma read_interactive_returns:
  assumes "accepted dv valid input (i + k) = Some r" and "\<forall>j < k. accepted dv valid input (i + j) = None"
  shows "read_interactive_input dv valid input i = Some (r, Suc (i + k))"
  using assms
proof (induction k arbitrary: i)
  case 0
  then show ?case by (subst read_interactive_step) simp
next
  case (Suc k)
  have "accepted dv valid input i = None" using Suc.prems(2) by auto
  moreover have "\<forall>j < k. accepted dv valid input (Suc i + j) = None" using Suc.prems(2) by auto
  ultimately show ?case using Suc.IH[of "Suc i"] Suc.prems(1) by (subst read_interactive_step) simp
qed

lemma read_interactive_only_valid:
  assumes "read_interactive_input dv valid input i = Some y"
  shows "\<exists>k \<ge> i. accepted dv valid input k \<noteq> None"
proof (rule read_interactive_input.raw_induct[OF _ assms,
      where P = "\<lambda>dv valid input i y. \<exists>k \<ge> i. accepted dv valid input k \<noteq> None"])
  fix f :: "string \<Rightarrow> (string \<Rightarrow> (string, string) outcome) \<Rightarrow> stdin \<Rightarrow> nat \<Rightarrow> (string \<times> nat) option"
    and dv :: string and valid :: "string \<Rightarrow> (string, string) outcome" and input :: stdin and i y
  assume IH: "\<And>dv valid input i y. f dv valid input i = Some y \<Longrightarrow> \<exists>k \<ge> i. accepted dv valid input k \<noteq> None"
    and body: "(case input i of None \<Rightarrow> f dv valid input (Suc i)
        | Some line \<Rightarrow> case valid (if line = [] then dv else line) of Ok r \<Rightarrow> Some (r, Suc i) | _ \<Rightarrow> f dv valid input (Suc i))
      = Some y"
  show "\<exists>k \<ge> i. accepted dv valid input k \<noteq> None"
  proof (cases "accepted dv valid input i")
    case None
    then have "f dv valid input (Suc i) = Some y"
      using body by (auto simp: accepted_def split: option.splits outcome.splits if_splits)
    then show ?thesis using IH Suc_leD by blast
  qed auto
qed

lemma config_add_at_end_of_input: "config_add c (\<lambda>_. None) d = None"
proof -
  have "read_interactive_input dv valid (\<lambda>_. None) 0 \<noteq> Some y" for dv valid y
    using read_interactive_only_valid[of dv valid "\<lambda>_. None" 0 y] by (auto simp: accepted_def)
  then have "read_interactive_input (cfg_host CliConfig_default) valid_host_name (\<lambda>_. None) 0 = None" by (metis option.exhaust)
  then show ?thesis by (simp add: config_add_def)
qed

section \<open>Requests\<close>

definition answered_with :: "routed \<Rightarrow> http_answer" where
  "answered_with r =
     (case fst r of
        Ok p \<Rightarrow> Replied p
      | Err rej \<Rightarrow> (case custom_recover rej of (st, m) \<Rightarrow> Recovered st m)
      | Panic _ \<Rightarrow> Dropped)"

lemma serve_http_answer: "fst (serve_http w a rq s) = answered_with (all_routes w a rq s)"
  by (auto simp: serve_http_def answered_with_def split: prod.splits outcome.splits)

text \<open>The connection: a request to the URL of the configuration arrives at the node, with a short body.\<close>

definition node_at :: "cli_env \<Rightarrow> disk \<Rightarrow> warp \<Rightarrow> api_env \<Rightarrow> art_state \<Rightarrow> bool" where
  "node_at e d w a s \<longleftrightarrow>
     (\<forall>m page body. \<exists>n \<le> 8192. cli_send e m (''http://'' @ get_url e d @ page) body
        = Ok (fst (serve_http w a \<lparr>rq_method = m, rq_path = page, rq_length = Some n, rq_json = body\<rparr> s)))"

lemma sent_to_endpoint:
  assumes "warp_laws w" and "node_at e d w a s" and "list_all plain_segment (endpoint_segments ep)"
  shows "cli_send e (endpoint_method ep) (''http://'' @ get_url e d @ path_of (endpoint_segments ep)) (endpoint_body ep)
    = Ok (answered_with (endpoint_handler a ep s))"
proof -
  obtain n where n: "n \<le> 8192"
    "cli_send e (endpoint_method ep) (''http://'' @ get_url e d @ path_of (endpoint_segments ep)) (endpoint_body ep)
      = Ok (fst (serve_http w a (endpoint_request ep n) s))"
    using assms(2) unfolding node_at_def endpoint_request_def by blast
  have "all_routes w a (endpoint_request ep n) s = endpoint_handler a ep s"
    by (rule endpoint_dispatch[OF assms(1,3) n(1)])
  then show ?thesis using n(2) by (simp add: serve_http_answer)
qed

text \<open>What the body of a Maven build does at the Docker route: it has no image, so no route takes it.\<close>

lemma maven_body_at_docker_route:
  assumes "warp_laws w" and "n \<le> 8192"
  shows "all_routes w a \<lparr>rq_method = POST, rq_path = path_of [''build'', ''docker''], rq_length = Some n,
      rq_json = Some [(''gav'', BodyText gav)]\<rparr> s = no_match s"
proof -
  let ?rq = "\<lparr>rq_method = POST, rq_path = path_of [''build'', ''docker''], rq_length = Some n,
      rq_json = Some [(''gav'', BodyText gav)]\<rparr>"
  have at: "at_segments w [''build'', ''docker''] ?rq"
    using assms(1) by (intro at_path_of) (simp_all add: plain_segment_def)
  show ?thesis
    using only_node[OF at] assms(2)
    by (simp add: make_node_routes_def or_route_miss path_route_at[OF at] body_route_at[OF at]
        RequestDockerBuild_def text_member_def)
qed

definition client_view :: "api_env \<Rightarrow> endpoint \<Rightarrow> art_state \<Rightarrow> (bytes reply, cli_error) outcome" where
  "client_view a ep s = error_for_status_with_body (answered_with (endpoint_handler a ep s))"

lemma posted_to_endpoint:
  assumes "warp_laws w" and "node_at e d w a s" and "list_all plain_segment (endpoint_segments ep)"
    and "endpoint_method ep = POST" and "endpoint_body ep = Some body" and "page = path_of (endpoint_segments ep)"
  shows "post_request e d page body = client_view a ep s"
  using sent_to_endpoint[OF assms(1-3)] by (simp add: post_request_def client_view_def assms(4-6))

text \<open>
  The commands of the client do what their names say on the node that is configured, with one
  exception. Authorising a node, a Docker build, the status of a build, and reading the log of an image
  or a package get exactly what the handler for them answers; errors arrive with the status and the
  message of the error document. A Maven build is sent to the route of Docker builds, where its body
  does not fit: whatever the coordinates are, no build is requested and the client reports status 500.
\<close>

lemma cli_requests_reach_their_handlers:
  assumes "warp_laws w" and "node_at e d w a s"
  shows "cli_add_authorized_node e d peer = map_ok (\<lambda>_. ()) (client_view a (AuthorizeNode peer) s) \<and>
    cli_request_docker_build e d img = rbind (client_view a (BuildDockerImage img) s)
      (\<lambda>p. ok_or BodyError (read_build_result e (rp_body p))) \<and>
    cli_request_build_status e d build_id = rbind (client_view a (BuildStatusOf build_id) s)
      (\<lambda>p. ok_or BodyError (read_build_status e (rp_body p))) \<and>
    cli_inspect_docker_transparency_log e d img params latest =
      map_ok rp_body (client_view a (InspectDockerLog img params latest) s) \<and>
    cli_inspect_maven_transparency_log e d gav params latest =
      map_ok rp_body (client_view a (InspectMavenLog gav params latest) s) \<and>
    cli_ping e d = Ok (Replied v2_base_reply) \<and>
    cli_request_maven_build e d gav = Err (HttpStatusError 500 (RegText []))"
proof (intro conjI)
  note post = posted_to_endpoint[OF assms]
  have logs: "log_members k i params latest = log_body k i params latest" for k i
    by (simp add: log_members_def log_body_def option_member_def)
  have "post_request e d ''/authorized_node'' [(''peer_id'', BodyText peer)] = client_view a (AuthorizeNode peer) s"
    by (rule post) (simp_all add: plain_segment_def path_of_def)
  then show "cli_add_authorized_node e d peer = map_ok (\<lambda>_. ()) (client_view a (AuthorizeNode peer) s)"
    by (cases "client_view a (AuthorizeNode peer) s")
       (simp_all add: cli_add_authorized_node_def post_and_parse_result_as_text_def)
  have "post_request e d ''/build/docker'' [(''image'', BodyText img)] = client_view a (BuildDockerImage img) s"
    by (rule post) (simp_all add: plain_segment_def path_of_def)
  then show "cli_request_docker_build e d img = rbind (client_view a (BuildDockerImage img) s)
      (\<lambda>p. ok_or BodyError (read_build_result e (rp_body p)))"
    by (simp add: cli_request_docker_build_def post_and_parse_json_result_def)
  have "post_request e d ''/build/status'' [(''build_id'', BodyText build_id)] = client_view a (BuildStatusOf build_id) s"
    by (rule post) (simp_all add: plain_segment_def path_of_def)
  then show "cli_request_build_status e d build_id = rbind (client_view a (BuildStatusOf build_id) s)
      (\<lambda>p. ok_or BodyError (read_build_status e (rp_body p)))"
    by (simp add: cli_request_build_status_def post_and_parse_json_result_def)
  have "post_request e d ''/inspect/docker'' (log_members ''image'' img params latest)
      = client_view a (InspectDockerLog img params latest) s"
    by (rule post) (simp_all add: plain_segment_def path_of_def logs)
  then show "cli_inspect_docker_transparency_log e d img params latest =
      map_ok rp_body (client_view a (InspectDockerLog img params latest) s)"
    by (simp add: cli_inspect_docker_transparency_log_def post_and_parse_result_as_text_def)
  have "post_request e d ''/inspect/maven'' (log_members ''gav'' gav params latest)
      = client_view a (InspectMavenLog gav params latest) s"
    by (rule post) (simp_all add: plain_segment_def path_of_def logs)
  then show "cli_inspect_maven_transparency_log e d gav params latest =
      map_ok rp_body (client_view a (InspectMavenLog gav params latest) s)"
    by (simp add: cli_inspect_maven_transparency_log_def post_and_parse_result_as_text_def)
  show "cli_ping e d = Ok (Replied v2_base_reply)"
    using sent_to_endpoint[OF assms, of DockerBase]
    by (simp add: cli_ping_def get_text_def answered_with_def plain_segment_def path_of_def)
  obtain n where "n \<le> 8192" "cli_send e POST (''http://'' @ get_url e d @ ''/build/docker'') (Some [(''gav'', BodyText gav)])
      = Ok (fst (serve_http w a \<lparr>rq_method = POST, rq_path = path_of [''build'', ''docker''], rq_length = Some n,
          rq_json = Some [(''gav'', BodyText gav)]\<rparr> s))"
    using assms(2) unfolding node_at_def by (fastforce simp: path_of_def)
  then show "cli_request_maven_build e d gav = Err (HttpStatusError 500 (RegText []))"
    by (simp add: cli_request_maven_build_def post_and_parse_json_result_def post_request_def serve_http_answer
        maven_body_at_docker_route[OF assms(1)] answered_with_def no_match_def custom_recover_def
        error_for_status_with_body_def)
qed

section \<open>Witnesses\<close>

text \<open>A configuration file of three lines.\<close>

definition config_lines :: "CliConfig \<Rightarrow> bytes" where
  "config_lines cfg = as_bytes (cfg_host cfg @ CHR 0x0A # cfg_port cfg @ CHR 0x0A # cfg_disk_allocated cfg)"

definition lines_config :: "bytes \<Rightarrow> CliConfig option" where
  "lines_config bs =
     (case split_at (CHR 0x0A) (of_bytes bs) of
        [h, p, k] \<Rightarrow> Some \<lparr>cfg_host = h, cfg_port = p, cfg_disk_allocated = k\<rparr> | _ \<Rightarrow> None)"

definition demo_confy :: confy where
  "demo_confy =
     \<lparr>config_path = Ok [''pyrsia-cli''],
      load_path = (\<lambda>p d. case map_of d p of
          None \<Rightarrow> (Ok CliConfig_default, AList.update p (config_lines CliConfig_default) d)
        | Some bs \<Rightarrow> (case lines_config bs of Some cfg \<Rightarrow> (Ok cfg, d) | None \<Rightarrow> (Err ''format'', d))),
      store_path = (\<lambda>p cfg d. if lines_config (config_lines cfg) = Some cfg
          then (Ok (), AList.update p (config_lines cfg) d) else (Err ''format'', d)),
      remove_file = (\<lambda>p d. (Ok (), AList.delete p d))\<rparr>"

lemma demo_config_lines: "lines_config (config_lines CliConfig_default) = Some CliConfig_default"
  by (simp add: lines_config_def config_lines_def CliConfig_default_def)

lemma demo_confy_laws: "confy_laws demo_confy"
  by (auto simp: confy_laws_def demo_confy_def update_conv' demo_config_lines split: option.splits if_splits)

lemma default_config_ok: "config_ok CliConfig_default"
proof -
  have "show_nat 10 = ''10''" by code_simp
  then have "valid_disk_space ''10 GB'' = Ok ''10 GB''" using valid_disk_space_canonical[of 10] by simp
  then show ?thesis
    by (simp add: config_ok_def CliConfig_default_def valid_host_name_def valid_hostname_def host_label_def
        is_alnum_def is_digit_def valid_port_def parse_u16_def parse_unsigned_def read_digits_def digit_val_def)
qed

theorem config_edit_keeps_config_valid_witness:
  "config_edit demo_confy None (Some ''99999'') None [] = (Err ''Invalid pyrsia config'',
      [([''pyrsia-cli''], config_lines CliConfig_default)])"
proof -
  have load: "load_path demo_confy [''pyrsia-cli''] [] = (Ok CliConfig_default, [([''pyrsia-cli''], config_lines CliConfig_default)])"
    by (simp add: demo_confy_def)
  have path: "config_path demo_confy = Ok [''pyrsia-cli'']" by (simp add: demo_confy_def)
  have "edited valid_port (Some ''99999'') (cfg_port CliConfig_default) = None"
    by (simp add: edited_def valid_port_def parse_u16_def parse_unsigned_def read_digits_def digit_val_def is_digit_def)
  then show ?thesis
    using config_edit_keeps_config_valid[OF demo_confy_laws path load default_config_ok, of None "Some ''99999''" None]
    by (auto split: option.splits)
qed

definition demo_cli_env :: cli_env where
  "demo_cli_env =
     \<lparr>cli_confy = demo_confy,
      cli_send = (\<lambda>m url body. Ok (fst (serve_http split_warp demo_api_env
         \<lparr>rq_method = m, rq_path = drop 21 url, rq_length = Some 0, rq_json = body\<rparr> (demo_art_state [] [])))),
      read_build_result = (\<lambda>_. None), read_build_status = (\<lambda>_. None), read_status = (\<lambda>_. None)\<rparr>"

lemma demo_node_at: "node_at demo_cli_env [] split_warp demo_api_env (demo_art_state [] [])"
proof -
  have "get_url demo_cli_env [] = ''localhost:7888''"
    by (simp add: get_url_def get_config_def demo_cli_env_def demo_confy_def CliConfig_default_def)
  then show ?thesis by (auto simp: node_at_def demo_cli_env_def)
qed

end
