(* ===== verification/Cli_Main_Claims.thy ===== *)
theory Cli_Main_Claims
  imports Cli_Main Cli_Claims
begin

text \<open>
  What a run of the \<^verbatim>\<open>pyrsia\<close> program does: every command line the parser accepts is carried out to its end, with
  two exceptions, and the lines it prints say what the node did, with two exceptions again.
\<close>

section \<open>Runs that end\<close>

text \<open>The libraries return: confy and reqwest give values or errors, and the path of the file is UTF-8.\<close>

definition libraries_ok :: "cli_env \<Rightarrow> terminal \<Rightarrow> bool" where
  "libraries_ok e t \<longleftrightarrow>
     (\<forall>m url body. \<not> is_panic (cli_send e m url body)) \<and> \<not> is_panic (config_path (cli_confy e)) \<and>
     (\<forall>p d. \<not> is_panic (fst (load_path (cli_confy e) p d))) \<and>
     (\<forall>p cfg d. \<not> is_panic (fst (store_path (cli_confy e) p cfg d))) \<and>
     (\<forall>p d. \<not> is_panic (fst (remove_file (cli_confy e) p d))) \<and>
     (\<forall>p. config_path (cli_confy e) = Ok p \<longrightarrow> term_path t p \<noteq> None)"

lemma is_panic_fst_sbind:
  "is_panic (fst (sbind m f)) \<longleftrightarrow> is_panic (fst m) \<or> (\<exists>x. fst m = Ok x \<and> is_panic (fst (f x (snd m))))"
  by (cases m; cases "fst m") auto

lemma is_panic_ok_or [simp]: "\<not> is_panic (ok_or x v)"
  by (cases v) (simp_all add: ok_or_def)

lemma is_panic_error_for_status [simp]: "\<not> is_panic (error_for_status_with_body ans)"
  by (auto simp: error_for_status_with_body_def split: http_answer.splits)

lemma calls_quiet:
  assumes "libraries_ok e t"
  shows "\<not> is_panic (post_request e d page body)" "\<not> is_panic (get_text e d page)"
    "\<not> is_panic (cli_status e d)" "\<not> is_panic (post_and_parse_json_result dec e d page body)"
  using assms
  by (auto simp: libraries_ok_def post_request_def get_text_def cli_status_def post_and_parse_json_result_def is_panic_rbind
      split: http_answer.splits)

lemma config_quiet:
  assumes "libraries_ok e t"
  shows "\<not> is_panic (fst (get_config (cli_confy e) d))" "\<not> is_panic (fst (add_config (cli_confy e) cfg d))"
    "\<not> is_panic (fst (config_remove (cli_confy e) d))" "\<not> is_panic (fst (config_edit (cli_confy e) h p k d))"
proof -
  show get: "\<not> is_panic (fst (get_config (cli_confy e) d))" for d
    using assms by (auto simp: libraries_ok_def get_config_def is_panic_fst_sbind)
  show add: "\<not> is_panic (fst (add_config (cli_confy e) cfg d))" for cfg d
    using assms by (auto simp: libraries_ok_def add_config_def is_panic_fst_sbind Let_def)
  show "\<not> is_panic (fst (config_remove (cli_confy e) d))"
    using assms by (auto simp: libraries_ok_def config_remove_def is_panic_fst_sbind)
  show "\<not> is_panic (fst (config_edit (cli_confy e) h p k d))"
    using get add by (auto simp: config_edit_def is_panic_fst_sbind split_beta)
qed

text \<open>How a run ends, and that the pieces of a run end well.\<close>

definition ends_well :: "cli_run \<Rightarrow> bool" where
  "ends_well r \<longleftrightarrow> fst (snd r) = Ok ()"

lemma report_ends: "\<not> is_panic r \<Longrightarrow> ends_well (report e d r good bad)"
  by (cases r) (simp_all add: report_def ends_well_def Let_def)

lemma report_config_ends: "\<not> is_panic (fst r) \<Longrightarrow> ends_well (report_config good bad r)"
  by (cases r; cases "fst r") (simp_all add: report_config_def ends_well_def)

lemma config_show_ends: "libraries_ok e t \<Longrightarrow> ends_well (config_show (cli_confy e) t d)"
  using config_quiet(1)[of e t d]
  by (cases "config_path (cli_confy e)"; cases "get_config (cli_confy e) d"; cases "fst (get_config (cli_confy e) d)")
     (auto simp: config_show_def ends_well_def libraries_ok_def)

lemmas request_defs = authorize_def request_docker_build_def request_maven_build_def request_build_status_def
  handle_request_build_result_def node_ping_def cli_node_status_def node_list_def

lemmas call_defs = cli_add_authorized_node_def cli_request_docker_build_def cli_request_maven_build_def
  cli_request_build_status_def cli_ping_def cli_peers_connected_def post_and_parse_result_as_text_def

lemma requests_end:
  assumes "libraries_ok e t"
  shows "ends_well (authorize e t x d)" "ends_well (request_docker_build e t x d)"
    "ends_well (request_maven_build e t x d)" "ends_well (request_build_status e t x d)"
    "ends_well (node_ping e t d)" "ends_well (cli_node_status e t d)" "ends_well (node_list e t d)"
  unfolding request_defs by (rule report_ends; simp add: call_defs calls_quiet[OF assms])+

lemma and_then_Some:
  assumes "r = Some v" and "ends_well v"
  shows "and_then r f = map_option (\<lambda>(qs, rest). (fst v @ qs, rest)) (f (snd (snd v)))"
  using assms by (cases v) (auto simp: and_then_def ends_well_def)

section \<open>Command lines the parser accepts\<close>

definition dialogue_command :: "ArgMatches \<Rightarrow> bool" where
  "dialogue_command m \<longleftrightarrow> (\<exists>cm em. am_subcommand m = Some (''config'', cm) \<and> am_subcommand cm = Some (''edit'', em) \<and>
     get_one em ''host'' = None \<and> get_one em ''port'' = None \<and> get_one em ''diskspace'' = None)"

definition json_requested :: "ArgMatches \<Rightarrow> bool" where
  "json_requested m \<longleftrightarrow> (\<exists>sm n im. am_subcommand m = Some (''inspect-log'', sm) \<and> am_subcommand sm = Some (n, im) \<and>
     get_one im ''format'' = Some ''json'')"

definition node_sent_log :: "cli_env \<Rightarrow> disk \<Rightarrow> bytes \<Rightarrow> bool" where
  "node_sent_log e d logs \<longleftrightarrow> (\<exists>i params latest.
     cli_inspect_docker_transparency_log e d i params latest = Ok logs \<or>
     cli_inspect_maven_transparency_log e d i params latest = Ok logs)"

lemma only_option_given:
  assumes "matches_fit (Command n sh [option_arg i] [] False True) m"
  shows "get_one m i \<noteq> None"
  using assms by (cases "am_given m") (auto simp: option_arg_def split: option.splits)

lemma inspect_args_fit:
  assumes "matches_fit (Command n sh (inspect_args i) [] False True) m"
  shows "get_one m i \<noteq> None" "get_one m ''format'' \<in> {Some ''json'', Some ''csv''}"
  using assms by (auto simp: inspect_args_def option_arg_def split: option.splits)

lemma subcommand_fits:
  assumes "matches_fit (Command nm sh [] subs sr True) m"
  obtains n sm c where "am_subcommand m = Some (n, sm)" "c \<in> set subs" "cd_name c = n" "matches_fit c sm"
proof (cases "am_subcommand m")
  case None
  then show thesis using assms by (cases "am_given m") auto
qed (use assms that in \<open>auto simp: list_ex_iff\<close>)

definition one_of_args :: "string \<Rightarrow> (string \<times> string) list \<Rightarrow> ArgMatches \<Rightarrow> bool" where
  "one_of_args n table m \<longleftrightarrow> (\<exists>i. (n, i) \<in> set table \<and> get_one m i \<noteq> None)"

lemma parser_accepts:
  assumes "matches_fit cli_parser m"
  obtains (config) cm where "am_subcommand m = Some (''config'', cm)"
  | (authorize) sm where "am_subcommand m = Some (''authorize'', sm)" "get_one sm ''peer'' \<noteq> None"
  | (build) sm n bm where "am_subcommand m = Some (''build'', sm)" "am_subcommand sm = Some (n, bm)"
      "one_of_args n [(''docker'', ''image''), (''maven'', ''gav''), (''status'', ''id'')] bm"
  | (inspect) sm n im where "am_subcommand m = Some (''inspect-log'', sm)" "am_subcommand sm = Some (n, im)"
      "one_of_args n [(''docker'', ''image''), (''maven'', ''gav'')] im"
      "get_one im ''format'' \<in> {Some ''json'', Some ''csv''}"
  | (plain) n sm where "am_subcommand m = Some (n, sm)" "n \<in> {''list'', ''ping'', ''status''}"
proof -
  note only = only_option_given inspect_args_fit
  from assms obtain n sm c where sub: "am_subcommand m = Some (n, sm)" "cd_name c = n" "matches_fit c sm"
    and c: "c \<in> set (case cli_parser of Command _ _ _ subs _ _ \<Rightarrow> subs)"
    unfolding cli_parser_def command_decl.case by (rule subcommand_fits)
  consider "n = ''config''" | "n = ''authorize''" "get_one sm ''peer'' \<noteq> None" | "n \<in> {''list'', ''ping'', ''status''}"
    | "n = ''build''" "matches_fit (Command n (Some CHR ''b'') []
          [Command ''docker'' None [option_arg ''image''] [] False True,
           Command ''maven'' None [option_arg ''gav''] [] False True,
           Command ''status'' None [option_arg ''id''] [] False True] True True) sm"
    | "n = ''inspect-log''" "matches_fit (Command n None []
          [Command ''docker'' None (inspect_args ''image'') [] False True,
           Command ''maven'' None (inspect_args ''gav'') [] False True] True True) sm"
    using c sub(2,3) only(1) by (auto simp: cli_parser_def simp del: matches_fit.simps)
  then show thesis
  proof cases
    case 4
    from 4(2) show thesis
      by (rule subcommand_fits)
         (use 4(1) sub(1) build only(1) in \<open>auto simp: one_of_args_def simp del: matches_fit.simps\<close>)
  next
    case 5
    from 5(2) show thesis
      by (rule subcommand_fits)
         (use 5(1) sub(1) inspect only(2,3) in \<open>auto simp: one_of_args_def simp del: matches_fit.simps\<close>)
  qed (use sub config authorize plain in auto)
qed

section \<open>Every accepted command line is carried out\<close>

lemma config_add_quiet:
  "libraries_ok e t \<Longrightarrow> config_add (cli_confy e) input d = Some r \<Longrightarrow> \<not> is_panic (fst r)"
  by (auto simp: config_add_def config_quiet bind_eq_Some_conv)

lemma config_edit_command_end:
  assumes "libraries_ok e t"
  shows "config_edit_command e input m d = None \<longleftrightarrow> config_add (cli_confy e) input d = None \<and>
      get_one m ''host'' = None \<and> get_one m ''port'' = None \<and> get_one m ''diskspace'' = None"
    and "config_edit_command e input m d = Some r \<Longrightarrow> ends_well r"
proof -
  show "config_edit_command e input m d = None \<longleftrightarrow> config_add (cli_confy e) input d = None \<and>
      get_one m ''host'' = None \<and> get_one m ''port'' = None \<and> get_one m ''diskspace'' = None"
    by (auto simp: config_edit_command_def Let_def split_beta)
  assume r: "config_edit_command e input m d = Some r"
  have saved: "ends_well (report_config good bad (config_edit (cli_confy e) h p k d))" for good bad h p k
    by (rule report_config_ends) (rule config_quiet[OF assms])
  have added: "ends_well (report_config good bad v)" if "config_add (cli_confy e) input d = Some v" for good bad v
    using config_add_quiet[OF assms that] by (rule report_config_ends)
  show "ends_well r"
    using r saved added
    by (auto simp: config_edit_command_def Let_def split_beta ends_well_def split: if_splits)
qed

lemma config_command_end:
  assumes "libraries_ok e t" and "am_subcommand m = Some (''config'', cm)"
  shows "config_command e t input cm d = None \<longleftrightarrow> dialogue_command m \<and> config_add (cli_confy e) input d = None"
    and "config_command e t input cm d = Some r \<Longrightarrow> ends_well r"
proof -
  define first where "first = (case am_subcommand cm of
      Some (n, edit) \<Rightarrow> if n = ''edit'' then config_edit_command e input edit d else Some ([], Ok (), d)
    | None \<Rightarrow> Some ([], Ok (), d))"
  have hang: "first = None \<longleftrightarrow> dialogue_command m \<and> config_add (cli_confy e) input d = None"
    using assms config_edit_command_end(1)[OF assms(1)]
    by (auto simp: first_def dialogue_command_def split: option.splits)
  have well: "ends_well v" if "first = Some v" for v
    using that config_edit_command_end(2)[OF assms(1)]
    by (cases v) (auto simp: first_def ends_well_def split: option.splits if_splits)
  have skip: "ends_well ([], Ok (), d)" for d by (simp add: ends_well_def)
  have removed: "ends_well (report_config good bad (config_remove (cli_confy e) d))" for good bad d
    by (rule report_config_ends) (rule config_quiet[OF assms(1)])
  have rest: "\<exists>v. (if get_flag cm ''remove'' = Some True
        then Some (report_config good bad (config_remove (cli_confy e) d)) else Some ([], Ok (), d)) = Some v \<and> ends_well v"
    for good bad d using removed skip by (simp del: split_paired_Ex)
  have shown: "\<exists>v. (if get_flag cm ''show'' = Some True then Some (config_show (cli_confy e) t d)
        else Some ([], Ok (), d)) = Some v \<and> ends_well v" for d
    using config_show_ends[OF assms(1)] skip by (simp del: split_paired_Ex)
  have tail: "\<exists>v. config_command e t input cm d = Some v \<and> ends_well v" if "first = Some u" for u
  proof -
    let ?r = "\<lambda>d. if get_flag cm ''remove'' = Some True
        then Some (report_config ''Node configuration removed !!'' ''Error removing node configuration: ''
               (config_remove (cli_confy e) d)) else Some ([], Ok (), d)"
    obtain v where v: "?r (snd (snd u)) = Some v" "ends_well v" using rest by blast
    obtain w where w: "(if get_flag cm ''show'' = Some True then Some (config_show (cli_confy e) t (snd (snd v)))
        else Some ([], Ok (), snd (snd v))) = Some w" "ends_well w" using shown by blast
    show ?thesis
      using w(2) unfolding config_command_def first_def[symmetric]
      by (simp only: and_then_Some[OF that well[OF that]] and_then_Some[OF v] w(1))
         (auto simp: ends_well_def split_beta)
  qed
  have none: "config_command e t input cm d = None" if "first = None"
    using that unfolding config_command_def first_def[symmetric] by (simp add: and_then_def)
  show "config_command e t input cm d = None \<longleftrightarrow> dialogue_command m \<and> config_add (cli_confy e) input d = None"
    using hang tail none by (cases first) auto
  show "config_command e t input cm d = Some r \<Longrightarrow> ends_well r"
    using tail none by (cases first) auto
qed

lemma show_logs_end:
  assumes "fmt \<in> {Some ''json'', Some ''csv''}" and "\<And>params. \<not> is_panic (req params)"
  shows "ends_well (show_logs e t fmt flds req d) \<or>
    (\<exists>p. fst (snd (show_logs e t fmt flds req d)) = Panic p) \<and> fmt = Some ''json'' \<and>
      (\<exists>params logs. req params = Ok logs \<and> term_json t (of_bytes logs) = None)"
proof (cases "parse_arg_fields flds")
  case (Ok content)
  obtain ct where ct: "ContentType_from fmt = Ok ct" "ct = JSON \<longleftrightarrow> fmt = Some ''json''"
    using assms(1) by (auto simp: ContentType_from_def ContentType_from_str_def)
  let ?p = "Some \<lparr>op_format = Some ct, op_content = content\<rparr>"
  show ?thesis
    using assms(2)[of ?p] ct Ok
    by (cases "req ?p"; cases ct)
       (auto simp: show_logs_def inspect_transparency_log_def report_def ends_well_def print_logs_def Let_def
         split: option.split)
next
  case (Err x)
  then show ?thesis
    using assms(1)
    by (auto simp: show_logs_def inspect_transparency_log_def ends_well_def ContentType_from_def ContentType_from_str_def)
next
  case (Panic x)
  have "\<not> is_panic (parse_arg_names ns)" for ns
    by (induction ns) (auto simp: is_panic_rbind TransparencyLogField_from_str_def Let_def)
  then have "\<not> is_panic (parse_arg_fields flds)" by (auto simp: parse_arg_fields_def split: option.splits)
  then show ?thesis using Panic by simp
qed

lemma inspect_command_end:
  assumes "libraries_ok e t" and "am_subcommand sm = Some (n, im)"
    and "one_of_args n [(''docker'', ''image''), (''maven'', ''gav'')] im"
    and "get_one im ''format'' \<in> {Some ''json'', Some ''csv''}"
  shows "ends_well (inspect_command e t sm d) \<or>
    (\<exists>p. fst (snd (inspect_command e t sm d)) = Panic p) \<and> get_one im ''format'' = Some ''json'' \<and>
      (\<exists>logs. node_sent_log e d logs \<and> term_json t (of_bytes logs) = None)"
proof -
  have quiet: "\<not> is_panic (cli_inspect_docker_transparency_log e d i params latest)"
    "\<not> is_panic (cli_inspect_maven_transparency_log e d i params latest)" for i params latest
    using calls_quiet(1)[OF assms(1)]
    by (simp_all add: cli_inspect_docker_transparency_log_def cli_inspect_maven_transparency_log_def
        post_and_parse_result_as_text_def)
  consider i where "n = ''docker''" "get_one im ''image'' = Some i" | i where "n = ''maven''" "get_one im ''gav'' = Some i"
    using assms(3) by (auto simp: one_of_args_def)
  then show ?thesis
  proof cases
    case 1
    then have run: "inspect_command e t sm d =
        show_docker_log e t i (get_one im ''format'') (get_one im ''fields'') (get_flag im ''latest'') d"
      by (simp add: inspect_command_def assms(2) with_arg_def)
    show ?thesis
      using show_logs_end[OF assms(4), of "\<lambda>params. cli_inspect_docker_transparency_log e d i params (get_flag im ''latest'')"
          e t "get_one im ''fields''" d] quiet(1)
      unfolding run show_docker_log_def node_sent_log_def by blast
  next
    case 2
    then have run: "inspect_command e t sm d =
        show_maven_log e t i (get_one im ''format'') (get_one im ''fields'') (get_flag im ''latest'') d"
      by (simp add: inspect_command_def assms(2) with_arg_def)
    show ?thesis
      using show_logs_end[OF assms(4), of "\<lambda>params. cli_inspect_maven_transparency_log e d i params (get_flag im ''latest'')"
          e t "get_one im ''fields''" d] quiet(2)
      unfolding run show_maven_log_def node_sent_log_def by blast
  qed
qed

lemma run_ends: "run = Some v \<Longrightarrow> ends_well v \<Longrightarrow> \<not> D \<Longrightarrow> (run = None \<longleftrightarrow> D \<and> X) \<and> (run = Some r \<longrightarrow> ends_well r \<or> Y)"
  by auto

lemma cli_main_end:
  assumes "matches_fit cli_parser m" and "libraries_ok e t"
  shows "cli_main e t input m d = None \<longleftrightarrow> dialogue_command m \<and> config_add (cli_confy e) input d = None" (is ?hangs)
    and "cli_main e t input m d = Some r \<Longrightarrow> ends_well r \<or> (\<exists>p. fst (snd r) = Panic p) \<and> json_requested m \<and>
      (\<exists>logs. node_sent_log e d logs \<and> term_json t (of_bytes logs) = None)" (is "_ \<Longrightarrow> ?ends")
proof -
  note ends = requests_end[OF assms(2)]
  have "?hangs \<and> (cli_main e t input m d = Some r \<longrightarrow> ?ends)"
    using assms(1)
  proof (cases rule: parser_accepts)
    case (config cm)
    then show ?thesis using config_command_end[OF assms(2) config] by (auto simp: cli_main_def)
  next
    case (inspect sm n im)
    then show ?thesis
      using inspect_command_end[OF assms(2) inspect(2-4), of d]
      by (auto simp: cli_main_def dialogue_command_def json_requested_def)
  next
    case (build sm n bm)
    then have "ends_well (build_command e t sm d)"
      using ends by (auto simp: build_command_def one_of_args_def with_arg_def)
    then show ?thesis using build(1) by (auto simp: cli_main_def dialogue_command_def)
  next
    case (authorize sm)
    then have "cli_main e t input m d = Some (with_arg sm ''peer'' (authorize e t) d)" "\<not> dialogue_command m"
      by (simp_all add: cli_main_def dialogue_command_def)
    moreover have "ends_well (with_arg sm ''peer'' (authorize e t) d)"
      using authorize(2) ends(1) by (auto simp: with_arg_def)
    ultimately show ?thesis using run_ends by blast
  next
    case (plain n sm)
    then have "cli_main e t input m d \<in> {Some (node_list e t d), Some (node_ping e t d), Some (cli_node_status e t d)}"
      "\<not> dialogue_command m"
      by (auto simp: cli_main_def dialogue_command_def)
    with ends(5-7) show ?thesis using run_ends by blast
  qed
  then show ?hangs and "cli_main e t input m d = Some r \<Longrightarrow> ?ends" by blast+
qed

text \<open>With an empty line still to come, each question takes its default.\<close>

lemma dialogue_takes_default:
  assumes "valid dv = Ok dv" and "\<forall>n. \<exists>k \<ge> n. input k = Some []"
  shows "\<exists>r j. read_interactive_input dv valid input i = Some (r, j)"
proof -
  obtain k where "i \<le> k" "input k = Some []" using assms(2) by blast
  then have "accepted dv valid input (i + (k - i)) \<noteq> None" using assms(1) by (simp add: accepted_def)
  then obtain k' where "accepted dv valid input (i + k') \<noteq> None" "\<forall>j < k'. accepted dv valid input (i + j) = None"
    using exists_least_iff[of "\<lambda>k. accepted dv valid input (i + k) \<noteq> None"] by blast
  then show ?thesis using read_interactive_returns by blast
qed

lemma config_add_with_defaults:
  assumes "\<forall>n. \<exists>k \<ge> n. input k = Some []"
  shows "config_add c input d \<noteq> None"
proof -
  have ok: "config_ok CliConfig_default" by (rule default_config_ok)
  obtain h i where 1: "read_interactive_input (cfg_host CliConfig_default) valid_host_name input 0 = Some (h, i)"
    using dialogue_takes_default[OF _ assms] ok unfolding config_ok_def by blast
  obtain p j where 2: "read_interactive_input (cfg_port CliConfig_default) valid_port input i = Some (p, j)"
    using dialogue_takes_default[OF _ assms] ok unfolding config_ok_def by blast
  obtain k l where 3: "read_interactive_input (cfg_disk_allocated CliConfig_default) valid_disk_space input j = Some (k, l)"
    using dialogue_takes_default[OF _ assms] ok unfolding config_ok_def by blast
  show ?thesis by (simp add: config_add_def 1 2 3)
qed

text \<open>
  C40: a command line the parser accepts is carried out to its end. No option that the dispatch unwraps is
  missing, so the program panics only when a log is to be shown as JSON and the node sent a text that is
  not JSON. It fails to end only for \<^verbatim>\<open>config edit\<close> without options, when the questions are not answered: not at
  all when the input has ended, and never when an empty line, which takes the default, is still to come.
\<close>

theorem accepted_commands_run_to_the_end:
  assumes "matches_fit cli_parser m" and "libraries_ok e t"
  shows "(case cli_main e t input m d of
      None \<Rightarrow> dialogue_command m \<and> config_add (cli_confy e) input d = None
    | Some (_, Ok _, _) \<Rightarrow> True
    | Some (_, Err _, _) \<Rightarrow> False
    | Some (_, Panic _, _) \<Rightarrow> json_requested m \<and> (\<exists>logs. node_sent_log e d logs \<and> term_json t (of_bytes logs) = None)) \<and>
    ((\<forall>n. \<exists>k \<ge> n. input k = Some []) \<longrightarrow> cli_main e t input m d \<noteq> None) \<and>
    (dialogue_command m \<longrightarrow> cli_main e t (\<lambda>_. None) m d = None)"
proof (intro conjI impI)
  note ends = cli_main_end[OF assms]
  show "case cli_main e t input m d of
      None \<Rightarrow> dialogue_command m \<and> config_add (cli_confy e) input d = None
    | Some (_, Ok _, _) \<Rightarrow> True
    | Some (_, Err _, _) \<Rightarrow> False
    | Some (_, Panic _, _) \<Rightarrow> json_requested m \<and> (\<exists>logs. node_sent_log e d logs \<and> term_json t (of_bytes logs) = None)"
    using ends(1)[of input d] ends(2)[of input d] by (auto simp: ends_well_def split: option.split outcome.split)
  show "cli_main e t input m d \<noteq> None" if "\<forall>n. \<exists>k \<ge> n. input k = Some []"
    using ends(1)[of input d] config_add_with_defaults[OF that] by blast
  show "cli_main e t (\<lambda>_. None) m d = None" if "dialogue_command m"
    using ends(1) that config_add_at_end_of_input by blast
qed

section \<open>What the commands print\<close>

definition prints :: "cli_env \<Rightarrow> terminal \<Rightarrow> ArgMatches \<Rightarrow> disk \<Rightarrow> string list \<Rightarrow> bool" where
  "prints e t m d lines \<longleftrightarrow>
     (\<forall>input. cli_main e t input m d = Some (map Out lines, Ok (), snd (get_config (cli_confy e) d)))"

definition told :: "('a \<Rightarrow> string list) \<Rightarrow> (cli_error \<Rightarrow> string) \<Rightarrow> ('a, cli_error) outcome \<Rightarrow> string list" where
  "told good bad r = (case r of Ok x \<Rightarrow> good x | Err x \<Rightarrow> [bad x] | Panic m \<Rightarrow> [])"

lemma report_told:
  assumes "fst (get_config (cli_confy e) d) = Ok cfg" and "\<not> is_panic r"
  shows "report e d r good bad = (map Out (told good bad r), Ok (), snd (get_config (cli_confy e) d))"
  using assms by (cases r) (simp_all add: report_def url_lines_def told_def Let_def)

lemma client_view_quiet [simp]: "\<not> is_panic (client_view a ep s)"
  by (simp add: client_view_def)

text \<open>The list of peers as \<^verbatim>\<open>serde_json\<close> writes it, and its pieces between the commas.\<close>

definition double_quoted :: "string \<Rightarrow> string" where
  "double_quoted s = CHR 0x22 # s @ [CHR 0x22]"

fun closed_by_bracket :: "string list \<Rightarrow> string list" where
  "closed_by_bracket [] = ['']'']"
| "closed_by_bracket [x] = [x @ '']'']"
| "closed_by_bracket (x # y # ys) = x # closed_by_bracket (y # ys)"

definition list_pieces :: "string list \<Rightarrow> string list" where
  "list_pieces names =
     (case closed_by_bracket (map double_quoted names) of x # xs \<Rightarrow> (CHR ''['' # x) # xs | [] \<Rightarrow> [])"

definition json_list :: "string list \<Rightarrow> string" where
  "json_list names = CHR ''['' # join_with '','' (map double_quoted names) @ '']''"

lemma join_with_Cons: "ys \<noteq> [] \<Longrightarrow> join_with sep (x # ys) = x @ sep @ join_with sep ys"
  by (cases ys) auto

lemma closed_by_bracket_nonempty [simp]: "closed_by_bracket xs \<noteq> []"
  by (cases xs rule: closed_by_bracket.cases) auto

lemma join_closed: "join_with '','' (closed_by_bracket xs) = join_with '','' xs @ '']''"
  by (induction xs rule: closed_by_bracket.induct) (auto simp: join_with_Cons)

lemma closed_chars: "list_all (\<lambda>x. c \<notin> set x) xs \<Longrightarrow> c \<noteq> CHR '']'' \<Longrightarrow> list_all (\<lambda>x. c \<notin> set x) (closed_by_bracket xs)"
  by (induction xs rule: closed_by_bracket.induct) auto

lemma split_json_list:
  assumes "list_all (\<lambda>x. CHR '','' \<notin> set x) names"
  shows "split_at (CHR '','') (json_list names) = list_pieces names"
proof -
  obtain x xs where xs: "closed_by_bracket (map double_quoted names) = x # xs"
    using closed_by_bracket_nonempty by (meson neq_Nil_conv)
  have "list_all (\<lambda>x. CHR '','' \<notin> set x) (x # xs)"
    unfolding xs[symmetric] using assms by (intro closed_chars) (auto simp: double_quoted_def list_all_iff)
  then have "\<forall>y \<in> set (list_pieces names). CHR '','' \<notin> set y" by (auto simp: list_pieces_def xs list_all_iff)
  moreover have "json_list names = join_with '','' (list_pieces names)"
    using join_closed[of "map double_quoted names"]
    by (cases xs) (simp_all add: json_list_def list_pieces_def xs)
  ultimately show ?thesis using split_at_join[of "list_pieces names" "CHR '',''"] by (simp add: list_pieces_def xs)
qed

text \<open>The run of one request command.\<close>

lemma prints_request:
  assumes "\<And>input. cli_main e t input m d = Some (report e d r good bad)"
    and "fst (get_config (cli_confy e) d) = Ok cfg" and "\<not> is_panic r"
  shows "prints e t m d (told good bad r)"
  using assms(1) by (simp add: prints_def report_told[OF assms(2,3)])

definition invokes :: "ArgMatches \<Rightarrow> string list \<Rightarrow> string \<Rightarrow> string \<Rightarrow> bool" where
  "invokes m names i v \<longleftrightarrow>
     (case names of
        [n] \<Rightarrow> (\<exists>sm. am_subcommand m = Some (n, sm) \<and> get_one sm i = Some v)
      | [n, k] \<Rightarrow> (\<exists>sm km. am_subcommand m = Some (n, sm) \<and> am_subcommand sm = Some (k, km) \<and> get_one km i = Some v)
      | _ \<Rightarrow> False)"

text \<open>What the printing of the list of peers relies on: response texts, the JSON of strings and the walk over a set.\<close>

definition listing_laws :: "terminal \<Rightarrow> api_env \<Rightarrow> bool" where
  "listing_laws t a \<longleftrightarrow>
     (\<forall>p. term_text t (Replied p) = of_bytes (rp_body p)) \<and>
     (\<forall>xs. list_all (list_all is_alnum) xs \<longrightarrow> write_json_strings a xs = json_list xs) \<and>
     (\<forall>xs. distinct (term_order t xs) \<and> set (term_order t xs) = set xs)"

lemma list_prints_pieces:
  assumes "warp_laws w" and "node_at e d w a s" and "fst (get_config (cli_confy e) d) = Ok cfg"
    and "listing_laws t a" and "api_list_peers a = Ok ps" and "am_subcommand m = Some (''list'', sm)"
    and "names = map (peer_to_string (le_peer (ae_log (api_art a)))) ps" and "list_all (list_all is_alnum) names"
  shows "prints e t m d (''Connected Peers:'' # term_order t (list_pieces names))"
proof -
  obtain p where p: "cli_peers_connected e d = Ok (Replied p)" "rp_body p = as_bytes (json_list names)"
    using sent_to_endpoint[OF assms(1,2), of ListPeersOf] assms(4,5,8)
    by (simp add: cli_peers_connected_def get_text_def answered_with_def plain_segment_def path_of_def
        handle_get_peers_def text_handler_def listing_laws_def assms(7)[symmetric])
  have comma: "\<not> is_alnum (CHR '','')" by (simp add: is_alnum_def is_digit_def)
  have "list_all (\<lambda>x. CHR '','' \<notin> set x) names"
    using assms(8) comma by (auto simp: list_all_iff)
  then have "split_at (CHR '','') (term_text t (Replied p)) = list_pieces names"
    using assms(4) p(2) by (simp add: listing_laws_def split_json_list)
  moreover have "prints e t m d (told (\<lambda>ans. ''Connected Peers:'' # term_order t (split_at (CHR '','') (term_text t ans)))
      (error_reminder t) (cli_peers_connected e d))"
    by (rule prints_request[OF _ assms(3)]) (simp_all add: cli_main_def assms(6) node_list_def p(1))
  ultimately show ?thesis by (simp add: told_def p(1))
qed

lemma invoked_runs:
  "invokes m [''authorize''] ''peer'' v \<Longrightarrow> cli_main e t input m d = Some (authorize e t v d)"
  "invokes m [''build'', ''docker''] ''image'' v \<Longrightarrow> cli_main e t input m d = Some (request_docker_build e t v d)"
  "invokes m [''build'', ''maven''] ''gav'' v \<Longrightarrow> cli_main e t input m d = Some (request_maven_build e t v d)"
  "invokes m [''build'', ''status''] ''id'' v \<Longrightarrow> cli_main e t input m d = Some (request_build_status e t v d)"
  by (auto simp: invokes_def cli_main_def build_command_def with_arg_def)

definition build_failed :: "terminal \<Rightarrow> cli_error \<Rightarrow> string" where
  "build_failed t x = ''Build request failed with error: '' @ term_error t x"

lemma authorize_prints:
  assumes "warp_laws w" and "node_at e d w a s" and "fst (get_config (cli_confy e) d) = Ok cfg"
    and "invokes m [''authorize''] ''peer'' v"
  shows "prints e t m d (told (\<lambda>_. [''Authorize request successfully handled.''])
      (\<lambda>x. ''Authorize request failed with error: '' @ term_error t x) (client_view a (AuthorizeNode v) s))"
proof -
  have "prints e t m d (told (\<lambda>_. [''Authorize request successfully handled.''])
      (\<lambda>x. ''Authorize request failed with error: '' @ term_error t x) (map_ok (\<lambda>_. ()) (client_view a (AuthorizeNode v) s)))"
    by (rule prints_request[OF _ assms(3)])
       (simp_all add: invoked_runs(1)[OF assms(4)] authorize_def cli_requests_reach_their_handlers[OF assms(1,2)])
  then show ?thesis by (cases "client_view a (AuthorizeNode v) s") (simp_all add: told_def)
qed

lemma builds_print:
  assumes "warp_laws w" and "node_at e d w a s" and "fst (get_config (cli_confy e) d) = Ok cfg"
  shows "invokes m [''build'', ''docker''] ''image'' v \<Longrightarrow> prints e t m d
      (told build_lines (build_failed t) (rbind (client_view a (BuildDockerImage v) s)
        (\<lambda>p. ok_or BodyError (read_build_result e (rp_body p)))))" (is "_ \<Longrightarrow> ?docker")
    and "invokes m [''build'', ''maven''] ''gav'' v \<Longrightarrow>
      prints e t m d (told build_lines (build_failed t) (Err (HttpStatusError 500 (RegText []))))" (is "_ \<Longrightarrow> ?maven")
    and "invokes m [''build'', ''status''] ''id'' v \<Longrightarrow> prints e t m d
      (told (\<lambda>st. [''Build status for '' @ quote_text v @ '' is '' @ quote_text (BuildStatus_to_string st)])
        (build_status_missing t v)
        (rbind (client_view a (BuildStatusOf v) s) (\<lambda>p. ok_or BodyError (read_build_status e (rp_body p)))))"
      (is "_ \<Longrightarrow> ?status")
proof -
  note sent = cli_requests_reach_their_handlers[OF assms(1,2)]
  note request = prints_request[OF _ assms(3)]
  note defs = request_docker_build_def request_maven_build_def request_build_status_def
    handle_request_build_result_def sent is_panic_rbind build_failed_def[abs_def]
  show ?docker if "invokes m [''build'', ''docker''] ''image'' v"
    by (rule request) (simp_all add: invoked_runs(2)[OF that] defs)
  show ?maven if "invokes m [''build'', ''maven''] ''gav'' v"
    by (rule request) (simp_all add: invoked_runs(3)[OF that] defs)
  show ?status if "invokes m [''build'', ''status''] ''id'' v"
    by (rule request) (simp_all add: invoked_runs(4)[OF that] defs)
qed

text \<open>
  C36: the lines that a command prints say what the node that is configured did, whatever is typed. For an
  authorisation, a Docker build and the status of a build they tell the answer of the handler for it,
  success or error. Two commands are broken. A Maven build is sent to the route of Docker builds, where its
  body does not fit, so that it is reported as failed with status 500 for all coordinates and no build is
  requested. The list of peers is a JSON list that is split at its commas, so that each peer is printed in
  quotes, with a bracket at the first and at the last one, and a line of brackets when there is none.
\<close>

theorem commands_print_what_the_node_did:
  assumes "warp_laws w" and "node_at e d w a s" and "fst (get_config (cli_confy e) d) = Ok cfg"
  shows "(invokes m [''authorize''] ''peer'' v \<longrightarrow> prints e t m d
      (told (\<lambda>_. [''Authorize request successfully handled.'']) (\<lambda>x. ''Authorize request failed with error: '' @ term_error t x)
        (client_view a (AuthorizeNode v) s))) \<and>
    (invokes m [''build'', ''docker''] ''image'' v \<longrightarrow> prints e t m d
      (told build_lines (build_failed t) (rbind (client_view a (BuildDockerImage v) s)
        (\<lambda>p. ok_or BodyError (read_build_result e (rp_body p)))))) \<and>
    (invokes m [''build'', ''status''] ''id'' v \<longrightarrow> prints e t m d
      (told (\<lambda>st. [''Build status for '' @ quote_text v @ '' is '' @ quote_text (BuildStatus_to_string st)])
        (build_status_missing t v)
        (rbind (client_view a (BuildStatusOf v) s) (\<lambda>p. ok_or BodyError (read_build_status e (rp_body p)))))) \<and>
    (invokes m [''build'', ''maven''] ''gav'' v \<longrightarrow>
      prints e t m d [build_failed t (HttpStatusError 500 (RegText []))]) \<and>
    (am_subcommand m = Some (''list'', sm) \<and> listing_laws t a \<and> api_list_peers a = Ok ps \<and>
      names = map (peer_to_string (le_peer (ae_log (api_art a)))) ps \<and> list_all (list_all is_alnum) names \<longrightarrow>
      (\<exists>lines. prints e t m d (''Connected Peers:'' # lines) \<and> distinct lines \<and> set lines = set (list_pieces names)))"
proof (intro conjI impI)
  note builds = builds_print[OF assms]
  show "prints e t m d [build_failed t (HttpStatusError 500 (RegText []))]" if "invokes m [''build'', ''maven''] ''gav'' v"
    using builds(2)[OF that] by (simp add: told_def)
  show "\<exists>lines. prints e t m d (''Connected Peers:'' # lines) \<and> distinct lines \<and> set lines = set (list_pieces names)"
    if "am_subcommand m = Some (''list'', sm) \<and> listing_laws t a \<and> api_list_peers a = Ok ps \<and>
      names = map (peer_to_string (le_peer (ae_log (api_art a)))) ps \<and> list_all (list_all is_alnum) names"
    using list_prints_pieces[OF assms, of t ps m sm names] that unfolding listing_laws_def by blast
qed (rule authorize_prints[OF assms] builds_print(1,3)[OF assms]; assumption)+

section \<open>Witnesses\<close>

definition demo_terminal :: terminal where
  "demo_terminal =
     \<lparr>term_text = (\<lambda>ans. case ans of Replied p \<Rightarrow> of_bytes (rp_body p) | _ \<Rightarrow> []), term_error = (\<lambda>_. ''error''),
      term_debug = (\<lambda>_. ''error''), term_field_error = id, term_toml = cfg_host, term_json = Some,
      term_path = (\<lambda>p. Some (join_with ''/'' p)), term_order = remdups\<rparr>"

definition edit_without_options :: ArgMatches where
  "edit_without_options =
     ArgMatches [] [] [] (Some (''config'', ArgMatches [] [(''remove'', False), (''show'', False)] []
       (Some (''edit'', ArgMatches [] [] [] None))))"

theorem accepted_commands_run_to_the_end_witness:
  "cli_main demo_cli_env demo_terminal (\<lambda>_. None) edit_without_options [] = None \<and>
   cli_main demo_cli_env demo_terminal (\<lambda>_. Some []) edit_without_options [] \<noteq> None"
proof -
  have fit: "matches_fit cli_parser edit_without_options"
    by (simp add: cli_parser_def edit_without_options_def option_arg_def get_one_def get_flag_def)
  have lib: "libraries_ok demo_cli_env demo_terminal"
    by (auto simp: libraries_ok_def demo_cli_env_def demo_confy_def demo_terminal_def split: option.splits)
  have "dialogue_command edit_without_options"
    by (simp add: dialogue_command_def edit_without_options_def get_one_def)
  moreover have "\<forall>n::nat. \<exists>k \<ge> n. (\<lambda>_. Some []) k = Some []" by auto
  ultimately show ?thesis
    using accepted_commands_run_to_the_end[OF fit lib, of "\<lambda>_. Some []" "[]"] by blast
qed

definition listing_api_env :: api_env where
  "listing_api_env = demo_api_env\<lparr>write_json_strings := json_list, api_list_peers := Ok [[9]]\<rparr>"

definition listing_cli_env :: cli_env where
  "listing_cli_env = demo_cli_env\<lparr>cli_send := \<lambda>m url body. Ok (fst (serve_http split_warp listing_api_env
     \<lparr>rq_method = m, rq_path = drop 21 url, rq_length = Some 0, rq_json = body\<rparr> (demo_art_state [] [])))\<rparr>"

definition list_args :: ArgMatches where
  "list_args = ArgMatches [] [] [] (Some (''list'', ArgMatches [] [] [] None))"

definition maven_args :: ArgMatches where
  "maven_args = ArgMatches [] [] [] (Some (''build'', ArgMatches [] [] []
     (Some (''maven'', ArgMatches [(''gav'', ''g:a:1'')] [] [''gav''] None))))"

theorem commands_print_what_the_node_did_witness:
  "prints listing_cli_env demo_terminal maven_args [] [build_failed demo_terminal (HttpStatusError 500 (RegText []))] \<and>
   (\<exists>lines. prints listing_cli_env demo_terminal list_args [] (''Connected Peers:'' # lines) \<and> distinct lines \<and>
      set lines = {CHR ''['' # double_quoted ''AJ'' @ '']''})"
proof -
  have cfg: "fst (get_config (cli_confy listing_cli_env) []) = Ok CliConfig_default"
    by (simp add: listing_cli_env_def demo_cli_env_def get_config_def demo_confy_def)
  have "get_url listing_cli_env [] = ''localhost:7888''"
    by (simp add: get_url_def cfg) (simp add: CliConfig_default_def)
  then have at: "node_at listing_cli_env [] split_warp listing_api_env (demo_art_state [] [])"
    by (auto simp: node_at_def) (auto simp: listing_cli_env_def)
  have laws: "listing_laws demo_terminal listing_api_env"
    by (simp add: listing_laws_def demo_terminal_def listing_api_env_def)
  have peers: "api_list_peers listing_api_env = Ok [[9]]" by (simp add: listing_api_env_def)
  have chars: "CHR ''A'' = char_of (65::nat)" "CHR ''J'' = char_of (74::nat)" by code_simp+
  have names: "[''AJ''] = map (peer_to_string (le_peer (ae_log (api_art listing_api_env)))) [[9]]"
    by (simp add: listing_api_env_def demo_api_env_def demo_art_env_def demo_log_env_def demo_peer_text_def nibbles_def
        chars)
  have "list_all (list_all is_alnum) [''AJ'']" by (simp add: is_alnum_def)
  moreover have "invokes maven_args [''build'', ''maven''] ''gav'' ''g:a:1''"
    by (simp add: invokes_def maven_args_def get_one_def)
  moreover have "am_subcommand list_args = Some (''list'', ArgMatches [] [] [] None)" by (simp add: list_args_def)
  moreover have "set (list_pieces [''AJ'']) = {CHR ''['' # double_quoted ''AJ'' @ '']''}" by (simp add: list_pieces_def)
  ultimately show ?thesis
    using commands_print_what_the_node_did[OF split_warp_laws at cfg, of maven_args "''g:a:1''" demo_terminal]
      commands_print_what_the_node_did[OF split_warp_laws at cfg, of list_args _ demo_terminal] laws peers names
    by metis
qed

end
