(* ===== verification/Chain_Event_Claims.thy ===== *)
theory Chain_Event_Claims
  imports Node_Claims "HOL-Library.Sublist"
begin

text \<open>
  What the blockchain event loop (\<^verbatim>\<open>src/src/blockchain_service/event.rs\<close>) does to the chain of a node over any
  sequence of events: it refines a log that is only appended to, as \<open>chain_history\<close> describes it. The last
  section is about a block that the chain ignores.
\<close>

section \<open>The specification of the loop\<close>

text \<open>A block for the ordinal \<open>n\<close> is the next one of the log \<open>old\<close>, or is too new for it.\<close>

definition expects :: "Block list \<Rightarrow> Ordinal \<Rightarrow> bool" where
  "expects old n \<longleftrightarrow> n = (if old = [] then 0 else ordinal (header (last old)) + 1)"

definition too_new :: "Block list \<Rightarrow> Ordinal \<Rightarrow> bool" where
  "too_new old n \<longleftrightarrow> old \<noteq> [] \<and> ordinal (header (last old)) + 1 < n"

text \<open>What a log takes of a list of blocks: the next one each time, up to a block that is too new.\<close>

fun blocks_taken :: "Block list \<Rightarrow> Block list \<Rightarrow> Block list" where
  "blocks_taken old [] = []"
| "blocks_taken old (b # sent) =
     (if expects old (ordinal (header b)) then b # blocks_taken (old @ [b]) sent
      else if too_new old (ordinal (header b)) then []
      else blocks_taken old sent)"

text \<open>The blocks that some answer of a peer holds.\<close>

definition sent_by :: "art_env \<Rightarrow> PeerId \<Rightarrow> Block list \<Rightarrow> bool" where
  "sent_by e peer bs \<longleftrightarrow> (\<exists>msg answer. net_request_blockchain (le_net (ae_log e)) peer msg = Ok answer \<and>
     de_blocks (env_bincode (le_chain (ae_log e))) answer = Some bs)"

definition successor :: "Block list \<Rightarrow> bytes \<Rightarrow> Block \<Rightarrow> bool" where
  "successor old payload b \<longleftrightarrow> old \<noteq> [] \<and> fetch_payload b = [payload] \<and>
     parent_hash (header b) = hd_hash (header (last old)) \<and> ordinal (header b) = ordinal (header (last old)) + 1"

definition range_of :: "Block list \<Rightarrow> Ordinal \<Rightarrow> Ordinal \<Rightarrow> Block list \<Rightarrow> bool" where
  "range_of old i j xs \<longleftrightarrow> sublist xs old \<and>
     (chain_wf \<lparr>chain_blocks = old\<rparr> \<longrightarrow>
        xs = (if i \<le> j \<and> unat j < length old then map (\<lambda>k. old ! k) [unat i ..< Suc (unat j)] else []))"

text \<open>
  The log \<open>old\<close> takes an event, replies \<open>r\<close> and appends \<open>bs\<close>. A payload becomes the successor of the last block;
  a block is appended when it is announced with the next ordinal; the other events only read.
\<close>

fun appended :: "art_env \<Rightarrow> Block list \<Rightarrow> BlockchainEvent \<Rightarrow> EventReply \<Rightarrow> Block list \<Rightarrow> bool" where
  "appended e old (AddBlock payload) (AddBlockReply r) bs =
     ((\<exists>b. bs = [b] \<and> successor old payload b) \<or> bs = [] \<and> r \<noteq> Ok ())"
| "appended e old (PullBlocksFromPeer peer) (PullFromPeerReply r) bs =
     (bs = [] \<and> (\<forall>n. r \<noteq> Ok n) \<or>
      (\<exists>sent. sent_by e peer sent \<and> prefix bs (blocks_taken old sent) \<and> ((\<exists>n. r = Ok n) \<longrightarrow> bs = blocks_taken old sent)))"
| "appended e old (HandleBlockBroadcast n b) (BroadcastReply r) bs =
     (bs = (if expects old n then [b] else []) \<and>
      (too_new old n \<longrightarrow> r = Err (AnyChain LaggingBlockchainData)))"
| "appended e old (PullBlocksLocal i j) (PullLocalReply r) bs = (bs = [] \<and> (\<exists>xs. r = Ok xs \<and> range_of old i j xs))"
| "appended e old (HandlePullBlocks i j) (PullReply r) bs = (bs = [] \<and> (\<exists>xs. r = Ok xs \<and> range_of old i j xs))"
| "appended e old HandleQueryBlockOrdinal (QueryReply r) bs =
     (bs = [] \<and> r = (if old = [] then Err (AnyChain (InvalidBlockchainLength 0)) else Ok (ordinal (header (last old)))))"
| "appended e old _ _ bs = False"

text \<open>Every event gets its reply, in order, unless a panic ends the loop.\<close>

inductive chain_history ::
    "art_env \<Rightarrow> Block list \<Rightarrow> BlockchainEvent list \<Rightarrow> EventReply list \<Rightarrow> Block list \<Rightarrow> bool" for e where
  no_event: "chain_history e old [] [] []"
| replied: "appended e old ev r bs \<Longrightarrow> \<not> reply_panicked r \<Longrightarrow> chain_history e (old @ bs) evs rs cs \<Longrightarrow>
    chain_history e old (ev # evs) (r # rs) (bs @ cs)"
| panicked: "appended e old ev r bs \<Longrightarrow> reply_panicked r \<Longrightarrow> chain_history e old (ev # evs) [r] bs"

section \<open>Each event\<close>

abbreviation blocks_of :: "chain_state \<Rightarrow> Block list" where
  "blocks_of c \<equiv> chain_blocks (chain_of c)"

lemma last_block_eq: "Blockchain_last_block bc =
    (if chain_blocks (bc_chain bc) = [] then None else Some (last (chain_blocks (bc_chain bc))))"
  by (simp add: Blockchain_last_block_def Chain_last_block_def)

lemma Blockchain_add_block_appends:
  assumes "Blockchain_add_block c bin io r bc payload k d = (res, bc1, d1)"
  shows "bc1 = bc \<and> res \<noteq> Ok () \<or>
    (\<exists>b. chain_blocks (bc_chain bc1) = chain_blocks (bc_chain bc) @ [b] \<and> successor (chain_blocks (bc_chain bc)) payload b)"
proof -
  let ?old = "chain_blocks (bc_chain bc)"
  have new: "successor ?old payload b"
    if "Transaction_new c bin r Create (Address_from_public c (ed25519_public c k)) payload k
          = (Ok t :: (Transaction, BlockchainError) outcome)"
      and "Block_new c bin r (hd_hash (header (last ?old))) (ordinal (header (last ?old)) + 1) [t] k
          = (Ok b :: (Block, BlockchainError) outcome)"
      and "?old \<noteq> []" for t b
    using that Block_new_fields(1-3)[OF that(2)] Transaction_new_payload[OF that(1)]
    by (simp add: successor_def fetch_payload_def)
  show ?thesis
    using assms by (auto simp: Blockchain_add_block_def last_block_eq dest!: commit_chain intro: new
        split: outcome.splits if_splits)
qed

lemma broadcast_blockchain_keeps: "broadcast_blockchain env net b c = (res, c1) \<Longrightarrow> blocks_of c1 = blocks_of c"
  by (auto simp: broadcast_blockchain_def split: outcome.splits)

lemma add_payload_appends:
  assumes "add_payload env net r payload c = (res, c1)"
  shows "\<exists>bs. blocks_of c1 = blocks_of c @ bs \<and>
    ((\<exists>b. bs = [b] \<and> successor (blocks_of c) payload b) \<or> bs = [] \<and> res \<noteq> Ok ())"
proof -
  obtain res0 bc1 d1 where add: "Blockchain_add_block (env_crypto env) (env_bincode env) (env_io env) r
      (blockchain (service c)) payload (keypair (service c)) (cs_disk c) = (res0, bc1, d1)"
    using prod_cases3 by blast
  have keep: "blocks_of c1 = chain_blocks (bc_chain bc1)" "res0 \<noteq> Ok () \<Longrightarrow> res \<noteq> Ok ()"
    using assms by (auto simp: add_payload_def add Let_def sbind_iff dest: broadcast_blockchain_keeps
        split: option.splits)
  then show ?thesis using Blockchain_add_block_appends[OF add] by fastforce
qed

lemma add_block_appends:
  assumes "BlockchainService_add_block env n b c = (res, c1)"
  shows "blocks_of c1 = blocks_of c @ (if expects (blocks_of c) n then [b] else [])"
    and "too_new (blocks_of c) n \<longrightarrow> res = Err LaggingBlockchainData"
    and "\<not> too_new (blocks_of c) n \<longrightarrow> \<not> expects (blocks_of c) n \<longrightarrow> res = Ok ()"
  using assms
  by (auto simp: BlockchainService_add_block_def Let_def last_block_eq expects_def too_new_def
      dest: update_from_peers_chain split: if_splits)

lemma add_blocks_appends:
  "add_blocks env sent c = (res, c1) \<Longrightarrow> \<exists>bs. blocks_of c1 = blocks_of c @ bs \<and>
     prefix bs (blocks_taken (blocks_of c) sent) \<and> (res = Ok () \<longrightarrow> bs = blocks_taken (blocks_of c) sent)"
proof (induction sent arbitrary: c)
  case (Cons b sent)
  let ?n = "ordinal (header b)"
  obtain r c0 where c0: "BlockchainService_add_block env ?n b c = (r, c0)" by force
  note step = add_block_appends[OF c0]
  show ?case
  proof (cases r)
    case (Ok u)
    then obtain bs where bs: "blocks_of c1 = blocks_of c0 @ bs" "prefix bs (blocks_taken (blocks_of c0) sent)"
        "res = Ok () \<longrightarrow> bs = blocks_taken (blocks_of c0) sent"
      using Cons.IH[of c0] Cons.prems c0 by auto
    have "\<not> too_new (blocks_of c) ?n" using step(2) Ok by auto
    then show ?thesis using step(1) bs
      by (intro exI[of _ "(if expects (blocks_of c) ?n then [b] else []) @ bs"]) auto
  next
    case (Err x)
    then have "c1 = c0" "res = Err x" using Cons.prems c0 by simp_all
    then show ?thesis using step Err by auto
  next
    case (Panic m)
    then have "c1 = c0" "res = Panic m" using Cons.prems c0 by simp_all
    then show ?thesis using step Panic by auto
  qed
qed auto

lemma init_pull_appends:
  assumes "init_pull_from_others (le_chain (ae_log e)) (le_net (ae_log e)) peer c = (r, c1)"
  shows "\<exists>bs. appended e (blocks_of c) (PullBlocksFromPeer peer) (PullFromPeerReply r) bs \<and> blocks_of c1 = blocks_of c @ bs"
proof (cases "\<exists>n sent. query_blockchain_ordinal (le_chain (ae_log e)) (le_net (ae_log e)) peer = Ok n \<and>
    pull_block_from_other_nodes (le_chain (ae_log e)) (le_net (ae_log e)) peer 0 n = Ok sent")
  case True
  then obtain n sent where q: "query_blockchain_ordinal (le_chain (ae_log e)) (le_net (ae_log e)) peer = Ok n"
    "pull_block_from_other_nodes (le_chain (ae_log e)) (le_net (ae_log e)) peer 0 n = Ok sent" by blast
  have sent: "sent_by e peer sent"
    using q(2) by (fastforce simp: pull_block_from_other_nodes_def sent_by_def outcome_simps unwrap_def
        split: option.splits)
  obtain res where add: "add_blocks (le_chain (ae_log e)) sent c = (res, c1)" "(\<exists>n. r = Ok n) \<longrightarrow> res = Ok ()"
    using assms by (auto simp: init_pull_from_others_def q sbind_iff)
  show ?thesis using add_blocks_appends[OF add(1)] add(2) sent by auto
next
  case False
  then have "c1 = c" "\<forall>n. r \<noteq> Ok n" using assms by (auto simp: init_pull_from_others_def sbind_iff)
  then show ?thesis by auto
qed

lemma write_transparency_log_chain: "write_transparency_log e l s = (res, s1) \<Longrightarrow> ls_chain s1 = ls_chain s"
  by (auto simp: write_transparency_log_def sbind_iff split: option.splits outcome.splits)

lemma handle_block_added_chain: "handle_block_added e ps s = (res, s1) \<Longrightarrow> chain_part s1 = chain_part s"
  by (auto simp: handle_block_added_def write_if_not_exists_def dest: write_transparency_log_chain
      split: list.splits option.splits outcome.splits prod.splits TransparencyLogError.splits)

lemma pull_in_range:
  "\<exists>xs. BlockchainService_pull_blocks i j c = Ok xs \<and> range_of (blocks_of c) i j xs"
proof -
  have "sublist (Chain_retrieve_blocks (chain_of c) i j) (blocks_of c)"
    unfolding Chain_retrieve_blocks_def
    by (auto split: option.splits intro: sublist_order.order_trans[of _ "drop _ (blocks_of c)"])
  moreover obtain bl where "chain_of c = \<lparr>chain_blocks = bl\<rparr>" by (cases "chain_of c") simp
  ultimately show ?thesis
    using retrieve_blocks_wf[of "chain_of c" i j]
    by (simp add: BlockchainService_pull_blocks_def Blockchain_pull_blocks_def range_of_def Chain_len_def
        del: upt_Suc)
qed

lemma broadcast_appends:
  assumes "handle_blockchain_event e (HandleBlockBroadcast n b) s = (r, s1)"
  shows "\<exists>bs. appended e (blocks_of (chain_part s)) (HandleBlockBroadcast n b) r bs \<and>
    blocks_of (chain_part s1) = blocks_of (chain_part s) @ bs"
proof -
  obtain res c1 where add: "BlockchainService_add_block (le_chain (ae_log e)) n b (chain_part s) = (res, c1)" by force
  note step = add_block_appends[OF add]
  have "chain_part s1 = c1" "res = Err LaggingBlockchainData \<longrightarrow> r = BroadcastReply (Err (AnyChain LaggingBlockchainData))"
      "\<exists>x. r = BroadcastReply x"
    using assms by (auto simp: add Let_def dest: handle_block_added_chain split: outcome.splits prod.splits)
  then show ?thesis using step by auto
qed

lemma handle_blockchain_event_appends:
  assumes "handle_blockchain_event e ev s = (r, s1)"
  shows "\<exists>bs. appended e (blocks_of (chain_part s)) ev r bs \<and> blocks_of (chain_part s1) = blocks_of (chain_part s) @ bs"
proof (cases ev)
  case (AddBlock payload)
  then show ?thesis using assms by (auto simp: Let_def dest!: add_payload_appends split: prod.splits)
next
  case (PullBlocksFromPeer peer)
  obtain res c1 where "init_pull_from_others (le_chain (ae_log e)) (le_net (ae_log e)) peer (chain_part s) = (res, c1)"
    by force
  then show ?thesis using assms init_pull_appends[of e peer "chain_part s" res c1] PullBlocksFromPeer
    by (auto simp: Let_def)
next
  case (PullBlocksLocal i j)
  then show ?thesis using assms pull_in_range[of i j "chain_part s"] by auto
next
  case (HandleBlockBroadcast n b)
  then show ?thesis using broadcast_appends assms by simp
next
  case (HandlePullBlocks i j)
  then show ?thesis using assms pull_in_range[of i j "chain_part s"] by auto
next
  case HandleQueryBlockOrdinal
  then show ?thesis using assms by (auto simp: query_last_block_def last_block_eq)
qed

section \<open>Every run\<close>

lemma run_blockchain_events_history:
  "run_blockchain_events e evs s = (rs, s1) \<Longrightarrow>
   \<exists>bs. chain_history e (blocks_of (chain_part s)) evs rs bs \<and>
        blocks_of (chain_part s1) = blocks_of (chain_part s) @ bs"
proof (induction evs arbitrary: s rs)
  case Nil
  then show ?case by (auto intro: no_event)
next
  case (Cons ev evs)
  obtain r s0 where s0: "handle_blockchain_event e ev s = (r, s0)" by force
  obtain bs where bs: "appended e (blocks_of (chain_part s)) ev r bs"
      "blocks_of (chain_part s0) = blocks_of (chain_part s) @ bs"
    using handle_blockchain_event_appends[OF s0] by blast
  show ?case
  proof (cases "reply_panicked r")
    case True
    then have "rs = [r]" "s1 = s0" using Cons.prems s0 by simp_all
    then show ?thesis using panicked[OF bs(1) True] bs(2) by blast
  next
    case False
    obtain rs' where rest: "run_blockchain_events e evs s0 = (rs', s1)" "rs = r # rs'"
      using Cons.prems s0 False by (auto simp: Let_def split: prod.splits)
    obtain cs where "chain_history e (blocks_of (chain_part s0)) evs rs' cs"
        "blocks_of (chain_part s1) = blocks_of (chain_part s0) @ cs"
      using Cons.IH[OF rest(1)] by blast
    then show ?thesis using replied[OF bs(1) False] bs(2) rest(2) by auto
  qed
qed

text \<open>
  C1: whatever events reach the blockchain event loop, and whatever blocks and answers peers send, the chain
  of the node is a log that is only appended to: no event changes or removes a block. Every event is
  answered in order until a panic ends the loop; a payload becomes a block that carries it and continues the
  last one, a block of a peer is appended exactly when it comes with the next ordinal, a pull appends what the
  log takes of the blocks sent, and the other events answer from the log as it is then.
\<close>

theorem chain_is_only_appended_to:
  assumes "run_blockchain_events e evs s = (rs, s1)"
  shows "\<exists>bs. chain_history e (chain_blocks (chain_of (chain_part s))) evs rs bs \<and>
     chain_blocks (chain_of (chain_part s1)) = chain_blocks (chain_of (chain_part s)) @ bs"
  by (rule run_blockchain_events_history[OF assms])

theorem chain_is_only_appended_to_witness:
  "\<exists>rs s1 bs. run_blockchain_events demo_art_env [HandleQueryBlockOrdinal, HandleBlockBroadcast 0 demo_genesis]
       (demo_art_state [] []) = (rs, s1) \<and>
     chain_history demo_art_env [demo_genesis] [HandleQueryBlockOrdinal, HandleBlockBroadcast 0 demo_genesis] rs bs \<and>
     chain_blocks (chain_of (chain_part s1)) = [demo_genesis] @ bs"
proof -
  obtain rs s1 where run: "run_blockchain_events demo_art_env
      [HandleQueryBlockOrdinal, HandleBlockBroadcast 0 demo_genesis] (demo_art_state [] []) = (rs, s1)" by force
  then show ?thesis using chain_is_only_appended_to[OF run] by (auto simp: demo_chain_part)
qed

section \<open>Blocks that the chain ignores\<close>

text \<open>A log that enters the table with the newest record of its node makes the node authorised.\<close>

lemma recorded_node_authorized:
  assumes "log_env_ok e" and "stores (ls @ [l]) (ls_table s)" and "operation l = AddNode"
    and "peer_from_str (le_peer e) (node_id l) = Some p"
    and "\<forall>l' \<in> set (node_records ls). node_id l' = node_id l \<longrightarrow> timestamp l' < timestamp l"
  shows "\<exists>ps. get_authorized_nodes e s = Ok ps \<and> p \<in> set ps"
proof -
  have "set (node_records (ls @ [l])) = insert l (set (node_records ls))"
    using assms(3) by (simp add: node_records_def)
  then show ?thesis
    using authorized_nodes_spec[OF assms(1,2)] assms(3-5) by (auto dest!: bspec[of _ _ l])
qed

text \<open>
  C22: a message with a block for an ordinal that the chain has already leaves the chain as it is, and is answered
  with success; but the payload of the block, which nothing has verified, is recorded in the transparency
  log. One such message of any peer, with a record that adds a node, makes the node authorised.
\<close>

theorem ignored_block_authorizes_node:
  assumes "broadcast_message (env_bincode (le_chain (ae_log e))) b = Ok m"
    and "block_codec_ok (env_bincode (le_chain (ae_log e))) b"
    and "ordinal_codec_ok (env_bincode (le_chain (ae_log e))) (ordinal (header b))"
    and "env_loop_alive (ae_log e)" and "service_wf (le_chain (ae_log e)) (chain_part s)"
    and "unat (ordinal (header b)) < Chain_len (chain_of (chain_part s))"
    and "Chain_len (chain_of (chain_part s)) < 2 ^ 128"
    and "fetch_payload b = [payload]" and "json_from_slice (le_json (ae_log e)) payload = Some l"
    and "log_env_ok (ae_log e)" and "stores ls (ls_table (as_log s))"
    and "log_ok l" and "lit_safe (log_id l)" and "log_id l \<notin> log_id ` set ls" and "operation l = AddNode"
    and "peer_from_str (le_peer (ae_log e)) (node_id l) = Some p"
    and "\<forall>l' \<in> set (node_records ls). node_id l' = node_id l \<longrightarrow> timestamp l' < timestamp l"
  shows "\<exists>s1 ps. handle_incoming_blockchain_command e m s = (Ok [0], s1) \<and>
    chain_part s1 = chain_part s \<and>
    stores (ls @ [l]) (ls_table (as_log s1)) \<and>
    get_authorized_nodes (ae_log e) (as_log s1) = Ok ps \<and> p \<in> set ps"
proof -
  let ?t = "(as_log s)\<lparr>ls_table := ls_table (as_log s) @ [row_of l]\<rparr>"
  have w: "write_if_not_exists (ae_log e) l (as_log s) = (Ok (), ?t)"
    using write_if_not_exists_spec[OF assms(10-13)] assms(14) by simp
  have st: "stores (ls @ [l]) (ls_table ?t)" using write_transparency_log_new(2)[OF assms(10-12,14)] by simp
  have "handle_broadcast_blockchain e (ordinal (header b)) b s = (Ok (), s\<lparr>as_log := ?t\<rparr>)"
    using add_block_old[OF assms(5-7), of b] w assms(4,8,9)
    by (simp add: handle_broadcast_blockchain_def handle_block_added_def)
  then have "handle_incoming_blockchain_command e m s = (Ok [0], s\<lparr>as_log := ?t\<rparr>)"
    using incoming_broadcast[OF assms(1,3,2) refl] by simp
  moreover have "\<exists>ps. get_authorized_nodes (ae_log e) ?t = Ok ps \<and> p \<in> set ps"
    by (rule recorded_node_authorized[OF assms(10) st assms(15-17)])
  ultimately show ?thesis using st by auto
qed

text \<open>A node with the genesis block only gets another block for ordinal 0.\<close>

definition forged_block :: Block where
  "forged_block = demo_block [0] 0 [7]"

definition forging_bincode :: bincode where
  "forging_bincode = demo_bincode\<lparr>
     ser_block := (\<lambda>b. Some [if b = demo_genesis then 0 else 2]),
     de_block := (\<lambda>bs. case bs of [] \<Rightarrow> None | x # _ \<Rightarrow> Some (if x = 0 then demo_genesis else forged_block))\<rparr>"

definition forging_env :: art_env where
  "forging_env = demo_art_env\<lparr>ae_log := (ae_log demo_art_env)\<lparr>
     le_json := \<lparr>json_to_string = (\<lambda>l. Some ''j''), json_from_slice = (\<lambda>bs. Some (demo_node_log ''z'' AddNode 9))\<rparr>,
     le_chain := demo_env\<lparr>env_bincode := forging_bincode\<rparr>\<rparr>\<rparr>"

lemma forging_env_sel:
  "env_bincode (le_chain (ae_log forging_env)) = forging_bincode" "env_loop_alive (ae_log forging_env)"
  "log_env_ok (ae_log forging_env)" "le_peer (ae_log forging_env) = demo_peer_text"
  "json_from_slice (le_json (ae_log forging_env)) bs = Some (demo_node_log ''z'' AddNode 9)"
proof -
  show "log_env_ok (ae_log forging_env)" using demo_art_log_ok by (simp add: forging_env_def log_env_ok_def)
  show "env_loop_alive (ae_log forging_env)" using demo_env_sel(4) by (simp add: forging_env_def)
  show "le_peer (ae_log forging_env) = demo_peer_text"
    by (simp add: forging_env_def) (simp add: demo_art_env_def demo_log_env_def)
qed (simp_all add: forging_env_def)

lemma forging_codec: "block_codec_ok forging_bincode forged_block" "ordinal_codec_ok forging_bincode 0"
proof -
  have "forged_block \<noteq> demo_genesis" by (simp add: forged_block_def demo_genesis_def demo_block_def)
  then show "block_codec_ok forging_bincode forged_block" by (simp add: block_codec_ok_def forging_bincode_def)
  show "ordinal_codec_ok forging_bincode 0"
    using demo_codecs(3) by (simp add: ordinal_codec_ok_def forging_bincode_def)
qed

lemma forging_service_wf: "service_wf (le_chain (ae_log forging_env)) (chain_part (demo_art_state [] []))"
proof -
  have "persisted forging_bincode [''bc''] demo_chain demo_disk"
    using demo_persisted
    by (simp add: persisted_def Chain_len_def demo_chain_def)
       (simp add: block_file_def show_nat_0_1 demo_disk_def forging_bincode_def)
  then show ?thesis
    using demo_wf by (simp add: service_wf_def forging_env_sel demo_chain_part demo_chain_state_def demo_chain_def)
qed

theorem ignored_block_authorizes_node_witness:
  "\<exists>m s1 ps. broadcast_message forging_bincode forged_block = Ok m \<and>
     handle_incoming_blockchain_command forging_env m (demo_art_state [] []) = (Ok [0], s1) \<and>
     chain_blocks (chain_of (chain_part s1)) = [demo_genesis] \<and>
     get_authorized_nodes (ae_log forging_env) (as_log s1) = Ok ps \<and> [9] \<in> set ps"
proof -
  obtain m where m: "broadcast_message forging_bincode forged_block = Ok m"
    by (simp add: broadcast_message_def forging_bincode_def demo_bincode_def unwrap_def)
  have payload: "fetch_payload forged_block = [[7]]" and ord: "ordinal (header forged_block) = 0"
    by (simp_all add: fetch_payload_def forged_block_def) (simp add: demo_block_def demo_tx_def)
  have st: "stores [] (ls_table (as_log (demo_art_state [] [])))" by (rule demo_art_stores) simp_all
  have peer: "peer_from_str demo_peer_text (peer_to_string demo_peer_text [9]) = Some [9]"
    using demo_peer_text_laws by (simp add: peer_text_laws_def)
  have "\<exists>s1 ps. handle_incoming_blockchain_command forging_env m (demo_art_state [] []) = (Ok [0], s1) \<and>
      chain_part s1 = chain_part (demo_art_state [] []) \<and>
      stores ([] @ [demo_node_log ''z'' AddNode 9]) (ls_table (as_log s1)) \<and>
      get_authorized_nodes (ae_log forging_env) (as_log s1) = Ok ps \<and> [9] \<in> set ps"
    by (rule ignored_block_authorizes_node[of _ forged_block])
       (use m payload ord st peer forging_codec forging_service_wf in
        \<open>simp_all add: forging_env_sel demo_chain_part Chain_len_def log_ok_def lit_safe_def node_records_def\<close>)
  then show ?thesis using m by (auto simp: demo_chain_part)
qed

end
