(* ===== verification/Http_Query_Claims.thy ===== *)
theory Http_Query_Claims
  imports Http_Claims
begin

text \<open>
  What a client can do with the text of a query: the handlers pass the ids of a request on as they are, and
  the transparency log puts them into its queries without escaping them.
\<close>

section \<open>Ids with a quote\<close>

text \<open>A tag that ends in \<open>always_true\<close> gives an id that does.\<close>

lemma starts_with_always_true: "starts_with ''sha256:'' (always_true tag) = starts_with ''sha256:'' tag"
proof -
  have "take 7 (tag @ CHR 0x27 # r) = ''sha256:'' \<longleftrightarrow> take 7 tag = ''sha256:''" for r
  proof (cases "length tag < 7")
    case True
    then have "CHR 0x27 \<in> set (take 7 (tag @ CHR 0x27 # r))" by (simp add: take_Cons')
    moreover have "CHR 0x27 \<notin> set ''sha256:''" by simp
    ultimately have "take 7 (tag @ CHR 0x27 # r) \<noteq> ''sha256:''" by metis
    moreover have "take 7 tag \<noteq> ''sha256:''" using arg_cong[of "take 7 tag" "''sha256:''" length] True by auto
    ultimately show ?thesis by simp
  qed simp
  moreover have "length ''sha256:'' = 7" by simp
  ultimately show ?thesis unfolding starts_with_def always_true_def by presburger
qed

lemma manifest_artifact_id_always_true:
  "manifest_artifact_id name (always_true tag) = always_true (manifest_artifact_id name tag)"
  by (simp add: manifest_artifact_id_def starts_with_always_true official_image_def)
     (simp add: always_true_def quoted_def)

lemma manifest_artifact_id_safe:
  "lit_safe name \<Longrightarrow> lit_safe tag \<Longrightarrow> lit_safe (manifest_artifact_id name tag)"
  by (auto simp: manifest_artifact_id_def official_image_def lit_safe_def)

text \<open>A record whose content is here is served without any change of the state.\<close>

lemma fetch_manifest_served:
  assumes "log_get_artifact (ae_log e) Docker (manifest_artifact_id name tag) (as_log s) = Ok l"
    and "get_artifact_locally e (artifact_id l) s = Ok bs" and "verify_artifact e l bs = Ok ()"
  shows "fetch_manifest e name tag s = (Ok (manifest_reply bs), s)"
  using assms by (simp add: fetch_manifest_def get_artifact_def)

text \<open>
  C24: the name and the tag of a request for a manifest go unescaped into the text of a query. For an image of
  which the log has no record the request is refused as it should be; with \<^verbatim>\<open>'OR'1'='1\<close> after the same tag the
  query selects every record, and the request is answered with the content of the oldest artifact in the
  log, whatever its name, and also when it is of another package type.
\<close>

theorem quote_in_tag_serves_any_artifact:
  assumes "log_env_ok (ae_log e)" and "stores ls (ls_table (as_log s))" and "lit_safe name" and "lit_safe tag"
    and "artifact_records Docker (manifest_artifact_id name tag) ls = []"
    and "l \<in> set ls" and "operation l = AddArtifact"
    and "\<forall>l' \<in> set ls. is_artifact_record l' \<and> l' \<noteq> l \<longrightarrow> timestamp l < timestamp l'"
    and "get_artifact_locally e (artifact_id l) s = Ok bs" and "verify_artifact e l bs = Ok ()"
  shows "fetch_manifest e name tag s = (Err \<lparr>reg_code = ManifestUnknown\<rparr>, s) \<and>
    fetch_manifest e name (always_true tag) s = (Ok (manifest_reply bs), s)"
proof
  let ?id = "manifest_artifact_id name tag"
  have safe: "lit_safe ?id" using assms(3,4) by (rule manifest_artifact_id_safe)
  have "log_get_artifact (ae_log e) Docker ?id (as_log s) = Err (ArtifactNotFound Docker ?id)"
    using read_transparency_log_cases[OF assms(1,2) safe, of Docker] assms(5) by (simp add: log_get_artifact_def)
  then show "fetch_manifest e name tag s = (Err \<lparr>reg_code = ManifestUnknown\<rparr>, s)"
    by (simp add: fetch_manifest_def get_artifact_def)
  have l: "l \<in> set (filter is_artifact_record ls)" using assms(6,7) by (simp add: is_artifact_record_def)
  then have "filter is_artifact_record ls \<noteq> []" by force
  then obtain l' where l': "l' \<in> set (filter is_artifact_record ls)"
      "\<forall>x \<in> set (filter is_artifact_record ls). timestamp l' \<le> timestamp x"
      "log_get_artifact (ae_log e) Docker (always_true ?id) (as_log s) =
         (if operation l' = RemoveArtifact then Err (InvalidOperation (log_id l') RemoveArtifact) else Ok l')"
    using read_transparency_log_injected[OF assms(1,2) safe, of Docker] unfolding log_get_artifact_def by blast
  have "\<not> timestamp l < timestamp l'" "is_artifact_record l'" "l' \<in> set ls" using l l'(1,2) by (auto simp: not_less)
  then have "l' = l" using assms(8) by blast
  then have "log_get_artifact (ae_log e) Docker (manifest_artifact_id name (always_true tag)) (as_log s) = Ok l"
    using l'(3) assms(7) by (simp add: manifest_artifact_id_always_true)
  then show "fetch_manifest e name (always_true tag) s = (Ok (manifest_reply bs), s)"
    using assms(9,10) by (rule fetch_manifest_served)
qed

theorem quote_in_tag_serves_any_artifact_witness:
  "fetch_manifest demo_art_env ''alpine'' (always_true ''3'')
       (demo_art_state [demo_log ''x'' AddArtifact 5] [([''store'', ''x.file''], [1])]) =
     (Ok (manifest_reply [1]), demo_art_state [demo_log ''x'' AddArtifact 5] [([''store'', ''x.file''], [1])])"
proof -
  let ?ls = "[demo_log ''x'' AddArtifact 5]" and ?d = "[([''store'', ''x.file''], [1])]"
  let ?s = "demo_art_state ?ls ?d"
  have st: "stores ?ls (ls_table (as_log ?s))" by (rule demo_art_stores) (simp_all add: log_ok_def)
  have safe: "lit_safe ''alpine''" "lit_safe ''3''" by (simp_all add: lit_safe_def)
  have none: "artifact_records Docker (manifest_artifact_id ''alpine'' ''3'') ?ls = []"
    by (simp add: artifact_records_def demo_log_def)
  have here: "get_artifact_locally demo_art_env (artifact_id (demo_log ''x'' AddArtifact 5)) ?s = Ok [1]"
    by (simp add: get_artifact_locally_def pull_artifact_def demo_art_path no_faults_def demo_art_state_def)
  have fits: "verify_artifact demo_art_env (demo_log ''x'' AddArtifact 5) [1] = Ok ()"
    by (simp add: verify_artifact_def) (simp add: demo_art_env_def)
  show ?thesis
    using quote_in_tag_serves_any_artifact[OF demo_art_log_ok st safe none _ _ _ here fits] by simp
qed

end
