(* ===== verification/Spec2Isabelle.thy ===== *)
theory Spec2Isabelle
  imports Blockchain_Properties Identities Node_Join_Claims Node_Channels_Claims Build_Run_Claims Network_Setup
    Cli_Main_Claims Chain_Event_Claims Http_Query_Claims
begin

text \<open>
  A verification development of Pyrsia, a peer-to-peer network that builds open source packages from
  source, records what was built in a transparency log on a blockchain, and serves the built artifacts.

  \<^bold>\<open>The program.\<close> A node (\<^verbatim>\<open>pyrsia_node\<close>) is one process of cooperating services. HTTP requests of
  package managers and of the command line client reach the Docker, Maven and node API handlers, which
  call the artifact service. The artifact service finds the record of an artifact in the transparency
  log (an SQLite table), takes the content from its own files or from a peer, and checks its digest.
  A package that is not there yet is built: an authorised node starts a build on an external pipeline,
  polls it, stores the result, and adds one log record per artifact to the blockchain. Blocks are
  broadcast to the other nodes, which append them and record the logs in them; a verification service
  collects the transactions of a package, has it rebuilt and compares digests. All traffic between
  nodes goes through the p2p client, which sends commands to one event loop around the libp2p swarm;
  requests of peers come back from that loop as events to \<^verbatim>\<open>main\<close>.

  \<^bold>\<open>Conventions.\<close> An operation is a function on explicit state. Its result is an \<open>outcome\<close>: \<open>Ok\<close>, \<open>Err\<close>
  for the error type of the code, or \<open>Panic\<close>; \<open>rbind\<close> and \<open>sbind\<close> are the question mark operator without and
  with a state. Integers that can overflow are words (\<^verbatim>\<open>Ordinal\<close> has 128 bits). Files are a list of paths
  and contents, with the faults of the operating system as an argument, so that every error return is a
  branch. Text is a list of bytes. Code outside the repository is an argument: cryptography and \<^verbatim>\<open>bincode\<close>,
  SQLite, JSON, HTTP, the libp2p swarm and its frames, warp's path matching, confy, the readings of the
  host. What the sources rely on is a named hypothesis (\<open>ed25519_laws\<close>, \<open>bincode_total\<close>, \<open>sqlite_laws\<close>,
  \<open>framing_laws\<close>, \<open>warp_laws\<close>, \<open>confy_laws\<close>, \<open>key_codec_laws\<close>, \<open>matches_fit\<close>), and each of them holds for a concrete instance in the
  witnesses. One-shot channels are numbered senders; a task that awaits them sees an answer, a dropped
  sender, or nothing yet.

  \<^bold>\<open>Theories and sources\<close> (below \<^verbatim>\<open>src/\<close>).

  \<^item> \<open>Pyrsia_Prelude\<close>, \<open>Rust_Text\<close>, \<open>Rust_Parse\<close>: outcomes, decimal text, the string functions and parsers of
    Rust's standard library, and \<^verbatim>\<open>src/util/env_util.rs\<close>.
  \<^item> \<open>Interfaces\<close>: the locales \<open>enum_text\<close> (a type with a text form) and \<open>write_once\<close> (the first value written
    under a key stays), interpreted on package types and operations, on the log table and on the artifact
    files.
  \<^item> \<open>Bounded_Channel\<close>: the locale \<open>bounded_channel\<close> of what a bounded channel promises, interpreted on the channel
    of the build event loop and on the two channels between the network loop and \<^verbatim>\<open>main\<close>.
  \<^item> \<open>Blockchain_Structures\<close>, \<open>Blockchain_Chain\<close>: headers, transactions, blocks, the chain and its block
    files (\<^verbatim>\<open>src/blockchain/src/structures\<close>, \<^verbatim>\<open>blockchain.rs\<close>); \<open>Blockchain_Service\<close> the service around it.
    \<open>Blockchain_Properties\<close>: retrieval, linking, restart.
  \<^item> \<open>Identities\<close>: the key box of the consensus (\<^verbatim>\<open>src/blockchain/src/identities\<close>) and its quorum.
  \<^item> \<open>Transparency_Log\<close> with \<open>Transparency_Log_Laws\<close>, \<open>_Properties\<close>, \<open>_Claims\<close>: \<^verbatim>\<open>src/transparency_log/log.rs\<close>
    over a table of rows. \<open>Sql_Text\<close>: how the texts of its queries read as SQL, for ids without a quote and for
    one with quotes.
  \<^item> \<open>Artifact_Storage\<close>, \<open>Artifact_Service\<close>, \<open>Artifact_Claims\<close>: files, downloads, results of builds, blocks
    (\<^verbatim>\<open>src/artifact_service\<close>).
  \<^item> \<open>Verification_Service\<close>, \<open>Verification_Claims\<close>: \<^verbatim>\<open>src/verification_service/service.rs\<close>, and its runs over
    any sequence of transactions and reports of builds.
  \<^item> \<open>Build_Service\<close>, \<open>Build_Claims\<close>: mapping, pipeline, polling, the build event loop (\<^verbatim>\<open>src/build_service\<close>).
    \<open>Build_Event_Run\<close>, \<open>Build_Run_Claims\<close>: the loop beside its clients and polling tasks, over its bounded
    channel, as a step relation.
  \<^item> \<open>Node_Handlers\<close>, \<open>Node_Claims\<close>: the blockchain event loop and blockchain commands of peers; gossip and
    synchronisation between two nodes. \<open>Chain_Event_Claims\<close>: the loop as a log that is only appended to, and
    what a block does that the chain ignores.
  \<^item> \<open>Network_Client\<close>: the choice of a peer. \<open>Peer_Metrics\<close>, \<open>Peer_Metrics_Claims\<close>: the metric of a host
    (\<^verbatim>\<open>src/peer_metrics/metrics.rs\<close>) in IEEE doubles.
  \<^item> \<open>Network_Event_Loop\<close>: commands and swarm events (\<^verbatim>\<open>src/network/event_loop.rs\<close>); \<open>Network_Event_Loop_Laws\<close>: the
    locale \<open>pending_table\<close> with its nine interpretations, one for each table of pending senders, and the
    abstract machine of promises; \<open>Network_Loop_Claims\<close>; \<open>Network_Client_Calls\<close> and \<open>Network_Call_Claims\<close>: the
    calls of the client against the loop.
  \<^item> \<open>Network_Protocols\<close>, \<open>Network_Protocol_Claims\<close>: the five codecs, with the locale \<open>framed_stream\<close>.
  \<^item> \<open>Node_Keypair\<close>: the key file. \<open>Node_Process\<close>: set-up, joining, and the loop of \<^verbatim>\<open>pyrsia_node/src/main.rs\<close>;
    \<open>Node_Join_Claims\<close> and \<open>Node_Exchange\<close>: what two nodes do together. \<open>Network_Setup\<close>: the swarm and its
    configuration (\<^verbatim>\<open>src/network/p2p.rs\<close>), the start of \<^verbatim>\<open>main\<close>, and the identity of the node. \<open>Node_Channels\<close>,
    \<open>Node_Channels_Claims\<close>: the network loop, the loop of \<^verbatim>\<open>main\<close> and the other tasks of a node beside each other,
    as a step relation over the two bounded channels between them.
  \<^item> \<open>Http_Api\<close>, \<open>Http_Claims\<close>: handlers; \<open>Http_Routes\<close>, \<open>Http_Route_Claims\<close>: routes;
    \<open>Http_Query_Claims\<close>: requests whose ids change a query.
  \<^item> \<open>Cli_Commands\<close>, \<open>Cli_Claims\<close>: configuration, dialogue and requests of the command line client
    (\<^verbatim>\<open>src/cli_commands\<close>); \<open>Cli_Main\<close>, \<open>Cli_Main_Claims\<close>: the lines it prints, its declared commands and its
    dispatch (\<^verbatim>\<open>pyrsia_cli\<close>).

  \<^bold>\<open>What is shown.\<close> The chain is only appended to, whatever peers send; it stays linked and survives restarts; a node that synchronises or receives a
  broadcast holds the chain of its peer and the logs recorded in it; the log answers which nodes are
  authorised and which packages may be added, and its records are write-once; a download that succeeds
  has the recorded digest, and what a build stores is what the Maven and Docker handlers ask for. The
  verification service asks for a build exactly when all transactions of a package have come, and a transaction that waits
  for a build gets one answer, what is reported of that build. The caller of every command of the p2p client
  gets the answer of its own query, request or dial, and the network event loop refines an abstract machine of
  promises. Messages arrive as they were
  sent, within sharp limits, and a call over the network is the same as a direct call of the services of
  the peer. The tasks of a node may run in any order: left alone its loops come to rest with everything done
  that does not wait for the network, a requested build that the pipeline carries out ends with its artifacts
  served unless the build loop stops on the way, and the states in which the loops wait for
  each other or for themselves for ever are described exactly. HTTP requests reach their handlers; every
  command line that the client accepts is carried out, and what it prints is what the node did. Several theorems show what
  the code does against its intent: they are marked as findings where a reader of the code would not
  expect them, for example that a node that announces its artifacts hangs when 33 requests arrive, that a peer that hangs up
  before its answer is sent ends the network of the node, that
  dials after the first report failure, that an authorised node cannot be removed, that rejected content stays in
  the storage, that a quote in a tag changes the query of the log, that one message of a peer adds an authorised node, or that a Maven build from the command line never starts.

  \<^bold>\<open>Loops and fuel.\<close> Recursion is structural or has a measure, except for two loops that may not end.
  Polling of a build takes the answers of the pipeline as a list, and is shown to return at the first
  final status however many running ones come before it. The
  dialogue of the client is a \<^verbatim>\<open>partial_function\<close>, whose result is nothing exactly when no valid line comes.
  The reader of conditions in \<open>Sql_Text\<close> takes three steps for each token, which \<open>parse_cond_enough\<close> shows to be enough.
  The event loops are runs over a list of turns, or runs of a step relation, which the theorems quantify
  over; nothing is bounded but the channels, with the 32 places that the code gives them.

  \<^bold>\<open>Not modelled.\<close> All of libp2p: what it makes of its configuration, and its behaviour within a turn; the
  work of clap (what it documents of the matches of declared commands is \<open>matches_fit\<close>); prompts, help texts
  and logging; concurrency below the level of messages: the tasks of a node meet only in channels, and
  each event is handled to its end by one loop. The services that a handler calls answer at once, as
  arguments of it; in \<open>Node_Channels\<close> a handler of \<^verbatim>\<open>main\<close> waits as long as the loop it asks waits for the network,
  but the queues in front of the blockchain and the build event loop are not states there. The build event
  client that the artifact service and the handlers call is an argument, and the build event loop that
  serves it is modelled beside its own clients.
  Unicode white space is treated as other text by \<^verbatim>\<open>trim\<close>.
\<close>

end
